(* ===== verification/Qt_Prelude.thy ===== *)
theory Qt_Prelude
  imports
    Complex_Main
    "HOL-Library.Word"
    "HOL-Library.AList"
    "HOL-Library.Char_ord"
    "HOL-Library.List_Lexorder"
    "HOL-Library.Multiset"
begin

text \<open>
  The vocabulary every component of the client shares: the Qt value types the sources pass around
  and the few list, map and string facts that the component proofs use again and again.

  \<^item> A \<open>QString\<close> distinguishes the null string from the empty one (the sources ask
    \<open>isNull()\<close> and \<open>isEmpty()\<close>), so it is an optional character list; \<open>==\<close> of Qt ignores
    that difference and compares contents only.  Characters are 8-bit, which covers the ASCII
    texts (keys, addresses, commands) the modelled code builds and inspects.
  \<^item> A \<open>QMap\<close> is an association list sorted by its key, since iteration order and \<open>first()\<close>
    are observable; a \<open>QHash\<close> is an association list whose order carries no meaning.  Both
    satisfy the laws of the locale \<open>dictionary\<close>.
  \<^item> A \<open>QJsonValue\<close> is a datatype with Qt's kinds of values, \<open>Undefined\<close> included; numbers are
    rationals, which contain every finite double.
  \<^item> Pure functions of Qt and of libc that the sources call and whose code is not part of the
    repository (parsing and printing of host addresses and numbers, base64) are the fields of the
    record \<open>Qt\<close>, an argument of the definitions that use them.
\<close>

named_theorems qt_simps \<open>unfolding rules for Qt values\<close>
named_theorems dict_simps \<open>lookup laws of dictionaries\<close>

section \<open>Strings\<close>

type_synonym qstring = "string option"

definition qs :: "qstring \<Rightarrow> string" where
  "qs s = (case s of None \<Rightarrow> [] | Some t \<Rightarrow> t)"

abbreviation isNull :: "qstring \<Rightarrow> bool" where
  "isNull s \<equiv> s = None"

definition isEmpty :: "qstring \<Rightarrow> bool" where
  "isEmpty s \<longleftrightarrow> qs s = []"

definition qeq :: "qstring \<Rightarrow> qstring \<Rightarrow> bool" where
  "qeq a b \<longleftrightarrow> qs a = qs b"

abbreviation newline :: char where
  "newline \<equiv> CHR 10"

definition endl :: string where
  "endl = [newline]"

fun join :: "string \<Rightarrow> string list \<Rightarrow> string" where
  "join sep [] = []"
| "join sep [x] = x"
| "join sep (x # y # ys) = x @ sep @ join sep (y # ys)"

fun split :: "char \<Rightarrow> string \<Rightarrow> string list" where
  "split c [] = [[]]"
| "split c (x # xs) =
     (if x = c then [] # split c xs
      else (case split c xs of [] \<Rightarrow> [[x]] | w # ws \<Rightarrow> (x # w) # ws))"

fun indexOf :: "char \<Rightarrow> string \<Rightarrow> int" where
  "indexOf c [] = -1"
| "indexOf c (x # xs) =
     (if x = c then 0 else (let i = indexOf c xs in if i < 0 then -1 else i + 1))"

text \<open>\<open>QString::trimmed\<close>, \<open>left\<close> and \<open>mid\<close>.\<close>

definition isSpace :: "char \<Rightarrow> bool" where
  "isSpace c \<longleftrightarrow> c \<in> {CHR 9, CHR 10, CHR 11, CHR 12, CHR 13, CHR 32}"

definition trimmed :: "string \<Rightarrow> string" where
  "trimmed s = rev (dropWhile isSpace (rev (dropWhile isSpace s)))"

text \<open>\<open>QString::toLower\<close> on ASCII letters.\<close>

definition toLower :: "string \<Rightarrow> string" where
  "toLower = map (\<lambda>c. if CHR ''A'' \<le> c \<and> c \<le> CHR ''Z'' then char_of (of_char c + 32 :: nat) else c)"

fun digits :: "nat \<Rightarrow> string" where
  "digits n =
     (if n < 10 then [''0123456789'' ! n]
      else digits (n div 10) @ [''0123456789'' ! (n mod 10)])"

definition number :: "int \<Rightarrow> string" where
  "number i = (if i < 0 then CHR ''-'' # digits (nat (- i)) else digits (nat i))"

section \<open>JSON values\<close>

datatype qjson =
    JUndefined
  | JNull
  | JBool bool
  | JDouble rat
  | JString string
  | JArray "qjson list"
  | JObject "(string \<times> qjson) list"

type_synonym qjobject = "(string \<times> qjson) list"

fun json_toString :: "qjson \<Rightarrow> qstring" where
  "json_toString (JString s) = Some s"
| "json_toString _ = None"

fun json_isString :: "qjson \<Rightarrow> bool" where
  "json_isString (JString _) = True"
| "json_isString _ = False"

fun json_isNull :: "qjson \<Rightarrow> bool" where
  "json_isNull JNull = True"
| "json_isNull _ = False"

fun json_isUndefined :: "qjson \<Rightarrow> bool" where
  "json_isUndefined JUndefined = True"
| "json_isUndefined _ = False"

text \<open>\<open>QJsonValue::toInt()\<close>: the number when it is integral and fits an \<open>int\<close>, else 0.\<close>

fun json_toInt :: "qjson \<Rightarrow> int" where
  "json_toInt (JDouble r) =
     (if of_int \<lfloor>r\<rfloor> = r \<and> - (2 ^ 31) \<le> \<lfloor>r\<rfloor> \<and> \<lfloor>r\<rfloor> < 2 ^ 31 then \<lfloor>r\<rfloor> else 0)"
| "json_toInt _ = 0"

fun json_toArray :: "qjson \<Rightarrow> qjson list" where
  "json_toArray (JArray xs) = xs"
| "json_toArray _ = []"

fun json_toObject :: "qjson \<Rightarrow> qjobject" where
  "json_toObject (JObject ob) = ob"
| "json_toObject _ = []"

text \<open>\<open>QJsonValue(const QString &)\<close> stores the characters; a null string becomes an empty one.\<close>

definition json_ofString :: "qstring \<Rightarrow> qjson" where
  "json_ofString s = JString (qs s)"

section \<open>Ordered maps and hashes\<close>

text \<open>\<open>QMap\<close> and \<open>QJsonObject\<close> keep their entries sorted by key.\<close>

fun qmap_insert :: "'k::linorder \<Rightarrow> 'v \<Rightarrow> ('k \<times> 'v) list \<Rightarrow> ('k \<times> 'v) list" where
  "qmap_insert k v [] = [(k, v)]"
| "qmap_insert k v ((k', v') # m) =
     (if k = k' then (k, v) # m
      else if k < k' then (k, v) # (k', v') # m
      else (k', v') # qmap_insert k v m)"

definition qmap_remove :: "'k \<Rightarrow> ('k \<times> 'v) list \<Rightarrow> ('k \<times> 'v) list" where
  "qmap_remove k m = filter (\<lambda>e. fst e \<noteq> k) m"

definition qmap_contains :: "('k \<times> 'v) list \<Rightarrow> 'k \<Rightarrow> bool" where
  "qmap_contains m k \<longleftrightarrow> map_of m k \<noteq> None"

definition qmap_ok :: "('k::linorder \<times> 'v) list \<Rightarrow> bool" where
  "qmap_ok m \<longleftrightarrow> sorted_wrt (<) (map fst m)"

text \<open>\<open>QHash\<close>: updating a present key keeps its place, a new key is added.\<close>

abbreviation qhash_insert :: "'k \<Rightarrow> 'v \<Rightarrow> ('k \<times> 'v) list \<Rightarrow> ('k \<times> 'v) list" where
  "qhash_insert \<equiv> AList.update"

definition qhash_ok :: "('k \<times> 'v) list \<Rightarrow> bool" where
  "qhash_ok m \<longleftrightarrow> distinct (map fst m)"

definition json_value :: "qjobject \<Rightarrow> string \<Rightarrow> qjson" where
  "json_value ob k = (case map_of ob k of None \<Rightarrow> JUndefined | Some v \<Rightarrow> v)"

abbreviation json_contains :: "qjobject \<Rightarrow> string \<Rightarrow> bool" where
  "json_contains \<equiv> qmap_contains"

abbreviation json_insert :: "string \<Rightarrow> qjson \<Rightarrow> qjobject \<Rightarrow> qjobject" where
  "json_insert \<equiv> qmap_insert"

text \<open>
  What the clients of either container rely on: a lookup after an insertion or a removal, and
  that every operation keeps the representation invariant.
\<close>

locale dictionary =
  fixes insert :: "'k \<Rightarrow> 'v \<Rightarrow> ('k \<times> 'v) list \<Rightarrow> ('k \<times> 'v) list"
    and remove :: "'k \<Rightarrow> ('k \<times> 'v) list \<Rightarrow> ('k \<times> 'v) list"
    and ok :: "('k \<times> 'v) list \<Rightarrow> bool"
  assumes lookup_insert: "map_of (insert k v m) = (map_of m)(k \<mapsto> v)"
    and lookup_remove: "map_of (remove k m) = (map_of m)(k := None)"
    and ok_empty: "ok []"
    and ok_insert: "ok m \<Longrightarrow> ok (insert k v m)"
    and ok_remove: "ok m \<Longrightarrow> ok (remove k m)"
begin

lemma contains_insert: "qmap_contains (insert k v m) k' \<longleftrightarrow> k' = k \<or> qmap_contains m k'"
  by (simp add: qmap_contains_def lookup_insert)

lemma contains_remove: "qmap_contains (remove k m) k' \<longleftrightarrow> k' \<noteq> k \<and> qmap_contains m k'"
  by (simp add: qmap_contains_def lookup_remove)

lemma keys_insert: "fst ` set (insert k v m) = {k} \<union> fst ` set m"
  by (simp add: lookup_insert flip: dom_map_of_conv_image_fst)

lemma keys_remove: "fst ` set (remove k m) = fst ` set m - {k}"
  by (simp add: lookup_remove flip: dom_map_of_conv_image_fst)

lemma insert_remove_lookup: "map_of (remove k (insert k v m)) = (map_of m)(k := None)"
  by (simp add: lookup_remove lookup_insert)

end

lemma map_of_qmap_insert [simp, dict_simps]:
  "map_of (qmap_insert k v m) = (map_of m)(k \<mapsto> v)"
  by (induction k v m rule: qmap_insert.induct) (auto simp: fun_eq_iff)

lemma map_of_qmap_remove [simp, dict_simps]:
  "map_of (qmap_remove k m) = (map_of m)(k := None)"
  by (induction m) (auto simp: qmap_remove_def fun_eq_iff)

lemma keys_qmap_insert: "fst ` set (qmap_insert k v m) = Set.insert k (fst ` set m)"
  by (induction k v m rule: qmap_insert.induct) auto

lemma set_qmap_insert_subset: "set (qmap_insert k v m) \<subseteq> Set.insert (k, v) (set m)"
  by (induction k v m rule: qmap_insert.induct) auto

lemma qmap_ok_insert: "qmap_ok m \<Longrightarrow> qmap_ok (qmap_insert k v m)"
proof (induction k v m rule: qmap_insert.induct)
  case (2 k v k' v' m)
  show ?case
  proof (cases "k = k' \<or> k < k'")
    case True
    with 2(2) show ?thesis by (auto simp: qmap_ok_def dest: order.strict_trans)
  next
    case False
    then have "k' < k" by auto
    with 2(2) have "\<forall>x \<in> fst ` set (qmap_insert k v m). k' < x"
      unfolding keys_qmap_insert by (simp add: qmap_ok_def)
    moreover from False 2 have "qmap_ok (qmap_insert k v m)" by (simp add: qmap_ok_def)
    ultimately show ?thesis using False by (simp add: qmap_ok_def)
  qed
qed (simp add: qmap_ok_def)

interpretation qmap: dictionary "qmap_insert" "qmap_remove" "qmap_ok"
proof unfold_locales
  fix m :: "('k::linorder \<times> 'v) list" and k :: 'k
  assume "qmap_ok m"
  moreover have "map fst (filter (\<lambda>e. fst e \<noteq> k) m) = filter (\<lambda>x. x \<noteq> k) (map fst m)"
    by (induction m) auto
  ultimately show "qmap_ok (qmap_remove k m)"
    by (simp add: qmap_ok_def qmap_remove_def sorted_wrt_filter)
qed (simp_all add: qmap_ok_insert, simp add: qmap_ok_def)

interpretation qhash: dictionary "AList.update" "AList.delete" "qhash_ok"
  by unfold_locales
    (simp_all add: update_conv' delete_conv' qhash_ok_def distinct_update distinct_delete)

lemma json_value_insert [simp]:
  "json_value (qmap_insert k v ob) k' = (if k' = k then v else json_value ob k')"
  by (simp add: json_value_def)

lemma json_contains_insert [simp]:
  "qmap_contains (qmap_insert k v m) k' \<longleftrightarrow> k' = k \<or> qmap_contains m k'"
  by (rule qmap.contains_insert)

declare qmap_insert.simps [simp del]

lemma json_value_Nil [simp]: "json_value [] k = JUndefined"
  by (simp add: json_value_def)

lemma qmap_contains_Nil [simp]: "\<not> qmap_contains [] k"
  by (simp add: qmap_contains_def)

lemma json_value_contained: "json_value ob k \<noteq> JUndefined \<Longrightarrow> qmap_contains ob k"
  by (auto simp: json_value_def qmap_contains_def split: option.splits)

section \<open>Host addresses and the functions of Qt the sources call\<close>

text \<open>
  \<open>QHostAddress\<close>: a null address, an IPv4 address as \<open>quint32\<close>, or an IPv6 address as the
  sixteen bytes of \<open>Q_IPV6ADDR\<close> in network order.
\<close>

datatype Protocol = IPv4Protocol | IPv6Protocol | UnknownNetworkLayerProtocol

datatype QHostAddress =
    NullAddress
  | V4Address "32 word"
  | V6Address "8 word list"

fun protocol :: "QHostAddress \<Rightarrow> Protocol" where
  "protocol NullAddress = UnknownNetworkLayerProtocol"
| "protocol (V4Address _) = IPv4Protocol"
| "protocol (V6Address _) = IPv6Protocol"

fun host_ok :: "QHostAddress \<Rightarrow> bool" where
  "host_ok (V6Address bs) \<longleftrightarrow> length bs = 16"
| "host_ok _ \<longleftrightarrow> True"

record Qt =
  qt_host :: "string \<Rightarrow> QHostAddress"
  qt_parseSubnet :: "string \<Rightarrow> QHostAddress \<times> int"
  qt_hostToString :: "QHostAddress \<Rightarrow> string"
  qt_toInt :: "string \<Rightarrow> int option"
  qt_toLongLong :: "string \<Rightarrow> int option"
  qt_toDouble :: "string \<Rightarrow> rat option"
  qt_fromBase64 :: "string \<Rightarrow> 8 word list"
  qt_toBase64 :: "8 word list \<Rightarrow> string"
  qt_fromHex :: "string \<Rightarrow> 8 word list"
  qt_toHex :: "8 word list \<Rightarrow> string"

text \<open>An instance of these functions on a finite table of addresses and numbers, for examples.\<close>

definition sample_hosts :: "(string \<times> QHostAddress) list" where
  "sample_hosts =
     [(''10.8.0.1'', V4Address 0x0A080001), (''10.8.0.2'', V4Address 0x0A080002),
      (''203.0.113.7'', V4Address 0xCB007107), (''1.1.1.1'', V4Address 0x01010101),
      (''0.0.0.0'', V4Address 0), (''192.0.2.0'', V4Address 0xC0000200)]"

definition sample_qt :: Qt where
  "sample_qt =
     \<lparr>qt_host = (\<lambda>s. case map_of sample_hosts s of None \<Rightarrow> NullAddress | Some h \<Rightarrow> h),
      qt_parseSubnet = (\<lambda>s. if s = ''192.0.2.0/24'' then (V4Address 0xC0000200, 24)
                            else if s = ''0.0.0.0/0'' then (V4Address 0, 0) else (NullAddress, -1)),
      qt_hostToString = (\<lambda>h. case find (\<lambda>e. snd e = h) sample_hosts of
                               None \<Rightarrow> [] | Some e \<Rightarrow> fst e),
      qt_toInt = (\<lambda>s. map_of [(number i, i). i \<leftarrow> [0, 1, 2, 1280, 1376, 1420, 51820]] s),
      qt_toLongLong = (\<lambda>s. if s = ''1700000000'' then Some 1700000000 else None),
      qt_toDouble = (\<lambda>s. if s = ''5'' then Some 5 else None),
      qt_fromBase64 = map of_char, qt_toBase64 = map (\<lambda>w. char_of (unat w)),
      qt_fromHex = map of_char, qt_toHex = map (\<lambda>w. char_of (unat w))\<rparr>"

section \<open>Facts on strings\<close>

lemma qs_simps [simp]: "qs None = []" "qs (Some s) = s"
  by (simp_all add: qs_def)

lemma qeq_refl [simp]: "qeq a a"
  by (simp add: qeq_def)

lemma json_toString_ofString [simp]: "json_toString (json_ofString s) = Some (qs s)"
  by (simp add: json_ofString_def)

lemma split_nonempty [simp]: "split c xs \<noteq> []"
  by (cases xs) (simp_all split: list.split)

lemma split_no_sep: "c \<notin> set xs \<Longrightarrow> split c xs = [xs]"
  by (induction xs) auto

lemma join_split: "join [c] (split c xs) = xs"
proof (induction xs)
  case (Cons x xs)
  obtain w ws where w: "split c xs = w # ws" by (cases "split c xs") auto
  with Cons show ?case by (cases ws) auto
qed simp

lemma split_append: "c \<notin> set xs \<Longrightarrow> split c (xs @ c # ys) = xs # split c ys"
  by (induction xs) auto

declare digits.simps [simp del]

lemma digits_nonempty [simp]: "digits n \<noteq> []"
  by (subst digits.simps) simp

lemma digits_chars: "set (digits n) \<subseteq> set ''0123456789''"
proof (induction n rule: digits.induct)
  case (1 n)
  have *: "''0123456789'' ! m \<in> set ''0123456789''" if "m < 10" for m :: nat
    using that by (intro nth_mem) simp
  show ?case
  proof (cases "n < 10")
    case True
    then show ?thesis using * [of n] by (subst digits.simps) auto
  next
    case False
    then show ?thesis using 1 * [of "n mod 10"] by (subst digits.simps) auto
  qed
qed

lemma newline_notin_digits [simp]: "newline \<notin> set (digits n)"
proof -
  have "newline \<notin> set ''0123456789''" by simp
  with digits_chars [of n] show ?thesis by blast
qed

end
