(* ===== verification/Ip_Address.thy ===== *)
theory Ip_Address
  imports Qt_Prelude
begin

unbundle bit_operations_syntax

text \<open>
  \<open>client/mozilla/shared/ipaddress.cpp\<close>: an address with a prefix length, the set of hosts it
  stands for, and the subtraction of networks that computes the allowed ranges of a tunnel.

  The definitions follow the machine representation of the source: an IPv4 address is a 32-bit
  word, shifted and masked, and an IPv6 address is an array of sixteen bytes on which \<open>memset\<close>,
  \<open>memcmp\<close> and byte-wise shifts work.  The lemmas read both as a sequence of bits, most
  significant first (\<open>addr_bit\<close>): the locale \<open>prefix_space\<close> states what the algorithms need of
  an address family, and is interpreted for the two families.

  The prefix length is a C \<open>int\<close>; \<open>ip_ok\<close> is the range the constructors assert
  (\<open>0..32\<close> and \<open>0..128\<close>), outside of which the shifts of the source are undefined.  A failing
  \<open>Q_ASSERT\<close> (which a release build skips, and then loops forever) and an index past the end of a
  \<open>QList\<close> are faults, values of a sum type.
\<close>

named_theorems ip_simps \<open>address arithmetic\<close>

record IPAddress =
  m_address :: QHostAddress
  m_prefixLength :: int

datatype fault = AssertFailed | IndexOutOfRange

section \<open>The class\<close>

definition IPAddress_ofString :: "Qt \<Rightarrow> string \<Rightarrow> IPAddress" where
  "IPAddress_ofString Q ip =
     (let (a, p) = (if CHR ''/'' \<in> set ip then qt_parseSubnet Q ip else (qt_host Q ip, 999999))
      in \<lparr>m_address = a,
          m_prefixLength =
            (if protocol a = IPv4Protocol then (if p \<ge> 32 then 32 else p)
             else if protocol a = IPv6Protocol then (if p \<ge> 128 then 128 else p)
             else p)\<rparr>)"

definition IPAddress_ofHost :: "QHostAddress \<Rightarrow> IPAddress" where
  "IPAddress_ofHost a =
     \<lparr>m_address = a, m_prefixLength = (if protocol a = IPv4Protocol then 32 else 128)\<rparr>"

definition IPAddress_make :: "QHostAddress \<Rightarrow> int \<Rightarrow> IPAddress" where
  "IPAddress_make a p = \<lparr>m_address = a, m_prefixLength = p\<rparr>"

definition IPAddress_type :: "IPAddress \<Rightarrow> Protocol" where
  "IPAddress_type n = protocol (m_address n)"

definition IPAddress_toString :: "Qt \<Rightarrow> IPAddress \<Rightarrow> string" where
  "IPAddress_toString Q n = qt_hostToString Q (m_address n) @ ''/'' @ number (m_prefixLength n)"

text \<open>\<open>memset\<close> on the part of an array that starts at \<open>off\<close>.\<close>

definition memset :: "nat \<Rightarrow> 8 word \<Rightarrow> nat \<Rightarrow> 8 word list \<Rightarrow> 8 word list" where
  "memset off v n raw = take off raw @ replicate n v @ drop (off + n) raw"

definition pl :: "IPAddress \<Rightarrow> nat" where
  "pl n = nat (m_prefixLength n)"

definition IPAddress_netmask :: "IPAddress \<Rightarrow> QHostAddress" where
  "IPAddress_netmask n =
     (case m_address n of
        V6Address _ \<Rightarrow>
          (let raw = memset 0 0xFF (pl n div 8) (replicate 16 0)
           in V6Address (if pl n mod 8 \<noteq> 0
                         then raw[pl n div 8 := 0xFF XOR drop_bit (pl n mod 8) 0xFF] else raw))
      | V4Address _ \<Rightarrow>
          V4Address (if m_prefixLength n < 32 then 0xFFFFFFFF XOR drop_bit (pl n) 0xFFFFFFFF
                     else 0xFFFFFFFF)
      | NullAddress \<Rightarrow> NullAddress)"

definition IPAddress_hostmask :: "IPAddress \<Rightarrow> QHostAddress" where
  "IPAddress_hostmask n =
     (case m_address n of
        V6Address _ \<Rightarrow>
          (let offset = (pl n + 7) div 8;
               raw = memset offset 0xFF (16 - offset) (replicate 16 0)
           in V6Address (if pl n mod 8 \<noteq> 0
                         then raw[pl n div 8 := drop_bit (pl n mod 8) 0xFF] else raw))
      | V4Address _ \<Rightarrow>
          V4Address (if m_prefixLength n < 32 then drop_bit (pl n) 0xFFFFFFFF else 0)
      | NullAddress \<Rightarrow> NullAddress)"

definition IPAddress_broadcastAddress :: "IPAddress \<Rightarrow> QHostAddress" where
  "IPAddress_broadcastAddress n =
     (case m_address n of
        V6Address a \<Rightarrow>
          (let offset = (pl n + 7) div 8;
               raw = memset offset 0xFF (16 - offset) a
           in V6Address (if pl n mod 8 \<noteq> 0
                         then raw[pl n div 8 := raw ! (pl n div 8) OR drop_bit (pl n mod 8) 0xFF]
                         else raw))
      | V4Address a \<Rightarrow>
          V4Address (if m_prefixLength n < 32 then a OR drop_bit (pl n) 0xFFFFFFFF else a)
      | NullAddress \<Rightarrow> NullAddress)"

definition IPAddress_contains :: "IPAddress \<Rightarrow> QHostAddress \<Rightarrow> bool" where
  "IPAddress_contains n address \<longleftrightarrow>
     (if protocol address \<noteq> protocol (m_address n) then False
      else if m_prefixLength n = 0 then True
      else (case (m_address n, address) of
              (V6Address a, V6Address b) \<Rightarrow>
                (let bytes = pl n div 8
                 in if bytes > 0 \<and> take bytes a \<noteq> take bytes b then False
                    else if pl n mod 8 \<noteq> 0
                    then drop_bit (8 - pl n mod 8) (a ! bytes XOR b ! bytes) = 0
                    else True)
            | (V4Address a, V4Address b) \<Rightarrow>
                (let diff = a XOR b
                 in (if m_prefixLength n < 32 then drop_bit (nat (32 - m_prefixLength n)) diff
                     else diff) = 0)
            | _ \<Rightarrow> False))"

definition IPAddress_overlaps :: "IPAddress \<Rightarrow> IPAddress \<Rightarrow> bool" where
  "IPAddress_overlaps n other \<longleftrightarrow>
     (if m_prefixLength n < m_prefixLength other
      then IPAddress_contains n (m_address other)
      else IPAddress_contains other (m_address n))"

definition IPAddress_subnetOf :: "IPAddress \<Rightarrow> IPAddress \<Rightarrow> bool" where
  "IPAddress_subnetOf n other \<longleftrightarrow>
     (if protocol (m_address other) \<noteq> protocol (m_address n) then False
      else if m_prefixLength n < m_prefixLength other then False
      else IPAddress_contains other (m_address n))"

definition IPAddress_subnets :: "IPAddress \<Rightarrow> fault + IPAddress list" where
  "IPAddress_subnets n =
     (case m_address n of
        V4Address raw \<Rightarrow>
          (if m_prefixLength n \<ge> 32 then Inr [n]
           else Inr [IPAddress_make (V4Address raw) (m_prefixLength n + 1),
                     IPAddress_make (V4Address (raw OR drop_bit (pl n) 0x80000000))
                       (m_prefixLength n + 1)])
      | V6Address raw \<Rightarrow>
          (if m_prefixLength n \<ge> 128 then Inr [n]
           else Inr [IPAddress_make (V6Address raw) (m_prefixLength n + 1),
                     IPAddress_make
                       (V6Address (raw[pl n div 8 :=
                          raw ! (pl n div 8) OR drop_bit (pl n mod 8) 0x80]))
                       (m_prefixLength n + 1)])
      | NullAddress \<Rightarrow> Inl AssertFailed)"

text \<open>The \<open>while\<close> loop of \<open>excludeAddresses\<close>: \<open>sn\<close> holds the two halves still to be looked at.\<close>

definition sn_measure :: "IPAddress list \<Rightarrow> nat" where
  "sn_measure sn =
     (case sn of
        [a, b] \<Rightarrow> Suc (nat (130 - min (m_prefixLength a) (m_prefixLength b)))
      | _ \<Rightarrow> 0)"

lemma IPAddress_make_sel [simp]:
  "m_address (IPAddress_make a p) = a" "m_prefixLength (IPAddress_make a p) = p"
  by (simp_all add: IPAddress_make_def)

lemma sn_measure_subnets:
  assumes "IPAddress_subnets a = Inr sn'" and "a = x \<or> a = y"
  shows "sn_measure sn' < sn_measure [x, y]"
  using assms
  by (auto simp: IPAddress_subnets_def IPAddress_make_def sn_measure_def
      split: QHostAddress.splits if_splits)

function IPAddress_excludeLoop ::
  "IPAddress \<Rightarrow> IPAddress list \<Rightarrow> IPAddress list \<Rightarrow> fault + IPAddress list"
where
  "IPAddress_excludeLoop ip [a, b] result =
     (if a \<noteq> ip \<and> b \<noteq> ip then
        (if IPAddress_subnetOf ip a then
           (case IPAddress_subnets a of
              Inl e \<Rightarrow> Inl e
            | Inr sn \<Rightarrow> IPAddress_excludeLoop ip sn (result @ [b]))
         else if IPAddress_subnetOf ip b then
           (case IPAddress_subnets b of
              Inl e \<Rightarrow> Inl e
            | Inr sn \<Rightarrow> IPAddress_excludeLoop ip sn (result @ [a]))
         else Inl AssertFailed)
      else if a = ip then Inr (result @ [b])
      else if b = ip then Inr (result @ [a])
      else Inl AssertFailed)"
| "IPAddress_excludeLoop ip [] result = Inl IndexOutOfRange"
| "IPAddress_excludeLoop ip [a] result = Inl IndexOutOfRange"
| "IPAddress_excludeLoop ip (a # b # c # sn) result = Inl IndexOutOfRange"
  by pat_completeness auto
termination
  by (relation "measure (\<lambda>(ip, sn, result). sn_measure sn)")
    (auto intro: sn_measure_subnets)

definition IPAddress_excludeAddress :: "IPAddress \<Rightarrow> IPAddress \<Rightarrow> fault + IPAddress list" where
  "IPAddress_excludeAddress n ip =
     (case IPAddress_subnets n of
        Inl e \<Rightarrow> Inl e
      | Inr sn \<Rightarrow>
          if length sn \<ge> 2 then IPAddress_excludeLoop ip sn [] else Inl AssertFailed)"

text \<open>The static \<open>excludeAddresses\<close>: the inner loop over the networks left, for one exclusion.\<close>

fun IPAddress_excludeFrom :: "IPAddress \<Rightarrow> IPAddress list \<Rightarrow> fault + IPAddress list" where
  "IPAddress_excludeFrom exclude [] = Inr []"
| "IPAddress_excludeFrom exclude (ip # results) =
     (if \<not> IPAddress_overlaps ip exclude
      then map_sum id (\<lambda>rest. ip # rest) (IPAddress_excludeFrom exclude results)
      else if IPAddress_subnetOf exclude ip \<and> exclude \<noteq> ip
      then (case IPAddress_excludeAddress ip exclude of
              Inl e \<Rightarrow> Inl e
            | Inr rng \<Rightarrow>
                map_sum id (\<lambda>rest. rng @ rest) (IPAddress_excludeFrom exclude results))
      else IPAddress_excludeFrom exclude results)"

fun IPAddress_excludeAddresses ::
  "IPAddress list \<Rightarrow> IPAddress list \<Rightarrow> fault + IPAddress list"
where
  "IPAddress_excludeAddresses results [] = Inr results"
| "IPAddress_excludeAddresses results (exclude # excludeList) =
     (case IPAddress_excludeFrom exclude results of
        Inl e \<Rightarrow> Inl e
      | Inr newResults \<Rightarrow> IPAddress_excludeAddresses newResults excludeList)"

section \<open>Addresses as bit sequences\<close>

fun addr_width :: "Protocol \<Rightarrow> nat" where
  "addr_width IPv4Protocol = 32"
| "addr_width IPv6Protocol = 128"
| "addr_width UnknownNetworkLayerProtocol = 0"

fun addr_bit :: "QHostAddress \<Rightarrow> nat \<Rightarrow> bool" where
  "addr_bit (V4Address w) i \<longleftrightarrow> bit w (31 - i)"
| "addr_bit (V6Address bs) i \<longleftrightarrow> bit (bs ! (i div 8)) (7 - i mod 8)"
| "addr_bit NullAddress i \<longleftrightarrow> False"

fun addr_setbit :: "QHostAddress \<Rightarrow> nat \<Rightarrow> QHostAddress" where
  "addr_setbit (V4Address w) i = V4Address (w OR drop_bit i 0x80000000)"
| "addr_setbit (V6Address bs) i =
     V6Address (bs[i div 8 := bs ! (i div 8) OR drop_bit (i mod 8) 0x80])"
| "addr_setbit NullAddress i = NullAddress"

lemma addr_setbit_ok [simp]:
  "protocol (addr_setbit h i) = protocol h" "host_ok (addr_setbit h i) = host_ok h"
  by (cases h; simp)+

text \<open>
  A family of addresses as the prefix algorithms see it: \<open>width\<close> bits, read by \<open>bitn\<close> and set
  by \<open>setb\<close>; addresses are determined by their bits, and every bit pattern is an address.
\<close>

locale prefix_space =
  fixes valid :: "'a \<Rightarrow> bool"
    and width :: nat
    and bitn :: "'a \<Rightarrow> nat \<Rightarrow> bool"
    and setb :: "'a \<Rightarrow> nat \<Rightarrow> 'a"
  assumes extensional:
      "valid a \<Longrightarrow> valid b \<Longrightarrow> (\<And>i. i < width \<Longrightarrow> bitn a i = bitn b i) \<Longrightarrow> a = b"
    and complete: "\<exists>a. valid a \<and> (\<forall>i<width. bitn a i = f i)"
    and valid_setb: "valid a \<Longrightarrow> i < width \<Longrightarrow> valid (setb a i)"
    and bitn_setb:
      "valid a \<Longrightarrow> i < width \<Longrightarrow> j < width \<Longrightarrow> bitn (setb a i) j \<longleftrightarrow> j = i \<or> bitn a j"
begin

definition net :: "'a \<Rightarrow> nat \<Rightarrow> 'a set" where
  "net a p = {x. valid x \<and> (\<forall>i<p. bitn x i = bitn a i)}"

lemma net_self: "valid a \<Longrightarrow> a \<in> net a p"
  by (simp add: net_def)

lemma net_Int_nonempty:
  assumes "valid a" "valid b" "p \<le> q"
  shows "net a p \<inter> net b q \<noteq> {} \<longleftrightarrow> b \<in> net a p"
  using assms net_self [of b q] by (fastforce simp: net_def)

lemma net_subset_iff:
  assumes "valid a" "valid b" "p \<le> width" "q \<le> width"
  shows "net a p \<subseteq> net b q \<longleftrightarrow> q \<le> p \<and> a \<in> net b q"
proof
  assume sub: "net a p \<subseteq> net b q"
  have "q \<le> p"
  proof (rule ccontr)
    assume "\<not> q \<le> p"
    then have pq: "p < q" by simp
    obtain x where x: "valid x" "\<forall>i<width. bitn x i = (if i = p then \<not> bitn b p else bitn a i)"
      using complete [of "\<lambda>i. if i = p then \<not> bitn b p else bitn a i"] by auto
    from x assms pq have "x \<in> net a p" by (simp add: net_def)
    with sub have "x \<in> net b q" by blast
    with pq have "bitn x p = bitn b p" by (simp add: net_def)
    with x(2) assms(4) pq show False by simp
  qed
  with sub net_self [OF assms(1)] show "q \<le> p \<and> a \<in> net b q" by blast
next
  assume "q \<le> p \<and> a \<in> net b q"
  then show "net a p \<subseteq> net b q" by (auto simp: net_def)
qed

lemma net_halves:
  assumes "valid a" "p < width" "\<not> bitn a p"
  shows "net a p = net a (Suc p) \<union> net (setb a p) (Suc p)"
    and "net a (Suc p) \<inter> net (setb a p) (Suc p) = {}"
  using assms by (auto simp: net_def bitn_setb less_Suc_eq)

lemma net_full: "valid a \<Longrightarrow> net a width = {a}"
  using extensional by (auto simp: net_def)

end

lemma bit_top32: "bit (0x80000000 :: 32 word) n \<longleftrightarrow> n = 31"
proof -
  have "(0x80000000 :: 32 word) = 2 ^ 31" by simp
  then show ?thesis by (simp only: bit_exp_iff) auto
qed

lemma bit_top8: "bit (0x80 :: 8 word) n \<longleftrightarrow> n = 7"
proof -
  have "(0x80 :: 8 word) = 2 ^ 7" by simp
  then show ?thesis by (simp only: bit_exp_iff) auto
qed

lemma bit_drop_top32 [ip_simps]: "bit (drop_bit i (0x80000000 :: 32 word)) n \<longleftrightarrow> i + n = 31"
  by (simp only: bit_drop_bit_eq comp_apply bit_top32)

lemma bit_drop_top8 [ip_simps]: "bit (drop_bit i (0x80 :: 8 word)) n \<longleftrightarrow> i + n = 7"
  by (simp only: bit_drop_bit_eq comp_apply bit_top8)

lemma word_of_bits: "\<exists>w :: 'a::len word. \<forall>n < LENGTH('a). bit w n = g n"
proof
  show "\<forall>n < LENGTH('a).
      bit (horner_sum of_bool 2 (map g [0..<LENGTH('a)]) :: 'a word) n = g n"
    by (simp add: bit_horner_sum_bit_word_iff)
qed

lemma protocol_V4E:
  assumes "protocol h = IPv4Protocol" obtains w where "h = V4Address w"
  using assms by (cases h) auto

lemma protocol_V6E:
  assumes "protocol h = IPv6Protocol" "host_ok h"
  obtains bs where "h = V6Address bs" "length bs = 16"
  using assms by (cases h) auto

interpretation v4: prefix_space
  "\<lambda>h. protocol h = IPv4Protocol \<and> host_ok h" "addr_width IPv4Protocol" addr_bit addr_setbit
proof unfold_locales
  fix a b
  assume "protocol a = IPv4Protocol \<and> host_ok a" "protocol b = IPv4Protocol \<and> host_ok b"
    and *: "\<And>i. i < addr_width IPv4Protocol \<Longrightarrow> addr_bit a i = addr_bit b i"
  then obtain v w where ab: "a = V4Address v" "b = V4Address w" by (auto elim!: protocol_V4E)
  have "v = w"
  proof (rule bit_word_eqI)
    fix n assume "n < LENGTH(32)"
    then show "bit v n = bit w n" using * [of "31 - n"] ab by simp
  qed
  with ab show "a = b" by simp
next
  fix f
  obtain w :: "32 word" where w: "\<forall>n < LENGTH(32). bit w n = f (31 - n)"
    using word_of_bits [where 'a = 32 and g = "\<lambda>n. f (31 - n)"] by auto
  show "\<exists>a. (protocol a = IPv4Protocol \<and> host_ok a) \<and>
      (\<forall>i < addr_width IPv4Protocol. addr_bit a i = f i)"
    by (rule exI [of _ "V4Address w"]) (use w in auto)
next
  fix a i assume "protocol a = IPv4Protocol \<and> host_ok a"
  then show "protocol (addr_setbit a i) = IPv4Protocol \<and> host_ok (addr_setbit a i)"
    by (auto elim!: protocol_V4E)
next
  fix a i j
  assume "protocol a = IPv4Protocol \<and> host_ok a" "i < addr_width IPv4Protocol"
    "j < addr_width IPv4Protocol"
  then show "addr_bit (addr_setbit a i) j \<longleftrightarrow> j = i \<or> addr_bit a j"
    by (auto elim!: protocol_V4E simp: bit_or_iff bit_drop_top32)
qed

lemma byte_index: "(i :: nat) < 128 \<Longrightarrow> i div 8 < 16"
  by simp

lemma bytes_eqI:
  fixes v w :: "8 word list"
  assumes "length v = 16" "length w = 16"
    and "\<And>i. i < 128 \<Longrightarrow> bit (v ! (i div 8)) (7 - i mod 8) = bit (w ! (i div 8)) (7 - i mod 8)"
  shows "v = w"
proof (rule nth_equalityI)
  fix k assume k: "k < length v"
  show "v ! k = w ! k"
  proof (rule bit_word_eqI)
    fix n assume "n < LENGTH(8)"
    define m where "m = 7 - n"
    with \<open>n < LENGTH(8)\<close> have m: "m < 8" "7 - m = n" by simp_all
    from k assms(1) m(1) have "8 * k + m < 128" by simp
    from assms(3) [OF this] m show "bit (v ! k) n = bit (w ! k) n" by simp
  qed
qed (simp add: assms)

interpretation v6: prefix_space
  "\<lambda>h. protocol h = IPv6Protocol \<and> host_ok h" "addr_width IPv6Protocol" addr_bit addr_setbit
proof unfold_locales
  fix a b
  assume "protocol a = IPv6Protocol \<and> host_ok a" "protocol b = IPv6Protocol \<and> host_ok b"
    and *: "\<And>i. i < addr_width IPv6Protocol \<Longrightarrow> addr_bit a i = addr_bit b i"
  then obtain v w where ab: "a = V6Address v" "b = V6Address w" "length v = 16" "length w = 16"
    by (auto elim!: protocol_V6E)
  then have "v = w" using * by (intro bytes_eqI) simp_all
  with ab show "a = b" by simp
next
  fix f
  have "\<exists>w :: 8 word. \<forall>n < 8. bit w n = f (8 * k + (7 - n))" for k
    using word_of_bits [where 'a = 8 and g = "\<lambda>n. f (8 * k + (7 - n))"] by simp
  then obtain g :: "nat \<Rightarrow> 8 word" where g: "\<And>k n. n < 8 \<Longrightarrow> bit (g k) n = f (8 * k + (7 - n))"
    by metis
  have "addr_bit (V6Address (map g [0..<16])) i = f i" if "i < 128" for i
  proof -
    have "7 - (7 - i mod 8) = i mod 8" by simp
    with that g [of "7 - i mod 8" "i div 8"] show ?thesis by simp
  qed
  then show "\<exists>a. (protocol a = IPv6Protocol \<and> host_ok a) \<and>
      (\<forall>i < addr_width IPv6Protocol. addr_bit a i = f i)"
    by (intro exI [of _ "V6Address (map g [0..<16])"]) simp
next
  fix a i assume "protocol a = IPv6Protocol \<and> host_ok a"
  then show "protocol (addr_setbit a i) = IPv6Protocol \<and> host_ok (addr_setbit a i)"
    by (auto elim!: protocol_V6E)
next
  fix a i j
  assume "protocol a = IPv6Protocol \<and> host_ok a" "i < addr_width IPv6Protocol"
    "j < addr_width IPv6Protocol"
  then obtain bs where bs: "a = V6Address bs" "length bs = 16" "i < 128" "j < 128"
    by (auto elim!: protocol_V6E)
  have "i = j" if "i div 8 = j div 8" "i mod 8 + (7 - j mod 8) = 7"
  proof -
    have "j mod 8 < 8" by simp
    with that(2) have "i mod 8 = j mod 8" by linarith
    with that(1) show ?thesis by (metis div_mult_mod_eq)
  qed
  with bs show "addr_bit (addr_setbit a i) j \<longleftrightarrow> j = i \<or> addr_bit a j"
    by (auto simp: nth_list_update bit_or_iff bit_drop_top8)
qed

section \<open>What the operations compute\<close>

definition ip_ok :: "IPAddress \<Rightarrow> bool" where
  "ip_ok n \<longleftrightarrow>
     host_ok (m_address n) \<and> protocol (m_address n) \<noteq> UnknownNetworkLayerProtocol \<and>
     0 \<le> m_prefixLength n \<and> m_prefixLength n \<le> int (addr_width (protocol (m_address n)))"

text \<open>
  The hosts of a network (the addresses of its family that share its prefix), and networks whose
  host bits are clear.
\<close>

definition hosts :: "IPAddress \<Rightarrow> QHostAddress set" where
  "hosts n =
     {h. host_ok h \<and> protocol h = protocol (m_address n) \<and>
         (\<forall>i < pl n. addr_bit h i = addr_bit (m_address n) i)}"

definition canonical :: "IPAddress \<Rightarrow> bool" where
  "canonical n \<longleftrightarrow>
     (\<forall>i \<in> {pl n ..< addr_width (protocol (m_address n))}. \<not> addr_bit (m_address n) i)"

lemma drop_xor_zero:
  fixes a b :: "'a::len word"
  shows "drop_bit k (a XOR b) = 0 \<longleftrightarrow> (\<forall>n. k \<le> n \<longrightarrow> n < LENGTH('a) \<longrightarrow> bit a n = bit b n)"
proof
  assume z: "drop_bit k (a XOR b) = 0"
  show "\<forall>n. k \<le> n \<longrightarrow> n < LENGTH('a) \<longrightarrow> bit a n = bit b n"
  proof (intro allI impI)
    fix n assume "k \<le> n"
    then have "bit (a XOR b) n = bit (drop_bit k (a XOR b)) (n - k)"
      by (simp add: bit_drop_bit_eq bit_xor_iff)
    with z show "bit a n = bit b n" by (simp only: bit_xor_iff bit_0_eq bot_apply) simp
  qed
next
  assume eq: "\<forall>n. k \<le> n \<longrightarrow> n < LENGTH('a) \<longrightarrow> bit a n = bit b n"
  show "drop_bit k (a XOR b) = 0"
  proof (rule bit_word_eqI)
    fix n assume "n < LENGTH('a)"
    have "bit a (k + n) = bit b (k + n)"
      using eq [rule_format, of "k + n"] bit_imp_le_length [of a "k + n"]
        bit_imp_le_length [of b "k + n"] by auto
    then show "bit (drop_bit k (a XOR b)) n = bit (0 :: 'a word) n"
      by (simp add: bit_drop_bit_eq bit_xor_iff)
  qed
qed

lemma word_prefix_iff:
  fixes a b :: "32 word"
  assumes "p \<le> 32"
  shows "drop_bit (32 - p) (a XOR b) = 0 \<longleftrightarrow> (\<forall>i<p. bit a (31 - i) = bit b (31 - i))"
proof -
  have "(\<forall>n. 32 - p \<le> n \<longrightarrow> n < 32 \<longrightarrow> bit a n = bit b n)
      \<longleftrightarrow> (\<forall>i<p. bit a (31 - i) = bit b (31 - i))" (is "?L \<longleftrightarrow> ?R")
  proof
    assume ?L then show ?R using assms by auto
  next
    assume R: ?R
    show ?L
    proof (intro allI impI)
      fix n :: nat assume "32 - p \<le> n" "n < 32"
      then show "bit a n = bit b n" using R [rule_format, of "31 - n"] assms by simp
    qed
  qed
  then show ?thesis unfolding drop_xor_zero by simp
qed

lemma byte_prefix_iff:
  fixes a b :: "8 word"
  assumes "r \<le> 8"
  shows "drop_bit (8 - r) (a XOR b) = 0 \<longleftrightarrow> (\<forall>i<r. bit a (7 - i) = bit b (7 - i))"
proof -
  have "(\<forall>n. 8 - r \<le> n \<longrightarrow> n < 8 \<longrightarrow> bit a n = bit b n)
      \<longleftrightarrow> (\<forall>i<r. bit a (7 - i) = bit b (7 - i))" (is "?L \<longleftrightarrow> ?R")
  proof
    assume ?L then show ?R using assms by auto
  next
    assume R: ?R
    show ?L
    proof (intro allI impI)
      fix n :: nat assume "8 - r \<le> n" "n < 8"
      then show "bit a n = bit b n" using R [rule_format, of "7 - n"] assms by simp
    qed
  qed
  then show ?thesis unfolding drop_xor_zero by simp
qed

lemma byte_eq_iff: "(a :: 8 word) = b \<longleftrightarrow> (\<forall>i<8. bit a (7 - i) = bit b (7 - i))"
proof
  assume bits: "\<forall>i<8. bit a (7 - i) = bit b (7 - i)"
  show "a = b"
  proof (rule bit_word_eqI)
    fix n assume "n < LENGTH(8)"
    then show "bit a n = bit b n" using bits [rule_format, of "7 - n"] by simp
  qed
qed simp

lemma bytes_prefix_iff:
  fixes a b :: "8 word list"
  assumes "length a = 16" "length b = 16" "p \<le> 128"
  shows "take (p div 8) a = take (p div 8) b \<and>
      (p mod 8 \<noteq> 0 \<longrightarrow> drop_bit (8 - p mod 8) (a ! (p div 8) XOR b ! (p div 8)) = 0)
    \<longleftrightarrow> (\<forall>i<p. bit (a ! (i div 8)) (7 - i mod 8) = bit (b ! (i div 8)) (7 - i mod 8))"
    (is "?take \<and> ?last \<longleftrightarrow> ?bits")
proof -
  have take_iff: "?take \<longleftrightarrow> (\<forall>k < p div 8. \<forall>j<8. bit (a ! k) (7 - j) = bit (b ! k) (7 - j))"
    using assms by (simp add: list_eq_iff_nth_eq flip: byte_eq_iff)
  have last_iff: "?last \<longleftrightarrow>
      (\<forall>j < p mod 8. bit (a ! (p div 8)) (7 - j) = bit (b ! (p div 8)) (7 - j))"
    using byte_prefix_iff [of "p mod 8" "a ! (p div 8)" "b ! (p div 8)"]
    by (cases "p mod 8 = 0") simp_all
  have split: "i < p \<longleftrightarrow> i div 8 < p div 8 \<or> i div 8 = p div 8 \<and> i mod 8 < p mod 8" for i :: nat
  proof -
    have "i = 8 * (i div 8) + i mod 8" "p = 8 * (p div 8) + p mod 8" "i mod 8 < 8" "p mod 8 < 8"
      by simp_all
    then show ?thesis by linarith
  qed
  have "?bits \<longleftrightarrow> (\<forall>k j. j < 8 \<longrightarrow> k < p div 8 \<or> k = p div 8 \<and> j < p mod 8 \<longrightarrow>
      bit (a ! k) (7 - j) = bit (b ! k) (7 - j))" (is "_ \<longleftrightarrow> ?R")
  proof
    assume B: ?bits
    show ?R
    proof (intro allI impI)
      fix k j :: nat
      assume "j < 8" and *: "k < p div 8 \<or> k = p div 8 \<and> j < p mod 8"
      then have "(8 * k + j) div 8 = k" "(8 * k + j) mod 8 = j" by simp_all
      with B [rule_format, of "8 * k + j"] * split [of "8 * k + j"]
      show "bit (a ! k) (7 - j) = bit (b ! k) (7 - j)" by simp
    qed
  next
    assume R: ?R
    show ?bits
    proof (intro allI impI)
      fix i assume "i < p"
      with R [rule_format, of "i mod 8" "i div 8"] split [of i]
      show "bit (a ! (i div 8)) (7 - i mod 8) = bit (b ! (i div 8)) (7 - i mod 8)" by simp
    qed
  qed
  moreover have "j < 8" if "j < p mod 8" for j :: nat
    using that mod_less_divisor [of 8 p] by linarith
  ultimately show ?thesis unfolding take_iff last_iff by blast
qed

lemma contains_bits:
  assumes "ip_ok n" "host_ok h"
  shows "IPAddress_contains n h \<longleftrightarrow>
    protocol h = protocol (m_address n) \<and> (\<forall>i < pl n. addr_bit h i = addr_bit (m_address n) i)"
proof (cases "protocol h = protocol (m_address n) \<and> m_prefixLength n \<noteq> 0")
  case False
  then show ?thesis by (auto simp: IPAddress_contains_def pl_def)
next
  case True
  then have same: "protocol h = protocol (m_address n)" and nz: "m_prefixLength n \<noteq> 0" by auto
  show ?thesis
  proof (cases "m_address n")
    case NullAddress
    with assms show ?thesis by (simp add: ip_ok_def)
  next
    case (V4Address a)
    with same obtain b where b: "h = V4Address b" by (cases h) auto
    have p: "pl n \<le> 32" "nat (32 - m_prefixLength n) = 32 - pl n"
      using assms V4Address by (auto simp: ip_ok_def pl_def)
    have "(if m_prefixLength n < 32 then drop_bit (32 - pl n) (a XOR b) else a XOR b)
        = drop_bit (32 - pl n) (a XOR b)"
      using assms V4Address by (auto simp: ip_ok_def pl_def)
    with word_prefix_iff [OF p(1), of a b] show ?thesis
      using nz p by (auto simp: IPAddress_contains_def V4Address b)
  next
    case (V6Address a)
    with same assms obtain b where b: "h = V6Address b" "length b = 16" by (cases h) auto
    have a: "length a = 16" "pl n \<le> 128"
      using assms V6Address by (auto simp: ip_ok_def pl_def)
    have "IPAddress_contains n h \<longleftrightarrow> take (pl n div 8) a = take (pl n div 8) b \<and>
        (pl n mod 8 \<noteq> 0 \<longrightarrow> drop_bit (8 - pl n mod 8) (a ! (pl n div 8) XOR b ! (pl n div 8)) = 0)"
      using nz by (auto simp: IPAddress_contains_def V6Address b Let_def)
    also have "\<dots> \<longleftrightarrow>
        (\<forall>i < pl n. bit (a ! (i div 8)) (7 - i mod 8) = bit (b ! (i div 8)) (7 - i mod 8))"
      by (rule bytes_prefix_iff [OF a(1) b(2) a(2)])
    finally show ?thesis by (simp add: V6Address b(1) eq_commute)
  qed
qed

section \<open>Networks as sets of hosts\<close>

lemma contains_hosts:
  "ip_ok n \<Longrightarrow> host_ok h \<Longrightarrow> IPAddress_contains n h \<longleftrightarrow> h \<in> hosts n"
  by (simp add: contains_bits hosts_def)

lemma ip_ok_protocol:
  assumes "ip_ok n"
  obtains "protocol (m_address n) = IPv4Protocol" | "protocol (m_address n) = IPv6Protocol"
  using assms by (cases "protocol (m_address n)") (auto simp: ip_ok_def)

lemma ip_ok_pl: "ip_ok n \<Longrightarrow> pl n \<le> addr_width (protocol (m_address n))"
  by (auto simp: ip_ok_def pl_def)

lemma ip_ok_prefix: "ip_ok n \<Longrightarrow> m_prefixLength n = int (pl n)"
  by (simp add: ip_ok_def pl_def)

lemma hosts_protocol: "h \<in> hosts n \<Longrightarrow> protocol h = protocol (m_address n)"
  by (simp add: hosts_def)

lemma hosts_v4:
  "ip_ok n \<Longrightarrow> protocol (m_address n) = IPv4Protocol \<Longrightarrow> hosts n = v4.net (m_address n) (pl n)"
  by (auto simp: hosts_def v4.net_def)

lemma hosts_v6:
  "ip_ok n \<Longrightarrow> protocol (m_address n) = IPv6Protocol \<Longrightarrow> hosts n = v6.net (m_address n) (pl n)"
  by (auto simp: hosts_def v6.net_def)

lemma ip_ok_self: "ip_ok n \<Longrightarrow> m_address n \<in> hosts n"
  by (simp add: hosts_def ip_ok_def)

lemma hosts_Int_nonempty:
  assumes "ip_ok a" "ip_ok b" "pl a \<le> pl b"
  shows "hosts a \<inter> hosts b \<noteq> {} \<longleftrightarrow> m_address b \<in> hosts a"
proof (cases "protocol (m_address a) = protocol (m_address b)")
  case False
  then show ?thesis by (auto dest!: hosts_protocol)
next
  case True
  from assms have ok: "host_ok (m_address a)" "host_ok (m_address b)" by (simp_all add: ip_ok_def)
  from assms(1) show ?thesis
  proof (cases rule: ip_ok_protocol)
    case 1
    with True have b: "protocol (m_address b) = IPv4Protocol" by simp
    with 1 ok b show ?thesis
      unfolding hosts_v4 [OF assms(1) 1] hosts_v4 [OF assms(2) b]
      by (intro v4.net_Int_nonempty assms(3)) simp_all
  next
    case 2
    with True have b: "protocol (m_address b) = IPv6Protocol" by simp
    with 2 ok b show ?thesis
      unfolding hosts_v6 [OF assms(1) 2] hosts_v6 [OF assms(2) b]
      by (intro v6.net_Int_nonempty assms(3)) simp_all
  qed
qed

lemma hosts_subset_iff:
  assumes "ip_ok a" "ip_ok b"
  shows "hosts a \<subseteq> hosts b \<longleftrightarrow> pl b \<le> pl a \<and> m_address a \<in> hosts b"
proof (cases "protocol (m_address a) = protocol (m_address b)")
  case False
  then have "m_address a \<notin> hosts b" using hosts_protocol [of "m_address a" b] by auto
  with ip_ok_self [OF assms(1)] show ?thesis by auto
next
  case True
  from assms have ok: "host_ok (m_address a)" "host_ok (m_address b)" by (simp_all add: ip_ok_def)
  have len: "pl a \<le> addr_width (protocol (m_address a))" "pl b \<le> addr_width (protocol (m_address a))"
    using ip_ok_pl [OF assms(1)] ip_ok_pl [OF assms(2)] True by simp_all
  from assms(1) show ?thesis
  proof (cases rule: ip_ok_protocol)
    case 1
    with True have b: "protocol (m_address b) = IPv4Protocol" by simp
    with 1 ok b len show ?thesis
      unfolding hosts_v4 [OF assms(1) 1] hosts_v4 [OF assms(2) b]
      by (intro v4.net_subset_iff) simp_all
  next
    case 2
    with True have b: "protocol (m_address b) = IPv6Protocol" by simp
    with 2 ok b len show ?thesis
      unfolding hosts_v6 [OF assms(1) 2] hosts_v6 [OF assms(2) b]
      by (intro v6.net_subset_iff) simp_all
  qed
qed

lemma overlaps_hosts:
  assumes "ip_ok a" "ip_ok b"
  shows "IPAddress_overlaps a b \<longleftrightarrow> hosts a \<inter> hosts b \<noteq> {}"
proof -
  have "m_prefixLength a < m_prefixLength b \<longleftrightarrow> pl a < pl b"
    using assms by (simp add: ip_ok_prefix)
  moreover have "host_ok (m_address a)" "host_ok (m_address b)"
    using assms by (simp_all add: ip_ok_def)
  ultimately show ?thesis
    using hosts_Int_nonempty [OF assms] hosts_Int_nonempty [OF assms(2,1)]
    by (auto simp: IPAddress_overlaps_def Int_commute contains_hosts assms)
qed

lemma subnetOf_hosts:
  assumes "ip_ok a" "ip_ok b"
  shows "IPAddress_subnetOf a b \<longleftrightarrow> hosts a \<subseteq> hosts b"
proof -
  have "m_address a \<in> hosts b \<longleftrightarrow> IPAddress_contains b (m_address a)"
    using assms by (simp add: contains_hosts ip_ok_def)
  moreover have "m_prefixLength a < m_prefixLength b \<longleftrightarrow> pl a < pl b"
    using assms by (simp add: ip_ok_prefix)
  moreover have "IPAddress_contains b (m_address a) \<Longrightarrow> protocol (m_address b) = protocol (m_address a)"
    by (auto simp: IPAddress_contains_def split: if_splits)
  ultimately show ?thesis
    using hosts_subset_iff [OF assms] by (auto simp: IPAddress_subnetOf_def)
qed

lemma canonical_eqI:
  assumes "ip_ok a" "ip_ok b" "canonical a" "canonical b" "pl a = pl b" "m_address a \<in> hosts b"
  shows "a = b"
proof -
  have same: "protocol (m_address a) = protocol (m_address b)"
    using assms(6) by (rule hosts_protocol)
  have ok: "host_ok (m_address a)" "host_ok (m_address b)"
    using assms by (simp_all add: ip_ok_def)
  have low: "addr_bit (m_address a) i = addr_bit (m_address b) i" if "i < pl b" for i
    using that assms(6) by (simp add: hosts_def)
  have bits: "addr_bit (m_address a) i = addr_bit (m_address b) i"
    if "i < addr_width (protocol (m_address b))" for i
    using that low [of i] assms(3,4,5) same by (cases "i < pl b") (auto simp: canonical_def)
  have "m_address a = m_address b"
    using assms(2)
  proof (cases rule: ip_ok_protocol)
    case 1
    with same ok bits show ?thesis by (intro v4.extensional) simp_all
  next
    case 2
    with same ok bits show ?thesis by (intro v6.extensional) simp_all
  qed
  with assms(1,2,5) show ?thesis by (simp add: ip_ok_prefix)
qed

lemma subnets_split:
  assumes "ip_ok n" "canonical n" "pl n < addr_width (protocol (m_address n))"
  obtains a b where "IPAddress_subnets n = Inr [a, b]" "ip_ok a" "ip_ok b"
    "canonical a" "canonical b" "pl a = Suc (pl n)" "pl b = Suc (pl n)"
    "hosts n = hosts a \<union> hosts b" "hosts a \<inter> hosts b = {}"
proof -
  let ?a = "IPAddress_make (m_address n) (m_prefixLength n + 1)"
  let ?b = "IPAddress_make (addr_setbit (m_address n) (pl n)) (m_prefixLength n + 1)"
  have len: "pl ?a = Suc (pl n)" "pl ?b = Suc (pl n)"
    using assms(1) by (auto simp: ip_ok_def pl_def IPAddress_make_def)
  have sn: "IPAddress_subnets n = Inr [?a, ?b]"
    using assms by (cases "m_address n") (auto simp: IPAddress_subnets_def ip_ok_def pl_def)
  have clear: "\<not> addr_bit (m_address n) (pl n)"
    using assms(2,3) by (auto simp: canonical_def)
  have ok: "ip_ok ?a" "ip_ok ?b"
    using assms(1,3) by (auto simp: ip_ok_def pl_def)
  have bits: "addr_bit (m_address ?b) j \<longleftrightarrow> j = pl n \<or> addr_bit (m_address n) j"
    if "j < addr_width (protocol (m_address n))" for j
    using assms(1)
  proof (cases rule: ip_ok_protocol)
    case 1
    with that assms(1,3) v4.bitn_setb [of "m_address n" "pl n" j] show ?thesis
      by (simp add: ip_ok_def)
  next
    case 2
    with that assms(1,3) v6.bitn_setb [of "m_address n" "pl n" j] show ?thesis
      by (simp add: ip_ok_def)
  qed
  have can: "canonical ?a" "canonical ?b"
    using assms(2) bits by (auto simp: canonical_def len)
  have host_n: "host_ok (m_address n)" using assms(1) by (simp add: ip_ok_def)
  have "hosts n = hosts ?a \<union> hosts ?b \<and> hosts ?a \<inter> hosts ?b = {}"
    using assms(1)
  proof (cases rule: ip_ok_protocol)
    case 1
    with v4.net_halves [of "m_address n" "pl n"] assms(1,3) clear ok host_n show ?thesis
      by (simp add: hosts_v4 len)
  next
    case 2
    with v6.net_halves [of "m_address n" "pl n"] assms(1,3) clear ok host_n show ?thesis
      by (simp add: hosts_v6 len)
  qed
  with sn ok can len that show ?thesis by blast
qed

section \<open>Subtracting networks\<close>

definition cover :: "IPAddress list \<Rightarrow> QHostAddress set" where
  "cover ns = (\<Union>n \<in> set ns. hosts n)"

definition nets_ok :: "IPAddress list \<Rightarrow> bool" where
  "nets_ok ns \<longleftrightarrow> (\<forall>n \<in> set ns. ip_ok n \<and> canonical n)"

definition nets_disjoint :: "IPAddress list \<Rightarrow> bool" where
  "nets_disjoint ns \<longleftrightarrow> sorted_wrt (\<lambda>m n. hosts m \<inter> hosts n = {}) ns"

lemma cover_simps [simp]:
  "cover [] = {}" "cover (n # ns) = hosts n \<union> cover ns" "cover (ms @ ns) = cover ms \<union> cover ns"
  by (auto simp: cover_def)

lemma nets_ok_simps [simp]:
  "nets_ok []" "nets_ok (n # ns) \<longleftrightarrow> ip_ok n \<and> canonical n \<and> nets_ok ns"
  "nets_ok (ms @ ns) \<longleftrightarrow> nets_ok ms \<and> nets_ok ns"
  by (auto simp: nets_ok_def)

lemma nets_disjoint_simps [simp]:
  "nets_disjoint []"
  "nets_disjoint (n # ns) \<longleftrightarrow> hosts n \<inter> cover ns = {} \<and> nets_disjoint ns"
  "nets_disjoint (ms @ ns) \<longleftrightarrow>
     nets_disjoint ms \<and> nets_disjoint ns \<and> cover ms \<inter> cover ns = {}"
  by (auto simp: nets_disjoint_def cover_def sorted_wrt_append)

lemma hosts_nested:
  assumes "ip_ok a" "ip_ok b" "pl a \<le> pl b" "hosts a \<inter> hosts b \<noteq> {}"
  shows "hosts b \<subseteq> hosts a"
  using assms hosts_Int_nonempty [OF assms(1-3)] hosts_subset_iff [OF assms(2,1)] by blast

lemma hosts_strict:
  assumes "ip_ok a" "ip_ok b" "canonical a" "canonical b" "hosts b \<subseteq> hosts a" "a \<noteq> b"
  shows "pl a < pl b"
  using assms hosts_subset_iff [OF assms(2,1)] canonical_eqI [OF assms(2,1,4,3)]
  by (metis le_neq_implies_less)

text \<open>
  The loop keeps the two halves of a network that still contains \<open>ip\<close>; each round emits the half
  without \<open>ip\<close> and splits the other.
\<close>

lemma excludeLoop_correct:
  assumes "ip_ok ip" "canonical ip" "nets_ok [a, b]" "pl a = pl b" "pl a \<le> pl ip"
    and "hosts a \<inter> hosts b = {}" "hosts ip \<subseteq> hosts a \<union> hosts b"
  shows "\<exists>rs. IPAddress_excludeLoop ip [a, b] result = Inr (result @ rs) \<and> nets_ok rs \<and>
    nets_disjoint rs \<and> cover rs = hosts a \<union> hosts b - hosts ip \<and> length rs = pl ip - pl a + 1"
  using assms
proof (induction "pl ip - pl a" arbitrary: a b result rule: less_induct)
  case less
  have ok: "ip_ok a" "ip_ok b" "canonical a" "canonical b" using less.prems(3) by simp_all
  show ?case
  proof (cases "a = ip \<or> b = ip")
    case True
    then show ?thesis using less.prems by auto
  next
    case False
    have "hosts ip \<noteq> {}" using ip_ok_self [OF less.prems(1)] by blast
    with less.prems(7) have "hosts a \<inter> hosts ip \<noteq> {} \<or> hosts b \<inter> hosts ip \<noteq> {}" by blast
    then obtain x y where xy: "(x = a \<and> y = b) \<or> (x = b \<and> y = a)" and
      hit: "hosts x \<inter> hosts ip \<noteq> {}" by blast
    have okx: "ip_ok x" "canonical x" and oky: "ip_ok y" "canonical y" and px: "pl x = pl a"
      and dis: "hosts x \<inter> hosts y = {}"
      using xy ok less.prems(4,6) by auto
    have inx: "hosts ip \<subseteq> hosts x"
      using hosts_nested [OF okx(1) less.prems(1) _ hit] less.prems(5) px by simp
    have sub: "IPAddress_subnetOf ip x" "\<not> IPAddress_subnetOf ip y"
      using inx dis \<open>hosts ip \<noteq> {}\<close> okx oky less.prems(1) by (auto simp: subnetOf_hosts)
    have lt: "pl x < pl ip"
      using hosts_strict [OF okx(1) less.prems(1) okx(2) less.prems(2) inx] xy False by blast
    have "protocol (m_address ip) = protocol (m_address x)"
      using ip_ok_self [OF less.prems(1)] inx hosts_protocol by blast
    then have "pl x < addr_width (protocol (m_address x))"
      using lt ip_ok_pl [OF less.prems(1)] by simp
    from subnets_split [OF okx this] obtain c d where
      cd: "IPAddress_subnets x = Inr [c, d]" "ip_ok c" "ip_ok d" "canonical c" "canonical d"
        "pl c = Suc (pl x)" "pl d = Suc (pl x)"
        "hosts x = hosts c \<union> hosts d" "hosts c \<inter> hosts d = {}" .
    have "\<exists>rs. IPAddress_excludeLoop ip [c, d] (result @ [y]) = Inr ((result @ [y]) @ rs) \<and>
        nets_ok rs \<and> nets_disjoint rs \<and> cover rs = hosts c \<union> hosts d - hosts ip \<and>
        length rs = pl ip - pl c + 1"
      using less.hyps [of c d "result @ [y]"] less.prems(1,2) cd lt px inx by simp
    then obtain rs where rs:
      "IPAddress_excludeLoop ip [c, d] (result @ [y]) = Inr (result @ y # rs)"
      "nets_ok rs" "nets_disjoint rs" "cover rs = hosts x - hosts ip"
      "length rs = pl ip - pl c + 1"
      using cd(8) by auto
    have "IPAddress_excludeLoop ip [a, b] result = Inr (result @ y # rs)"
      using xy False sub rs(1) cd(1) by auto
    moreover have "cover (y # rs) = hosts a \<union> hosts b - hosts ip"
      using xy rs(4) inx dis by auto
    moreover have "nets_disjoint (y # rs)" using rs dis by auto
    moreover have "nets_ok (y # rs)" using oky rs by simp
    moreover have "length (y # rs) = pl ip - pl a + 1" using rs(5) cd(6) lt px by simp
    ultimately show ?thesis by blast
  qed
qed

lemma excludeAddress_correct:
  assumes "ip_ok n" "canonical n" "ip_ok ip" "canonical ip" "hosts ip \<subseteq> hosts n" "ip \<noteq> n"
  shows "\<exists>rs. IPAddress_excludeAddress n ip = Inr rs \<and> nets_ok rs \<and> nets_disjoint rs \<and>
    cover rs = hosts n - hosts ip \<and> length rs = pl ip - pl n"
proof -
  have lt: "pl n < pl ip" using hosts_strict [OF assms(1,3,2,4,5)] assms(6) by blast
  have "protocol (m_address ip) = protocol (m_address n)"
    using ip_ok_self [OF assms(3)] assms(5) hosts_protocol by blast
  then have "pl n < addr_width (protocol (m_address n))"
    using lt ip_ok_pl [OF assms(3)] by simp
  from subnets_split [OF assms(1,2) this] obtain c d where
    cd: "IPAddress_subnets n = Inr [c, d]" "ip_ok c" "ip_ok d" "canonical c" "canonical d"
      "pl c = Suc (pl n)" "pl d = Suc (pl n)"
      "hosts n = hosts c \<union> hosts d" "hosts c \<inter> hosts d = {}" .
  with excludeLoop_correct [OF assms(3,4), of c d "[]"] lt assms(5)
  show ?thesis by (auto simp: IPAddress_excludeAddress_def)
qed

lemma excludeFrom_correct:
  assumes "ip_ok e" "canonical e" "nets_ok ns"
  shows "\<exists>rs. IPAddress_excludeFrom e ns = Inr rs \<and> nets_ok rs \<and>
    cover rs = cover ns - hosts e \<and> (nets_disjoint ns \<longrightarrow> nets_disjoint rs)"
  using assms(3)
proof (induction ns)
  case (Cons n ns)
  then obtain rs where rs: "IPAddress_excludeFrom e ns = Inr rs" "nets_ok rs"
    "cover rs = cover ns - hosts e" "nets_disjoint ns \<longrightarrow> nets_disjoint rs" by auto
  from Cons.prems have n: "ip_ok n" "canonical n" by simp_all
  consider (apart) "hosts n \<inter> hosts e = {}" | (inside) "hosts e \<subseteq> hosts n" "e \<noteq> n"
    | (gone) "hosts n \<subseteq> hosts e" "\<not> (hosts e \<subseteq> hosts n \<and> e \<noteq> n)" "hosts n \<inter> hosts e \<noteq> {}"
    using hosts_nested [OF n(1) assms(1)] hosts_nested [OF assms(1) n(1)]
    by (metis Int_commute linorder_le_cases order_refl)
  then show ?case
  proof cases
    case apart
    then have "IPAddress_excludeFrom e (n # ns) = Inr (n # rs)"
      by (simp add: overlaps_hosts n(1) assms(1) rs(1))
    with rs n apart show ?thesis by auto
  next
    case inside
    from excludeAddress_correct [OF n assms(1,2) inside] obtain ks where
      ks: "IPAddress_excludeAddress n e = Inr ks" "nets_ok ks" "nets_disjoint ks"
        "cover ks = hosts n - hosts e" by blast
    have "hosts n \<inter> hosts e \<noteq> {}" using inside(1) ip_ok_self [OF assms(1)] by blast
    with inside have "IPAddress_excludeFrom e (n # ns) = Inr (ks @ rs)"
      by (simp add: overlaps_hosts subnetOf_hosts n(1) assms(1) rs(1) ks(1))
    moreover have "cover (ks @ rs) = cover (n # ns) - hosts e" using ks(4) rs(3) by auto
    moreover have "nets_disjoint (n # ns) \<longrightarrow> nets_disjoint (ks @ rs)" using ks rs by auto
    ultimately show ?thesis using ks(2) rs(2) by auto
  next
    case gone
    then have "IPAddress_excludeFrom e (n # ns) = Inr rs"
      by (auto simp: overlaps_hosts subnetOf_hosts n(1) assms(1) rs(1))
    moreover have "cover rs = cover (n # ns) - hosts e" using rs(3) gone(1) by auto
    ultimately show ?thesis using rs by auto
  qed
qed simp

text \<open>
  C4: Subtracting a list of networks from a list of networks succeeds (no assertion fails, the
  loop ends) and yields networks whose hosts are exactly the hosts of the sources that are in no
  excluded network; it keeps pairwise disjoint networks pairwise disjoint.
\<close>

theorem excludeAddresses_exact:
  assumes "nets_ok sourceList" "nets_ok excludeList"
  shows "\<exists>rs. IPAddress_excludeAddresses sourceList excludeList = Inr rs \<and> nets_ok rs \<and>
    cover rs = cover sourceList - cover excludeList \<and>
    (nets_disjoint sourceList \<longrightarrow> nets_disjoint rs)"
  using assms
proof (induction excludeList arbitrary: sourceList)
  case (Cons e es)
  then obtain rs where rs: "IPAddress_excludeFrom e sourceList = Inr rs" "nets_ok rs"
    "cover rs = cover sourceList - hosts e" "nets_disjoint sourceList \<longrightarrow> nets_disjoint rs"
    using excludeFrom_correct [of e sourceList] by auto
  with Cons.IH [of rs] Cons.prems show ?case by auto
qed simp

section \<open>Masks\<close>

lemma nth_memset:
  assumes "off + n \<le> length raw" "k < length raw"
  shows "memset off v n raw ! k = (if off \<le> k \<and> k < off + n then v else raw ! k)"
  using assms by (auto simp: memset_def nth_append)

lemma length_memset [simp]: "off + n \<le> length raw \<Longrightarrow> length (memset off v n raw) = length raw"
  by (simp add: memset_def)

lemma bit_ones32: "bit (0xFFFFFFFF :: 32 word) n \<longleftrightarrow> n < 32"
proof -
  have "(0xFFFFFFFF :: 32 word) = - 1" by simp
  then show ?thesis by (simp only: bit_minus_1_iff) simp
qed

lemma bit_ones8: "bit (0xFF :: 8 word) n \<longleftrightarrow> n < 8"
proof -
  have "(0xFF :: 8 word) = - 1" by simp
  then show ?thesis by (simp only: bit_minus_1_iff) simp
qed

lemma bit_drop_ones32: "bit (drop_bit p (0xFFFFFFFF :: 32 word)) n \<longleftrightarrow> p + n < 32"
  by (simp only: bit_drop_bit_eq comp_apply bit_ones32)

lemma bit_drop_ones8: "bit (drop_bit p (0xFF :: 8 word)) n \<longleftrightarrow> p + n < 8"
  by (simp only: bit_drop_bit_eq comp_apply bit_ones8)

lemmas bit_ones = bit_ones32 bit_ones8 bit_drop_ones32 bit_drop_ones8

text \<open>The position of bit \<open>i\<close> of an IPv6 address against a prefix of \<open>p\<close> bits.\<close>

lemma order_bytes:
  "(i::nat) < p \<longleftrightarrow> i div 8 < p div 8 \<or> i div 8 = p div 8 \<and> i mod 8 < p mod 8"
proof -
  have "i = 8 * (i div 8) + i mod 8" "p = 8 * (p div 8) + p mod 8" "i mod 8 < 8" "p mod 8 < 8"
    by simp_all
  then show ?thesis by linarith
qed

lemma div8_round_up: "((p::nat) + 7) div 8 = (if p mod 8 = 0 then p div 8 else Suc (p div 8))"
proof -
  have "(p + 7) div 8 = p div 8 + (p mod 8 + 7) div 8" by (subst div_add1_eq) simp
  moreover have "(p mod 8 + 7) div 8 = 1" if "p mod 8 \<noteq> 0"
    using that mod_less_divisor [of 8 p] by (intro div_nat_eqI) simp_all
  ultimately show ?thesis by simp
qed

lemma div8_bound: "(p::nat) \<le> 128 \<Longrightarrow> p mod 8 \<noteq> 0 \<Longrightarrow> p div 8 < 16"
  using order_bytes [of p 128] by (cases "p = 128") simp_all

lemma bit_ones8_index [simp]: "bit (0xFF :: 8 word) (7 - k)"
  by (simp only: bit_ones8)

lemma netmask_v6_bit:
  assumes "p \<le> 128" "i < 128"
  shows "addr_bit (V6Address
      (let raw = memset 0 0xFF (p div 8) (replicate 16 0)
       in if p mod 8 \<noteq> 0 then raw[p div 8 := 0xFF XOR drop_bit (p mod 8) 0xFF] else raw)) i
    \<longleftrightarrow> i < p"
proof -
  have len: "p div 8 \<le> 16" "i div 8 < 16" using assms by simp_all
  have last: "p mod 8 \<noteq> 0 \<Longrightarrow> p div 8 < 16" using assms(1) by (rule div8_bound)
  have "bit (0xFF XOR drop_bit r 0xFF :: 8 word) (7 - j) \<longleftrightarrow> j < r" if "j < 8" "r < 8" for r j
    using that by (simp only: bit_xor_iff bit_ones) auto
  with len last order_bytes [of i p] show ?thesis
    by (simp add: Let_def nth_list_update nth_memset del: bit_numeral_word_iff)
qed

lemma hostmask_v6_bit:
  assumes "p \<le> 128" "i < 128" "length raw0 = 16"
  shows "addr_bit (V6Address
      (let offset = (p + 7) div 8; raw = memset offset 0xFF (16 - offset) raw0
       in if p mod 8 \<noteq> 0 then raw[p div 8 := raw ! (p div 8) OR drop_bit (p mod 8) 0xFF]
          else raw)) i
    \<longleftrightarrow> p \<le> i \<or> addr_bit (V6Address raw0) i"
proof -
  have len: "(p + 7) div 8 \<le> 16" "i div 8 < 16"
    using assms div8_bound [of p] by (auto simp: div8_round_up)
  have last: "p mod 8 \<noteq> 0 \<Longrightarrow> p div 8 < 16" using assms(1) by (rule div8_bound)
  have "bit (drop_bit r 0xFF :: 8 word) (7 - j) \<longleftrightarrow> r \<le> j" if "j < 8" "r < 8" for r j
    using that by (simp only: bit_ones) auto
  moreover have "p \<le> i \<longleftrightarrow> p div 8 < i div 8 \<or> i div 8 = p div 8 \<and> p mod 8 \<le> i mod 8"
    using order_bytes [of i p] by linarith
  ultimately show ?thesis
    using len last assms(3)
    by (auto simp: Let_def nth_list_update nth_memset bit_or_iff div8_round_up
        simp del: bit_numeral_word_iff split: if_splits)
qed

lemma netmask_bit:
  assumes "ip_ok n" "i < addr_width (protocol (m_address n))"
  shows "addr_bit (IPAddress_netmask n) i \<longleftrightarrow> i < pl n"
proof (cases "m_address n")
  case NullAddress
  with assms show ?thesis by simp
next
  case (V4Address a)
  with assms ip_ok_pl [of n] have *: "pl n \<le> 32" "i < 32" "m_prefixLength n = int (pl n)"
    by (simp_all add: ip_ok_prefix)
  then have "addr_bit (IPAddress_netmask n) i \<longleftrightarrow>
      (if pl n < 32 then bit (0xFFFFFFFF XOR drop_bit (pl n) 0xFFFFFFFF :: 32 word) (31 - i)
       else bit (0xFFFFFFFF :: 32 word) (31 - i))"
    by (simp add: IPAddress_netmask_def V4Address del: bit_numeral_word_iff)
  also have "\<dots> \<longleftrightarrow> i < pl n" using * by (simp only: bit_xor_iff bit_ones) auto
  finally show ?thesis .
next
  case (V6Address a)
  with assms ip_ok_pl [of n] have "pl n \<le> 128" "i < 128" by simp_all
  from netmask_v6_bit [OF this] show ?thesis
    unfolding IPAddress_netmask_def V6Address QHostAddress.case Let_def .
qed

lemma hostmask_bit:
  assumes "ip_ok n" "i < addr_width (protocol (m_address n))"
  shows "addr_bit (IPAddress_hostmask n) i \<longleftrightarrow> pl n \<le> i"
proof (cases "m_address n")
  case NullAddress
  with assms show ?thesis by simp
next
  case (V4Address a)
  with assms ip_ok_pl [of n] have *: "pl n \<le> 32" "i < 32" "m_prefixLength n = int (pl n)"
    by (simp_all add: ip_ok_prefix)
  then have "addr_bit (IPAddress_hostmask n) i \<longleftrightarrow>
      (if pl n < 32 then bit (drop_bit (pl n) 0xFFFFFFFF :: 32 word) (31 - i) else False)"
    by (simp add: IPAddress_hostmask_def V4Address del: bit_numeral_word_iff)
  also have "\<dots> \<longleftrightarrow> pl n \<le> i" using * by (simp only: bit_ones) auto
  finally show ?thesis .
next
  case (V6Address a)
  with assms ip_ok_pl [of n] have *: "pl n \<le> 128" "i < 128" by simp_all
  have last: "pl n mod 8 \<noteq> 0 \<Longrightarrow> pl n div 8 < 16" using *(1) by (rule div8_bound)
  have "memset ((pl n + 7) div 8) v (16 - (pl n + 7) div 8) (replicate 16 0) ! (pl n div 8)
      = (0 :: 8 word)" if "pl n mod 8 \<noteq> 0" for v
    using that last by (subst nth_memset) (auto simp: div8_round_up)
  then have "IPAddress_hostmask n = V6Address
      (let offset = (pl n + 7) div 8; raw = memset offset 0xFF (16 - offset) (replicate 16 0)
       in if pl n mod 8 \<noteq> 0 then raw[pl n div 8 := raw ! (pl n div 8) OR drop_bit (pl n mod 8) 0xFF]
          else raw)"
    by (simp add: IPAddress_hostmask_def V6Address Let_def)
  with hostmask_v6_bit [OF *, of "replicate 16 0"] *(2) show ?thesis by simp
qed

lemma broadcast_bit:
  assumes "ip_ok n" "i < addr_width (protocol (m_address n))"
  shows "addr_bit (IPAddress_broadcastAddress n) i \<longleftrightarrow> pl n \<le> i \<or> addr_bit (m_address n) i"
proof (cases "m_address n")
  case NullAddress
  with assms show ?thesis by simp
next
  case (V4Address a)
  with assms ip_ok_pl [of n] have *: "pl n \<le> 32" "i < 32" "m_prefixLength n = int (pl n)"
    by (simp_all add: ip_ok_prefix)
  then have "addr_bit (IPAddress_broadcastAddress n) i \<longleftrightarrow>
      (if pl n < 32 then bit (a OR drop_bit (pl n) 0xFFFFFFFF) (31 - i) else bit a (31 - i))"
    by (simp add: IPAddress_broadcastAddress_def V4Address del: bit_numeral_word_iff)
  also have "\<dots> \<longleftrightarrow> pl n \<le> i \<or> bit a (31 - i)"
    using * by (simp only: bit_or_iff bit_ones) auto
  finally show ?thesis by (simp add: V4Address)
next
  case (V6Address a)
  with assms ip_ok_pl [of n] have *: "pl n \<le> 128" "i < 128" "length a = 16"
    by (simp_all add: ip_ok_def)
  from hostmask_v6_bit [OF *] show ?thesis
    unfolding IPAddress_broadcastAddress_def V6Address QHostAddress.case Let_def .
qed

lemma broadcast_ok:
  assumes "ip_ok n"
  shows "protocol (IPAddress_broadcastAddress n) = protocol (m_address n)"
    and "host_ok (IPAddress_broadcastAddress n)"
proof -
  show "protocol (IPAddress_broadcastAddress n) = protocol (m_address n)"
    by (cases "m_address n") (simp_all add: IPAddress_broadcastAddress_def Let_def)
  show "host_ok (IPAddress_broadcastAddress n)"
  proof (cases "m_address n")
    case (V6Address a)
    with assms ip_ok_pl [of n] have "length a = 16" "(pl n + 7) div 8 \<le> 16"
      by (simp_all add: ip_ok_def)
    then show ?thesis by (simp add: IPAddress_broadcastAddress_def V6Address Let_def)
  qed (simp_all add: IPAddress_broadcastAddress_def)
qed

section \<open>Properties\<close>

text \<open>
  C31: For well-formed networks the three predicates decide what their names say of the sets of
  hosts: membership of an address, a common host, and inclusion.
\<close>

theorem network_predicates_exact:
  assumes "ip_ok a" "ip_ok b" "host_ok h"
  shows "(IPAddress_contains a h \<longleftrightarrow> h \<in> hosts a) \<and>
    (IPAddress_overlaps a b \<longleftrightarrow> hosts a \<inter> hosts b \<noteq> {}) \<and>
    (IPAddress_subnetOf a b \<longleftrightarrow> hosts a \<subseteq> hosts b)"
  using assms by (simp add: contains_hosts overlaps_hosts subnetOf_hosts)

text \<open>
  The masks of a well-formed network: the netmask has exactly the prefix bits set, the host
  mask exactly the others, and the broadcast address is the host of the network whose host bits
  are all set.
\<close>

theorem masks_exact:
  assumes "ip_ok n"
  shows "(\<forall>i < addr_width (IPAddress_type n).
      (addr_bit (IPAddress_netmask n) i \<longleftrightarrow> i < pl n) \<and>
      (addr_bit (IPAddress_hostmask n) i \<longleftrightarrow> pl n \<le> i) \<and>
      (addr_bit (IPAddress_broadcastAddress n) i \<longleftrightarrow> pl n \<le> i \<or> addr_bit (m_address n) i)) \<and>
    IPAddress_broadcastAddress n \<in> hosts n"
proof -
  have "addr_bit (IPAddress_broadcastAddress n) i = addr_bit (m_address n) i" if "i < pl n" for i
    using that ip_ok_pl [OF assms] broadcast_bit [OF assms, of i] by simp
  then have "IPAddress_broadcastAddress n \<in> hosts n"
    by (simp add: hosts_def broadcast_ok [OF assms])
  then show ?thesis
    by (simp add: IPAddress_type_def netmask_bit hostmask_bit broadcast_bit assms)
qed

text \<open>
  Subtracting from a network an exclusion that names the same network by another of its
  addresses (equal prefix length, equal hosts, host bits set) fails the assertion of the loop
  instead of yielding no network.
\<close>

theorem excludeAddresses_aliased_asserts:
  assumes "ip_ok n" "ip_ok e" "hosts e = hosts n" "e \<noteq> n"
  shows "IPAddress_excludeAddresses [n] [e] = Inl AssertFailed"
proof -
  have len: "pl e = pl n"
    using hosts_subset_iff [OF assms(1,2)] hosts_subset_iff [OF assms(2,1)] assms(3) by simp
  have over: "IPAddress_overlaps n e" "IPAddress_subnetOf e n"
    using ip_ok_self [OF assms(2)] assms by (auto simp: overlaps_hosts subnetOf_hosts)
  have longer: "IPAddress_excludeLoop e [a, b] rs = Inl AssertFailed"
    if "m_prefixLength a = m_prefixLength n + 1" "m_prefixLength b = m_prefixLength n + 1" for a b rs
    using that len assms(1,2)
    by (auto simp: IPAddress_subnetOf_def ip_ok_prefix)
  have "IPAddress_excludeAddress n e = Inl AssertFailed"
    using assms(1) longer
    by (auto simp: IPAddress_excludeAddress_def IPAddress_subnets_def ip_ok_def
        split: QHostAddress.splits)
  with over assms(4) show ?thesis by simp
qed

text \<open>The default route, the quarter \<open>64.0.0.0/2\<close> of it, and an alias of that quarter.\<close>

definition net_any :: IPAddress where
  "net_any = \<lparr>m_address = V4Address 0, m_prefixLength = 0\<rparr>"

definition net_64 :: IPAddress where
  "net_64 = \<lparr>m_address = V4Address 0x40000000, m_prefixLength = 2\<rparr>"

definition net_65 :: IPAddress where
  "net_65 = \<lparr>m_address = V4Address 0x41000000, m_prefixLength = 2\<rparr>"

lemma bit_2_30: "bit (0x40000000 :: 32 word) n \<longleftrightarrow> n = 30"
proof -
  have "(0x40000000 :: 32 word) = 2 ^ 30" by simp
  then show ?thesis by (simp only: bit_exp_iff) auto
qed

lemma nets_witness_ok: "ip_ok net_any" "ip_ok net_64" "ip_ok net_65"
  "canonical net_any" "canonical net_64"
proof -
  show "ip_ok net_any" "ip_ok net_64" "ip_ok net_65"
    by (simp_all add: net_any_def net_64_def net_65_def ip_ok_def)
  show "canonical net_any" by (simp add: net_any_def canonical_def)
  show "canonical net_64"
    by (auto simp: net_64_def canonical_def pl_def bit_2_30 simp del: bit_numeral_word_iff)
qed

lemma net_65_hosts: "hosts net_65 = hosts net_64"
proof -
  have 1: "pl net_65 = 2" "pl net_64 = 2" by (simp_all add: pl_def net_65_def net_64_def)
  have "\<forall>i < 2. addr_bit (m_address net_65) i = addr_bit (m_address net_64) i"
    by (auto simp: net_65_def net_64_def less_2_cases_iff)
  with 1 show ?thesis by (auto simp: hosts_def net_65_def net_64_def)
qed

lemma excludeAddresses_exact_witness:
  "nets_ok [net_any] \<and> nets_ok [net_64] \<and>
   IPAddress_excludeAddresses [net_any] [net_64] =
     Inr [IPAddress_make (V4Address 0x80000000) 1, IPAddress_make (V4Address 0) 2] \<and>
   cover [IPAddress_make (V4Address 0x80000000) 1, IPAddress_make (V4Address 0) 2]
     = hosts net_any - hosts net_64"
proof -
  have "IPAddress_excludeAddresses [net_any] [net_64] =
     Inr [IPAddress_make (V4Address 0x80000000) 1, IPAddress_make (V4Address 0) 2]"
    by (simp add: net_any_def net_64_def IPAddress_overlaps_def IPAddress_contains_def pl_def
        IPAddress_subnetOf_def IPAddress_excludeAddress_def IPAddress_subnets_def IPAddress_make_def)
  with excludeAddresses_exact [of "[net_any]" "[net_64]"] nets_witness_ok show ?thesis
    by simp
qed

lemma network_predicates_exact_witness:
  "IPAddress_overlaps net_any net_64 \<and> IPAddress_subnetOf net_64 net_any \<and>
   hosts net_64 \<subseteq> hosts net_any \<and> V4Address 0x41000000 \<in> hosts net_64"
proof -
  have "IPAddress_overlaps net_any net_64" "IPAddress_subnetOf net_64 net_any"
    "IPAddress_contains net_64 (V4Address 0x41000000)"
    by (simp_all add: net_any_def net_64_def IPAddress_overlaps_def IPAddress_contains_def pl_def
        IPAddress_subnetOf_def)
  with network_predicates_exact [of net_64 net_any "V4Address 0x41000000"] nets_witness_ok
  show ?thesis by simp
qed

lemma masks_exact_witness:
  "ip_ok net_64 \<and> IPAddress_broadcastAddress net_64 \<in> hosts net_64 \<and>
   IPAddress_broadcastAddress net_64 = V4Address 0x7FFFFFFF \<and>
   addr_bit (IPAddress_netmask net_64) 1 \<and> \<not> addr_bit (IPAddress_netmask net_64) 2"
proof -
  have "IPAddress_broadcastAddress net_64 = V4Address 0x7FFFFFFF"
    by (simp add: net_64_def IPAddress_broadcastAddress_def pl_def)
  moreover have "addr_width (IPAddress_type net_64) = 32" "pl net_64 = 2"
    by (simp_all add: net_64_def IPAddress_type_def pl_def)
  ultimately show ?thesis using masks_exact [of net_64] nets_witness_ok by auto
qed

lemma excludeAddresses_aliased_asserts_witness:
  "hosts net_65 = hosts net_64 \<and> net_65 \<noteq> net_64 \<and>
   IPAddress_excludeAddresses [net_64] [net_65] = Inl AssertFailed"
proof -
  have "net_65 \<noteq> net_64" by (simp add: net_65_def net_64_def)
  with excludeAddresses_aliased_asserts [of net_64 net_65] nets_witness_ok net_65_hosts
  show ?thesis by simp
qed

end
