(* ===== verification/Interface_Config.thy ===== *)
theory Interface_Config
  imports Ip_Address
begin

text \<open>
  \<open>client/daemon/interfaceconfig.{h,cpp}\<close>: the configuration of one tunnel, as the daemon keeps
  it, with its two serialisations, a JSON object and a WireGuard configuration file.

  String members are \<open>QString\<close>s, since the code distinguishes a null member from an empty one;
  the members of string lists are plain character lists.  The enumerators of \<open>HopType\<close> are
  ordered as declared, because a \<open>QMap\<close> keyed by them iterates in that order.
\<close>

section \<open>The configuration\<close>

datatype HopType = SingleHop | MultiHopEntry | MultiHopExit

fun HopType_value :: "HopType \<Rightarrow> nat" where
  "HopType_value SingleHop = 0"
| "HopType_value MultiHopEntry = 1"
| "HopType_value MultiHopExit = 2"

lemma HopType_value_inject [simp]: "HopType_value a = HopType_value b \<longleftrightarrow> a = b"
  by (cases a; cases b) simp_all

instantiation HopType :: linorder
begin

definition less_eq_HopType :: "HopType \<Rightarrow> HopType \<Rightarrow> bool" where
  "less_eq_HopType a b \<longleftrightarrow> HopType_value a \<le> HopType_value b"

definition less_HopType :: "HopType \<Rightarrow> HopType \<Rightarrow> bool" where
  "less_HopType a b \<longleftrightarrow> HopType_value a < HopType_value b"

instance
  by standard (auto simp: less_eq_HopType_def less_HopType_def dest: antisym)

end

record InterfaceConfig =
  m_hopType :: HopType
  m_privateKey :: qstring
  m_deviceIpv4Address :: qstring
  m_deviceIpv6Address :: qstring
  m_serverIpv4Gateway :: qstring
  m_serverIpv6Gateway :: qstring
  m_serverPublicKey :: qstring
  m_serverIpv4AddrIn :: qstring
  m_serverPskKey :: qstring
  m_serverIpv6AddrIn :: qstring
  m_dnsServer :: qstring
  m_serverPort :: int
  m_deviceMTU :: int
  m_allowedIPAddressRanges :: "IPAddress list"
  m_excludedAddresses :: "string list"
  m_vpnDisabledApps :: "string list"
  m_killSwitchEnabled :: bool
  m_junkPacketCount :: qstring
  m_junkPacketMinSize :: qstring
  m_junkPacketMaxSize :: qstring
  m_initPacketJunkSize :: qstring
  m_responsePacketJunkSize :: qstring
  m_initPacketMagicHeader :: qstring
  m_responsePacketMagicHeader :: qstring
  m_underloadPacketMagicHeader :: qstring
  m_transportPacketMagicHeader :: qstring

text \<open>
  A default-constructed configuration.  The source leaves \<open>m_hopType\<close> and \<open>m_killSwitchEnabled\<close>
  uninitialised: they are arguments here.
\<close>

definition InterfaceConfig_new :: "HopType \<Rightarrow> bool \<Rightarrow> InterfaceConfig" where
  "InterfaceConfig_new hop kill =
     \<lparr>m_hopType = hop, m_privateKey = None, m_deviceIpv4Address = None,
      m_deviceIpv6Address = None, m_serverIpv4Gateway = None, m_serverIpv6Gateway = None,
      m_serverPublicKey = None, m_serverIpv4AddrIn = None, m_serverPskKey = None,
      m_serverIpv6AddrIn = None, m_dnsServer = None, m_serverPort = 0, m_deviceMTU = 1420,
      m_allowedIPAddressRanges = [], m_excludedAddresses = [], m_vpnDisabledApps = [],
      m_killSwitchEnabled = kill, m_junkPacketCount = None, m_junkPacketMinSize = None,
      m_junkPacketMaxSize = None, m_initPacketJunkSize = None, m_responsePacketJunkSize = None,
      m_initPacketMagicHeader = None, m_responsePacketMagicHeader = None,
      m_underloadPacketMagicHeader = None, m_transportPacketMagicHeader = None\<rparr>"

section \<open>Serialisation to JSON\<close>

text \<open>The meta object of the enumeration, \<open>QMetaEnum::valueToKey\<close> and \<open>keyToValue\<close>.\<close>

fun HopType_valueToKey :: "HopType \<Rightarrow> string" where
  "HopType_valueToKey SingleHop = ''SingleHop''"
| "HopType_valueToKey MultiHopEntry = ''MultiHopEntry''"
| "HopType_valueToKey MultiHopExit = ''MultiHopExit''"

definition HopType_keyToValue :: "string \<Rightarrow> HopType option" where
  "HopType_keyToValue key =
     find (\<lambda>h. key = HopType_valueToKey h \<or> key = ''InterfaceConfig::'' @ HopType_valueToKey h)
       [SingleHop, MultiHopEntry, MultiHopExit]"

definition range_toJson :: "Qt \<Rightarrow> IPAddress \<Rightarrow> qjson" where
  "range_toJson Q i =
     JObject
       (json_insert ''isIpv6'' (JBool (IPAddress_type i = IPv6Protocol))
         (json_insert ''range'' (JDouble (of_int (m_prefixLength i)))
           (json_insert ''address'' (JString (qt_hostToString Q (m_address i))) [])))"

definition InterfaceConfig_toJson :: "Qt \<Rightarrow> InterfaceConfig \<Rightarrow> qjobject" where
  "InterfaceConfig_toJson Q c =
     (let json = json_insert ''hopType'' (JString (HopType_valueToKey (m_hopType c))) [];
          json = json_insert ''privateKey'' (json_ofString (m_privateKey c)) json;
          json = json_insert ''deviceIpv4Address'' (json_ofString (m_deviceIpv4Address c)) json;
          json = json_insert ''deviceIpv6Address'' (json_ofString (m_deviceIpv6Address c)) json;
          json = json_insert ''serverPublicKey'' (json_ofString (m_serverPublicKey c)) json;
          json = json_insert ''serverPskKey'' (json_ofString (m_serverPskKey c)) json;
          json = json_insert ''serverIpv4AddrIn'' (json_ofString (m_serverIpv4AddrIn c)) json;
          json = json_insert ''serverIpv6AddrIn'' (json_ofString (m_serverIpv6AddrIn c)) json;
          json = json_insert ''serverPort'' (JDouble (of_int (m_serverPort c))) json;
          json = json_insert ''deviceMTU'' (JDouble (of_int (m_deviceMTU c))) json;
          json = (if m_hopType c = MultiHopExit \<or> m_hopType c = SingleHop then
                    json_insert ''dnsServer'' (json_ofString (m_dnsServer c))
                      (json_insert ''serverIpv6Gateway'' (json_ofString (m_serverIpv6Gateway c))
                        (json_insert ''serverIpv4Gateway'' (json_ofString (m_serverIpv4Gateway c))
                          json))
                  else json);
          json = json_insert ''allowedIPAddressRanges''
                   (JArray (map (range_toJson Q) (m_allowedIPAddressRanges c))) json;
          json = json_insert ''excludedAddresses''
                   (JArray (map JString (m_excludedAddresses c))) json
      in json_insert ''vpnDisabledApps'' (JArray (map JString (m_vpnDisabledApps c))) json)"

section \<open>Serialisation to a WireGuard configuration file\<close>

definition conf_line :: "string \<Rightarrow> string \<Rightarrow> string" where
  "conf_line key v = key @ '' = '' @ v @ endl"

definition conf_opt :: "string \<Rightarrow> qstring \<Rightarrow> string" where
  "conf_opt key s = (if isNull s then [] else conf_line key (qs s))"

definition wg_validate :: "InterfaceConfig \<Rightarrow> bool" where
  "wg_validate c \<longleftrightarrow>
     list_all (\<lambda>x. newline \<notin> set (qs x))
       [m_privateKey c, m_deviceIpv4Address c, m_deviceIpv6Address c, m_serverIpv4Gateway c,
        m_serverIpv6Gateway c, m_serverPublicKey c, m_serverIpv4AddrIn c, m_serverIpv6AddrIn c]"

definition wg_addresses :: "InterfaceConfig \<Rightarrow> string list" where
  "wg_addresses c =
     (if isNull (m_deviceIpv4Address c) then [] else [qs (m_deviceIpv4Address c)]) @
     (if isNull (m_deviceIpv6Address c) then [] else [qs (m_deviceIpv6Address c)])"

definition wg_dnsServers :: "InterfaceConfig \<Rightarrow> string list" where
  "wg_dnsServers c =
     qs (m_dnsServer c) #
     (if qeq (m_dnsServer c) (m_serverIpv4Gateway c) then [qs (m_serverIpv6Gateway c)] else [])"

definition InterfaceConfig_toWgConf ::
  "Qt \<Rightarrow> InterfaceConfig \<Rightarrow> (string \<times> string) list \<Rightarrow> string"
where
  "InterfaceConfig_toWgConf Q c extra =
     (if \<not> wg_validate c then []
      else if wg_addresses c = [] then []
      else
        ''[Interface]'' @ endl @
        conf_line ''PrivateKey'' (qs (m_privateKey c)) @
        conf_line ''Address'' (join '', '' (wg_addresses c)) @
        (if m_deviceMTU c \<noteq> 0 then conf_line ''MTU'' (number (m_deviceMTU c)) else []) @
        (if \<not> isNull (m_dnsServer c) then conf_line ''DNS'' (join '', '' (wg_dnsServers c))
         else []) @
        conf_opt ''Jc'' (m_junkPacketCount c) @
        conf_opt ''JMin'' (m_junkPacketMinSize c) @
        conf_opt ''JMax'' (m_junkPacketMaxSize c) @
        conf_opt ''S1'' (m_initPacketJunkSize c) @
        conf_opt ''S2'' (m_responsePacketJunkSize c) @
        conf_opt ''H1'' (m_initPacketMagicHeader c) @
        conf_opt ''H2'' (m_responsePacketMagicHeader c) @
        conf_opt ''H3'' (m_underloadPacketMagicHeader c) @
        conf_opt ''H4'' (m_transportPacketMagicHeader c) @
        concat (map (\<lambda>(key, v). conf_line key v) extra) @
        endl @ ''[Peer]'' @ endl @
        conf_line ''PublicKey'' (qs (m_serverPublicKey c)) @
        conf_line ''Endpoint''
          (qs (m_serverIpv4AddrIn c) @ '':'' @ number (m_serverPort c)) @
        conf_line ''AllowedIPs''
          (join '', '' (map (IPAddress_toString Q) (m_allowedIPAddressRanges c))))"

lemma HopType_keyToValue_key [simp]: "HopType_keyToValue (HopType_valueToKey h) = Some h"
  by (cases h) (simp_all add: HopType_keyToValue_def)

end
