(* ===== verification/Daemon_Config.thy ===== *)
theory Daemon_Config
  imports Interface_Config
begin

text \<open>
  \<open>Daemon::parseConfig\<close> and \<open>Daemon::parseStringList\<close> of \<open>client/daemon/daemon.cpp\<close>: the JSON
  object of an activation request becomes an \<open>InterfaceConfig\<close>.

  Each \<open>return false\<close> of the source is a value of \<open>ParseError\<close>; the half-filled configuration that
  the source leaves behind in that case is not used by its caller and is not modelled.
  \<open>std::sort\<close> is not stable, so the order of ranges of equal prefix length is up to the library: the
  sorting function is the argument \<open>srt\<close>, of which the properties assume \<open>std_sort_ok\<close>.
  \<open>win\<close> tells a Windows build (\<open>Q_OS_WINDOWS\<close>) from the others.
\<close>

section \<open>Parsing\<close>

datatype ParseError =
    Missing string
  | WrongType string
  | NoDeviceAddress
  | NoServerAddress
  | InvalidHopType string

definition sbind :: "'e + 'a \<Rightarrow> ('a \<Rightarrow> 'e + 'b) \<Rightarrow> 'e + 'b" where
  "sbind m f = (case m of Inl e \<Rightarrow> Inl e | Inr x \<Rightarrow> f x)"

definition getString :: "qjobject \<Rightarrow> string \<Rightarrow> ParseError + qstring" where
  "getString obj name =
     (if \<not> json_contains obj name then Inl (Missing name)
      else (case json_value obj name of
              JString s \<Rightarrow> Inr (Some s)
            | _ \<Rightarrow> Inl (WrongType name)))"

text \<open>Assigning a double to an \<open>int\<close> truncates it.\<close>

definition double_toInt :: "rat \<Rightarrow> int" where
  "double_toInt r = (if r \<ge> 0 then \<lfloor>r\<rfloor> else \<lceil>r\<rceil>)"

definition getDouble :: "qjobject \<Rightarrow> string \<Rightarrow> ParseError + int" where
  "getDouble obj name =
     (if \<not> json_contains obj name then Inl (Missing name)
      else (case json_value obj name of
              JDouble r \<Rightarrow> Inr (double_toInt r)
            | _ \<Rightarrow> Inl (WrongType name)))"

definition toInt :: "Qt \<Rightarrow> qstring \<Rightarrow> int" where
  "toInt Q s = (case qt_toInt Q (qs s) of None \<Rightarrow> 0 | Some i \<Rightarrow> i)"

definition parseKeys :: "qjobject \<Rightarrow> InterfaceConfig \<Rightarrow> ParseError + InterfaceConfig" where
  "parseKeys obj config =
     sbind (getString obj ''privateKey'') (\<lambda>priv.
     sbind (getString obj ''serverPublicKey'') (\<lambda>pub.
     sbind (getDouble obj ''serverPort'') (\<lambda>port.
       Inr (config\<lparr>m_privateKey := priv, m_serverPublicKey := pub, m_serverPort := port,
                   m_serverPskKey := json_toString (json_value obj ''serverPskKey'')\<rparr>))))"

definition parseMTU :: "bool \<Rightarrow> Qt \<Rightarrow> qjobject \<Rightarrow> InterfaceConfig \<Rightarrow> InterfaceConfig" where
  "parseMTU win Q obj config =
     (let mtu = toInt Q (json_toString (json_value obj ''deviceMTU''))
      in if \<not> json_contains obj ''deviceMTU'' \<or> mtu = 0 then config\<lparr>m_deviceMTU := 1420\<rparr>
         else config\<lparr>m_deviceMTU := (if win \<and> mtu < 1280 then 1280 else mtu)\<rparr>)"

definition parseAddresses :: "qjobject \<Rightarrow> InterfaceConfig \<Rightarrow> ParseError + InterfaceConfig" where
  "parseAddresses obj config =
     (let v = (\<lambda>k. json_toString (json_value obj k))
      in if isNull (v ''deviceIpv4Address'') \<and> isNull (v ''deviceIpv6Address'')
         then Inl NoDeviceAddress
         else if isNull (v ''serverIpv4AddrIn'') \<and> isNull (v ''serverIpv6AddrIn'')
         then Inl NoServerAddress
         else Inr (config
           \<lparr>m_deviceIpv4Address := v ''deviceIpv4Address'',
            m_deviceIpv6Address := v ''deviceIpv6Address'',
            m_serverIpv4AddrIn := v ''serverIpv4AddrIn'',
            m_serverIpv6AddrIn := v ''serverIpv6AddrIn'',
            m_serverIpv4Gateway := v ''serverIpv4Gateway'',
            m_serverIpv6Gateway := v ''serverIpv6Gateway''\<rparr>))"

definition parseDns :: "qjobject \<Rightarrow> InterfaceConfig \<Rightarrow> ParseError + InterfaceConfig" where
  "parseDns obj config =
     (if \<not> json_contains obj ''dnsServer'' then Inr (config\<lparr>m_dnsServer := None\<rparr>)
      else (case json_value obj ''dnsServer'' of
              JString s \<Rightarrow> Inr (config\<lparr>m_dnsServer := Some s\<rparr>)
            | _ \<Rightarrow> Inl (WrongType ''dnsServer'')))"

definition parseHopType :: "qjobject \<Rightarrow> InterfaceConfig \<Rightarrow> ParseError + InterfaceConfig" where
  "parseHopType obj config =
     (if \<not> json_contains obj ''hopType'' then Inr (config\<lparr>m_hopType := SingleHop\<rparr>)
      else (case json_value obj ''hopType'' of
              JString s \<Rightarrow>
                (case HopType_keyToValue s of
                   None \<Rightarrow> Inl (InvalidHopType s)
                 | Some h \<Rightarrow> Inr (config\<lparr>m_hopType := h\<rparr>))
            | _ \<Rightarrow> Inl (WrongType ''hopType'')))"

definition parseRange :: "Qt \<Rightarrow> qjson \<Rightarrow> ParseError + IPAddress" where
  "parseRange Q i =
     (case i of
        JObject ipObj \<Rightarrow>
          (case json_value ipObj ''address'' of
             JString address \<Rightarrow>
               (case json_value ipObj ''range'' of
                  JDouble r \<Rightarrow>
                    (case json_value ipObj ''isIpv6'' of
                       JBool _ \<Rightarrow> Inr (IPAddress_make (qt_host Q address) (json_toInt (JDouble r)))
                     | _ \<Rightarrow> Inl (WrongType ''isIpv6''))
                | _ \<Rightarrow> Inl (WrongType ''range''))
           | _ \<Rightarrow> Inl (WrongType ''address''))
      | _ \<Rightarrow> Inl (WrongType ''allowedIPAddressRanges''))"

fun parseRanges :: "Qt \<Rightarrow> qjson list \<Rightarrow> IPAddress list \<Rightarrow> ParseError + IPAddress list" where
  "parseRanges Q [] ranges = Inr ranges"
| "parseRanges Q (i # array) ranges =
     sbind (parseRange Q i) (\<lambda>ip. parseRanges Q array (ranges @ [ip]))"

definition parseAllowed ::
  "Qt \<Rightarrow> (IPAddress list \<Rightarrow> IPAddress list) \<Rightarrow> qjobject \<Rightarrow> InterfaceConfig \<Rightarrow> ParseError + InterfaceConfig"
where
  "parseAllowed Q srt obj config =
     (if \<not> json_contains obj ''allowedIPAddressRanges''
      then Inl (Missing ''allowedIPAddressRanges'')
      else (case json_value obj ''allowedIPAddressRanges'' of
              JArray array \<Rightarrow>
                sbind (parseRanges Q array (m_allowedIPAddressRanges config)) (\<lambda>ranges.
                  Inr (config\<lparr>m_allowedIPAddressRanges := srt ranges\<rparr>))
            | _ \<Rightarrow> Inl (WrongType ''allowedIPAddressRanges'')))"

fun appendStrings :: "string \<Rightarrow> qjson list \<Rightarrow> string list \<Rightarrow> ParseError + string list" where
  "appendStrings name [] list = Inr list"
| "appendStrings name (i # array) list =
     (case i of
        JString s \<Rightarrow> appendStrings name array (list @ [s])
      | _ \<Rightarrow> Inl (WrongType name))"

definition Daemon_parseStringList ::
  "qjobject \<Rightarrow> string \<Rightarrow> string list \<Rightarrow> ParseError + string list"
where
  "Daemon_parseStringList obj name list =
     (if json_contains obj name
      then (case json_value obj name of
              JArray array \<Rightarrow> appendStrings name array list
            | _ \<Rightarrow> Inl (WrongType name))
      else Inr list)"

text \<open>\<open>QVariant(QString).toBool()\<close>: false for an empty string, for 0 and for false in any case.\<close>

definition QVariant_toBool :: "qstring \<Rightarrow> bool" where
  "QVariant_toBool s \<longleftrightarrow> toLower (qs s) \<notin> {'''', ''0'', ''false''}"

definition awgValue :: "qjobject \<Rightarrow> string \<Rightarrow> qstring \<Rightarrow> qstring" where
  "awgValue obj name old =
     (if \<not> json_isNull (json_value obj name) then json_toString (json_value obj name) else old)"

definition parseAwg :: "qjobject \<Rightarrow> InterfaceConfig \<Rightarrow> InterfaceConfig" where
  "parseAwg obj config = config
     \<lparr>m_killSwitchEnabled :=
        QVariant_toBool (json_toString (json_value obj ''killSwitchOption'')),
      m_junkPacketCount := awgValue obj ''Jc'' (m_junkPacketCount config),
      m_junkPacketMinSize := awgValue obj ''Jmin'' (m_junkPacketMinSize config),
      m_junkPacketMaxSize := awgValue obj ''Jmax'' (m_junkPacketMaxSize config),
      m_initPacketJunkSize := awgValue obj ''S1'' (m_initPacketJunkSize config),
      m_responsePacketJunkSize := awgValue obj ''S2'' (m_responsePacketJunkSize config),
      m_initPacketMagicHeader := awgValue obj ''H1'' (m_initPacketMagicHeader config),
      m_responsePacketMagicHeader := awgValue obj ''H2'' (m_responsePacketMagicHeader config),
      m_underloadPacketMagicHeader := awgValue obj ''H3'' (m_underloadPacketMagicHeader config),
      m_transportPacketMagicHeader := awgValue obj ''H4'' (m_transportPacketMagicHeader config)\<rparr>"

definition Daemon_parseConfig ::
  "bool \<Rightarrow> Qt \<Rightarrow> (IPAddress list \<Rightarrow> IPAddress list) \<Rightarrow> qjobject \<Rightarrow> InterfaceConfig
    \<Rightarrow> ParseError + InterfaceConfig"
where
  "Daemon_parseConfig win Q srt obj config =
     sbind (parseKeys obj config) (\<lambda>config.
     sbind (parseAddresses obj (parseMTU win Q obj config)) (\<lambda>config.
     sbind (parseDns obj config) (\<lambda>config.
     sbind (parseHopType obj config) (\<lambda>config.
     sbind (parseAllowed Q srt obj config) (\<lambda>config.
     sbind (Daemon_parseStringList obj ''excludedAddresses'' (m_excludedAddresses config))
       (\<lambda>excluded.
     sbind (Daemon_parseStringList obj ''vpnDisabledApps'' (m_vpnDisabledApps config)) (\<lambda>apps.
       Inr (parseAwg obj
         (config\<lparr>m_excludedAddresses := excluded, m_vpnDisabledApps := apps\<rparr>)))))))))"

section \<open>What is accepted\<close>

definition std_sort_ok :: "(IPAddress list \<Rightarrow> IPAddress list) \<Rightarrow> bool" where
  "std_sort_ok srt \<longleftrightarrow>
     (\<forall>xs. mset (srt xs) = mset xs \<and>
       sorted_wrt (\<lambda>a b. m_prefixLength a \<ge> m_prefixLength b) (srt xs))"

definition rangeJson_ok :: "qjson \<Rightarrow> bool" where
  "rangeJson_ok i \<longleftrightarrow>
     (\<exists>ipObj address r b. i = JObject ipObj \<and> json_value ipObj ''address'' = JString address \<and>
        json_value ipObj ''range'' = JDouble r \<and> json_value ipObj ''isIpv6'' = JBool b)"

definition rangeJson_ip :: "Qt \<Rightarrow> qjson \<Rightarrow> IPAddress" where
  "rangeJson_ip Q i =
     IPAddress_make (qt_host Q (qs (json_toString (json_value (json_toObject i) ''address''))))
       (json_toInt (json_value (json_toObject i) ''range''))"

text \<open>An optional member: absent, or an array of strings.\<close>

definition stringsJson_ok :: "qjobject \<Rightarrow> string \<Rightarrow> bool" where
  "stringsJson_ok obj name \<longleftrightarrow>
     \<not> json_contains obj name \<or> (\<exists>ss. json_value obj name = JArray (map JString ss))"

definition configJson_ok :: "qjobject \<Rightarrow> bool" where
  "configJson_ok obj \<longleftrightarrow>
     (\<exists>s. json_value obj ''privateKey'' = JString s) \<and>
     (\<exists>s. json_value obj ''serverPublicKey'' = JString s) \<and>
     (\<exists>r. json_value obj ''serverPort'' = JDouble r) \<and>
     (json_isString (json_value obj ''deviceIpv4Address'') \<or>
      json_isString (json_value obj ''deviceIpv6Address'')) \<and>
     (json_isString (json_value obj ''serverIpv4AddrIn'') \<or>
      json_isString (json_value obj ''serverIpv6AddrIn'')) \<and>
     (json_contains obj ''dnsServer'' \<longrightarrow> json_isString (json_value obj ''dnsServer'')) \<and>
     (json_contains obj ''hopType'' \<longrightarrow>
        (\<exists>s h. json_value obj ''hopType'' = JString s \<and> HopType_keyToValue s = Some h)) \<and>
     (\<exists>array. json_value obj ''allowedIPAddressRanges'' = JArray array \<and>
        list_all rangeJson_ok array) \<and>
     stringsJson_ok obj ''excludedAddresses'' \<and>
     stringsJson_ok obj ''vpnDisabledApps''"

lemma sbind_simps [simp]: "sbind (Inl e) f = Inl e" "sbind (Inr x) f = f x"
  by (simp_all add: sbind_def)

lemma sbind_Inr_iff: "sbind m f = Inr y \<longleftrightarrow> (\<exists>x. m = Inr x \<and> f x = Inr y)"
  by (cases m) simp_all

lemma json_isString_iff: "json_isString v \<longleftrightarrow> (\<exists>s. v = JString s)"
  by (cases v) simp_all

lemma json_toString_eq: "json_toString v = Some s \<longleftrightarrow> v = JString s"
  by (cases v) simp_all

lemma json_toString_None: "json_toString v = None \<longleftrightarrow> \<not> json_isString v"
  by (cases v) simp_all

lemma json_value_defined:
  assumes "json_value obj k = v" "v \<noteq> JUndefined" shows "json_contains obj k"
  using assms json_value_contained [of obj k] by simp

lemma getString_iff [simp]: "getString obj k = Inr x \<longleftrightarrow> (\<exists>s. json_value obj k = JString s \<and> x = Some s)"
  by (auto simp: getString_def dest: json_value_defined split: qjson.splits)

lemma getDouble_iff [simp]:
  "getDouble obj k = Inr x \<longleftrightarrow> (\<exists>r. json_value obj k = JDouble r \<and> x = double_toInt r)"
  by (auto simp: getDouble_def dest: json_value_defined split: qjson.splits)

lemma parseRange_iff: "parseRange Q i = Inr x \<longleftrightarrow> rangeJson_ok i \<and> x = rangeJson_ip Q i"
  by (auto simp: parseRange_def rangeJson_ok_def rangeJson_ip_def split: qjson.splits)

lemma parseRanges_iff:
  "parseRanges Q array ranges = Inr rs \<longleftrightarrow>
    list_all rangeJson_ok array \<and> rs = ranges @ map (rangeJson_ip Q) array"
  by (induction Q array ranges rule: parseRanges.induct)
    (auto simp: sbind_Inr_iff parseRange_iff)

lemma appendStrings_iff:
  "appendStrings name array list = Inr l \<longleftrightarrow> (\<exists>ss. array = map JString ss \<and> l = list @ ss)"
proof (induction name array list rule: appendStrings.induct)
  case (2 name i array list)
  then show ?case by (cases i) (auto simp: Cons_eq_map_conv)
qed auto

definition stringsJson :: "qjobject \<Rightarrow> string \<Rightarrow> string list" where
  "stringsJson obj name = map (\<lambda>v. qs (json_toString v)) (json_toArray (json_value obj name))"

lemma parseStringList_iff:
  "Daemon_parseStringList obj name list = Inr l \<longleftrightarrow>
    stringsJson_ok obj name \<and> l = list @ stringsJson obj name"
proof (cases "json_contains obj name")
  case True
  then show ?thesis
    by (auto simp: Daemon_parseStringList_def stringsJson_ok_def stringsJson_def appendStrings_iff
        comp_def split: qjson.splits)
next
  case False
  then have "json_value obj name = JUndefined" by (auto simp: json_value_def qmap_contains_def)
  with False show ?thesis
    by (auto simp: Daemon_parseStringList_def stringsJson_ok_def stringsJson_def)
qed

text \<open>The members each stage of a successful parse sets.\<close>

definition keysJson :: "qjobject \<Rightarrow> InterfaceConfig \<Rightarrow> InterfaceConfig" where
  "keysJson obj c = c
     \<lparr>m_privateKey := json_toString (json_value obj ''privateKey''),
      m_serverPublicKey := json_toString (json_value obj ''serverPublicKey''),
      m_serverPort := (case json_value obj ''serverPort'' of JDouble r \<Rightarrow> double_toInt r | _ \<Rightarrow> 0),
      m_serverPskKey := json_toString (json_value obj ''serverPskKey'')\<rparr>"

definition addressesJson :: "qjobject \<Rightarrow> InterfaceConfig \<Rightarrow> InterfaceConfig" where
  "addressesJson obj c = c
     \<lparr>m_deviceIpv4Address := json_toString (json_value obj ''deviceIpv4Address''),
      m_deviceIpv6Address := json_toString (json_value obj ''deviceIpv6Address''),
      m_serverIpv4AddrIn := json_toString (json_value obj ''serverIpv4AddrIn''),
      m_serverIpv6AddrIn := json_toString (json_value obj ''serverIpv6AddrIn''),
      m_serverIpv4Gateway := json_toString (json_value obj ''serverIpv4Gateway''),
      m_serverIpv6Gateway := json_toString (json_value obj ''serverIpv6Gateway'')\<rparr>"

definition dnsJson :: "qjobject \<Rightarrow> InterfaceConfig \<Rightarrow> InterfaceConfig" where
  "dnsJson obj c = c\<lparr>m_dnsServer := json_toString (json_value obj ''dnsServer'')\<rparr>"

definition hopJson :: "qjobject \<Rightarrow> InterfaceConfig \<Rightarrow> InterfaceConfig" where
  "hopJson obj c = c
     \<lparr>m_hopType :=
        (if json_contains obj ''hopType''
         then the (HopType_keyToValue (qs (json_toString (json_value obj ''hopType''))))
         else SingleHop)\<rparr>"

definition allowedJson ::
  "Qt \<Rightarrow> (IPAddress list \<Rightarrow> IPAddress list) \<Rightarrow> qjobject \<Rightarrow> InterfaceConfig \<Rightarrow> InterfaceConfig"
where
  "allowedJson Q srt obj c = c
     \<lparr>m_allowedIPAddressRanges :=
        srt (m_allowedIPAddressRanges c @
             map (rangeJson_ip Q) (json_toArray (json_value obj ''allowedIPAddressRanges'')))\<rparr>"

definition listsJson :: "qjobject \<Rightarrow> InterfaceConfig \<Rightarrow> InterfaceConfig" where
  "listsJson obj c = c
     \<lparr>m_excludedAddresses := m_excludedAddresses c @ stringsJson obj ''excludedAddresses'',
      m_vpnDisabledApps := m_vpnDisabledApps c @ stringsJson obj ''vpnDisabledApps''\<rparr>"

definition config_of_json ::
  "bool \<Rightarrow> Qt \<Rightarrow> (IPAddress list \<Rightarrow> IPAddress list) \<Rightarrow> qjobject \<Rightarrow> InterfaceConfig \<Rightarrow> InterfaceConfig"
where
  "config_of_json win Q srt obj c =
     parseAwg obj (listsJson obj (allowedJson Q srt obj (hopJson obj (dnsJson obj
       (addressesJson obj (parseMTU win Q obj (keysJson obj c)))))))"

lemmas config_of_json_defs = config_of_json_def keysJson_def addressesJson_def dnsJson_def
  hopJson_def allowedJson_def listsJson_def

lemma parseKeys_iff:
  "parseKeys obj c = Inr c' \<longleftrightarrow>
    ((\<exists>s. json_value obj ''privateKey'' = JString s) \<and>
     (\<exists>s. json_value obj ''serverPublicKey'' = JString s) \<and>
     (\<exists>r. json_value obj ''serverPort'' = JDouble r)) \<and> c' = keysJson obj c"
  by (auto simp: parseKeys_def keysJson_def sbind_Inr_iff)

lemma parseDns_iff:
  "parseDns obj c = Inr c' \<longleftrightarrow>
    (json_contains obj ''dnsServer'' \<longrightarrow> json_isString (json_value obj ''dnsServer'')) \<and>
    c' = dnsJson obj c"
  by (auto simp: parseDns_def dnsJson_def json_value_def qmap_contains_def
      split: qjson.splits option.splits)

lemma parseHopType_iff:
  "parseHopType obj c = Inr c' \<longleftrightarrow>
    (json_contains obj ''hopType'' \<longrightarrow>
       (\<exists>s h. json_value obj ''hopType'' = JString s \<and> HopType_keyToValue s = Some h)) \<and>
    c' = hopJson obj c"
  by (auto simp: parseHopType_def hopJson_def split: qjson.splits option.splits)

lemma parseAllowed_iff:
  "parseAllowed Q srt obj c = Inr c' \<longleftrightarrow>
    (\<exists>array. json_value obj ''allowedIPAddressRanges'' = JArray array \<and>
       list_all rangeJson_ok array) \<and> c' = allowedJson Q srt obj c"
  by (auto simp: parseAllowed_def allowedJson_def sbind_Inr_iff parseRanges_iff
      dest: json_value_defined split: qjson.splits)

lemma parseAddresses_iff:
  "parseAddresses obj c = Inr c' \<longleftrightarrow>
    ((json_isString (json_value obj ''deviceIpv4Address'') \<or>
      json_isString (json_value obj ''deviceIpv6Address'')) \<and>
     (json_isString (json_value obj ''serverIpv4AddrIn'') \<or>
      json_isString (json_value obj ''serverIpv6AddrIn''))) \<and> c' = addressesJson obj c"
  unfolding parseAddresses_def Let_def json_toString_None addressesJson_def by auto

lemma sbind_stage:
  assumes "\<And>x. m = Inr x \<longleftrightarrow> P \<and> x = g"
  shows "sbind m f = Inr y \<longleftrightarrow> P \<and> f g = Inr y"
  by (simp add: sbind_Inr_iff assms)

lemma parseConfig_iff:
  "Daemon_parseConfig win Q srt obj c = Inr c' \<longleftrightarrow>
    configJson_ok obj \<and> c' = config_of_json win Q srt obj c"
  unfolding Daemon_parseConfig_def configJson_ok_def config_of_json_def listsJson_def
    sbind_stage [OF parseKeys_iff] sbind_stage [OF parseAddresses_iff]
    sbind_stage [OF parseDns_iff] sbind_stage [OF parseHopType_iff]
    sbind_stage [OF parseAllowed_iff] sbind_stage [OF parseStringList_iff] sum.inject
    conj_assoc
  by (simp only: eq_commute)

definition mtuJson :: "bool \<Rightarrow> Qt \<Rightarrow> qjobject \<Rightarrow> int" where
  "mtuJson win Q obj =
     (let mtu = toInt Q (json_toString (json_value obj ''deviceMTU''))
      in if \<not> json_contains obj ''deviceMTU'' \<or> mtu = 0 then 1420
         else if win then max mtu 1280 else mtu)"

lemma parseMTU_eq: "parseMTU win Q obj c = c\<lparr>m_deviceMTU := mtuJson win Q obj\<rparr>"
  by (simp add: parseMTU_def mtuJson_def Let_def max_def)

lemma parseAwg_sel:
  "m_hopType (parseAwg obj c) = m_hopType c"
  "m_privateKey (parseAwg obj c) = m_privateKey c"
  "m_deviceIpv4Address (parseAwg obj c) = m_deviceIpv4Address c"
  "m_deviceIpv6Address (parseAwg obj c) = m_deviceIpv6Address c"
  "m_serverIpv4Gateway (parseAwg obj c) = m_serverIpv4Gateway c"
  "m_serverIpv6Gateway (parseAwg obj c) = m_serverIpv6Gateway c"
  "m_serverPublicKey (parseAwg obj c) = m_serverPublicKey c"
  "m_serverIpv4AddrIn (parseAwg obj c) = m_serverIpv4AddrIn c"
  "m_serverPskKey (parseAwg obj c) = m_serverPskKey c"
  "m_serverIpv6AddrIn (parseAwg obj c) = m_serverIpv6AddrIn c"
  "m_dnsServer (parseAwg obj c) = m_dnsServer c"
  "m_serverPort (parseAwg obj c) = m_serverPort c"
  "m_deviceMTU (parseAwg obj c) = m_deviceMTU c"
  "m_allowedIPAddressRanges (parseAwg obj c) = m_allowedIPAddressRanges c"
  "m_excludedAddresses (parseAwg obj c) = m_excludedAddresses c"
  "m_vpnDisabledApps (parseAwg obj c) = m_vpnDisabledApps c"
  "m_killSwitchEnabled (parseAwg obj c) =
     QVariant_toBool (json_toString (json_value obj ''killSwitchOption''))"
  "m_junkPacketCount (parseAwg obj c) = awgValue obj ''Jc'' (m_junkPacketCount c)"
  "m_junkPacketMinSize (parseAwg obj c) = awgValue obj ''Jmin'' (m_junkPacketMinSize c)"
  "m_junkPacketMaxSize (parseAwg obj c) = awgValue obj ''Jmax'' (m_junkPacketMaxSize c)"
  "m_initPacketJunkSize (parseAwg obj c) = awgValue obj ''S1'' (m_initPacketJunkSize c)"
  "m_responsePacketJunkSize (parseAwg obj c) = awgValue obj ''S2'' (m_responsePacketJunkSize c)"
  "m_initPacketMagicHeader (parseAwg obj c) = awgValue obj ''H1'' (m_initPacketMagicHeader c)"
  "m_responsePacketMagicHeader (parseAwg obj c) = awgValue obj ''H2'' (m_responsePacketMagicHeader c)"
  "m_underloadPacketMagicHeader (parseAwg obj c) = awgValue obj ''H3'' (m_underloadPacketMagicHeader c)"
  "m_transportPacketMagicHeader (parseAwg obj c) = awgValue obj ''H4'' (m_transportPacketMagicHeader c)"
  by (simp_all add: parseAwg_def)

lemma config_of_json_sel [simp]:
  fixes win Q srt obj c
  defines "c' \<equiv> config_of_json win Q srt obj c"
  shows "m_privateKey c' = json_toString (json_value obj ''privateKey'')"
    "m_serverPublicKey c' = json_toString (json_value obj ''serverPublicKey'')"
    "m_serverPskKey c' = json_toString (json_value obj ''serverPskKey'')"
    "m_serverPort c' = (case json_value obj ''serverPort'' of JDouble r \<Rightarrow> double_toInt r | _ \<Rightarrow> 0)"
    "m_deviceMTU c' = mtuJson win Q obj"
    "m_deviceIpv4Address c' = json_toString (json_value obj ''deviceIpv4Address'')"
    "m_deviceIpv6Address c' = json_toString (json_value obj ''deviceIpv6Address'')"
    "m_serverIpv4AddrIn c' = json_toString (json_value obj ''serverIpv4AddrIn'')"
    "m_serverIpv6AddrIn c' = json_toString (json_value obj ''serverIpv6AddrIn'')"
    "m_serverIpv4Gateway c' = json_toString (json_value obj ''serverIpv4Gateway'')"
    "m_serverIpv6Gateway c' = json_toString (json_value obj ''serverIpv6Gateway'')"
    "m_dnsServer c' = json_toString (json_value obj ''dnsServer'')"
    "m_hopType c' = (if json_contains obj ''hopType''
       then the (HopType_keyToValue (qs (json_toString (json_value obj ''hopType'')))) else SingleHop)"
    "m_allowedIPAddressRanges c' = srt (m_allowedIPAddressRanges c @
       map (rangeJson_ip Q) (json_toArray (json_value obj ''allowedIPAddressRanges'')))"
    "m_excludedAddresses c' = m_excludedAddresses c @ stringsJson obj ''excludedAddresses''"
    "m_vpnDisabledApps c' = m_vpnDisabledApps c @ stringsJson obj ''vpnDisabledApps''"
    "m_killSwitchEnabled c' =
       QVariant_toBool (json_toString (json_value obj ''killSwitchOption''))"
    "m_junkPacketCount c' = awgValue obj ''Jc'' (m_junkPacketCount c)"
    "m_junkPacketMinSize c' = awgValue obj ''Jmin'' (m_junkPacketMinSize c)"
    "m_junkPacketMaxSize c' = awgValue obj ''Jmax'' (m_junkPacketMaxSize c)"
    "m_initPacketJunkSize c' = awgValue obj ''S1'' (m_initPacketJunkSize c)"
    "m_responsePacketJunkSize c' = awgValue obj ''S2'' (m_responsePacketJunkSize c)"
    "m_initPacketMagicHeader c' = awgValue obj ''H1'' (m_initPacketMagicHeader c)"
    "m_responsePacketMagicHeader c' = awgValue obj ''H2'' (m_responsePacketMagicHeader c)"
    "m_underloadPacketMagicHeader c' = awgValue obj ''H3'' (m_underloadPacketMagicHeader c)"
    "m_transportPacketMagicHeader c' = awgValue obj ''H4'' (m_transportPacketMagicHeader c)"
  unfolding c'_def config_of_json_def parseAwg_sel listsJson_def allowedJson_def hopJson_def
    dnsJson_def addressesJson_def parseMTU_eq keysJson_def
  by simp_all

lemma InterfaceConfig_new_sel [simp]:
  "m_allowedIPAddressRanges (InterfaceConfig_new hop kill) = []"
  "m_excludedAddresses (InterfaceConfig_new hop kill) = []"
  "m_vpnDisabledApps (InterfaceConfig_new hop kill) = []"
  by (simp_all add: InterfaceConfig_new_def)

section \<open>Properties\<close>

lemma double_toInt_of_int [simp]: "double_toInt (of_int i) = i"
  by (simp add: double_toInt_def)

lemma json_toInt_of_int: "- (2 ^ 31) \<le> i \<Longrightarrow> i < 2 ^ 31 \<Longrightarrow> json_toInt (JDouble (of_int i)) = i"
  by simp

lemma range_toJson_ok [simp]: "rangeJson_ok (range_toJson Q i)"
  by (auto simp: rangeJson_ok_def range_toJson_def)

lemma range_toJson_ip:
  assumes "qt_host Q (qt_hostToString Q (m_address i)) = m_address i"
    and "- (2 ^ 31) \<le> m_prefixLength i" "m_prefixLength i < 2 ^ 31"
  shows "rangeJson_ip Q (range_toJson Q i) = i"
  using assms by (simp add: rangeJson_ip_def range_toJson_def IPAddress_make_def)

text \<open>What \<open>toJson\<close> stores under each key.\<close>

lemma toJson_value:
  fixes Q c
  defines "obj \<equiv> InterfaceConfig_toJson Q c"
  shows "json_value obj ''hopType'' = JString (HopType_valueToKey (m_hopType c))"
    "json_value obj ''privateKey'' = json_ofString (m_privateKey c)"
    "json_value obj ''serverPublicKey'' = json_ofString (m_serverPublicKey c)"
    "json_value obj ''serverPskKey'' = json_ofString (m_serverPskKey c)"
    "json_value obj ''serverPort'' = JDouble (of_int (m_serverPort c))"
    "json_value obj ''deviceMTU'' = JDouble (of_int (m_deviceMTU c))"
    "json_value obj ''deviceIpv4Address'' = json_ofString (m_deviceIpv4Address c)"
    "json_value obj ''deviceIpv6Address'' = json_ofString (m_deviceIpv6Address c)"
    "json_value obj ''serverIpv4AddrIn'' = json_ofString (m_serverIpv4AddrIn c)"
    "json_value obj ''serverIpv6AddrIn'' = json_ofString (m_serverIpv6AddrIn c)"
    "json_value obj ''allowedIPAddressRanges'' =
      JArray (map (range_toJson Q) (m_allowedIPAddressRanges c))"
    "json_value obj ''excludedAddresses'' = JArray (map JString (m_excludedAddresses c))"
    "json_value obj ''vpnDisabledApps'' = JArray (map JString (m_vpnDisabledApps c))"
    "json_value obj ''dnsServer'' =
      (if m_hopType c = MultiHopEntry then JUndefined else json_ofString (m_dnsServer c))"
    "json_value obj ''serverIpv4Gateway'' =
      (if m_hopType c = MultiHopEntry then JUndefined else json_ofString (m_serverIpv4Gateway c))"
    "json_value obj ''serverIpv6Gateway'' =
      (if m_hopType c = MultiHopEntry then JUndefined else json_ofString (m_serverIpv6Gateway c))"
  unfolding obj_def InterfaceConfig_toJson_def Let_def
  by (cases "m_hopType c"; simp)+

lemma toJson_contains: "json_contains (InterfaceConfig_toJson Q c) ''dnsServer'' \<longleftrightarrow> m_hopType c \<noteq> MultiHopEntry"
  unfolding InterfaceConfig_toJson_def Let_def by (cases "m_hopType c") simp_all

lemma toJson_ok: "configJson_ok (InterfaceConfig_toJson Q c)"
  by (auto simp: configJson_ok_def toJson_value toJson_contains json_ofString_def
      stringsJson_ok_def list_all_iff)

text \<open>
  C16: \<open>parseConfig\<close> accepts exactly the objects with string keys, a numeric port, a device and a
  server address, a valid hop type and DNS server if any, an array of well-formed ranges and, if
  present, arrays of strings; every other object is refused.
\<close>

theorem parseConfig_accepts_iff:
  "(\<exists>config'. Daemon_parseConfig win Q srt obj config = Inr config') \<longleftrightarrow> configJson_ok obj"
  by (simp add: parseConfig_iff)

text \<open>
  A parsed configuration lists the ranges of the request, all of them and no others, by
  decreasing prefix length, so that more specific routes are installed first.
\<close>

theorem parseConfig_ranges_sorted:
  assumes "std_sort_ok srt"
    and "Daemon_parseConfig win Q srt obj (InterfaceConfig_new hop kill) = Inr config"
  shows "sorted_wrt (\<lambda>a b. m_prefixLength a \<ge> m_prefixLength b) (m_allowedIPAddressRanges config) \<and>
    mset (m_allowedIPAddressRanges config) =
      mset (map (rangeJson_ip Q) (json_toArray (json_value obj ''allowedIPAddressRanges'')))"
proof -
  from assms(2) have "m_allowedIPAddressRanges config =
      srt (map (rangeJson_ip Q) (json_toArray (json_value obj ''allowedIPAddressRanges'')))"
    by (simp add: parseConfig_iff)
  with assms(1) show ?thesis by (simp add: std_sort_ok_def)
qed


section \<open>An example\<close>

definition sample_config :: InterfaceConfig where
  "sample_config = (InterfaceConfig_new SingleHop True)
     \<lparr>m_privateKey := Some ''cHJpdg=='', m_serverPublicKey := Some ''cHVi'',
      m_deviceIpv4Address := Some ''10.8.0.2'', m_serverIpv4Gateway := Some ''10.8.0.1'',
      m_serverIpv4AddrIn := Some ''203.0.113.7'', m_dnsServer := Some ''1.1.1.1'',
      m_serverPort := 51820, m_deviceMTU := 1376,
      m_allowedIPAddressRanges :=
        [\<lparr>m_address = V4Address 0, m_prefixLength = 0\<rparr>,
         \<lparr>m_address = V4Address 0x0A080001, m_prefixLength = 32\<rparr>],
      m_excludedAddresses := [''203.0.113.7'']\<rparr>"

definition sample_sort :: "IPAddress list \<Rightarrow> IPAddress list" where
  "sample_sort = sort_key (\<lambda>i. - m_prefixLength i)"

lemma sample_sort_ok: "std_sort_ok sample_sort"
proof -
  have "sorted_wrt (\<lambda>a b. m_prefixLength a \<ge> m_prefixLength b) (sort_key (\<lambda>i. - m_prefixLength i) xs)"
    for xs :: "IPAddress list"
    using sorted_sort_key [of "\<lambda>i. - m_prefixLength i" xs] by (simp add: sorted_wrt_map)
  then show ?thesis by (simp add: std_sort_ok_def sample_sort_def)
qed

lemma sample_ranges:
  "\<forall>i \<in> set (m_allowedIPAddressRanges sample_config).
      qt_host sample_qt (qt_hostToString sample_qt (m_address i)) = m_address i \<and>
      - (2 ^ 31) \<le> m_prefixLength i \<and> m_prefixLength i < 2 ^ 31"
  by (simp add: sample_config_def sample_qt_def sample_hosts_def)

lemma sample_toInt: "qt_toInt sample_qt [] = None"
  by (simp add: sample_qt_def number_def digits_nonempty [symmetric])


lemma parseConfig_ranges_sorted_witness:
  "std_sort_ok sample_sort \<and>
   (\<exists>config. Daemon_parseConfig False sample_qt sample_sort
      (InterfaceConfig_toJson sample_qt sample_config) (InterfaceConfig_new SingleHop False) = Inr config \<and>
     sorted_wrt (\<lambda>a b. m_prefixLength a \<ge> m_prefixLength b) (m_allowedIPAddressRanges config))"
proof -
  obtain config where "Daemon_parseConfig False sample_qt sample_sort
      (InterfaceConfig_toJson sample_qt sample_config) (InterfaceConfig_new SingleHop False) = Inr config"
    using toJson_ok by (auto simp: parseConfig_iff)
  with parseConfig_ranges_sorted [OF sample_sort_ok this] sample_sort_ok show ?thesis by blast
qed

end
