(* ===== verification/Line_Reader.thy ===== *)
theory Line_Reader
  imports Qt_Prelude
begin

text \<open>
  Both ends of the local socket read newline-terminated commands out of a buffer that grows by what
  the socket delivers.  The locale states what that loop relies on: the handler of a command
  leaves the buffer alone.  Its lemmas show that the loop ends and that the commands handled do not
  depend on how the bytes were cut into chunks.
\<close>

section \<open>Lines and commands\<close>

text \<open>\<open>m_buffer.left(pos)\<close> and \<open>m_buffer.remove(0, pos + 1)\<close> at the first newline, if there is one.\<close>

fun take_line :: "string \<Rightarrow> (string \<times> string) option" where
  "take_line buffer =
     (let pos = indexOf newline buffer
      in if pos = -1 then None else Some (take (nat pos) buffer, drop (nat pos + 1) buffer))"

declare take_line.simps [simp del]

lemma take_line_Nil [simp]: "take_line [] = None"
  by (simp add: take_line.simps)

lemma indexOf_ge: "indexOf c s \<ge> -1"
  by (induction s) (auto simp: Let_def)

lemma take_line_Cons:
  "take_line (x # xs) =
    (if x = newline then Some ([], xs)
     else map_option (\<lambda>(line, rest). (x # line, rest)) (take_line xs))"
proof -
  have "nat (indexOf newline xs + 1) = Suc (nat (indexOf newline xs))" if "indexOf newline xs \<noteq> -1"
    using that indexOf_ge [of newline xs] by simp
  then show ?thesis
    using indexOf_ge [of newline xs] by (auto simp: take_line.simps Let_def)
qed

lemma take_line_shorter: "take_line buffer = Some (line, rest) \<Longrightarrow> length rest < length buffer"
  by (induction buffer arbitrary: line) (auto simp: take_line_Cons split: if_splits)

lemma take_line_append:
  "take_line buffer = Some (line, rest) \<Longrightarrow> take_line (buffer @ later) = Some (line, rest @ later)"
  by (induction buffer arbitrary: line) (auto simp: take_line_Cons split: if_splits)

text \<open>The commands of a text: its complete lines, trimmed, without the empty ones, and what is left.\<close>

function (sequential) commands :: "string \<Rightarrow> string list" where
  "commands buffer =
     (case take_line buffer of
        None \<Rightarrow> []
      | Some (line, rest) \<Rightarrow> (if trimmed line = [] then [] else [trimmed line]) @ commands rest)"
  by pat_completeness auto
termination by (relation "measure length") (auto simp: take_line_shorter)

function (sequential) remainder :: "string \<Rightarrow> string" where
  "remainder buffer =
     (case take_line buffer of None \<Rightarrow> buffer | Some (line, rest) \<Rightarrow> remainder rest)"
  by pat_completeness auto
termination by (relation "measure length") (auto simp: take_line_shorter)

declare commands.simps [simp del] remainder.simps [simp del]

lemma commands_append: "commands (buffer @ later) = commands buffer @ commands (remainder buffer @ later)"
proof (induction buffer rule: commands.induct)
  case (1 buffer)
  show ?case
  proof (cases "take_line buffer")
    case None
    then show ?thesis by (simp add: commands.simps [of buffer] remainder.simps [of buffer])
  next
    case (Some lr)
    obtain line rest where lr: "lr = (line, rest)" by (cases lr)
    with Some have t: "take_line buffer = Some (line, rest)" by simp
    from 1 [OF t refl] take_line_append [OF t, of later] t show ?thesis
      by (simp add: commands.simps [of buffer] commands.simps [of "buffer @ later"] remainder.simps [of buffer])
  qed
qed

lemma remainder_append: "remainder (buffer @ later) = remainder (remainder buffer @ later)"
proof (induction buffer rule: commands.induct)
  case (1 buffer)
  show ?case
  proof (cases "take_line buffer")
    case None
    then show ?thesis by (simp add: remainder.simps [of buffer])
  next
    case (Some lr)
    obtain line rest where lr: "lr = (line, rest)" by (cases lr)
    with Some have t: "take_line buffer = Some (line, rest)" by simp
    from 1 [OF t refl] take_line_append [OF t, of later] t show ?thesis
      by (simp add: remainder.simps [of "buffer @ later"] remainder.simps [of buffer])
  qed
qed

section \<open>The contract of a reader\<close>

locale line_reader =
  fixes buffer :: "'s \<Rightarrow> string"
    and set_buffer :: "string \<Rightarrow> 's \<Rightarrow> 's"
    and handle :: "string \<Rightarrow> 's \<Rightarrow> 's"
    and read :: "string \<Rightarrow> 's \<Rightarrow> 's"
  assumes buffer_set: "buffer (set_buffer b s) = b"
    and set_set: "set_buffer b (set_buffer b' s) = set_buffer b s"
    and set_same: "set_buffer (buffer s) s = s"
    and handle_set: "handle c (set_buffer b s) = set_buffer b (handle c s)"
    and buffer_handle: "buffer (handle c s) = buffer s"
    and read_None: "take_line (buffer s @ input) = None \<Longrightarrow>
      read input s = set_buffer (buffer s @ input) s"
    and read_Some: "take_line (buffer s @ input) = Some (line, rest) \<Longrightarrow>
      read input s = read [] (if trimmed line = [] then set_buffer rest s
        else handle (trimmed line) (set_buffer rest s))"
begin

lemma fold_handle_set: "fold handle cs (set_buffer b s) = set_buffer b (fold handle cs s)"
  by (induction cs arbitrary: s) (simp_all add: handle_set)

lemma read_eq:
  "read input s = set_buffer (remainder (buffer s @ input))
     (fold handle (commands (buffer s @ input)) s)"
proof (induction "buffer s @ input" arbitrary: s input rule: commands.induct)
  case 1
  show ?case
  proof (cases "take_line (buffer s @ input)")
    case None
    then show ?thesis
      by (simp add: read_None commands.simps [of "buffer s @ input"] remainder.simps [of "buffer s @ input"])
  next
    case (Some lr)
    obtain line rest where lr: "lr = (line, rest)" by (cases lr)
    with Some have t: "take_line (buffer s @ input) = Some (line, rest)" by simp
    let ?s = "if trimmed line = [] then set_buffer rest s
      else handle (trimmed line) (set_buffer rest s)"
    have b: "buffer ?s = rest" by (simp add: buffer_handle buffer_set)
    have "read [] ?s = set_buffer (remainder rest) (fold handle (commands rest) ?s)"
      using 1 [OF t, of line ?s "[]"] b by simp
    then show ?thesis
      using t by (simp add: read_Some [OF t] commands.simps [of "buffer s @ input"]
          remainder.simps [of "buffer s @ input"] handle_set fold_handle_set set_set)
  qed
qed

lemma buffer_fold: "buffer (fold handle cs s) = buffer s"
  by (induction cs arbitrary: s) (simp_all add: buffer_handle)

text \<open>However the input is cut, the commands handled and the bytes left over are the same.\<close>

lemma read_chunks: "read later (read input s) = read (input @ later) s"
proof -
  have "read later (read input s) =
      set_buffer (remainder (remainder (buffer s @ input) @ later))
        (fold handle (commands (remainder (buffer s @ input) @ later))
          (fold handle (commands (buffer s @ input)) s))"
    by (simp add: read_eq [of later] read_eq [of input] buffer_set fold_handle_set set_set)
  also have "\<dots> = read (input @ later) s"
    using commands_append [of "buffer s @ input" later] remainder_append [of "buffer s @ input" later]
    by (simp add: read_eq [of "input @ later"])
  finally show ?thesis .
qed

lemma read_all: "fold read chunks (read [] s) = read (concat chunks) s"
proof (induction chunks rule: rev_induct)
  case (snoc chunk chunks)
  then show ?case by (simp add: read_chunks)
qed simp

lemma no_line_left: "take_line (remainder b) = None"
proof (induction b rule: commands.induct)
  case (1 b)
  then show ?case by (cases "take_line b") (auto simp: remainder.simps [of b])
qed

end

end
