(* ===== verification/Local_Socket.thy ===== *)
theory Local_Socket
  imports Daemon_Config Line_Reader
begin

text \<open>
  \<open>client/mozilla/localsocketcontroller.{h,cpp}\<close>: the client's end of the socket to the privileged
  daemon.  It connects with a bounded number of retries, writes requests and reacts to replies.

  The record holds the members of the class; \<open>written\<close> lists the objects written to the socket,
  \<open>connects\<close> the paths it tried to connect to and \<open>signals\<close> the signals emitted and log callbacks
  called, in order; no method reads these three.  A log callback is known by a number.  The JSON
  text format and the date format of Qt are the fields of \<open>Wire\<close>.  The assertions of the source are
  checked separately, as an invariant.
\<close>

section \<open>Data\<close>

record Wire =
  fromJson :: "string \<Rightarrow> qjson"
  toJson :: "qjobject \<Rightarrow> string"
  dateFromString :: "string \<Rightarrow> int option"

datatype DaemonState = eUnknown | eInitializing | eReady | eDisconnected

datatype csignal =
    initialized bool bool "int option"
  | cdisconnected
  | cconnected string
  | statusUpdated string string rat rat
  | logs_callback nat string

record LocalSocketController =
  m_daemonState :: DaemonState
  m_buffer :: string
  m_logCallback :: "nat option"
  m_initializingTimer :: bool
  m_initializingRetry :: "32 word"
  written :: "qjobject list"
  connects :: "string list"
  signals :: "csignal list"

definition LocalSocketController_new :: LocalSocketController where
  "LocalSocketController_new =
     \<lparr>m_daemonState = eUnknown, m_buffer = [], m_logCallback = None, m_initializingTimer = False,
      m_initializingRetry = 0, written = [], connects = [], signals = []\<rparr>"

definition MAX_CONNECTION_RETRY :: "32 word" where "MAX_CONNECTION_RETRY = 10"

definition csignal_emit :: "csignal \<Rightarrow> LocalSocketController \<Rightarrow> LocalSocketController" where
  "csignal_emit s c = c\<lparr>signals := signals c @ [s]\<rparr>"

definition LocalSocketController_write :: "qjobject \<Rightarrow> LocalSocketController \<Rightarrow> LocalSocketController" where
  "LocalSocketController_write json c = c\<lparr>written := written c @ [json]\<rparr>"

section \<open>Connecting\<close>

definition LocalSocketController_disconnectInternal :: "LocalSocketController \<Rightarrow> LocalSocketController" where
  "LocalSocketController_disconnectInternal c =
     csignal_emit cdisconnected
       (c\<lparr>m_daemonState := eReady, m_initializingRetry := 0, m_initializingTimer := False\<rparr>)"

definition LocalSocketController_errorOccurred :: "LocalSocketController \<Rightarrow> LocalSocketController" where
  "LocalSocketController_errorOccurred c =
     (if m_daemonState c = eInitializing then
        (let retry = m_initializingRetry c; c = c\<lparr>m_initializingRetry := retry + 1\<rparr>
         in if retry < MAX_CONNECTION_RETRY then c\<lparr>m_initializingTimer := True\<rparr>
            else LocalSocketController_disconnectInternal (csignal_emit (initialized False False None) c))
      else LocalSocketController_disconnectInternal c)"

text \<open>\<open>varRun\<close>: does the socket below \<open>/var/run\<close> exist; \<open>win\<close>: a Windows build.\<close>

definition LocalSocketController_initializeInternal ::
  "bool \<Rightarrow> bool \<Rightarrow> LocalSocketController \<Rightarrow> LocalSocketController"
where
  "LocalSocketController_initializeInternal win varRun c =
     (let path = (if win then [CHR 0x5C, CHR 0x5C, CHR ''.'', CHR 0x5C] @ ''pipe'' @ [CHR 0x5C] @ ''amneziavpn''
                  else if varRun then ''/var/run/amneziavpn/daemon.socket''
                  else ''/tmp/amneziavpn.socket'')
      in c\<lparr>m_daemonState := eInitializing, connects := connects c @ [path]\<rparr>)"

definition LocalSocketController_initialize ::
  "bool \<Rightarrow> bool \<Rightarrow> LocalSocketController \<Rightarrow> LocalSocketController"
where
  "LocalSocketController_initialize win varRun c =
     LocalSocketController_initializeInternal win varRun (c\<lparr>m_initializingRetry := 0\<rparr>)"

definition LocalSocketController_checkStatus :: "LocalSocketController \<Rightarrow> LocalSocketController" where
  "LocalSocketController_checkStatus c =
     (if m_daemonState c = eReady \<or> m_daemonState c = eInitializing
      then LocalSocketController_write (json_insert ''type'' (JString ''status'') []) c else c)"

definition LocalSocketController_daemonConnected :: "LocalSocketController \<Rightarrow> LocalSocketController" where
  "LocalSocketController_daemonConnected c = LocalSocketController_checkStatus c"

section \<open>Requests\<close>

text \<open>\<open>QJsonObject::insert\<close> of an undefined value removes the key; in an array it is written as null.\<close>

definition json_put :: "string \<Rightarrow> qjson \<Rightarrow> qjobject \<Rightarrow> qjobject" where
  "json_put k v ob = (if v = JUndefined then qmap_remove k ob else json_insert k v ob)"

definition json_item :: "qjson \<Rightarrow> qjson" where
  "json_item v = (if v = JUndefined then JNull else v)"

text \<open>\<open>atoi\<close> of the C library, for numbers that fit an \<open>int\<close>.\<close>

definition is_digit :: "char \<Rightarrow> bool" where
  "is_digit c \<longleftrightarrow> CHR ''0'' \<le> c \<and> c \<le> CHR ''9''"

definition digits_value :: "string \<Rightarrow> int" where
  "digits_value = foldl (\<lambda>n c. 10 * n + (int (of_char c) - 48)) 0"

definition atoi :: "string \<Rightarrow> int" where
  "atoi s =
     (let s = dropWhile isSpace s
      in case s of
           [] \<Rightarrow> 0
         | c # s' \<Rightarrow> (if c = CHR ''-'' then - digits_value (takeWhile is_digit s')
                     else if c = CHR ''+'' then digits_value (takeWhile is_digit s')
                     else digits_value (takeWhile is_digit s)))"

definition range_object :: "string \<Rightarrow> int \<Rightarrow> bool \<Rightarrow> qjson" where
  "range_object address range6 v6 =
     JObject (json_insert ''isIpv6'' (JBool v6)
       (json_insert ''range'' (JDouble (of_int range6)) (json_insert ''address'' (JString address) [])))"

definition range_of_text :: "qjson \<Rightarrow> qjson" where
  "range_of_text v =
     (let ipRange = qs (json_toString v)
      in if length (split CHR ''/'' ipRange) > 1
         then range_object (split CHR ''/'' ipRange ! 0) (atoi (split CHR ''/'' ipRange ! 1)) False
         else range_object ipRange 32 False)"

definition allowed_ranges :: "qjson list \<Rightarrow> int \<Rightarrow> qjson list \<Rightarrow> qjson list" where
  "allowed_ranges plainAllowedIP splitTunnelType splitTunnelSites =
     (if plainAllowedIP \<noteq> [JString ''0.0.0.0/0'', JString ''::/0''] \<and> plainAllowedIP \<noteq> []
      then map range_of_text plainAllowedIP
      else (if splitTunnelType = 0 \<or> splitTunnelType = 2
            then [range_object ''0.0.0.0'' 0 False, range_object ''::'' 0 True] else []) @
           (if splitTunnelType = 1 then map range_of_text splitTunnelSites else []))"

definition excluded_addresses :: "qjson \<Rightarrow> int \<Rightarrow> qjson list \<Rightarrow> qjson list" where
  "excluded_addresses hostName splitTunnelType splitTunnelSites =
     json_item hostName #
     (if splitTunnelType = 2 then map (\<lambda>v. json_ofString (json_toString v)) splitTunnelSites else [])"

definition awg_keys :: "string list" where
  "awg_keys = [''Jc'', ''Jmin'', ''Jmax'', ''S1'', ''S2'', ''H1'', ''H2'', ''H3'', ''H4'']"

definition awg_members :: "string \<Rightarrow> qjobject \<Rightarrow> qjobject \<Rightarrow> qjobject" where
  "awg_members protocolName wgConfig json =
     (if protocolName = ''awg'' \<or> list_all (\<lambda>k. \<not> json_isUndefined (json_value wgConfig k)) awg_keys
      then fold (\<lambda>k. json_put k (json_value wgConfig k)) awg_keys json else json)"

definition activate_request :: "qjobject \<Rightarrow> qjobject" where
  "activate_request rawConfig =
     (let raw = json_value rawConfig;
          protocolName = qs (json_toString (raw ''protocol''));
          splitTunnelType = json_toInt (raw ''splitTunnelType'');
          splitTunnelSites = json_toArray (raw ''splitTunnelSites'');
          splitTunnelApps = json_toArray (raw ''splitTunnelApps'');
          wgConfig = json_toObject (raw (protocolName @ ''_config_data''));
          wg = json_value wgConfig;
          json = json_put ''type'' (JString ''activate'') [];
          json = json_put ''privateKey'' (wg ''client_priv_key'') json;
          json = json_put ''deviceIpv4Address'' (wg ''client_ip'') json;
          json = json_put ''deviceIpv6Address'' (JString ''fd58:baa6:dead::1'') json;
          json = json_put ''serverPublicKey'' (wg ''server_pub_key'') json;
          json = json_put ''serverPskKey'' (wg ''psk_key'') json;
          json = json_put ''serverIpv4AddrIn'' (wg ''hostName'') json;
          json = json_put ''deviceMTU'' (wg ''mtu'') json;
          json = json_put ''serverPort'' (JDouble (of_int (json_toInt (wg ''port'')))) json;
          json = json_put ''serverIpv4Gateway'' (wg ''hostName'') json;
          json = json_put ''dnsServer'' (raw ''dns1'') json;
          json = json_put ''allowedIPAddressRanges''
            (JArray (allowed_ranges (json_toArray (wg ''allowed_ips'')) splitTunnelType splitTunnelSites)) json;
          json = json_put ''excludedAddresses''
            (JArray (excluded_addresses (wg ''hostName'') splitTunnelType splitTunnelSites)) json;
          json = json_put ''vpnDisabledApps'' (JArray splitTunnelApps) json;
          json = json_put ''killSwitchOption'' (raw ''killSwitchOption'') json
      in awg_members protocolName wgConfig json)"

definition LocalSocketController_activate :: "qjobject \<Rightarrow> LocalSocketController \<Rightarrow> LocalSocketController" where
  "LocalSocketController_activate rawConfig c = LocalSocketController_write (activate_request rawConfig) c"

definition type_request :: "string \<Rightarrow> qjobject" where
  "type_request type = json_insert ''type'' (JString type) []"

definition LocalSocketController_deactivate :: "LocalSocketController \<Rightarrow> LocalSocketController" where
  "LocalSocketController_deactivate c =
     (if m_daemonState c \<noteq> eReady then csignal_emit cdisconnected c
      else csignal_emit cdisconnected (LocalSocketController_write (type_request ''deactivate'') c))"

definition flush_callback :: "LocalSocketController \<Rightarrow> LocalSocketController" where
  "flush_callback c =
     (case m_logCallback c of
        None \<Rightarrow> c
      | Some cb \<Rightarrow> (csignal_emit (logs_callback cb []) c)\<lparr>m_logCallback := None\<rparr>)"

definition LocalSocketController_getBackendLogs :: "nat \<Rightarrow> LocalSocketController \<Rightarrow> LocalSocketController" where
  "LocalSocketController_getBackendLogs a_callback c =
     (let c = flush_callback c
      in if m_daemonState c \<noteq> eReady then csignal_emit (logs_callback a_callback []) c
         else LocalSocketController_write (type_request ''logs'') (c\<lparr>m_logCallback := Some a_callback\<rparr>))"

definition LocalSocketController_cleanupBackendLogs :: "LocalSocketController \<Rightarrow> LocalSocketController" where
  "LocalSocketController_cleanupBackendLogs c =
     (let c = flush_callback c
      in if m_daemonState c \<noteq> eReady then c
         else LocalSocketController_write (type_request ''cleanlogs'') c)"

section \<open>Replies\<close>

definition parse_initial_status :: "Wire \<Rightarrow> qjobject \<Rightarrow> LocalSocketController \<Rightarrow> LocalSocketController" where
  "parse_initial_status W obj c =
     (case json_value obj ''connected'' of
        JBool True \<Rightarrow>
          (case json_value obj ''date'' of
             JString date \<Rightarrow>
               (case dateFromString W date of
                  None \<Rightarrow> c
                | Some t \<Rightarrow> csignal_emit (initialized True True (Some t)) c)
           | _ \<Rightarrow> c)
      | JBool False \<Rightarrow> csignal_emit (initialized True False None) c
      | _ \<Rightarrow> c)"

definition parse_status :: "qjobject \<Rightarrow> LocalSocketController \<Rightarrow> LocalSocketController" where
  "parse_status obj c =
     (case (json_value obj ''serverIpv4Gateway'', json_value obj ''deviceIpv4Address'',
            json_value obj ''txBytes'', json_value obj ''rxBytes'') of
        (JString gateway, JString address, JDouble tx, JDouble rx) \<Rightarrow>
          csignal_emit (statusUpdated gateway address tx rx) c
      | _ \<Rightarrow> c)"

definition parse_logs :: "qjobject \<Rightarrow> LocalSocketController \<Rightarrow> LocalSocketController" where
  "parse_logs obj c =
     (case m_logCallback c of
        None \<Rightarrow> c
      | Some cb \<Rightarrow>
          (let text = (case json_value obj ''logs'' of
                         JString s \<Rightarrow> map (\<lambda>x. if x = CHR ''|'' then newline else x) s | _ \<Rightarrow> [])
           in (csignal_emit (logs_callback cb text) c)\<lparr>m_logCallback := None\<rparr>))"

definition LocalSocketController_parseCommand ::
  "Wire \<Rightarrow> string \<Rightarrow> LocalSocketController \<Rightarrow> LocalSocketController"
where
  "LocalSocketController_parseCommand W command c =
     (case fromJson W command of
        JObject obj \<Rightarrow>
          (case json_value obj ''type'' of
             JString type \<Rightarrow>
               if m_daemonState c = eInitializing \<and> type = ''status''
               then parse_initial_status W obj (c\<lparr>m_daemonState := eReady\<rparr>)
               else if m_daemonState c \<noteq> eReady then c
               else if type = ''status'' then parse_status obj c
               else if type = ''disconnected'' then LocalSocketController_disconnectInternal c
               else if type = ''connected'' then
                 (case json_value obj ''pubkey'' of
                    JString pubkey \<Rightarrow> csignal_emit (cconnected pubkey) c | _ \<Rightarrow> c)
               else if type = ''backendFailure'' then c
               else if type = ''logs'' then parse_logs obj c
               else c
           | _ \<Rightarrow> c)
      | _ \<Rightarrow> c)"

lemma m_buffer_parts [simp]:
  "m_buffer (csignal_emit s c) = m_buffer c"
  "m_buffer (LocalSocketController_disconnectInternal c) = m_buffer c"
  "m_buffer (parse_initial_status W obj c) = m_buffer c"
  "m_buffer (parse_status obj c) = m_buffer c"
  "m_buffer (parse_logs obj c) = m_buffer c"
  by (simp_all add: csignal_emit_def LocalSocketController_disconnectInternal_def
      parse_initial_status_def parse_status_def parse_logs_def split: qjson.split option.split bool.split)

lemma m_buffer_parseCommand [simp]:
  "m_buffer (LocalSocketController_parseCommand W command c) = m_buffer c"
  by (simp add: LocalSocketController_parseCommand_def split: qjson.split)

function (sequential) readLoop :: "Wire \<Rightarrow> LocalSocketController \<Rightarrow> LocalSocketController" where
  "readLoop W c =
     (case take_line (m_buffer c) of
        None \<Rightarrow> c
      | Some (line, rest) \<Rightarrow>
          (let c = c\<lparr>m_buffer := rest\<rparr>; command = trimmed line
           in if command = [] then readLoop W c
              else readLoop W (LocalSocketController_parseCommand W command c)))"
  by pat_completeness auto
termination
  by (relation "measure (\<lambda>(W, c). length (m_buffer c))") (auto simp: take_line_shorter)

declare readLoop.simps [simp del]

definition LocalSocketController_readData ::
  "Wire \<Rightarrow> string \<Rightarrow> LocalSocketController \<Rightarrow> LocalSocketController"
where
  "LocalSocketController_readData W input c = readLoop W (c\<lparr>m_buffer := m_buffer c @ input\<rparr>)"

section \<open>Reading\<close>

lemma set_buffer_parts:
  "csignal_emit s (c\<lparr>m_buffer := b\<rparr>) = (csignal_emit s c)\<lparr>m_buffer := b\<rparr>"
  "LocalSocketController_disconnectInternal (c\<lparr>m_buffer := b\<rparr>) =
    (LocalSocketController_disconnectInternal c)\<lparr>m_buffer := b\<rparr>"
  "parse_initial_status W obj (c\<lparr>m_buffer := b\<rparr>) = (parse_initial_status W obj c)\<lparr>m_buffer := b\<rparr>"
  "parse_status obj (c\<lparr>m_buffer := b\<rparr>) = (parse_status obj c)\<lparr>m_buffer := b\<rparr>"
  "parse_logs obj (c\<lparr>m_buffer := b\<rparr>) = (parse_logs obj c)\<lparr>m_buffer := b\<rparr>"
  by (simp_all add: csignal_emit_def LocalSocketController_disconnectInternal_def
      parse_initial_status_def parse_status_def parse_logs_def split: qjson.split option.split bool.split)

lemma parseCommand_set_buffer:
  "LocalSocketController_parseCommand W command (c\<lparr>m_buffer := b\<rparr>) =
    (LocalSocketController_parseCommand W command c)\<lparr>m_buffer := b\<rparr>"
proof -
  have swap: "c\<lparr>m_buffer := b, m_daemonState := eReady\<rparr> = c\<lparr>m_daemonState := eReady, m_buffer := b\<rparr>" by simp
  have ready: "parse_initial_status W obj (c\<lparr>m_buffer := b, m_daemonState := eReady\<rparr>) =
      (parse_initial_status W obj (c\<lparr>m_daemonState := eReady\<rparr>))\<lparr>m_buffer := b\<rparr>" for obj
    unfolding swap by (rule set_buffer_parts)
  note simps = LocalSocketController_parseCommand_def ready set_buffer_parts
  show ?thesis
  proof (cases "fromJson W command")
    case (JObject obj)
    then show ?thesis
    proof (cases "json_value obj ''type''")
      case (JString type)
      with JObject show ?thesis
        by (cases "json_value obj ''pubkey''") (simp_all add: simps)
    qed (simp_all add: simps)
  qed (simp_all add: simps)
qed

interpretation controller: line_reader m_buffer "\<lambda>b c. c\<lparr>m_buffer := b\<rparr>"
  "LocalSocketController_parseCommand W" "LocalSocketController_readData W" for W
proof unfold_locales
  fix c :: LocalSocketController and input line rest
  assume "take_line (m_buffer c @ input) = Some (line, rest)"
  then show "LocalSocketController_readData W input c = LocalSocketController_readData W []
     (if trimmed line = [] then c\<lparr>m_buffer := rest\<rparr>
      else LocalSocketController_parseCommand W (trimmed line) (c\<lparr>m_buffer := rest\<rparr>))"
    unfolding LocalSocketController_readData_def
    by (subst readLoop.simps) (simp add: Let_def parseCommand_set_buffer)
next
  fix c :: LocalSocketController and input
  assume "take_line (m_buffer c @ input) = None"
  then show "LocalSocketController_readData W input c = c\<lparr>m_buffer := m_buffer c @ input\<rparr>"
    unfolding LocalSocketController_readData_def by (subst readLoop.simps) simp
qed (simp_all add: parseCommand_set_buffer)

text \<open>
  The reader of the client does not depend on how the socket cuts the stream: reading chunk
  after chunk leaves the controller in the state that one read of the whole stream gives, which is
  to handle every complete line in order and to keep the rest.
\<close>

theorem readData_chunks:
  "fold (LocalSocketController_readData W) chunks (LocalSocketController_readData W [] c) =
     LocalSocketController_readData W (concat chunks) c \<and>
   LocalSocketController_readData W input c =
     (fold (LocalSocketController_parseCommand W) (commands (m_buffer c @ input)) c)
       \<lparr>m_buffer := remainder (m_buffer c @ input)\<rparr>"
  using controller.read_all [of W chunks c] controller.read_eq [of W input c] by simp

section \<open>The life of the controller\<close>

text \<open>What can happen to a controller after \<open>initialize\<close>: calls of the client and events of the socket.\<close>

inductive controller_step :: "Wire \<Rightarrow> LocalSocketController \<Rightarrow> LocalSocketController \<Rightarrow> bool" for W where
  error: "controller_step W c (LocalSocketController_errorOccurred c)"
| retry: "m_initializingTimer c \<Longrightarrow>
    controller_step W c (LocalSocketController_initializeInternal win varRun (c\<lparr>m_initializingTimer := False\<rparr>))"
| connected: "m_daemonState c = eInitializing \<Longrightarrow> controller_step W c (LocalSocketController_daemonConnected c)"
| data: "controller_step W c (LocalSocketController_readData W input c)"
| activate: "controller_step W c (LocalSocketController_activate rawConfig c)"
| deactivate: "controller_step W c (LocalSocketController_deactivate c)"
| status: "controller_step W c (LocalSocketController_checkStatus c)"
| logs: "controller_step W c (LocalSocketController_getBackendLogs cb c)"
| cleanup: "controller_step W c (LocalSocketController_cleanupBackendLogs c)"

inductive controller_reach :: "Wire \<Rightarrow> LocalSocketController \<Rightarrow> bool" for W where
  start: "controller_reach W (LocalSocketController_initialize win varRun LocalSocketController_new)"
| step: "controller_reach W c \<Longrightarrow> controller_step W c c' \<Longrightarrow> controller_reach W c'"

definition controller_inv :: "LocalSocketController \<Rightarrow> bool" where
  "controller_inv c \<longleftrightarrow> m_daemonState c \<in> {eInitializing, eReady} \<and> m_initializingRetry c \<le> MAX_CONNECTION_RETRY"

lemma inv_emit [simp]: "controller_inv (csignal_emit s c) = controller_inv c"
  "controller_inv (LocalSocketController_write json c) = controller_inv c"
  "controller_inv (c\<lparr>m_buffer := b\<rparr>) = controller_inv c"
  "controller_inv (c\<lparr>m_logCallback := cb\<rparr>) = controller_inv c"
  "controller_inv (c\<lparr>m_initializingTimer := t\<rparr>) = controller_inv c"
  by (simp_all add: controller_inv_def csignal_emit_def LocalSocketController_write_def)

lemma inv_disconnect [simp]: "controller_inv (LocalSocketController_disconnectInternal c)"
  by (simp add: controller_inv_def LocalSocketController_disconnectInternal_def csignal_emit_def)

lemma inv_flush [simp]: "controller_inv (flush_callback c) = controller_inv c"
  by (simp add: flush_callback_def split: option.split)

lemma inv_replies [simp]:
  "controller_inv (parse_initial_status W obj c) = controller_inv c"
  "controller_inv (parse_status obj c) = controller_inv c"
  "controller_inv (parse_logs obj c) = controller_inv c"
  by (simp_all add: parse_initial_status_def parse_status_def parse_logs_def
      split: qjson.split option.split bool.split)

lemma inv_parse:
  assumes "controller_inv c"
  shows "controller_inv (LocalSocketController_parseCommand W command c)"
proof (cases "fromJson W command")
  case (JObject obj)
  have "controller_inv (c\<lparr>m_daemonState := eReady\<rparr>)" using assms by (simp add: controller_inv_def)
  with assms JObject show ?thesis
    by (cases "json_value obj ''type''"; cases "json_value obj ''pubkey''")
      (simp_all add: LocalSocketController_parseCommand_def)
qed (simp_all add: LocalSocketController_parseCommand_def assms)

lemma inv_readData: "controller_inv c \<Longrightarrow> controller_inv (LocalSocketController_readData W input c)"
proof -
  have "controller_inv (fold (LocalSocketController_parseCommand W) cs c)" if "controller_inv c" for cs
    using that by (induction cs arbitrary: c) (simp_all add: inv_parse)
  then show "controller_inv c \<Longrightarrow> controller_inv (LocalSocketController_readData W input c)"
    by (simp add: controller.read_eq)
qed

lemma inv_error: "controller_inv c \<Longrightarrow> controller_inv (LocalSocketController_errorOccurred c)"
  by (auto simp: LocalSocketController_errorOccurred_def Let_def controller_inv_def MAX_CONNECTION_RETRY_def
      LocalSocketController_disconnectInternal_def csignal_emit_def inc_le)

lemma controller_step_inv: "controller_step W c c' \<Longrightarrow> controller_inv c \<Longrightarrow> controller_inv c'"
  by (induction rule: controller_step.induct)
    (simp_all add: inv_error inv_readData LocalSocketController_daemonConnected_def
      LocalSocketController_checkStatus_def LocalSocketController_activate_def LocalSocketController_deactivate_def
      LocalSocketController_getBackendLogs_def LocalSocketController_cleanupBackendLogs_def Let_def,
     simp add: controller_inv_def LocalSocketController_initializeInternal_def)

text \<open>
  C17: Once initialised the controller is always initialising or ready, so the assertions of
  \<open>readData\<close> hold on every reply, and its retry counter stays within the limit, so its increment never
  wraps.
\<close>

theorem controller_invariant:
  assumes "controller_reach W c"
  shows "m_daemonState c \<in> {eInitializing, eReady} \<and> m_initializingRetry c \<le> MAX_CONNECTION_RETRY"
proof -
  have "controller_inv c" using assms
  proof induction
    case (start win varRun)
    show ?case
      by (simp add: controller_inv_def LocalSocketController_initialize_def
          LocalSocketController_initializeInternal_def LocalSocketController_new_def)
  qed (rule controller_step_inv)
  then show ?thesis by (simp add: controller_inv_def)
qed

definition sample_wire :: Wire where
  "sample_wire = \<lparr>fromJson = (\<lambda>_. JNull), toJson = (\<lambda>_. ''{}''), dateFromString = (\<lambda>_. None)\<rparr>"

theorem controller_invariant_witness:
  "m_daemonState (LocalSocketController_deactivate
     (LocalSocketController_initialize False True LocalSocketController_new)) = eInitializing \<and>
   m_initializingRetry (LocalSocketController_deactivate
     (LocalSocketController_initialize False True LocalSocketController_new)) \<le> MAX_CONNECTION_RETRY"
  using controller_invariant [OF controller_reach.step
      [OF controller_reach.start [of sample_wire False True] controller_step.deactivate]]
  by (simp add: LocalSocketController_deactivate_def LocalSocketController_initialize_def csignal_emit_def
      LocalSocketController_initializeInternal_def)

text \<open>One failed attempt: the error, and the next attempt when the retry timer was started.\<close>

definition failed_attempt :: "bool \<Rightarrow> bool \<Rightarrow> LocalSocketController \<Rightarrow> LocalSocketController" where
  "failed_attempt win varRun c =
     (let c = LocalSocketController_errorOccurred c
      in if m_initializingTimer c
         then LocalSocketController_initializeInternal win varRun (c\<lparr>m_initializingTimer := False\<rparr>) else c)"

lemma failed_attempts:
  assumes "n \<le> 10"
  shows "let c = (failed_attempt win varRun ^^ n) (LocalSocketController_initialize win varRun LocalSocketController_new)
    in m_daemonState c = eInitializing \<and> m_initializingRetry c = of_nat n \<and> \<not> m_initializingTimer c \<and>
       signals c = [] \<and> length (connects c) = n + 1"
  using assms
proof (induction n)
  case 0
  show ?case
    by (simp add: LocalSocketController_initialize_def LocalSocketController_initializeInternal_def
        LocalSocketController_new_def)
next
  case (Suc n)
  then have "(of_nat n :: 32 word) < MAX_CONNECTION_RETRY"
    by (simp add: MAX_CONNECTION_RETRY_def word_less_nat_alt unat_of_nat)
  with Suc show ?case
    by (simp add: Let_def failed_attempt_def LocalSocketController_errorOccurred_def
        LocalSocketController_initializeInternal_def add.commute)
qed

text \<open>
  C40: Connecting gives up: after ten retries, that is at the eleventh failure, the controller has
  made eleven attempts, reports failed initialisation and disconnection once, and is ready for a new
  connection; before that it stays silent.
\<close>

theorem connection_gives_up:
  "let c = (failed_attempt win varRun ^^ 10) (LocalSocketController_initialize win varRun LocalSocketController_new);
       c' = failed_attempt win varRun c
   in signals c = [] \<and> length (connects c) = 11 \<and> connects c' = connects c \<and>
      signals c' = [initialized False False None, cdisconnected] \<and>
      m_daemonState c' = eReady \<and> m_initializingRetry c' = 0 \<and> \<not> m_initializingTimer c'"
  using failed_attempts [of 10 win varRun]
  by (simp add: Let_def failed_attempt_def LocalSocketController_errorOccurred_def MAX_CONNECTION_RETRY_def
      LocalSocketController_disconnectInternal_def csignal_emit_def)

end
