(* ===== verification/Json_Struct.thy ===== *)
theory Json_Struct
  imports Local_Socket
begin

text \<open>
  The JSON helpers of the client: \<open>QJsonIO\<close> (\<open>client/3rd/QJsonStruct/QJsonIO.hpp\<close>), which reads
  and writes a value at a path of keys and indices, and the structures of
  \<open>client/core/serialization/transfer.h\<close>, whose \<open>toJson\<close> and \<open>loadJson\<close> the macros of
  \<open>QJsonStruct.hpp\<close> generate from a list of fields.

  A path is a list of keys and indices. A structure is a record with a default value (its member
  initialisers); \<open>F_field\<close> and \<open>F_load\<close> are the generated code of a field registered with \<open>F\<close>,
  which is left out when it has its default value, and \<open>A_field\<close> that of a field registered with
  \<open>A\<close>, which is always written. Fields of type \<open>int\<close> are integers, the well-formedness
  predicates (\<open>_ok\<close>) keep them within 32 bits and a \<open>QMap\<close> sorted.
\<close>

named_theorems struct_simps "round trips of the generated serialisers"

section \<open>Paths into a JSON value\<close>

datatype QJsonIOPathType = JSONIO_MODE_OBJECT string | JSONIO_MODE_ARRAY nat

type_synonym QJsonIOPath = "QJsonIOPathType list"

definition element_at :: "qjson list \<Rightarrow> nat \<Rightarrow> qjson" where
  "element_at xs i = (if i < length xs then xs ! i else JUndefined)"

fun path_step :: "qjson \<Rightarrow> QJsonIOPathType \<Rightarrow> qjson" where
  "path_step v (JSONIO_MODE_ARRAY i) = element_at (json_toArray v) i"
| "path_step v (JSONIO_MODE_OBJECT k) = json_value (json_toObject v) k"

definition QJsonIO_GetValue :: "qjson \<Rightarrow> QJsonIOPath \<Rightarrow> qjson \<Rightarrow> qjson" where
  "QJsonIO_GetValue parent path defaultValue =
     (let v = foldl path_step parent path in if v = JUndefined then defaultValue else v)"

text \<open>One element of the stack: the array is extended with nulls up to the index.\<close>

fun store_step :: "QJsonIOPathType \<Rightarrow> qjson \<Rightarrow> qjson \<Rightarrow> qjson" where
  "store_step (JSONIO_MODE_ARRAY i) node lastNode =
     (let xs = json_toArray node in
      JArray ((xs @ replicate (Suc i - length xs) JNull)[i := json_item lastNode]))"
| "store_step (JSONIO_MODE_OBJECT k) node lastNode =
     JObject (json_put k lastNode (json_toObject node))"

fun QJsonIO_SetPath :: "qjson \<Rightarrow> qjson \<Rightarrow> QJsonIOPath \<Rightarrow> qjson" where
  "QJsonIO_SetPath node t [] = t"
| "QJsonIO_SetPath node t (key # path) =
     store_step key node (QJsonIO_SetPath (path_step node key) t path)"

definition QJsonIO_SetValue :: "qjobject \<Rightarrow> qjson \<Rightarrow> QJsonIOPath \<Rightarrow> qjobject" where
  "QJsonIO_SetValue parent t path = json_toObject (QJsonIO_SetPath (JObject parent) t path)"

abbreviation key_at :: "string \<Rightarrow> QJsonIOPathType" where
  "key_at \<equiv> JSONIO_MODE_OBJECT"

abbreviation index_at :: "nat \<Rightarrow> QJsonIOPathType" where
  "index_at \<equiv> JSONIO_MODE_ARRAY"

text \<open>Two paths that part at a key or an index, neither running through the other.\<close>

fun part :: "QJsonIOPath \<Rightarrow> QJsonIOPath \<Rightarrow> bool" where
  "part (JSONIO_MODE_OBJECT a # p) (JSONIO_MODE_OBJECT b # q) \<longleftrightarrow> a \<noteq> b \<or> part p q"
| "part (JSONIO_MODE_ARRAY i # p) (JSONIO_MODE_ARRAY j # q) \<longleftrightarrow> i \<noteq> j \<or> part p q"
| "part _ _ \<longleftrightarrow> False"

text \<open>
  What the users of such a store rely on: a value written is read back, and a value at a path
  that parts from the one written keeps its value.
\<close>

locale path_store =
  fixes fetch :: "'s \<Rightarrow> 'p \<Rightarrow> 'v" and store :: "'s \<Rightarrow> 'v \<Rightarrow> 'p \<Rightarrow> 's"
    and apart :: "'p \<Rightarrow> 'p \<Rightarrow> bool" and path_ok :: "'p \<Rightarrow> bool" and valid :: "'v \<Rightarrow> bool"
  assumes fetch_store: "path_ok p \<Longrightarrow> valid v \<Longrightarrow> fetch (store s v p) p = v"
    and fetch_apart: "path_ok p \<Longrightarrow> valid v \<Longrightarrow> apart p q \<Longrightarrow> valid (fetch s q) \<Longrightarrow>
      fetch (store s v p) q = fetch s q"
begin

lemma fetch_kept:
  "list_all (\<lambda>(p, v). path_ok p \<and> valid v \<and> apart p q) ws \<Longrightarrow> valid (fetch s q) \<Longrightarrow>
   fetch (foldl (\<lambda>s (p, v). store s v p) s ws) q = fetch s q"
  by (induction ws arbitrary: s) (auto simp: fetch_apart)

lemma fetch_written:
  "path_ok q \<Longrightarrow> valid v \<Longrightarrow> list_all (\<lambda>(p, v). path_ok p \<and> valid v \<and> apart p q) ws \<Longrightarrow>
   fetch (foldl (\<lambda>s (p, v). store s v p) s ((q, v) # ws)) q = v"
  using fetch_kept [of q ws "store s v q"] by (simp add: fetch_store)

end

lemma path_store_step: "v \<noteq> JUndefined \<Longrightarrow> path_step (store_step k node v) k = v"
  by (cases k) (simp_all add: element_at_def json_item_def json_put_def Let_def)

lemma store_step_other:
  "part [k] [k'] \<Longrightarrow> path_step node k' \<noteq> JUndefined \<Longrightarrow> path_step (store_step k node v) k' = path_step node k'"
  by (cases "([k], [k'])" rule: part.cases)
    (auto simp: element_at_def json_put_def json_value_def Let_def nth_append split: if_splits)

lemma SetPath_defined: "t \<noteq> JUndefined \<Longrightarrow> QJsonIO_SetPath node t p \<noteq> JUndefined"
  by (cases p; cases "hd p") (auto simp: Let_def)

lemma foldl_undefined: "foldl path_step JUndefined q = JUndefined \<or> q = []"
proof (induction q)
  case (Cons k q)
  then show ?case by (cases k) (auto simp: element_at_def)
qed simp

lemma GetValue_SetPath:
  "t \<noteq> JUndefined \<Longrightarrow> foldl path_step (QJsonIO_SetPath node t p) p = t"
proof (induction p arbitrary: node)
  case (Cons k p)
  then show ?case by (simp add: path_store_step SetPath_defined)
qed simp

lemma GetValue_other:
  assumes "part p q" "foldl path_step node q \<noteq> JUndefined" "t \<noteq> JUndefined"
  shows "foldl path_step (QJsonIO_SetPath node t p) q = foldl path_step node q"
  using assms(1,2)
proof (induction p q arbitrary: node rule: part.induct)
  case (1 a p b q)
  then show ?case
  proof (cases "a = b")
    case False
    then show ?thesis by (simp add: json_put_def json_value_def)
  next
    case True
    with 1 show ?thesis
      by (simp add: path_store_step SetPath_defined assms(3) del: path_step.simps store_step.simps)
  qed
next
  case (2 i p j q)
  show ?case
  proof (cases "i = j")
    case False
    have "path_step node (index_at j) \<noteq> JUndefined"
      using 2(3) foldl_undefined [of q] by (cases q) auto
    then have "path_step (QJsonIO_SetPath node t (index_at i # p)) (index_at j) = path_step node (index_at j)"
      unfolding QJsonIO_SetPath.simps by (intro store_step_other) (simp add: False)
    then show ?thesis by (simp only: foldl.simps)
  next
    case True
    with 2 show ?thesis
      by (simp add: path_store_step SetPath_defined assms(3) del: path_step.simps store_step.simps)
  qed
qed simp_all

text \<open>A path into an object starts with a key.\<close>

fun object_path :: "QJsonIOPath \<Rightarrow> bool" where
  "object_path (JSONIO_MODE_OBJECT k # p) = True"
| "object_path _ = False"

definition path_value :: "qjobject \<Rightarrow> QJsonIOPath \<Rightarrow> qjson" where
  "path_value ob p = QJsonIO_GetValue (JObject ob) p JUndefined"

lemma path_value_foldl: "path_value ob p = foldl path_step (JObject ob) p"
  by (simp add: path_value_def QJsonIO_GetValue_def Let_def)

lemma SetValue_object:
  "object_path p \<Longrightarrow> JObject (QJsonIO_SetValue ob v p) = QJsonIO_SetPath (JObject ob) v p"
  by (cases p rule: object_path.cases) (simp_all add: QJsonIO_SetValue_def)

interpretation jpath: path_store path_value QJsonIO_SetValue part object_path "\<lambda>v. v \<noteq> JUndefined"
  by unfold_locales (simp_all add: path_value_foldl SetValue_object GetValue_SetPath GetValue_other)

definition SetValues :: "qjobject \<Rightarrow> (QJsonIOPath \<times> qjson) list \<Rightarrow> qjobject" where
  "SetValues ob ws = foldl (\<lambda>ob (p, v). QJsonIO_SetValue ob v p) ob ws"

section \<open>The generated serialisers\<close>

fun json_toBool :: "qjson \<Rightarrow> bool" where
  "json_toBool (JBool b) = b"
| "json_toBool _ = False"

definition json_string :: "qjson \<Rightarrow> string" where
  "json_string v = qs (json_toString v)"

definition serInt :: "int \<Rightarrow> qjson" where
  "serInt i = JDouble (of_int i)"

definition serList :: "('a \<Rightarrow> qjson) \<Rightarrow> 'a list \<Rightarrow> qjson" where
  "serList ser xs = JArray (map ser xs)"

definition desList :: "(qjson \<Rightarrow> 'a) \<Rightarrow> qjson \<Rightarrow> 'a list" where
  "desList des v = map des (json_toArray v)"

definition serMap :: "('a \<Rightarrow> qjson) \<Rightarrow> (string \<times> 'a) list \<Rightarrow> qjson" where
  "serMap ser m = JObject (foldl (\<lambda>ob e. json_insert (fst e) (ser (snd e)) ob) [] m)"

definition desMap :: "(qjson \<Rightarrow> 'a) \<Rightarrow> qjson \<Rightarrow> (string \<times> 'a) list" where
  "desMap des v = foldl (\<lambda>m e. qmap_insert (fst e) (des (snd e)) m) [] (json_toObject v)"

definition F_field :: "string \<Rightarrow> 'a \<Rightarrow> ('a \<Rightarrow> qjson) \<Rightarrow> 'a \<Rightarrow> qjobject \<Rightarrow> qjobject" where
  "F_field k default_check ser v ob = (if default_check = v then ob else json_insert k (ser v) ob)"

definition A_field :: "string \<Rightarrow> ('a \<Rightarrow> qjson) \<Rightarrow> 'a \<Rightarrow> qjobject \<Rightarrow> qjobject" where
  "A_field k ser v ob = json_insert k (ser v) ob"

definition F_load :: "string \<Rightarrow> 'a \<Rightarrow> (qjson \<Rightarrow> 'a) \<Rightarrow> qjson \<Rightarrow> 'a" where
  "F_load k default_check des j =
     (if json_contains (json_toObject j) k then des (json_value (json_toObject j) k) else default_check)"

definition int32 :: "int \<Rightarrow> bool" where
  "int32 i \<longleftrightarrow> - (2 ^ 31) \<le> i \<and> i < 2 ^ 31"

lemma other_field [struct_simps]:
  "k' \<noteq> k \<Longrightarrow> F_load k d des (JObject (F_field k' d' ser v ob)) = F_load k d des (JObject ob)"
  "k' \<noteq> k \<Longrightarrow> F_load k d des (JObject (A_field k' ser v ob)) = F_load k d des (JObject ob)"
  "k' \<noteq> k \<Longrightarrow> qmap_contains (F_field k' d' ser v ob) k \<longleftrightarrow> qmap_contains ob k"
  "k' \<noteq> k \<Longrightarrow> qmap_contains (A_field k' ser v ob) k \<longleftrightarrow> qmap_contains ob k"
  by (auto simp: F_load_def F_field_def A_field_def)

lemma own_field [struct_simps]:
  "\<not> qmap_contains ob k \<Longrightarrow> (d \<noteq> v \<Longrightarrow> des (ser v) = v) \<Longrightarrow>
   F_load k d des (JObject (F_field k d ser v ob)) = v"
  "des (ser v) = v \<Longrightarrow> F_load k d des (JObject (A_field k ser v ob)) = v"
  by (auto simp: F_load_def F_field_def A_field_def)

lemma value_roundtrips [struct_simps]:
  "json_string (JString s) = s" "json_toBool (JBool b) = b"
  "int32 i \<Longrightarrow> json_toInt (serInt i) = i"
  by (simp_all add: json_string_def serInt_def int32_def)

lemma serInt_defined [simp]: "serInt i \<noteq> JUndefined"
  by (simp add: serInt_def)

lemma list_roundtrip [struct_simps]:
  "(\<And>x. x \<in> set xs \<Longrightarrow> des (ser x) = x) \<Longrightarrow> desList des (serList ser xs) = xs"
  by (simp add: desList_def serList_def map_idI)

lemma insert_beyond:
  "\<forall>x \<in> fst ` set m. x < k \<Longrightarrow> qmap_insert k v m = m @ [(k, v)]"
  by (induction m) (auto simp: qmap_insert.simps)

lemma fold_sorted:
  "qmap_ok (acc @ m) \<Longrightarrow>
   foldl (\<lambda>m e. qmap_insert (fst e) (f (snd e)) m) (map (apsnd f) acc) m =
   map (apsnd f) (acc @ m)"
proof (induction m arbitrary: acc)
  case (Cons e m)
  have "\<forall>x \<in> fst ` set (map (apsnd f) acc). x < fst e"
    using Cons.prems by (auto simp: qmap_ok_def sorted_wrt_append)
  then have "qmap_insert (fst e) (f (snd e)) (map (apsnd f) acc) = map (apsnd f) (acc @ [e])"
    by (simp add: insert_beyond prod_eq_iff)
  then show ?case using Cons.IH [of "acc @ [e]"] Cons.prems by simp
qed simp

lemma map_roundtrip [struct_simps]:
  assumes "\<And>x. des (ser x) = x" "qmap_ok m"
  shows "desMap des (serMap ser m) = m"
proof -
  have 1: "foldl (\<lambda>ob e. json_insert (fst e) (ser (snd e)) ob) [] m = map (apsnd ser) m"
    using fold_sorted [of "[]" m ser] assms(2) by simp
  have "qmap_ok (map (apsnd ser) m)" using assms(2) by (simp add: qmap_ok_def comp_def)
  then have "foldl (\<lambda>m e. qmap_insert (fst e) (des (snd e)) m) [] (map (apsnd ser) m) =
      map (apsnd des) (map (apsnd ser) m)"
    using fold_sorted [of "[]" "map (apsnd ser) m" des] by simp
  also have "\<dots> = m" by (induction m) (auto simp: assms(1))
  finally show ?thesis by (simp add: desMap_def serMap_def 1)
qed

section \<open>The structures\<close>

definition request_headers :: "(string \<times> string list) list" where
  "request_headers =
     [(''Accept-Encoding'', [''gzip, deflate'']), (''Connection'', [''keep-alive'']),
      (''Host'', [''www.baidu.com'', ''www.bing.com'']), (''Pragma'', [''no-cache'']),
      (''User-Agent'',
       [''Mozilla/5.0 (Windows NT 10.0; WOW64) AppleWebKit/537.36 (KHTML, like Gecko) Chrome/53.0.2785.143 Safari/537.36'',
        ''Mozilla/5.0 (iPhone; CPU iPhone OS 10_0_2 like Mac OS X) AppleWebKit/601.1 (KHTML, like Gecko) CriOS/53.0.2785.109 Mobile/14A456 Safari/601.1.46''])]"

record HTTPRequestObject =
  rq_version :: string
  rq_method :: string
  rq_path :: "string list"
  rq_headers :: "(string \<times> string list) list"

definition HTTPRequestObject_default :: HTTPRequestObject where
  "HTTPRequestObject_default =
     \<lparr>rq_version = ''1.1'',
      rq_method = ''GET'',
      rq_path = [''/''],
      rq_headers = request_headers\<rparr>"

definition HTTPRequestObject_toJson :: "HTTPRequestObject \<Rightarrow> qjobject" where
  "HTTPRequestObject_toJson x =
     (F_field ''headers'' (rq_headers HTTPRequestObject_default) (serMap (serList JString)) (rq_headers x)
     (F_field ''path'' (rq_path HTTPRequestObject_default) (serList JString) (rq_path x)
     (F_field ''method'' (rq_method HTTPRequestObject_default) JString (rq_method x)
     (F_field ''version'' (rq_version HTTPRequestObject_default) JString (rq_version x) []))))"

definition HTTPRequestObject_fromJson :: "qjson \<Rightarrow> HTTPRequestObject" where
  "HTTPRequestObject_fromJson j =
     \<lparr>rq_version = F_load ''version'' (rq_version HTTPRequestObject_default) json_string j,
      rq_method = F_load ''method'' (rq_method HTTPRequestObject_default) json_string j,
      rq_path = F_load ''path'' (rq_path HTTPRequestObject_default) (desList json_string) j,
      rq_headers = F_load ''headers'' (rq_headers HTTPRequestObject_default) (desMap (desList json_string)) j\<rparr>"

definition response_headers :: "(string \<times> string list) list" where
  "response_headers =
     [(''Connection'', [''keep-alive'']),
      (''Content-Type'', [''application/octet-stream'', ''video/mpeg'']),
      (''Pragma'', [''no-cache'']), (''Transfer-Encoding'', [''chunked''])]"

record HTTPResponseObject =
  rs_version :: string
  rs_status :: string
  rs_reason :: string
  rs_headers :: "(string \<times> string list) list"

definition HTTPResponseObject_default :: HTTPResponseObject where
  "HTTPResponseObject_default =
     \<lparr>rs_version = ''1.1'',
      rs_status = ''200'',
      rs_reason = ''OK'',
      rs_headers = response_headers\<rparr>"

definition HTTPResponseObject_toJson :: "HTTPResponseObject \<Rightarrow> qjobject" where
  "HTTPResponseObject_toJson x =
     (F_field ''headers'' (rs_headers HTTPResponseObject_default) (serMap (serList JString)) (rs_headers x)
     (F_field ''reason'' (rs_reason HTTPResponseObject_default) JString (rs_reason x)
     (F_field ''status'' (rs_status HTTPResponseObject_default) JString (rs_status x)
     (F_field ''version'' (rs_version HTTPResponseObject_default) JString (rs_version x) []))))"

definition HTTPResponseObject_fromJson :: "qjson \<Rightarrow> HTTPResponseObject" where
  "HTTPResponseObject_fromJson j =
     \<lparr>rs_version = F_load ''version'' (rs_version HTTPResponseObject_default) json_string j,
      rs_status = F_load ''status'' (rs_status HTTPResponseObject_default) json_string j,
      rs_reason = F_load ''reason'' (rs_reason HTTPResponseObject_default) json_string j,
      rs_headers = F_load ''headers'' (rs_headers HTTPResponseObject_default) (desMap (desList json_string)) j\<rparr>"

record TCPHeader_Internal =
  th_type :: string
  th_request :: HTTPRequestObject
  th_response :: HTTPResponseObject

definition TCPHeader_Internal_default :: TCPHeader_Internal where
  "TCPHeader_Internal_default =
     \<lparr>th_type = ''none'',
      th_request = HTTPRequestObject_default,
      th_response = HTTPResponseObject_default\<rparr>"

definition TCPHeader_Internal_toJson :: "TCPHeader_Internal \<Rightarrow> qjobject" where
  "TCPHeader_Internal_toJson x =
     (F_field ''response'' (th_response TCPHeader_Internal_default) (\<lambda>v. JObject (HTTPResponseObject_toJson v)) (th_response x)
     (F_field ''request'' (th_request TCPHeader_Internal_default) (\<lambda>v. JObject (HTTPRequestObject_toJson v)) (th_request x)
     (A_field ''type'' JString (th_type x) [])))"

definition TCPHeader_Internal_fromJson :: "qjson \<Rightarrow> TCPHeader_Internal" where
  "TCPHeader_Internal_fromJson j =
     \<lparr>th_type = F_load ''type'' (th_type TCPHeader_Internal_default) json_string j,
      th_request = F_load ''request'' (th_request TCPHeader_Internal_default) HTTPRequestObject_fromJson j,
      th_response = F_load ''response'' (th_response TCPHeader_Internal_default) HTTPResponseObject_fromJson j\<rparr>"

record ObfsHeaderObject =
  ob_type :: string

definition ObfsHeaderObject_default :: ObfsHeaderObject where
  "ObfsHeaderObject_default =
     \<lparr>ob_type = ''none''\<rparr>"

definition ObfsHeaderObject_toJson :: "ObfsHeaderObject \<Rightarrow> qjobject" where
  "ObfsHeaderObject_toJson x =
     (F_field ''type'' (ob_type ObfsHeaderObject_default) JString (ob_type x) [])"

definition ObfsHeaderObject_fromJson :: "qjson \<Rightarrow> ObfsHeaderObject" where
  "ObfsHeaderObject_fromJson j =
     \<lparr>ob_type = F_load ''type'' (ob_type ObfsHeaderObject_default) json_string j\<rparr>"

record TCPObject =
  tcp_header :: TCPHeader_Internal

definition TCPObject_default :: TCPObject where
  "TCPObject_default =
     \<lparr>tcp_header = TCPHeader_Internal_default\<rparr>"

definition TCPObject_toJson :: "TCPObject \<Rightarrow> qjobject" where
  "TCPObject_toJson x =
     (F_field ''header'' (tcp_header TCPObject_default) (\<lambda>v. JObject (TCPHeader_Internal_toJson v)) (tcp_header x) [])"

definition TCPObject_fromJson :: "qjson \<Rightarrow> TCPObject" where
  "TCPObject_fromJson j =
     \<lparr>tcp_header = F_load ''header'' (tcp_header TCPObject_default) TCPHeader_Internal_fromJson j\<rparr>"

record KCPObject =
  kcp_mtu :: int
  kcp_tti :: int
  kcp_uplinkCapacity :: int
  kcp_downlinkCapacity :: int
  kcp_congestion :: bool
  kcp_readBufferSize :: int
  kcp_writeBufferSize :: int
  kcp_header :: ObfsHeaderObject
  kcp_seed :: string

definition KCPObject_default :: KCPObject where
  "KCPObject_default =
     \<lparr>kcp_mtu = 1350,
      kcp_tti = 50,
      kcp_uplinkCapacity = 5,
      kcp_downlinkCapacity = 20,
      kcp_congestion = False,
      kcp_readBufferSize = 2,
      kcp_writeBufferSize = 2,
      kcp_header = ObfsHeaderObject_default,
      kcp_seed = []\<rparr>"

definition KCPObject_toJson :: "KCPObject \<Rightarrow> qjobject" where
  "KCPObject_toJson x =
     (F_field ''seed'' (kcp_seed KCPObject_default) JString (kcp_seed x)
     (F_field ''header'' (kcp_header KCPObject_default) (\<lambda>v. JObject (ObfsHeaderObject_toJson v)) (kcp_header x)
     (F_field ''writeBufferSize'' (kcp_writeBufferSize KCPObject_default) serInt (kcp_writeBufferSize x)
     (F_field ''readBufferSize'' (kcp_readBufferSize KCPObject_default) serInt (kcp_readBufferSize x)
     (F_field ''congestion'' (kcp_congestion KCPObject_default) JBool (kcp_congestion x)
     (F_field ''downlinkCapacity'' (kcp_downlinkCapacity KCPObject_default) serInt (kcp_downlinkCapacity x)
     (F_field ''uplinkCapacity'' (kcp_uplinkCapacity KCPObject_default) serInt (kcp_uplinkCapacity x)
     (F_field ''tti'' (kcp_tti KCPObject_default) serInt (kcp_tti x)
     (F_field ''mtu'' (kcp_mtu KCPObject_default) serInt (kcp_mtu x) [])))))))))"

definition KCPObject_fromJson :: "qjson \<Rightarrow> KCPObject" where
  "KCPObject_fromJson j =
     \<lparr>kcp_mtu = F_load ''mtu'' (kcp_mtu KCPObject_default) json_toInt j,
      kcp_tti = F_load ''tti'' (kcp_tti KCPObject_default) json_toInt j,
      kcp_uplinkCapacity = F_load ''uplinkCapacity'' (kcp_uplinkCapacity KCPObject_default) json_toInt j,
      kcp_downlinkCapacity = F_load ''downlinkCapacity'' (kcp_downlinkCapacity KCPObject_default) json_toInt j,
      kcp_congestion = F_load ''congestion'' (kcp_congestion KCPObject_default) json_toBool j,
      kcp_readBufferSize = F_load ''readBufferSize'' (kcp_readBufferSize KCPObject_default) json_toInt j,
      kcp_writeBufferSize = F_load ''writeBufferSize'' (kcp_writeBufferSize KCPObject_default) json_toInt j,
      kcp_header = F_load ''header'' (kcp_header KCPObject_default) ObfsHeaderObject_fromJson j,
      kcp_seed = F_load ''seed'' (kcp_seed KCPObject_default) json_string j\<rparr>"

record WebSocketObject =
  ws_path :: string
  ws_headers :: "(string \<times> string) list"
  ws_maxEarlyData :: int
  ws_useBrowserForwarding :: bool
  ws_earlyDataHeaderName :: string

definition WebSocketObject_default :: WebSocketObject where
  "WebSocketObject_default =
     \<lparr>ws_path = ''/'',
      ws_headers = [],
      ws_maxEarlyData = 0,
      ws_useBrowserForwarding = False,
      ws_earlyDataHeaderName = []\<rparr>"

definition WebSocketObject_toJson :: "WebSocketObject \<Rightarrow> qjobject" where
  "WebSocketObject_toJson x =
     (F_field ''earlyDataHeaderName'' (ws_earlyDataHeaderName WebSocketObject_default) JString (ws_earlyDataHeaderName x)
     (F_field ''useBrowserForwarding'' (ws_useBrowserForwarding WebSocketObject_default) JBool (ws_useBrowserForwarding x)
     (F_field ''maxEarlyData'' (ws_maxEarlyData WebSocketObject_default) serInt (ws_maxEarlyData x)
     (F_field ''headers'' (ws_headers WebSocketObject_default) (serMap JString) (ws_headers x)
     (F_field ''path'' (ws_path WebSocketObject_default) JString (ws_path x) [])))))"

definition WebSocketObject_fromJson :: "qjson \<Rightarrow> WebSocketObject" where
  "WebSocketObject_fromJson j =
     \<lparr>ws_path = F_load ''path'' (ws_path WebSocketObject_default) json_string j,
      ws_headers = F_load ''headers'' (ws_headers WebSocketObject_default) (desMap json_string) j,
      ws_maxEarlyData = F_load ''maxEarlyData'' (ws_maxEarlyData WebSocketObject_default) json_toInt j,
      ws_useBrowserForwarding = F_load ''useBrowserForwarding'' (ws_useBrowserForwarding WebSocketObject_default) json_toBool j,
      ws_earlyDataHeaderName = F_load ''earlyDataHeaderName'' (ws_earlyDataHeaderName WebSocketObject_default) json_string j\<rparr>"

record HttpObject =
  http_host :: "string list"
  http_path :: string
  http_method :: string
  http_headers :: "(string \<times> string list) list"

definition HttpObject_default :: HttpObject where
  "HttpObject_default =
     \<lparr>http_host = [],
      http_path = ''/'',
      http_method = ''PUT'',
      http_headers = []\<rparr>"

definition HttpObject_toJson :: "HttpObject \<Rightarrow> qjobject" where
  "HttpObject_toJson x =
     (F_field ''headers'' (http_headers HttpObject_default) (serMap (serList JString)) (http_headers x)
     (F_field ''method'' (http_method HttpObject_default) JString (http_method x)
     (F_field ''path'' (http_path HttpObject_default) JString (http_path x)
     (F_field ''host'' (http_host HttpObject_default) (serList JString) (http_host x) []))))"

definition HttpObject_fromJson :: "qjson \<Rightarrow> HttpObject" where
  "HttpObject_fromJson j =
     \<lparr>http_host = F_load ''host'' (http_host HttpObject_default) (desList json_string) j,
      http_path = F_load ''path'' (http_path HttpObject_default) json_string j,
      http_method = F_load ''method'' (http_method HttpObject_default) json_string j,
      http_headers = F_load ''headers'' (http_headers HttpObject_default) (desMap (desList json_string)) j\<rparr>"

record DomainSocketObject =
  ds_path :: string

definition DomainSocketObject_default :: DomainSocketObject where
  "DomainSocketObject_default =
     \<lparr>ds_path = ''/''\<rparr>"

definition DomainSocketObject_toJson :: "DomainSocketObject \<Rightarrow> qjobject" where
  "DomainSocketObject_toJson x =
     (F_field ''path'' (ds_path DomainSocketObject_default) JString (ds_path x) [])"

definition DomainSocketObject_fromJson :: "qjson \<Rightarrow> DomainSocketObject" where
  "DomainSocketObject_fromJson j =
     \<lparr>ds_path = F_load ''path'' (ds_path DomainSocketObject_default) json_string j\<rparr>"

record QuicObject =
  quic_security :: string
  quic_key :: string
  quic_header :: ObfsHeaderObject

definition QuicObject_default :: QuicObject where
  "QuicObject_default =
     \<lparr>quic_security = ''none'',
      quic_key = [],
      quic_header = ObfsHeaderObject_default\<rparr>"

definition QuicObject_toJson :: "QuicObject \<Rightarrow> qjobject" where
  "QuicObject_toJson x =
     (F_field ''header'' (quic_header QuicObject_default) (\<lambda>v. JObject (ObfsHeaderObject_toJson v)) (quic_header x)
     (F_field ''key'' (quic_key QuicObject_default) JString (quic_key x)
     (F_field ''security'' (quic_security QuicObject_default) JString (quic_security x) [])))"

definition QuicObject_fromJson :: "qjson \<Rightarrow> QuicObject" where
  "QuicObject_fromJson j =
     \<lparr>quic_security = F_load ''security'' (quic_security QuicObject_default) json_string j,
      quic_key = F_load ''key'' (quic_key QuicObject_default) json_string j,
      quic_header = F_load ''header'' (quic_header QuicObject_default) ObfsHeaderObject_fromJson j\<rparr>"

record gRPCObject =
  grpc_serviceName :: string
  grpc_multiMode :: bool

definition gRPCObject_default :: gRPCObject where
  "gRPCObject_default =
     \<lparr>grpc_serviceName = [],
      grpc_multiMode = False\<rparr>"

definition gRPCObject_toJson :: "gRPCObject \<Rightarrow> qjobject" where
  "gRPCObject_toJson x =
     (F_field ''multiMode'' (grpc_multiMode gRPCObject_default) JBool (grpc_multiMode x)
     (F_field ''serviceName'' (grpc_serviceName gRPCObject_default) JString (grpc_serviceName x) []))"

definition gRPCObject_fromJson :: "qjson \<Rightarrow> gRPCObject" where
  "gRPCObject_fromJson j =
     \<lparr>grpc_serviceName = F_load ''serviceName'' (grpc_serviceName gRPCObject_default) json_string j,
      grpc_multiMode = F_load ''multiMode'' (grpc_multiMode gRPCObject_default) json_toBool j\<rparr>"

record SockoptObject =
  so_mark :: int
  so_tcpFastOpen :: bool
  so_tproxy :: string
  so_tcpKeepAliveInterval :: int

definition SockoptObject_default :: SockoptObject where
  "SockoptObject_default =
     \<lparr>so_mark = 0,
      so_tcpFastOpen = False,
      so_tproxy = ''off'',
      so_tcpKeepAliveInterval = 0\<rparr>"

definition SockoptObject_toJson :: "SockoptObject \<Rightarrow> qjobject" where
  "SockoptObject_toJson x =
     (F_field ''tcpKeepAliveInterval'' (so_tcpKeepAliveInterval SockoptObject_default) serInt (so_tcpKeepAliveInterval x)
     (F_field ''tproxy'' (so_tproxy SockoptObject_default) JString (so_tproxy x)
     (F_field ''tcpFastOpen'' (so_tcpFastOpen SockoptObject_default) JBool (so_tcpFastOpen x)
     (F_field ''mark'' (so_mark SockoptObject_default) serInt (so_mark x) []))))"

definition SockoptObject_fromJson :: "qjson \<Rightarrow> SockoptObject" where
  "SockoptObject_fromJson j =
     \<lparr>so_mark = F_load ''mark'' (so_mark SockoptObject_default) json_toInt j,
      so_tcpFastOpen = F_load ''tcpFastOpen'' (so_tcpFastOpen SockoptObject_default) json_toBool j,
      so_tproxy = F_load ''tproxy'' (so_tproxy SockoptObject_default) json_string j,
      so_tcpKeepAliveInterval = F_load ''tcpKeepAliveInterval'' (so_tcpKeepAliveInterval SockoptObject_default) json_toInt j\<rparr>"

record CertificateObject =
  ce_usage :: string
  ce_certificateFile :: string
  ce_keyFile :: string
  ce_certificate :: "string list"
  ce_key :: "string list"

definition CertificateObject_default :: CertificateObject where
  "CertificateObject_default =
     \<lparr>ce_usage = ''encipherment'',
      ce_certificateFile = [],
      ce_keyFile = [],
      ce_certificate = [],
      ce_key = []\<rparr>"

definition CertificateObject_toJson :: "CertificateObject \<Rightarrow> qjobject" where
  "CertificateObject_toJson x =
     (F_field ''key'' (ce_key CertificateObject_default) (serList JString) (ce_key x)
     (F_field ''certificate'' (ce_certificate CertificateObject_default) (serList JString) (ce_certificate x)
     (F_field ''keyFile'' (ce_keyFile CertificateObject_default) JString (ce_keyFile x)
     (F_field ''certificateFile'' (ce_certificateFile CertificateObject_default) JString (ce_certificateFile x)
     (F_field ''usage'' (ce_usage CertificateObject_default) JString (ce_usage x) [])))))"

definition CertificateObject_fromJson :: "qjson \<Rightarrow> CertificateObject" where
  "CertificateObject_fromJson j =
     \<lparr>ce_usage = F_load ''usage'' (ce_usage CertificateObject_default) json_string j,
      ce_certificateFile = F_load ''certificateFile'' (ce_certificateFile CertificateObject_default) json_string j,
      ce_keyFile = F_load ''keyFile'' (ce_keyFile CertificateObject_default) json_string j,
      ce_certificate = F_load ''certificate'' (ce_certificate CertificateObject_default) (desList json_string) j,
      ce_key = F_load ''key'' (ce_key CertificateObject_default) (desList json_string) j\<rparr>"

record TLSObject =
  tls_serverName :: string
  tls_allowInsecure :: bool
  tls_enableSessionResumption :: bool
  tls_disableSystemRoot :: bool
  tls_alpn :: "string list"
  tls_pinnedPeerCertificateChainSha256 :: "string list"
  tls_certificates :: "CertificateObject list"

definition TLSObject_default :: TLSObject where
  "TLSObject_default =
     \<lparr>tls_serverName = [],
      tls_allowInsecure = False,
      tls_enableSessionResumption = False,
      tls_disableSystemRoot = False,
      tls_alpn = [],
      tls_pinnedPeerCertificateChainSha256 = [],
      tls_certificates = []\<rparr>"

definition TLSObject_toJson :: "TLSObject \<Rightarrow> qjobject" where
  "TLSObject_toJson x =
     (F_field ''certificates'' (tls_certificates TLSObject_default) (serList (\<lambda>v. JObject (CertificateObject_toJson v))) (tls_certificates x)
     (F_field ''pinnedPeerCertificateChainSha256'' (tls_pinnedPeerCertificateChainSha256 TLSObject_default) (serList JString) (tls_pinnedPeerCertificateChainSha256 x)
     (F_field ''alpn'' (tls_alpn TLSObject_default) (serList JString) (tls_alpn x)
     (F_field ''disableSystemRoot'' (tls_disableSystemRoot TLSObject_default) JBool (tls_disableSystemRoot x)
     (F_field ''enableSessionResumption'' (tls_enableSessionResumption TLSObject_default) JBool (tls_enableSessionResumption x)
     (F_field ''allowInsecure'' (tls_allowInsecure TLSObject_default) JBool (tls_allowInsecure x)
     (F_field ''serverName'' (tls_serverName TLSObject_default) JString (tls_serverName x) [])))))))"

definition TLSObject_fromJson :: "qjson \<Rightarrow> TLSObject" where
  "TLSObject_fromJson j =
     \<lparr>tls_serverName = F_load ''serverName'' (tls_serverName TLSObject_default) json_string j,
      tls_allowInsecure = F_load ''allowInsecure'' (tls_allowInsecure TLSObject_default) json_toBool j,
      tls_enableSessionResumption = F_load ''enableSessionResumption'' (tls_enableSessionResumption TLSObject_default) json_toBool j,
      tls_disableSystemRoot = F_load ''disableSystemRoot'' (tls_disableSystemRoot TLSObject_default) json_toBool j,
      tls_alpn = F_load ''alpn'' (tls_alpn TLSObject_default) (desList json_string) j,
      tls_pinnedPeerCertificateChainSha256 = F_load ''pinnedPeerCertificateChainSha256'' (tls_pinnedPeerCertificateChainSha256 TLSObject_default) (desList json_string) j,
      tls_certificates = F_load ''certificates'' (tls_certificates TLSObject_default) (desList CertificateObject_fromJson) j\<rparr>"

record XTLSObject =
  xtls_serverName :: string
  xtls_allowInsecure :: bool
  xtls_enableSessionResumption :: bool
  xtls_disableSystemRoot :: bool
  xtls_alpn :: "string list"
  xtls_certificates :: "CertificateObject list"

definition XTLSObject_default :: XTLSObject where
  "XTLSObject_default =
     \<lparr>xtls_serverName = [],
      xtls_allowInsecure = False,
      xtls_enableSessionResumption = False,
      xtls_disableSystemRoot = False,
      xtls_alpn = [],
      xtls_certificates = []\<rparr>"

definition XTLSObject_toJson :: "XTLSObject \<Rightarrow> qjobject" where
  "XTLSObject_toJson x =
     (F_field ''certificates'' (xtls_certificates XTLSObject_default) (serList (\<lambda>v. JObject (CertificateObject_toJson v))) (xtls_certificates x)
     (F_field ''alpn'' (xtls_alpn XTLSObject_default) (serList JString) (xtls_alpn x)
     (F_field ''disableSystemRoot'' (xtls_disableSystemRoot XTLSObject_default) JBool (xtls_disableSystemRoot x)
     (F_field ''enableSessionResumption'' (xtls_enableSessionResumption XTLSObject_default) JBool (xtls_enableSessionResumption x)
     (F_field ''allowInsecure'' (xtls_allowInsecure XTLSObject_default) JBool (xtls_allowInsecure x)
     (F_field ''serverName'' (xtls_serverName XTLSObject_default) JString (xtls_serverName x) []))))))"

definition XTLSObject_fromJson :: "qjson \<Rightarrow> XTLSObject" where
  "XTLSObject_fromJson j =
     \<lparr>xtls_serverName = F_load ''serverName'' (xtls_serverName XTLSObject_default) json_string j,
      xtls_allowInsecure = F_load ''allowInsecure'' (xtls_allowInsecure XTLSObject_default) json_toBool j,
      xtls_enableSessionResumption = F_load ''enableSessionResumption'' (xtls_enableSessionResumption XTLSObject_default) json_toBool j,
      xtls_disableSystemRoot = F_load ''disableSystemRoot'' (xtls_disableSystemRoot XTLSObject_default) json_toBool j,
      xtls_alpn = F_load ''alpn'' (xtls_alpn XTLSObject_default) (desList json_string) j,
      xtls_certificates = F_load ''certificates'' (xtls_certificates XTLSObject_default) (desList CertificateObject_fromJson) j\<rparr>"

record StreamSettingsObject =
  ss_network :: string
  ss_security :: string
  ss_sockopt :: SockoptObject
  ss_tcpSettings :: TCPObject
  ss_tlsSettings :: TLSObject
  ss_xtlsSettings :: XTLSObject
  ss_kcpSettings :: KCPObject
  ss_wsSettings :: WebSocketObject
  ss_httpSettings :: HttpObject
  ss_dsSettings :: DomainSocketObject
  ss_quicSettings :: QuicObject
  ss_grpcSettings :: gRPCObject

definition StreamSettingsObject_default :: StreamSettingsObject where
  "StreamSettingsObject_default =
     \<lparr>ss_network = ''tcp'',
      ss_security = ''none'',
      ss_sockopt = SockoptObject_default,
      ss_tcpSettings = TCPObject_default,
      ss_tlsSettings = TLSObject_default,
      ss_xtlsSettings = XTLSObject_default,
      ss_kcpSettings = KCPObject_default,
      ss_wsSettings = WebSocketObject_default,
      ss_httpSettings = HttpObject_default,
      ss_dsSettings = DomainSocketObject_default,
      ss_quicSettings = QuicObject_default,
      ss_grpcSettings = gRPCObject_default\<rparr>"

definition StreamSettingsObject_toJson :: "StreamSettingsObject \<Rightarrow> qjobject" where
  "StreamSettingsObject_toJson x =
     (F_field ''grpcSettings'' (ss_grpcSettings StreamSettingsObject_default) (\<lambda>v. JObject (gRPCObject_toJson v)) (ss_grpcSettings x)
     (F_field ''quicSettings'' (ss_quicSettings StreamSettingsObject_default) (\<lambda>v. JObject (QuicObject_toJson v)) (ss_quicSettings x)
     (F_field ''dsSettings'' (ss_dsSettings StreamSettingsObject_default) (\<lambda>v. JObject (DomainSocketObject_toJson v)) (ss_dsSettings x)
     (F_field ''httpSettings'' (ss_httpSettings StreamSettingsObject_default) (\<lambda>v. JObject (HttpObject_toJson v)) (ss_httpSettings x)
     (F_field ''wsSettings'' (ss_wsSettings StreamSettingsObject_default) (\<lambda>v. JObject (WebSocketObject_toJson v)) (ss_wsSettings x)
     (F_field ''kcpSettings'' (ss_kcpSettings StreamSettingsObject_default) (\<lambda>v. JObject (KCPObject_toJson v)) (ss_kcpSettings x)
     (F_field ''xtlsSettings'' (ss_xtlsSettings StreamSettingsObject_default) (\<lambda>v. JObject (XTLSObject_toJson v)) (ss_xtlsSettings x)
     (F_field ''tlsSettings'' (ss_tlsSettings StreamSettingsObject_default) (\<lambda>v. JObject (TLSObject_toJson v)) (ss_tlsSettings x)
     (F_field ''tcpSettings'' (ss_tcpSettings StreamSettingsObject_default) (\<lambda>v. JObject (TCPObject_toJson v)) (ss_tcpSettings x)
     (F_field ''sockopt'' (ss_sockopt StreamSettingsObject_default) (\<lambda>v. JObject (SockoptObject_toJson v)) (ss_sockopt x)
     (F_field ''security'' (ss_security StreamSettingsObject_default) JString (ss_security x)
     (F_field ''network'' (ss_network StreamSettingsObject_default) JString (ss_network x) []))))))))))))"

definition StreamSettingsObject_fromJson :: "qjson \<Rightarrow> StreamSettingsObject" where
  "StreamSettingsObject_fromJson j =
     \<lparr>ss_network = F_load ''network'' (ss_network StreamSettingsObject_default) json_string j,
      ss_security = F_load ''security'' (ss_security StreamSettingsObject_default) json_string j,
      ss_sockopt = F_load ''sockopt'' (ss_sockopt StreamSettingsObject_default) SockoptObject_fromJson j,
      ss_tcpSettings = F_load ''tcpSettings'' (ss_tcpSettings StreamSettingsObject_default) TCPObject_fromJson j,
      ss_tlsSettings = F_load ''tlsSettings'' (ss_tlsSettings StreamSettingsObject_default) TLSObject_fromJson j,
      ss_xtlsSettings = F_load ''xtlsSettings'' (ss_xtlsSettings StreamSettingsObject_default) XTLSObject_fromJson j,
      ss_kcpSettings = F_load ''kcpSettings'' (ss_kcpSettings StreamSettingsObject_default) KCPObject_fromJson j,
      ss_wsSettings = F_load ''wsSettings'' (ss_wsSettings StreamSettingsObject_default) WebSocketObject_fromJson j,
      ss_httpSettings = F_load ''httpSettings'' (ss_httpSettings StreamSettingsObject_default) HttpObject_fromJson j,
      ss_dsSettings = F_load ''dsSettings'' (ss_dsSettings StreamSettingsObject_default) DomainSocketObject_fromJson j,
      ss_quicSettings = F_load ''quicSettings'' (ss_quicSettings StreamSettingsObject_default) QuicObject_fromJson j,
      ss_grpcSettings = F_load ''grpcSettings'' (ss_grpcSettings StreamSettingsObject_default) gRPCObject_fromJson j\<rparr>"

record UserObject =
  us_id :: string
  us_alterId :: int
  us_security :: string
  us_level :: int

definition UserObject_default :: UserObject where
  "UserObject_default =
     \<lparr>us_id = [],
      us_alterId = 0,
      us_security = ''auto'',
      us_level = 0\<rparr>"

definition UserObject_toJson :: "UserObject \<Rightarrow> qjobject" where
  "UserObject_toJson x =
     (F_field ''level'' (us_level UserObject_default) serInt (us_level x)
     (F_field ''security'' (us_security UserObject_default) JString (us_security x)
     (F_field ''alterId'' (us_alterId UserObject_default) serInt (us_alterId x)
     (F_field ''id'' (us_id UserObject_default) JString (us_id x) []))))"

definition UserObject_fromJson :: "qjson \<Rightarrow> UserObject" where
  "UserObject_fromJson j =
     \<lparr>us_id = F_load ''id'' (us_id UserObject_default) json_string j,
      us_alterId = F_load ''alterId'' (us_alterId UserObject_default) json_toInt j,
      us_security = F_load ''security'' (us_security UserObject_default) json_string j,
      us_level = F_load ''level'' (us_level UserObject_default) json_toInt j\<rparr>"

section \<open>Well-formed structures and their round trips\<close>

definition HTTPRequestObject_ok :: "HTTPRequestObject \<Rightarrow> bool" where
  "HTTPRequestObject_ok x \<longleftrightarrow> qmap_ok (rq_headers x)"

definition HTTPResponseObject_ok :: "HTTPResponseObject \<Rightarrow> bool" where
  "HTTPResponseObject_ok x \<longleftrightarrow> qmap_ok (rs_headers x)"

definition TCPHeader_Internal_ok :: "TCPHeader_Internal \<Rightarrow> bool" where
  "TCPHeader_Internal_ok x \<longleftrightarrow> HTTPRequestObject_ok (th_request x) \<and>
      HTTPResponseObject_ok (th_response x)"

definition TCPObject_ok :: "TCPObject \<Rightarrow> bool" where
  "TCPObject_ok x \<longleftrightarrow> TCPHeader_Internal_ok (tcp_header x)"

definition KCPObject_ok :: "KCPObject \<Rightarrow> bool" where
  "KCPObject_ok x \<longleftrightarrow> int32 (kcp_mtu x) \<and> int32 (kcp_tti x) \<and>
      int32 (kcp_uplinkCapacity x) \<and> int32 (kcp_downlinkCapacity x) \<and>
      int32 (kcp_readBufferSize x) \<and> int32 (kcp_writeBufferSize x)"

definition WebSocketObject_ok :: "WebSocketObject \<Rightarrow> bool" where
  "WebSocketObject_ok x \<longleftrightarrow> qmap_ok (ws_headers x) \<and> int32 (ws_maxEarlyData x)"

definition HttpObject_ok :: "HttpObject \<Rightarrow> bool" where
  "HttpObject_ok x \<longleftrightarrow> qmap_ok (http_headers x)"

definition SockoptObject_ok :: "SockoptObject \<Rightarrow> bool" where
  "SockoptObject_ok x \<longleftrightarrow> int32 (so_mark x) \<and> int32 (so_tcpKeepAliveInterval x)"

definition StreamSettingsObject_ok :: "StreamSettingsObject \<Rightarrow> bool" where
  "StreamSettingsObject_ok x \<longleftrightarrow> SockoptObject_ok (ss_sockopt x) \<and>
      TCPObject_ok (ss_tcpSettings x) \<and> KCPObject_ok (ss_kcpSettings x) \<and>
      WebSocketObject_ok (ss_wsSettings x) \<and> HttpObject_ok (ss_httpSettings x)"

definition UserObject_ok :: "UserObject \<Rightarrow> bool" where
  "UserObject_ok x \<longleftrightarrow> int32 (us_alterId x) \<and> int32 (us_level x)"


lemma HTTPRequestObject_roundtrip [struct_simps]:
  "HTTPRequestObject_ok x \<Longrightarrow>
   HTTPRequestObject_fromJson (JObject (HTTPRequestObject_toJson x)) = x"
  by (cases x)
    (simp add: HTTPRequestObject_toJson_def HTTPRequestObject_fromJson_def HTTPRequestObject_ok_def struct_simps)

lemma HTTPResponseObject_roundtrip [struct_simps]:
  "HTTPResponseObject_ok x \<Longrightarrow>
   HTTPResponseObject_fromJson (JObject (HTTPResponseObject_toJson x)) = x"
  by (cases x)
    (simp add: HTTPResponseObject_toJson_def HTTPResponseObject_fromJson_def HTTPResponseObject_ok_def struct_simps)

lemma TCPHeader_Internal_roundtrip [struct_simps]:
  "TCPHeader_Internal_ok x \<Longrightarrow>
   TCPHeader_Internal_fromJson (JObject (TCPHeader_Internal_toJson x)) = x"
  by (cases x)
    (simp add: TCPHeader_Internal_toJson_def TCPHeader_Internal_fromJson_def TCPHeader_Internal_ok_def struct_simps)

lemma ObfsHeaderObject_roundtrip [struct_simps]:
  "ObfsHeaderObject_fromJson (JObject (ObfsHeaderObject_toJson x)) = x"
  by (cases x)
    (simp add: ObfsHeaderObject_toJson_def ObfsHeaderObject_fromJson_def struct_simps)

lemma TCPObject_roundtrip [struct_simps]:
  "TCPObject_ok x \<Longrightarrow>
   TCPObject_fromJson (JObject (TCPObject_toJson x)) = x"
  by (cases x)
    (simp add: TCPObject_toJson_def TCPObject_fromJson_def TCPObject_ok_def struct_simps)

lemma KCPObject_roundtrip [struct_simps]:
  "KCPObject_ok x \<Longrightarrow>
   KCPObject_fromJson (JObject (KCPObject_toJson x)) = x"
  by (cases x)
    (simp add: KCPObject_toJson_def KCPObject_fromJson_def KCPObject_ok_def struct_simps)

lemma WebSocketObject_roundtrip [struct_simps]:
  "WebSocketObject_ok x \<Longrightarrow>
   WebSocketObject_fromJson (JObject (WebSocketObject_toJson x)) = x"
  by (cases x)
    (simp add: WebSocketObject_toJson_def WebSocketObject_fromJson_def WebSocketObject_ok_def struct_simps)

lemma HttpObject_roundtrip [struct_simps]:
  "HttpObject_ok x \<Longrightarrow>
   HttpObject_fromJson (JObject (HttpObject_toJson x)) = x"
  by (cases x)
    (simp add: HttpObject_toJson_def HttpObject_fromJson_def HttpObject_ok_def struct_simps)

lemma DomainSocketObject_roundtrip [struct_simps]:
  "DomainSocketObject_fromJson (JObject (DomainSocketObject_toJson x)) = x"
  by (cases x)
    (simp add: DomainSocketObject_toJson_def DomainSocketObject_fromJson_def struct_simps)

lemma QuicObject_roundtrip [struct_simps]:
  "QuicObject_fromJson (JObject (QuicObject_toJson x)) = x"
  by (cases x)
    (simp add: QuicObject_toJson_def QuicObject_fromJson_def struct_simps)

lemma gRPCObject_roundtrip [struct_simps]:
  "gRPCObject_fromJson (JObject (gRPCObject_toJson x)) = x"
  by (cases x)
    (simp add: gRPCObject_toJson_def gRPCObject_fromJson_def struct_simps)

lemma SockoptObject_roundtrip [struct_simps]:
  "SockoptObject_ok x \<Longrightarrow>
   SockoptObject_fromJson (JObject (SockoptObject_toJson x)) = x"
  by (cases x)
    (simp add: SockoptObject_toJson_def SockoptObject_fromJson_def SockoptObject_ok_def struct_simps)

lemma CertificateObject_roundtrip [struct_simps]:
  "CertificateObject_fromJson (JObject (CertificateObject_toJson x)) = x"
  by (cases x)
    (simp add: CertificateObject_toJson_def CertificateObject_fromJson_def struct_simps)

lemma TLSObject_roundtrip [struct_simps]:
  "TLSObject_fromJson (JObject (TLSObject_toJson x)) = x"
  by (cases x)
    (simp add: TLSObject_toJson_def TLSObject_fromJson_def struct_simps)

lemma XTLSObject_roundtrip [struct_simps]:
  "XTLSObject_fromJson (JObject (XTLSObject_toJson x)) = x"
  by (cases x)
    (simp add: XTLSObject_toJson_def XTLSObject_fromJson_def struct_simps)

lemma StreamSettingsObject_roundtrip [struct_simps]:
  "StreamSettingsObject_ok x \<Longrightarrow>
   StreamSettingsObject_fromJson (JObject (StreamSettingsObject_toJson x)) = x"
  by (cases x)
    (simp add: StreamSettingsObject_toJson_def StreamSettingsObject_fromJson_def StreamSettingsObject_ok_def struct_simps)

lemma UserObject_roundtrip [struct_simps]:
  "UserObject_ok x \<Longrightarrow>
   UserObject_fromJson (JObject (UserObject_toJson x)) = x"
  by (cases x)
    (simp add: UserObject_toJson_def UserObject_fromJson_def UserObject_ok_def struct_simps)


section \<open>Servers\<close>

text \<open>
  The member \<open>port\<close> of \<open>VMessServerObject\<close> and \<open>ShadowSocksServerObject\<close> has no initialiser, so
  the default instance the generated code compares with holds an arbitrary port: the argument
  \<open>stray\<close>.
\<close>

record VMessServerObject =
  vs_address :: string
  vs_port :: int
  vs_users :: "UserObject list"

definition VMessServerObject_toJson :: "int \<Rightarrow> VMessServerObject \<Rightarrow> qjobject" where
  "VMessServerObject_toJson stray x =
     F_field ''users'' [] (serList (\<lambda>v. JObject (UserObject_toJson v))) (vs_users x)
     (F_field ''port'' stray serInt (vs_port x)
     (F_field ''address'' [] JString (vs_address x) []))"

definition VMessServerObject_fromJson :: "int \<Rightarrow> qjson \<Rightarrow> VMessServerObject" where
  "VMessServerObject_fromJson stray j =
     \<lparr>vs_address = F_load ''address'' [] json_string j,
      vs_port = F_load ''port'' stray json_toInt j,
      vs_users = F_load ''users'' [] (desList UserObject_fromJson) j\<rparr>"

record ShadowSocksServerObject =
  sh_address :: string
  sh_method :: string
  sh_password :: string
  sh_port :: int

record TrojanObject =
  tr_port :: "16 word"
  tr_address :: string
  tr_password :: string
  tr_sni :: string
  tr_ignoreCertificate :: bool
  tr_ignoreHostname :: bool
  tr_reuseSession :: bool
  tr_sessionTicket :: bool
  tr_reusePort :: bool
  tr_tcpFastOpen :: bool

definition TrojanObject_toJson :: "TrojanObject \<Rightarrow> qjobject" where
  "TrojanObject_toJson x =
     (let put = \<lambda>k v ob. json_put k v ob;
          json = put ''port'' (serInt (uint (tr_port x))) [];
          json = put ''address'' (JString (tr_address x)) json;
          json = put ''password'' (JString (tr_password x)) json;
          json = put ''sni'' (JString (tr_sni x)) json;
          json = put ''ignoreCertificate'' (JBool (tr_ignoreCertificate x)) json;
          json = put ''ignoreHostname'' (JBool (tr_ignoreHostname x)) json;
          json = put ''reuseSession'' (JBool (tr_reuseSession x)) json;
          json = put ''reusePort'' (JBool (tr_reusePort x)) json;
          json = put ''sessionTicket'' (JBool (tr_sessionTicket x)) json
      in put ''tcpFastOpen'' (JBool (tr_tcpFastOpen x)) json)"

definition TrojanObject_fromJson :: "qjobject \<Rightarrow> TrojanObject" where
  "TrojanObject_fromJson json =
     \<lparr>tr_port = of_int (json_toInt (json_value json ''port'')),
      tr_address = json_string (json_value json ''address''),
      tr_password = json_string (json_value json ''password''),
      tr_sni = json_string (json_value json ''sni''),
      tr_ignoreCertificate = json_toBool (json_value json ''ignoreCertificate''),
      tr_ignoreHostname = json_toBool (json_value json ''ignoreHostname''),
      tr_reuseSession = json_toBool (json_value json ''reuseSession''),
      tr_sessionTicket = json_toBool (json_value json ''sessionTicket''),
      tr_reusePort = json_toBool (json_value json ''reusePort''),
      tr_tcpFastOpen = json_toBool (json_value json ''tcpFastOpen'')\<rparr>"

text \<open>
  The contract of \<open>JSONSTRUCT_REGISTER\<close>: what \<open>toJson\<close> writes of a well-formed structure,
  \<open>fromJson\<close> reads. The lists of such structures and the fields of such a type inherit it.
\<close>

locale json_struct =
  fixes toJson :: "'a \<Rightarrow> qjobject" and fromJson :: "qjson \<Rightarrow> 'a" and ok :: "'a \<Rightarrow> bool"
  assumes roundtrip: "ok x \<Longrightarrow> fromJson (JObject (toJson x)) = x"
begin

lemma inj: "ok x \<Longrightarrow> ok y \<Longrightarrow> toJson x = toJson y \<Longrightarrow> x = y"
  using roundtrip by metis

lemma list_kept:
  "list_all ok xs \<Longrightarrow> desList fromJson (serList (\<lambda>v. JObject (toJson v)) xs) = xs"
  by (intro list_roundtrip roundtrip) (simp add: list_all_iff)

end

interpretation user_struct: json_struct UserObject_toJson UserObject_fromJson UserObject_ok
  by unfold_locales (rule UserObject_roundtrip)

interpretation stream_struct:
  json_struct StreamSettingsObject_toJson StreamSettingsObject_fromJson StreamSettingsObject_ok
  by unfold_locales (rule StreamSettingsObject_roundtrip)

interpretation certificate_struct:
  json_struct CertificateObject_toJson CertificateObject_fromJson "\<lambda>_. True"
  by unfold_locales (rule CertificateObject_roundtrip)

definition VMessServerObject_ok :: "VMessServerObject \<Rightarrow> bool" where
  "VMessServerObject_ok x \<longleftrightarrow> int32 (vs_port x) \<and> list_all UserObject_ok (vs_users x)"

lemma vmess_port_field:
  assumes "int32 p" "\<not> qmap_contains ob ''port''"
  shows "F_load ''port'' stray' json_toInt (JObject (F_field ''port'' stray serInt p ob)) =
    (if stray = p then stray' else p)"
  using assms by (simp add: F_load_def F_field_def value_roundtrips)

text \<open>
  C24: the JSON round trip of the structures of the share links. What \<open>toJson\<close> writes of any
  well-formed stream settings (\<open>int\<close> members within 32 bits, maps sorted), nested structures and
  lists of certificates included, \<open>fromJson\<close> reads back; the same holds of every Trojan server;
  and a VMess server comes back up to its port, which is lost exactly when it equals the stray
  value of the uninitialised port of the default instance it is compared with.
\<close>

theorem structures_roundtrip:
  "(StreamSettingsObject_ok st \<longrightarrow>
      StreamSettingsObject_fromJson (JObject (StreamSettingsObject_toJson st)) = st) \<and>
   TrojanObject_fromJson (TrojanObject_toJson tj) = tj \<and>
   (VMessServerObject_ok sv \<longrightarrow>
      VMessServerObject_fromJson stray' (JObject (VMessServerObject_toJson stray sv)) =
      sv\<lparr>vs_port := if stray = vs_port sv then stray' else vs_port sv\<rparr>)"
proof (intro conjI impI)
  have "uint (tr_port tj) < 65536" using uint_bounded [of "tr_port tj"] by simp
  moreover have "- 2147483648 \<le> uint (tr_port tj)" by (rule order_trans [of _ 0]) simp_all
  ultimately have "int32 (uint (tr_port tj))" by (simp add: int32_def)
  then show "TrojanObject_fromJson (TrojanObject_toJson tj) = tj"
    by (cases tj) (simp add: TrojanObject_toJson_def TrojanObject_fromJson_def json_put_def
        value_roundtrips)
next
  assume "VMessServerObject_ok sv"
  then show "VMessServerObject_fromJson stray' (JObject (VMessServerObject_toJson stray sv)) =
      sv\<lparr>vs_port := if stray = vs_port sv then stray' else vs_port sv\<rparr>"
    by (cases sv) (simp add: VMessServerObject_ok_def VMessServerObject_toJson_def
        VMessServerObject_fromJson_def vmess_port_field user_struct.list_kept other_field own_field
        value_roundtrips)
qed (rule stream_struct.roundtrip)

definition sample_stream :: StreamSettingsObject where
  "sample_stream = StreamSettingsObject_default
     \<lparr>ss_network := ''ws'', ss_security := ''tls'',
      ss_wsSettings := WebSocketObject_default\<lparr>ws_headers := [(''Host'', ''vpn.example'')]\<rparr>,
      ss_tlsSettings := TLSObject_default
        \<lparr>tls_serverName := ''vpn.example'', tls_certificates := [CertificateObject_default]\<rparr>\<rparr>"

definition sample_user :: UserObject where
  "sample_user = UserObject_default\<lparr>us_id := ''u-1'', us_alterId := 4\<rparr>"

lemmas struct_defaults = StreamSettingsObject_default_def WebSocketObject_default_def
  SockoptObject_default_def KCPObject_default_def TCPObject_default_def
  TCPHeader_Internal_default_def HTTPRequestObject_default_def HTTPResponseObject_default_def
  HttpObject_default_def TLSObject_default_def UserObject_default_def

lemmas struct_oks = StreamSettingsObject_ok_def SockoptObject_ok_def TCPObject_ok_def
  TCPHeader_Internal_ok_def HTTPRequestObject_ok_def HTTPResponseObject_ok_def KCPObject_ok_def
  WebSocketObject_ok_def HttpObject_ok_def UserObject_ok_def VMessServerObject_ok_def

lemma header_keys_sorted: "qmap_ok request_headers" "qmap_ok response_headers"
  by (simp_all add: qmap_ok_def request_headers_def response_headers_def)

lemma sample_stream_ok: "StreamSettingsObject_ok sample_stream"
  by (simp add: sample_stream_def struct_defaults struct_oks header_keys_sorted int32_def)
    (simp add: qmap_ok_def)

theorem structures_roundtrip_witness:
  "StreamSettingsObject_fromJson (JObject (StreamSettingsObject_toJson sample_stream)) = sample_stream \<and>
   VMessServerObject_fromJson 7
     (JObject (VMessServerObject_toJson 443
        \<lparr>vs_address = ''vpn.example'', vs_port = 443, vs_users = [sample_user]\<rparr>)) =
   \<lparr>vs_address = ''vpn.example'', vs_port = 7, vs_users = [sample_user]\<rparr>"
  using structures_roundtrip [of sample_stream "TrojanObject_fromJson []"
      "\<lparr>vs_address = ''vpn.example'', vs_port = 443, vs_users = [sample_user]\<rparr>" 7 443] sample_stream_ok
  by (simp add: struct_oks int32_def sample_user_def struct_defaults)

end
