(* ===== verification/Network_Utilities.thy ===== *)
theory Network_Utilities
  imports Ip_Address
begin

text \<open>
  \<open>client/core/networkUtilities.cpp\<close>: helpers on the texts of addresses and networks.

  A shift by the width of its operand or by a negative amount is undefined in C++:
  \<open>netMaskFromIpWithSubnet\<close> is optional here, \<open>None\<close> being the undefined case.
\<close>

section \<open>Searching in strings\<close>

fun starts_with :: "string \<Rightarrow> string \<Rightarrow> bool" where
  "starts_with t s \<longleftrightarrow> take (length t) s = t"

text \<open>\<open>s.indexOf(t)\<close>, with the position of \<open>s\<close> in the whole text as an argument.\<close>

fun indexOf_str :: "string \<Rightarrow> int \<Rightarrow> string \<Rightarrow> int" where
  "indexOf_str t i [] = (if t = [] then i else -1)"
| "indexOf_str t i (c # s) = (if starts_with t (c # s) then i else indexOf_str t (i + 1) s)"

function split_str :: "string \<Rightarrow> string \<Rightarrow> string list" where
  "split_str sep [] = [[]]"
| "split_str sep (c # s) =
     (if sep \<noteq> [] \<and> starts_with sep (c # s) then [] # split_str sep (drop (length sep) (c # s))
      else (case split_str sep s of [] \<Rightarrow> [[c]] | w # ws \<Rightarrow> (c # w) # ws))"
  by pat_completeness auto
termination by (relation "measure (\<lambda>(sep, s). length s)") (auto simp: neq_Nil_conv)

definition contains_str :: "string \<Rightarrow> string \<Rightarrow> bool" where
  "contains_str t s \<longleftrightarrow> indexOf_str t 0 s \<ge> 0"

section \<open>The utilities\<close>

definition NetworkUtilities_netMaskFromIpWithSubnet :: "Qt \<Rightarrow> string \<Rightarrow> string option" where
  "NetworkUtilities_netMaskFromIpWithSubnet Q ip =
     (if CHR ''/'' \<notin> set ip then Some ''255.255.255.255''
      else (case qt_toInt Q (split CHR ''/'' ip ! 1) of
              None \<Rightarrow> Some ''255.255.255.255''
            | Some prefix \<Rightarrow>
                if 32 - prefix < 0 \<or> 32 - prefix \<ge> 32 then None
                else (let mask = (push_bit (nat (32 - prefix)) (- 1) :: 32 word)
                      in Some (number (uint (drop_bit 24 mask)) @ ''.'' @
                               number (uint (take_bit 8 (drop_bit 16 mask))) @ ''.'' @
                               number (uint (take_bit 8 (drop_bit 8 mask))) @ ''.'' @
                               number (uint (take_bit 8 mask))))))"

definition count_char :: "char \<Rightarrow> string \<Rightarrow> nat" where
  "count_char c s = length (filter (\<lambda>x. x = c) s)"

definition NetworkUtilities_ipAddressFromIpWithSubnet :: "string \<Rightarrow> string" where
  "NetworkUtilities_ipAddressFromIpWithSubnet ip =
     (if count_char CHR ''.'' ip \<noteq> 3 then [] else hd (split CHR ''/'' ip))"

definition NetworkUtilities_summarizeRoutes :: "string list \<Rightarrow> string \<Rightarrow> string list" where
  "NetworkUtilities_summarizeRoutes ips cidr = []"

text \<open>\<open>lookup\<close> is the resolver of the system.\<close>

definition NetworkUtilities_getIPAddress :: "Qt \<Rightarrow> (string \<Rightarrow> QHostAddress list) \<Rightarrow> string \<Rightarrow> string" where
  "NetworkUtilities_getIPAddress Q lookup host =
     (if protocol (qt_host Q host) = IPv4Protocol then host
      else if protocol (qt_host Q host) = IPv6Protocol then host
      else (case lookup host of [] \<Rightarrow> [] | a # _ \<Rightarrow> qt_hostToString Q a))"

definition NetworkUtilities_getStringBetween :: "string \<Rightarrow> string \<Rightarrow> string \<Rightarrow> qstring" where
  "NetworkUtilities_getStringBetween s a b =
     (let ap = indexOf_str a 0 s;
          start = ap + int (length a);
          bp = indexOf_str b start (drop (nat start) s)
      in if ap < 0 \<or> bp < 0 then None
         else if bp - start \<le> 0 then None
         else Some (trimmed (take (nat (bp - start)) (drop (nat start) s))))"

definition NetworkUtilities_checkIPv4Format :: "Qt \<Rightarrow> string \<Rightarrow> bool" where
  "NetworkUtilities_checkIPv4Format Q ip \<longleftrightarrow>
     (if ip = [] then False
      else if count_char CHR ''.'' ip \<noteq> 3 then False
      else protocol (qt_host Q ip) = IPv4Protocol)"

definition NetworkUtilities_checkIpSubnetFormat :: "Qt \<Rightarrow> string \<Rightarrow> bool" where
  "NetworkUtilities_checkIpSubnetFormat Q ip \<longleftrightarrow>
     (if CHR ''/'' \<notin> set ip then NetworkUtilities_checkIPv4Format Q ip
      else (let parts = split CHR ''/'' ip
            in if length parts \<noteq> 2 then False
               else (case qt_toInt Q (parts ! 1) of
                       None \<Rightarrow> False
                     | Some subnet \<Rightarrow>
                         0 \<le> subnet \<and> subnet \<le> 32 \<and> NetworkUtilities_checkIPv4Format Q (parts ! 0))))"

definition NetworkUtilities_AdapterIndexTo ::
  "bool \<Rightarrow> (QHostAddress \<Rightarrow> int option) \<Rightarrow> QHostAddress \<Rightarrow> int"
where
  "NetworkUtilities_AdapterIndexTo win bestRoute dst =
     (if win then (case bestRoute dst of None \<Rightarrow> -1 | Some i \<Rightarrow> i) else 0)"

section \<open>Properties\<close>

lemma indexOf_str_ge: "i \<ge> 0 \<Longrightarrow> indexOf_str t i s \<ge> i \<or> indexOf_str t i s = -1"
  by (induction t i s rule: indexOf_str.induct) auto

lemma starts_with_append [simp]: "starts_with t (t @ s)"
  by simp

text \<open>A text that starts with a marker not occurring earlier is found at its place.\<close>

lemma indexOf_str_first:
  assumes "\<And>u v. pre = u @ v \<Longrightarrow> v \<noteq> [] \<Longrightarrow> \<not> starts_with t (v @ t @ post)"
  shows "indexOf_str t i (pre @ t @ post) = i + int (length pre)"
  using assms
proof (induction pre arbitrary: i)
  case Nil
  have "starts_with t (t @ post)" by (rule starts_with_append)
  then show ?case by (cases "t @ post") (simp_all del: starts_with.simps)
next
  case (Cons c pre)
  have "\<not> starts_with t ((c # pre) @ t @ post)" using Cons.prems [of "[]" "c # pre"] by simp
  moreover have "indexOf_str t (i + 1) (pre @ t @ post) = i + 1 + int (length pre)"
    by (rule Cons.IH) (use Cons.prems in \<open>metis append_Cons\<close>)
  ultimately show ?case by (simp del: starts_with.simps)
qed

text \<open>
  \<open>getStringBetween\<close> returns exactly the text between the first occurrence of one marker and the
  next occurrence of the other, trimmed, and nothing when that text is empty.
\<close>

theorem getStringBetween_exact:
  assumes "\<And>u v. pre = u @ v \<Longrightarrow> v \<noteq> [] \<Longrightarrow> \<not> starts_with a (v @ a @ mid @ b @ post)"
    and "\<And>u v. mid = u @ v \<Longrightarrow> v \<noteq> [] \<Longrightarrow> \<not> starts_with b (v @ b @ post)"
  shows "NetworkUtilities_getStringBetween (pre @ a @ mid @ b @ post) a b =
    (if mid = [] then None else Some (trimmed mid))"
proof -
  have ap: "indexOf_str a 0 (pre @ a @ mid @ b @ post) = int (length pre)"
    using indexOf_str_first [of pre a "mid @ b @ post" 0] assms(1) by simp
  have bp: "indexOf_str b i (mid @ b @ post) = i + int (length mid)" for i
    using indexOf_str_first [of mid b post i] assms(2) by simp
  have "nat (int (length pre) + int (length a)) = length pre + length a" by simp
  then show ?thesis
    by (simp add: NetworkUtilities_getStringBetween_def ap bp Let_def del: starts_with.simps)
qed

theorem getStringBetween_exact_witness:
  "NetworkUtilities_getStringBetween ''x<p> y </p>z'' ''<p>'' ''</p>'' = Some ''y''"
proof -
  have "\<not> starts_with ''<p>'' (v @ ''<p> y </p>z'')" if "''x'' = u @ v" "v \<noteq> []" for u v :: string
    using that by (auto simp: Cons_eq_append_conv)
  moreover have "\<not> starts_with ''</p>'' (v @ ''</p>z'')" if "'' y '' = u @ v" "v \<noteq> []" for u v :: string
    using that by (auto simp: Cons_eq_append_conv)
  ultimately show ?thesis
    using getStringBetween_exact [of "''x''" "''<p>''" "'' y ''" "''</p>''" "''z''"]
    by (simp add: trimmed_def isSpace_def)
qed

lemma netmask_push:
  assumes "1 \<le> p" "p \<le> 32"
  shows "(if p < 32 then 0xFFFFFFFF XOR drop_bit p 0xFFFFFFFF else 0xFFFFFFFF) =
    (push_bit (32 - p) (- 1) :: 32 word)"
proof -
  have ones: "(0xFFFFFFFF :: 32 word) = - 1" by code_simp
  show ?thesis unfolding ones using assms by (auto intro!: bit_eqI simp: bit_simps)
qed

lemma top_byte: "drop_bit 24 (w :: 32 word) = take_bit 8 (drop_bit 24 w)"
  by (rule bit_eqI) (auto simp: bit_simps dest: bit_imp_le_length)

text \<open>
  The mask that \<open>netMaskFromIpWithSubnet\<close> prints for a prefix between 1 and 32 is, byte by byte,
  the netmask of \<open>IPAddress\<close>; for a prefix of 0, which every default route has, the shift is undefined.
\<close>

theorem netMask_matches:
  assumes "CHR ''/'' \<in> set ip" "qt_toInt Q (split CHR ''/'' ip ! 1) = Some prefix"
  shows "(1 \<le> prefix \<and> prefix \<le> 32 \<longrightarrow>
     (\<exists>mask. IPAddress_netmask \<lparr>m_address = V4Address addr, m_prefixLength = prefix\<rparr> = V4Address mask \<and>
        NetworkUtilities_netMaskFromIpWithSubnet Q ip =
          Some (join ''.'' (map (\<lambda>i. number (uint (take_bit 8 (drop_bit i mask)))) [24, 16, 8, 0])))) \<and>
    (prefix = 0 \<longrightarrow> NetworkUtilities_netMaskFromIpWithSubnet Q ip = None)"
proof (intro conjI impI)
  assume p: "1 \<le> prefix \<and> prefix \<le> 32"
  then have "nat (32 - prefix) = 32 - nat prefix" "nat prefix < 32 \<longleftrightarrow> prefix < 32" by auto
  moreover have "1 \<le> nat prefix" "nat prefix \<le> 32" using p by auto
  ultimately have
    "IPAddress_netmask \<lparr>m_address = V4Address addr, m_prefixLength = prefix\<rparr> =
      V4Address (push_bit (nat (32 - prefix)) (- 1))"
    using netmask_push [of "nat prefix"] p by (auto simp: IPAddress_netmask_def pl_def)
  moreover have "NetworkUtilities_netMaskFromIpWithSubnet Q ip =
      Some (join ''.'' (map (\<lambda>i. number (uint (take_bit 8 (drop_bit i
        (push_bit (nat (32 - prefix)) (- 1) :: 32 word))))) [24, 16, 8, 0]))"
    using assms p top_byte [of "push_bit (nat (32 - prefix)) (- 1)"]
    by (simp add: NetworkUtilities_netMaskFromIpWithSubnet_def Let_def)
  ultimately show "\<exists>mask. IPAddress_netmask \<lparr>m_address = V4Address addr, m_prefixLength = prefix\<rparr> = V4Address mask \<and>
      NetworkUtilities_netMaskFromIpWithSubnet Q ip =
        Some (join ''.'' (map (\<lambda>i. number (uint (take_bit 8 (drop_bit i mask)))) [24, 16, 8, 0]))"
    by blast
next
  assume "prefix = 0"
  with assms show "NetworkUtilities_netMaskFromIpWithSubnet Q ip = None"
    by (simp add: NetworkUtilities_netMaskFromIpWithSubnet_def)
qed

theorem netMask_matches_witness:
  "NetworkUtilities_netMaskFromIpWithSubnet (sample_qt\<lparr>qt_toInt := map_of [(''0'', 0)]\<rparr>) ''0.0.0.0/0'' = None"
  using netMask_matches [of "''0.0.0.0/0''" "sample_qt\<lparr>qt_toInt := map_of [(''0'', 0)]\<rparr>" 0] by simp

end
