(* ===== verification/Containers.thy ===== *)
theory Containers
  imports Qt_Prelude
begin

text \<open>
  \<open>client/protocols/protocols_defs.{h,cpp}\<close>, \<open>client/containers/containers_defs.{h,cpp}\<close> and
  \<open>client/core/scripts_registry.{h,cpp}\<close>: the protocols and containers the client knows, their names
  and their properties.

  Constructors carry the name of their enumeration as a prefix, since several enumerations share
  names.  A function whose body can end without a \<open>return\<close> is optional here; the generator of random
  ports and the resource files are arguments.
\<close>

section \<open>Enumerations\<close>

datatype TransportProto =
    Udp
  | Tcp
  | TcpAndUdp

datatype Proto =
    ProtoAny
  | ProtoOpenVpn
  | ProtoShadowSocks
  | ProtoCloak
  | ProtoWireGuard
  | ProtoAwg
  | ProtoIkev2
  | ProtoL2tp
  | ProtoXray
  | ProtoSSXray
  | ProtoTorWebSite
  | ProtoDns
  | ProtoSftp
  | ProtoSocks5Proxy

datatype ServiceType =
    ServiceNone
  | ServiceVpn
  | ServiceOther

datatype DockerContainer =
    DockerNone
  | DockerAwg
  | DockerWireGuard
  | DockerOpenVpn
  | DockerCloak
  | DockerShadowSocks
  | DockerIpsec
  | DockerXray
  | DockerSSXray
  | DockerTorWebSite
  | DockerDns
  | DockerSftp
  | DockerSocks5Proxy

text \<open>\<open>QMetaEnum\<close>: the keys in the order of their values.\<close>

fun TransportProto_key :: "TransportProto \<Rightarrow> string" where
  "TransportProto_key Udp = ''Udp''"
| "TransportProto_key Tcp = ''Tcp''"
| "TransportProto_key TcpAndUdp = ''TcpAndUdp''"

fun Proto_key :: "Proto \<Rightarrow> string" where
  "Proto_key ProtoAny = ''Any''"
| "Proto_key ProtoOpenVpn = ''OpenVpn''"
| "Proto_key ProtoShadowSocks = ''ShadowSocks''"
| "Proto_key ProtoCloak = ''Cloak''"
| "Proto_key ProtoWireGuard = ''WireGuard''"
| "Proto_key ProtoAwg = ''Awg''"
| "Proto_key ProtoIkev2 = ''Ikev2''"
| "Proto_key ProtoL2tp = ''L2tp''"
| "Proto_key ProtoXray = ''Xray''"
| "Proto_key ProtoSSXray = ''SSXray''"
| "Proto_key ProtoTorWebSite = ''TorWebSite''"
| "Proto_key ProtoDns = ''Dns''"
| "Proto_key ProtoSftp = ''Sftp''"
| "Proto_key ProtoSocks5Proxy = ''Socks5Proxy''"

fun DockerContainer_key :: "DockerContainer \<Rightarrow> string" where
  "DockerContainer_key DockerNone = ''None''"
| "DockerContainer_key DockerAwg = ''Awg''"
| "DockerContainer_key DockerWireGuard = ''WireGuard''"
| "DockerContainer_key DockerOpenVpn = ''OpenVpn''"
| "DockerContainer_key DockerCloak = ''Cloak''"
| "DockerContainer_key DockerShadowSocks = ''ShadowSocks''"
| "DockerContainer_key DockerIpsec = ''Ipsec''"
| "DockerContainer_key DockerXray = ''Xray''"
| "DockerContainer_key DockerSSXray = ''SSXray''"
| "DockerContainer_key DockerTorWebSite = ''TorWebSite''"
| "DockerContainer_key DockerDns = ''Dns''"
| "DockerContainer_key DockerSftp = ''Sftp''"
| "DockerContainer_key DockerSocks5Proxy = ''Socks5Proxy''"

section \<open>Protocols\<close>

definition ProtocolProps_allProtocols :: "Proto list" where
  "ProtocolProps_allProtocols =
     [ProtoAny, ProtoOpenVpn, ProtoShadowSocks, ProtoCloak, ProtoWireGuard, ProtoAwg, ProtoIkev2,
      ProtoL2tp, ProtoXray, ProtoSSXray, ProtoTorWebSite, ProtoDns, ProtoSftp, ProtoSocks5Proxy]"

definition ProtocolProps_protoToString :: "Proto \<Rightarrow> string" where
  "ProtocolProps_protoToString p = (if p = ProtoAny then [] else toLower (Proto_key p))"

definition ProtocolProps_protoFromString :: "string \<Rightarrow> Proto" where
  "ProtocolProps_protoFromString proto =
     (case find (\<lambda>p. proto = ProtocolProps_protoToString p) ProtocolProps_allProtocols of
        Some p \<Rightarrow> p | None \<Rightarrow> ProtoAny)"

definition ProtocolProps_transportProtoToString :: "TransportProto \<Rightarrow> Proto \<Rightarrow> string" where
  "ProtocolProps_transportProtoToString proto p = toLower (TransportProto_key proto)"

definition ProtocolProps_transportProtoFromString :: "string \<Rightarrow> TransportProto" where
  "ProtocolProps_transportProtoFromString p =
     (case find (\<lambda>tp. toLower p = toLower (ProtocolProps_transportProtoToString tp ProtoAny))
             [Udp, Tcp, TcpAndUdp] of
        Some tp \<Rightarrow> tp | None \<Rightarrow> Udp)"

definition ProtocolProps_protocolHumanNames :: "(Proto \<times> string) list" where
  "ProtocolProps_protocolHumanNames =
     [(ProtoOpenVpn, ''OpenVPN''),
      (ProtoShadowSocks, ''Shadowsocks''),
      (ProtoCloak, ''Cloak''),
      (ProtoWireGuard, ''WireGuard''),
      (ProtoAwg, ''AmneziaWG''),
      (ProtoIkev2, ''IKEv2''),
      (ProtoL2tp, ''L2TP''),
      (ProtoXray, ''XRay''),
      (ProtoSSXray, ''Shadowsocks''),
      (ProtoTorWebSite, ''Website in Tor network''),
      (ProtoDns, ''DNS Service''),
      (ProtoSftp, ''SFTP service''),
      (ProtoSocks5Proxy, ''SOCKS5 proxy server'')]"

fun ProtocolProps_protocolService :: "Proto \<Rightarrow> ServiceType" where
  "ProtocolProps_protocolService ProtoAny = ServiceNone"
| "ProtocolProps_protocolService ProtoSSXray = ServiceNone"
| "ProtocolProps_protocolService ProtoOpenVpn = ServiceVpn"
| "ProtocolProps_protocolService ProtoCloak = ServiceVpn"
| "ProtocolProps_protocolService ProtoShadowSocks = ServiceVpn"
| "ProtocolProps_protocolService ProtoWireGuard = ServiceVpn"
| "ProtocolProps_protocolService ProtoAwg = ServiceVpn"
| "ProtocolProps_protocolService ProtoIkev2 = ServiceVpn"
| "ProtocolProps_protocolService ProtoXray = ServiceVpn"
| "ProtocolProps_protocolService _ = ServiceOther"

fun ProtocolProps_defaultPort :: "Proto \<Rightarrow> int" where
  "ProtocolProps_defaultPort ProtoOpenVpn = 1194"
| "ProtocolProps_defaultPort ProtoCloak = 443"
| "ProtocolProps_defaultPort ProtoShadowSocks = 6789"
| "ProtocolProps_defaultPort ProtoWireGuard = 51820"
| "ProtocolProps_defaultPort ProtoAwg = 55424"
| "ProtocolProps_defaultPort ProtoXray = 443"
| "ProtocolProps_defaultPort ProtoDns = 53"
| "ProtocolProps_defaultPort ProtoSftp = 222"
| "ProtocolProps_defaultPort ProtoSocks5Proxy = 38080"
| "ProtocolProps_defaultPort _ = -1"

definition ProtocolProps_getPortForInstall :: "(int \<Rightarrow> int \<Rightarrow> int) \<Rightarrow> Proto \<Rightarrow> int" where
  "ProtocolProps_getPortForInstall bounded p =
     (if p \<in> {ProtoAwg, ProtoWireGuard, ProtoShadowSocks, ProtoOpenVpn, ProtoSocks5Proxy}
      then bounded 30000 50000 else ProtocolProps_defaultPort p)"

fun ProtocolProps_defaultPortChangeable :: "Proto \<Rightarrow> bool" where
  "ProtocolProps_defaultPortChangeable ProtoOpenVpn = True"
| "ProtocolProps_defaultPortChangeable ProtoCloak = True"
| "ProtocolProps_defaultPortChangeable ProtoShadowSocks = True"
| "ProtocolProps_defaultPortChangeable ProtoWireGuard = True"
| "ProtocolProps_defaultPortChangeable ProtoAwg = True"
| "ProtocolProps_defaultPortChangeable ProtoXray = True"
| "ProtocolProps_defaultPortChangeable ProtoSftp = True"
| "ProtocolProps_defaultPortChangeable ProtoSocks5Proxy = True"
| "ProtocolProps_defaultPortChangeable _ = False"

fun ProtocolProps_defaultTransportProto :: "Proto \<Rightarrow> TransportProto option" where
  "ProtocolProps_defaultTransportProto ProtoAny = Some Udp"
| "ProtocolProps_defaultTransportProto ProtoOpenVpn = Some Udp"
| "ProtocolProps_defaultTransportProto ProtoCloak = Some Tcp"
| "ProtocolProps_defaultTransportProto ProtoShadowSocks = Some TcpAndUdp"
| "ProtocolProps_defaultTransportProto ProtoWireGuard = Some Udp"
| "ProtocolProps_defaultTransportProto ProtoAwg = Some Udp"
| "ProtocolProps_defaultTransportProto ProtoIkev2 = Some Udp"
| "ProtocolProps_defaultTransportProto ProtoL2tp = Some Udp"
| "ProtocolProps_defaultTransportProto ProtoXray = Some Tcp"
| "ProtocolProps_defaultTransportProto ProtoTorWebSite = Some Tcp"
| "ProtocolProps_defaultTransportProto ProtoDns = Some Udp"
| "ProtocolProps_defaultTransportProto ProtoSftp = Some Tcp"
| "ProtocolProps_defaultTransportProto ProtoSocks5Proxy = Some Tcp"
| "ProtocolProps_defaultTransportProto _ = None"

fun ProtocolProps_defaultTransportProtoChangeable :: "Proto \<Rightarrow> bool" where
  "ProtocolProps_defaultTransportProtoChangeable ProtoOpenVpn = True"
| "ProtocolProps_defaultTransportProtoChangeable _ = False"

definition ProtocolProps_key_proto_config_data :: "Proto \<Rightarrow> string" where
  "ProtocolProps_key_proto_config_data p = ProtocolProps_protoToString p @ ''_config_data''"

definition ProtocolProps_key_proto_config_path :: "Proto \<Rightarrow> string" where
  "ProtocolProps_key_proto_config_path p = ProtocolProps_protoToString p @ ''_config_path''"

section \<open>Containers\<close>

definition ContainerProps_allContainers :: "DockerContainer list" where
  "ContainerProps_allContainers =
     [DockerNone, DockerAwg, DockerWireGuard, DockerOpenVpn, DockerCloak, DockerShadowSocks,
      DockerIpsec, DockerXray, DockerSSXray, DockerTorWebSite, DockerDns, DockerSftp, DockerSocks5Proxy]"

definition ContainerProps_containerToString :: "DockerContainer \<Rightarrow> string" where
  "ContainerProps_containerToString c =
     (if c = DockerNone then ''none''
      else if c = DockerCloak then ''amnezia-openvpn-cloak''
      else ''amnezia-'' @ toLower (DockerContainer_key c))"

definition ContainerProps_containerFromString :: "string \<Rightarrow> DockerContainer" where
  "ContainerProps_containerFromString container =
     (case find (\<lambda>c. container = ContainerProps_containerToString c) ContainerProps_allContainers of
        Some c \<Rightarrow> c | None \<Rightarrow> DockerNone)"

definition ContainerProps_containerTypeToString :: "DockerContainer \<Rightarrow> string" where
  "ContainerProps_containerTypeToString c =
     (if c = DockerNone then ''none'' else if c = DockerIpsec then ''ikev2''
      else toLower (DockerContainer_key c))"

fun ContainerProps_defaultProtocol :: "DockerContainer \<Rightarrow> Proto" where
  "ContainerProps_defaultProtocol DockerNone = ProtoAny"
| "ContainerProps_defaultProtocol DockerOpenVpn = ProtoOpenVpn"
| "ContainerProps_defaultProtocol DockerCloak = ProtoCloak"
| "ContainerProps_defaultProtocol DockerShadowSocks = ProtoShadowSocks"
| "ContainerProps_defaultProtocol DockerWireGuard = ProtoWireGuard"
| "ContainerProps_defaultProtocol DockerAwg = ProtoAwg"
| "ContainerProps_defaultProtocol DockerXray = ProtoXray"
| "ContainerProps_defaultProtocol DockerIpsec = ProtoIkev2"
| "ContainerProps_defaultProtocol DockerSSXray = ProtoSSXray"
| "ContainerProps_defaultProtocol DockerTorWebSite = ProtoTorWebSite"
| "ContainerProps_defaultProtocol DockerDns = ProtoDns"
| "ContainerProps_defaultProtocol DockerSftp = ProtoSftp"
| "ContainerProps_defaultProtocol DockerSocks5Proxy = ProtoSocks5Proxy"

fun ContainerProps_protocolsForContainer :: "DockerContainer \<Rightarrow> Proto list" where
  "ContainerProps_protocolsForContainer DockerNone = []"
| "ContainerProps_protocolsForContainer DockerOpenVpn = [ProtoOpenVpn]"
| "ContainerProps_protocolsForContainer DockerShadowSocks = [ProtoOpenVpn, ProtoShadowSocks]"
| "ContainerProps_protocolsForContainer DockerCloak = [ProtoOpenVpn, ProtoShadowSocks, ProtoCloak]"
| "ContainerProps_protocolsForContainer DockerIpsec = [ProtoIkev2]"
| "ContainerProps_protocolsForContainer DockerXray = [ProtoXray]"
| "ContainerProps_protocolsForContainer DockerSSXray = [ProtoSSXray]"
| "ContainerProps_protocolsForContainer DockerDns = [ProtoDns]"
| "ContainerProps_protocolsForContainer DockerSftp = [ProtoSftp]"
| "ContainerProps_protocolsForContainer DockerSocks5Proxy = [ProtoSocks5Proxy]"
| "ContainerProps_protocolsForContainer container = [ContainerProps_defaultProtocol container]"

definition ContainerProps_containerHumanNames :: "(DockerContainer \<times> string) list" where
  "ContainerProps_containerHumanNames =
     [(DockerNone, ''Not installed''),
      (DockerOpenVpn, ''OpenVPN''),
      (DockerShadowSocks, ''OpenVPN over SS''),
      (DockerCloak, ''OpenVPN over Cloak''),
      (DockerWireGuard, ''WireGuard''),
      (DockerAwg, ''AmneziaWG''),
      (DockerXray, ''XRay''),
      (DockerIpsec, ''IPsec''),
      (DockerSSXray, ''Shadowsocks''),
      (DockerTorWebSite, ''Website in Tor network''),
      (DockerDns, ''AmneziaDNS''),
      (DockerSftp, ''SFTP file sharing service''),
      (DockerSocks5Proxy, ''SOCKS5 proxy server'')]"

definition ContainerProps_containerService :: "DockerContainer \<Rightarrow> ServiceType" where
  "ContainerProps_containerService c = ProtocolProps_protocolService (ContainerProps_defaultProtocol c)"

text \<open>The platform macros of the build.\<close>

datatype Platform = OsWindows | OsIos | OsMac | OsAndroid | OsLinux | OsOther

fun ContainerProps_isSupportedByCurrentPlatform :: "Platform \<Rightarrow> DockerContainer \<Rightarrow> bool" where
  "ContainerProps_isSupportedByCurrentPlatform OsWindows c = True"
| "ContainerProps_isSupportedByCurrentPlatform OsIos c =
     (c \<in> {DockerWireGuard, DockerOpenVpn, DockerAwg, DockerXray, DockerCloak, DockerSSXray})"
| "ContainerProps_isSupportedByCurrentPlatform OsMac c = (c \<noteq> DockerIpsec)"
| "ContainerProps_isSupportedByCurrentPlatform OsAndroid c =
     (c \<in> {DockerWireGuard, DockerOpenVpn, DockerAwg, DockerCloak, DockerXray, DockerSSXray})"
| "ContainerProps_isSupportedByCurrentPlatform OsLinux c = (c \<noteq> DockerIpsec)"
| "ContainerProps_isSupportedByCurrentPlatform OsOther c = False"

fun ContainerProps_fixedPortsForContainer :: "DockerContainer \<Rightarrow> string list" where
  "ContainerProps_fixedPortsForContainer DockerIpsec = [''500'', ''4500'']"
| "ContainerProps_fixedPortsForContainer _ = []"

fun ContainerProps_isEasySetupContainer :: "DockerContainer \<Rightarrow> bool" where
  "ContainerProps_isEasySetupContainer DockerWireGuard = True"
| "ContainerProps_isEasySetupContainer DockerAwg = True"
| "ContainerProps_isEasySetupContainer _ = False"

fun ContainerProps_easySetupHeader :: "DockerContainer \<Rightarrow> string" where
  "ContainerProps_easySetupHeader DockerWireGuard = ''Low''"
| "ContainerProps_easySetupHeader DockerAwg = ''High''"
| "ContainerProps_easySetupHeader _ = []"

fun ContainerProps_easySetupDescription :: "DockerContainer \<Rightarrow> string" where
  "ContainerProps_easySetupDescription DockerWireGuard =
     ''I just want to increase the level of my privacy.''"
| "ContainerProps_easySetupDescription DockerAwg =
     ''I want to bypass censorship. This option recommended in most cases.''"
| "ContainerProps_easySetupDescription _ = []"

fun ContainerProps_easySetupOrder :: "DockerContainer \<Rightarrow> int" where
  "ContainerProps_easySetupOrder DockerWireGuard = 3"
| "ContainerProps_easySetupOrder DockerAwg = 2"
| "ContainerProps_easySetupOrder _ = 0"

fun ContainerProps_isShareable :: "DockerContainer \<Rightarrow> bool" where
  "ContainerProps_isShareable DockerTorWebSite = False"
| "ContainerProps_isShareable DockerDns = False"
| "ContainerProps_isShareable DockerSftp = False"
| "ContainerProps_isShareable DockerSocks5Proxy = False"
| "ContainerProps_isShareable _ = True"

definition ContainerProps_getProtocolConfigFromContainer ::
  "(string \<Rightarrow> qjson) \<Rightarrow> Proto \<Rightarrow> qjobject \<Rightarrow> qjobject"
where
  "ContainerProps_getProtocolConfigFromContainer fromJson proto containerConfig =
     json_toObject (fromJson (qs (json_toString (json_value
       (json_toObject (json_value containerConfig (ProtocolProps_protoToString proto)))
       ''last_config''))))"

fun ContainerProps_installPageOrder :: "DockerContainer \<Rightarrow> int" where
  "ContainerProps_installPageOrder DockerOpenVpn = 4"
| "ContainerProps_installPageOrder DockerCloak = 5"
| "ContainerProps_installPageOrder DockerShadowSocks = 6"
| "ContainerProps_installPageOrder DockerWireGuard = 2"
| "ContainerProps_installPageOrder DockerAwg = 1"
| "ContainerProps_installPageOrder DockerXray = 3"
| "ContainerProps_installPageOrder DockerIpsec = 7"
| "ContainerProps_installPageOrder DockerSSXray = 8"
| "ContainerProps_installPageOrder _ = 0"

section \<open>Scripts\<close>

datatype SharedScriptType =
    prepare_host | install_docker | build_container | remove_container | remove_all_containers
  | setup_host_firewall | check_connection | check_server_is_busy | check_user_in_sudo

datatype ProtocolScriptType =
    dockerfile | run_container | configure_container | container_startup
  | openvpn_template | wireguard_template | awg_template | xray_template


fun scriptFolder :: "DockerContainer \<Rightarrow> qstring" where
  "scriptFolder DockerOpenVpn = Some ''openvpn''"
| "scriptFolder DockerCloak = Some ''openvpn_cloak''"
| "scriptFolder DockerShadowSocks = Some ''openvpn_shadowsocks''"
| "scriptFolder DockerWireGuard = Some ''wireguard''"
| "scriptFolder DockerAwg = Some ''awg''"
| "scriptFolder DockerIpsec = Some ''ipsec''"
| "scriptFolder DockerXray = Some ''xray''"
| "scriptFolder DockerTorWebSite = Some ''website_tor''"
| "scriptFolder DockerDns = Some ''dns''"
| "scriptFolder DockerSftp = Some ''sftp''"
| "scriptFolder DockerSocks5Proxy = Some ''socks5_proxy''"
| "scriptFolder _ = None"

fun sharedScriptName :: "SharedScriptType \<Rightarrow> string" where
  "sharedScriptName prepare_host = ''prepare_host.sh''"
| "sharedScriptName install_docker = ''install_docker.sh''"
| "sharedScriptName build_container = ''build_container.sh''"
| "sharedScriptName remove_container = ''remove_container.sh''"
| "sharedScriptName remove_all_containers = ''remove_all_containers.sh''"
| "sharedScriptName setup_host_firewall = ''setup_host_firewall.sh''"
| "sharedScriptName check_connection = ''check_connection.sh''"
| "sharedScriptName check_server_is_busy = ''check_server_is_busy.sh''"
| "sharedScriptName check_user_in_sudo = ''check_user_in_sudo.sh''"

fun protocolScriptName :: "ProtocolScriptType \<Rightarrow> string" where
  "protocolScriptName dockerfile = ''Dockerfile''"
| "protocolScriptName run_container = ''run_container.sh''"
| "protocolScriptName configure_container = ''configure_container.sh''"
| "protocolScriptName container_startup = ''start.sh''"
| "protocolScriptName openvpn_template = ''template.ovpn''"
| "protocolScriptName wireguard_template = ''template.conf''"
| "protocolScriptName awg_template = ''template.conf''"
| "protocolScriptName xray_template = ''template.json''"

text \<open>\<open>resources\<close> gives the contents of a resource file, if it can be opened.\<close>

definition sharedScriptData :: "(string \<Rightarrow> string option) \<Rightarrow> SharedScriptType \<Rightarrow> string" where
  "sharedScriptData resources type =
     (case resources ('':/server_scripts/'' @ sharedScriptName type) of None \<Rightarrow> [] | Some ba \<Rightarrow> ba)"

definition protocolScriptData ::
  "(string \<Rightarrow> string option) \<Rightarrow> ProtocolScriptType \<Rightarrow> DockerContainer \<Rightarrow> string"
where
  "protocolScriptData resources type container =
     (case resources ('':/server_scripts/'' @ qs (scriptFolder container) @ ''/'' @ protocolScriptName type) of
        None \<Rightarrow> [] | Some data \<Rightarrow> filter (\<lambda>c. c \<noteq> CHR 0x0D) data)"

section \<open>Properties\<close>

lemma toLower_Nil [simp]: "toLower [] = []"
  by (simp add: toLower_def)

lemma allContainers_UNIV: "set ContainerProps_allContainers = UNIV"
proof -
  have "c \<in> set ContainerProps_allContainers" for c
    by (cases c) (simp_all add: ContainerProps_allContainers_def)
  then show ?thesis by auto
qed

lemma allProtocols_UNIV: "set ProtocolProps_allProtocols = UNIV"
proof -
  have "p \<in> set ProtocolProps_allProtocols" for p
    by (cases p) (simp_all add: ProtocolProps_allProtocols_def)
  then show ?thesis by auto
qed

text \<open>A name found by search belongs to the element it came from when names are distinct.\<close>

lemma find_name:
  assumes "distinct (map name xs)" "x \<in> set xs"
  shows "find (\<lambda>y. name x = name y) xs = Some x"
  using assms by (induction xs) (auto simp: image_iff)

lemma container_names_distinct: "distinct (map ContainerProps_containerToString ContainerProps_allContainers)"
  by code_simp

lemma proto_names_distinct: "distinct (map ProtocolProps_protoToString ProtocolProps_allProtocols)"
  by code_simp

text \<open>
  The names of containers and protocols can be read back: every container, every protocol and
  every transport is recovered from its name, and a name that belongs to none reads as none.
\<close>

theorem names_roundtrip:
  "ContainerProps_containerFromString (ContainerProps_containerToString c) = c \<and>
   ProtocolProps_protoFromString (ProtocolProps_protoToString p) = p \<and>
   ProtocolProps_transportProtoFromString (ProtocolProps_transportProtoToString t p) = t \<and>
   (ContainerProps_containerFromString s = DockerNone \<or>
     s = ContainerProps_containerToString (ContainerProps_containerFromString s))"
proof (intro conjI)
  show "ContainerProps_containerFromString (ContainerProps_containerToString c) = c"
    by (simp add: ContainerProps_containerFromString_def allContainers_UNIV
        find_name [OF container_names_distinct])
  show "ProtocolProps_protoFromString (ProtocolProps_protoToString p) = p"
    by (simp add: ProtocolProps_protoFromString_def allProtocols_UNIV find_name [OF proto_names_distinct])
  show "ProtocolProps_transportProtoFromString (ProtocolProps_transportProtoToString t p) = t"
    by (cases t) (simp_all add: ProtocolProps_transportProtoFromString_def
        ProtocolProps_transportProtoToString_def toLower_def)
  show "ContainerProps_containerFromString s = DockerNone \<or>
     s = ContainerProps_containerToString (ContainerProps_containerFromString s)"
    by (auto simp: ContainerProps_containerFromString_def find_Some_iff split: option.split)
qed

text \<open>
  \<open>defaultTransportProto\<close> returns a value for every protocol except \<open>SSXray\<close>, for which its switch has
  no case and its body ends without a return; that container has no script folder either.
\<close>

theorem defaultTransportProto_partial:
  "(ProtocolProps_defaultTransportProto p = None \<longleftrightarrow> p = ProtoSSXray) \<and>
   (scriptFolder c = None \<longleftrightarrow> c = DockerNone \<or> c = DockerSSXray)"
proof
  show "ProtocolProps_defaultTransportProto p = None \<longleftrightarrow> p = ProtoSSXray" by (cases p) simp_all
  show "scriptFolder c = None \<longleftrightarrow> c = DockerNone \<or> c = DockerSSXray" by (cases c) simp_all
qed

text \<open>
  If the random generator keeps to its bounds, the port chosen for an installation is a valid
  port, or -1 for exactly the protocols that have none.
\<close>

theorem getPortForInstall_range:
  assumes "\<And>lo hi. lo < hi \<Longrightarrow> lo \<le> bounded lo hi \<and> bounded lo hi < hi"
  shows "(ProtocolProps_getPortForInstall bounded p = -1 \<longleftrightarrow>
      p \<in> {ProtoAny, ProtoIkev2, ProtoL2tp, ProtoSSXray, ProtoTorWebSite}) \<and>
    (ProtocolProps_getPortForInstall bounded p \<noteq> -1 \<longrightarrow>
      0 < ProtocolProps_getPortForInstall bounded p \<and> ProtocolProps_getPortForInstall bounded p < 65536)"
  using assms [of 30000 50000] by (cases p) (simp_all add: ProtocolProps_getPortForInstall_def)

theorem getPortForInstall_range_witness:
  "ProtocolProps_getPortForInstall (\<lambda>lo hi. lo) ProtoAwg = 30000 \<and>
   0 < ProtocolProps_getPortForInstall (\<lambda>lo hi. lo) ProtoAwg"
  using getPortForInstall_range [of "\<lambda>lo hi. lo" ProtoAwg]
  by (simp add: ProtocolProps_getPortForInstall_def)

text \<open>
  The main protocol of a container is one of the protocols shown for it, no two containers
  share their main protocol, and exactly the containers of VPN protocols on desktop Linux are those
  with an installation page order, the Shadowsocks container without a service apart.
\<close>

theorem defaultProtocol_listed:
  "(c \<noteq> DockerNone \<longrightarrow> ContainerProps_defaultProtocol c \<in> set (ContainerProps_protocolsForContainer c)) \<and>
   (ContainerProps_defaultProtocol c = ContainerProps_defaultProtocol c' \<longrightarrow> c = c') \<and>
   (ContainerProps_installPageOrder c > 0 \<longleftrightarrow>
     ContainerProps_containerService c = ServiceVpn \<or> c = DockerSSXray) \<and>
   (ContainerProps_isShareable c \<longleftrightarrow> ContainerProps_containerService c \<noteq> ServiceOther)"
proof (intro conjI)
  show "ContainerProps_defaultProtocol c = ContainerProps_defaultProtocol c' \<longrightarrow> c = c'"
    by (cases c; cases c'; simp)
qed (cases c; simp add: ContainerProps_containerService_def)+

theorem defaultProtocol_listed_witness:
  "ContainerProps_defaultProtocol DockerCloak \<in> set (ContainerProps_protocolsForContainer DockerCloak) \<and>
   ContainerProps_isShareable DockerCloak"
  using defaultProtocol_listed [of DockerCloak DockerCloak]
  by (simp add: ContainerProps_containerService_def)

end
