(* ===== verification/Daemon_Core.thy ===== *)
theory Daemon_Core
  imports Daemon_Config
begin

text \<open>
  \<open>client/daemon/daemon.{h,cpp}\<close>: the privileged process that brings the tunnel up and down.

  The object is the record \<open>Daemon\<close>: the map of connections by hop type, the reference counts of
  the excluded prefixes, whether the handshake timer is running, the signals emitted so far (oldest
  first) and the state of the platform.  The abstract classes \<open>WireguardUtils\<close>, \<open>DnsUtils\<close> and
  \<open>IPUtils\<close> and the virtual methods \<open>run\<close> and \<open>prepareActivation\<close> are a table of functions on the
  platform state (the record \<open>platform\<close>), as the virtual method table is in the source; the theory
  \<open>Linux_Daemon\<close> fills it in with the classes of \<open>client/platforms/linux/daemon\<close>.

  A method that returns \<open>bool\<close> is an action, a function from a state to a result and a state:
  \<open>require f g\<close> is \<open>if (!f()) return false; g\<close>, \<open>perform f g\<close> is \<open>f(); g\<close>.  An invalid
  \<open>QDateTime\<close> is \<open>None\<close>.  \<open>Q_ASSERT\<close> does nothing, as in a release build.
\<close>

named_theorems keeps_intros \<open>invariants are preserved by the combinators\<close>

section \<open>Actions\<close>

type_synonym 's action = "'s \<Rightarrow> bool \<times> 's"

definition skip :: "'s action" where
  "skip s = (True, s)"

definition require :: "'s action \<Rightarrow> 's action \<Rightarrow> 's action" where
  "require f g s = (let (ok, s') = f s in if ok then g s' else (False, s'))"

definition perform :: "('s \<Rightarrow> 's) \<Rightarrow> 's action \<Rightarrow> 's action" where
  "perform f g s = g (f s)"

definition ignore :: "'s action \<Rightarrow> 's \<Rightarrow> 's" where
  "ignore f s = snd (f s)"

text \<open>A loop that leaves the method at the first failure, and one that ignores failures.\<close>

fun require_all :: "('a \<Rightarrow> 's action) \<Rightarrow> 'a list \<Rightarrow> 's action" where
  "require_all f [] s = (True, s)"
| "require_all f (x # xs) s = require (f x) (require_all f xs) s"

definition for_each :: "('a \<Rightarrow> 's action) \<Rightarrow> 'a list \<Rightarrow> 's \<Rightarrow> 's" where
  "for_each f xs s = fold (\<lambda>x. ignore (f x)) xs s"

section \<open>State\<close>

record PeerStatus =
  m_pubkey :: qstring
  m_handshake :: int
  m_rxBytes :: int
  m_txBytes :: int

datatype Op = Up | Down | Switch

record 'p platform =
  wg_interfaceExists :: "'p \<Rightarrow> bool"
  wg_interfaceName :: "'p \<Rightarrow> qstring"
  wg_addInterface :: "InterfaceConfig \<Rightarrow> 'p action"
  wg_deleteInterface :: "'p action"
  wg_updatePeer :: "InterfaceConfig \<Rightarrow> 'p action"
  wg_deletePeer :: "InterfaceConfig \<Rightarrow> 'p action"
  wg_getPeerStatus :: "'p \<Rightarrow> PeerStatus list \<times> 'p"
  wg_updateRoutePrefix :: "IPAddress \<Rightarrow> 'p action"
  wg_deleteRoutePrefix :: "IPAddress \<Rightarrow> 'p action"
  wg_addExclusionRoute :: "IPAddress \<Rightarrow> 'p action"
  wg_deleteExclusionRoute :: "IPAddress \<Rightarrow> 'p action"
  supportDnsUtils :: bool
  dns_updateResolvers :: "qstring \<Rightarrow> QHostAddress list \<Rightarrow> 'p action"
  dns_restoreResolvers :: "'p action"
  supportIPUtils :: bool
  ip_addInterfaceIPs :: "InterfaceConfig \<Rightarrow> 'p action"
  ip_setMTUAndUp :: "InterfaceConfig \<Rightarrow> 'p action"
  daemon_run :: "Op \<Rightarrow> InterfaceConfig \<Rightarrow> 'p action"
  prepareActivation :: "InterfaceConfig \<Rightarrow> 'p \<Rightarrow> 'p"

record ConnectionState =
  m_date :: "int option"
  m_config :: InterfaceConfig

datatype signal = Connected qstring | ActivationFailure | Disconnected

record 'p Daemon =
  m_connections :: "(HopType \<times> ConnectionState) list"
  m_excludedAddrSet :: "(IPAddress \<times> int) list"
  m_handshakeTimer :: bool
  emitted :: "signal list"
  platform :: 'p

definition ConnectionState_of :: "InterfaceConfig \<Rightarrow> ConnectionState" where
  "ConnectionState_of config = \<lparr>m_date = None, m_config = config\<rparr>"

definition Daemon_new :: "'p \<Rightarrow> 'p Daemon" where
  "Daemon_new p =
     \<lparr>m_connections = [], m_excludedAddrSet = [], m_handshakeTimer = False, emitted = [],
      platform = p\<rparr>"

definition emit_signal :: "signal \<Rightarrow> 'p Daemon \<Rightarrow> 'p Daemon" where
  "emit_signal sig d = d\<lparr>emitted := emitted d @ [sig]\<rparr>"

text \<open>A call of a method of the platform.\<close>

definition call :: "'p action \<Rightarrow> 'p Daemon action" where
  "call f d = (let (ok, p) = f (platform d) in (ok, d\<lparr>platform := p\<rparr>))"

definition call_if :: "bool \<Rightarrow> 'p action \<Rightarrow> 'p Daemon action" where
  "call_if b f d = (if b then call f d else (True, d))"

section \<open>Methods\<close>

definition Daemon_maybeUpdateResolvers ::
  "Qt \<Rightarrow> 'p platform \<Rightarrow> InterfaceConfig \<Rightarrow> 'p Daemon action"
where
  "Daemon_maybeUpdateResolvers Q P config d =
     (if \<not> supportDnsUtils P then (True, d)
      else if m_hopType config = MultiHopExit \<or> m_hopType config = SingleHop then
        (let resolvers =
           qt_host Q (qs (m_dnsServer config)) #
           (if qeq (m_dnsServer config) (m_serverIpv4Gateway config)
            then [qt_host Q (qs (m_serverIpv6Gateway config))] else [])
         in call (dns_updateResolvers P (wg_interfaceName P (platform d)) resolvers) d)
      else (True, d))"

definition Daemon_addExclusionRoute :: "'p platform \<Rightarrow> IPAddress \<Rightarrow> 'p Daemon action" where
  "Daemon_addExclusionRoute P prefix d =
     (case map_of (m_excludedAddrSet d) prefix of
        Some n \<Rightarrow>
          (True, d\<lparr>m_excludedAddrSet := qhash_insert prefix (n + 1) (m_excludedAddrSet d)\<rparr>)
      | None \<Rightarrow>
          require (call (wg_addExclusionRoute P prefix))
            (\<lambda>d. (True, d\<lparr>m_excludedAddrSet := qhash_insert prefix 1 (m_excludedAddrSet d)\<rparr>)) d)"

text \<open>\<open>operator[]\<close> of a \<open>QHash\<close> reads 0 for a missing key.\<close>

definition Daemon_delExclusionRoute :: "'p platform \<Rightarrow> IPAddress \<Rightarrow> 'p Daemon action" where
  "Daemon_delExclusionRoute P prefix d =
     (let n = (case map_of (m_excludedAddrSet d) prefix of None \<Rightarrow> 0 | Some n \<Rightarrow> n)
      in if n > 1
         then (True, d\<lparr>m_excludedAddrSet := qhash_insert prefix (n - 1) (m_excludedAddrSet d)\<rparr>)
         else call (wg_deleteExclusionRoute P prefix)
                (d\<lparr>m_excludedAddrSet := AList.delete prefix (m_excludedAddrSet d)\<rparr>))"

definition Daemon_supportServerSwitching :: "InterfaceConfig \<Rightarrow> 'p Daemon \<Rightarrow> bool" where
  "Daemon_supportServerSwitching config d \<longleftrightarrow>
     (case map_of (m_connections d) (m_hopType config) of
        None \<Rightarrow> False
      | Some st \<Rightarrow>
          (let current = m_config st
           in qeq (m_privateKey current) (m_privateKey config) \<and>
              qeq (m_deviceIpv4Address current) (m_deviceIpv4Address config) \<and>
              qeq (m_deviceIpv6Address current) (m_deviceIpv6Address config) \<and>
              qeq (m_serverIpv4Gateway current) (m_serverIpv4Gateway config) \<and>
              qeq (m_serverIpv6Gateway current) (m_serverIpv6Gateway config)))"

definition setConnection :: "InterfaceConfig \<Rightarrow> 'p Daemon \<Rightarrow> 'p Daemon" where
  "setConnection config d = d
     \<lparr>m_connections := qmap_insert (m_hopType config) (ConnectionState_of config) (m_connections d)\<rparr>"

text \<open>\<open>m_connections.value(hop)\<close> is a default-constructed state when the hop is missing.\<close>

definition lastConfig :: "HopType \<Rightarrow> 'p Daemon \<Rightarrow> InterfaceConfig" where
  "lastConfig hop d =
     (case map_of (m_connections d) hop of
        None \<Rightarrow> InterfaceConfig_new hop False
      | Some st \<Rightarrow> m_config st)"

definition Daemon_switchServer ::
  "Qt \<Rightarrow> 'p platform \<Rightarrow> InterfaceConfig \<Rightarrow> 'p Daemon action"
where
  "Daemon_switchServer Q P config d0 =
     (let last = lastConfig (m_hopType config) d0
      in perform
           (for_each (\<lambda>i. Daemon_addExclusionRoute P (IPAddress_ofString Q i))
             (m_excludedAddresses config))
         (require (call (wg_updatePeer P config))
         (perform
           (ignore (require_all (\<lambda>ip. call (wg_updateRoutePrefix P ip))
             (m_allowedIPAddressRanges config)))
         (perform
           (for_each (\<lambda>i. Daemon_delExclusionRoute P (IPAddress_ofHost (qt_host Q i)))
             (m_excludedAddresses last))
         (perform
           (for_each (\<lambda>ip. call (wg_deleteRoutePrefix P ip))
             (filter (\<lambda>ip. ip \<notin> set (m_allowedIPAddressRanges config))
               (m_allowedIPAddressRanges last)))
         (require
           (call_if (\<not> qeq (m_serverPublicKey config) (m_serverPublicKey last))
             (wg_deletePeer P last))
         (perform (setConnection config) skip)))))) d0)"

definition Daemon_deletePeers :: "'p platform \<Rightarrow> 'p Daemon \<Rightarrow> 'p Daemon" where
  "Daemon_deletePeers P d =
     fold (\<lambda>(hop, st) d.
         ignore (call (wg_deletePeer P (m_config st)))
           (for_each (\<lambda>ip. call (wg_deleteRoutePrefix P ip))
             (m_allowedIPAddressRanges (m_config st)) d))
       (m_connections d) d"

definition Daemon_deleteExclusions :: "'p platform \<Rightarrow> 'p Daemon \<Rightarrow> 'p Daemon" where
  "Daemon_deleteExclusions P d =
     (for_each (\<lambda>e. call (wg_deleteExclusionRoute P (fst e))) (m_excludedAddrSet d) d)
       \<lparr>m_excludedAddrSet := []\<rparr>"

definition Daemon_deactivate :: "'p platform \<Rightarrow> bool \<Rightarrow> 'p Daemon action" where
  "Daemon_deactivate P emitSignals =
     require
       (\<lambda>d. case m_connections d of
              [] \<Rightarrow> (True, d)
            | (hop, st) # _ \<Rightarrow> call (daemon_run P Down (m_config st)) d)
     (perform (if emitSignals then emit_signal Disconnected else id)
     (require (call_if (supportDnsUtils P) (dns_restoreResolvers P))
     (require (\<lambda>d. (wg_interfaceExists P (platform d), d))
     (perform (Daemon_deletePeers P)
     (perform (Daemon_deleteExclusions P)
     (require (call (wg_deleteInterface P))
     (perform (\<lambda>d. d\<lparr>m_connections := []\<rparr>) skip)))))))"

text \<open>The last lines of both branches of \<open>activate\<close>.\<close>

definition Daemon_finish :: "'p platform \<Rightarrow> Op \<Rightarrow> InterfaceConfig \<Rightarrow> 'p Daemon action" where
  "Daemon_finish P op config =
     require (call (daemon_run P op config))
     (perform (setConnection config)
     (perform (\<lambda>d. d\<lparr>m_handshakeTimer := True\<rparr>) skip))"

definition Daemon_activateSwitch ::
  "Qt \<Rightarrow> 'p platform \<Rightarrow> InterfaceConfig \<Rightarrow> 'p Daemon action"
where
  "Daemon_activateSwitch Q P config =
     require (Daemon_switchServer Q P config)
     (require (call_if (supportDnsUtils P) (dns_restoreResolvers P))
     (require (Daemon_maybeUpdateResolvers Q P config)
     (Daemon_finish P Switch config)))"

definition Daemon_activateFresh ::
  "Qt \<Rightarrow> 'p platform \<Rightarrow> InterfaceConfig \<Rightarrow> 'p Daemon action"
where
  "Daemon_activateFresh Q P config =
     perform (\<lambda>d. d\<lparr>platform := prepareActivation P config (platform d)\<rparr>)
     (require (\<lambda>d. call_if (\<not> wg_interfaceExists P (platform d)) (wg_addInterface P config) d)
     (perform
       (for_each (\<lambda>i. Daemon_addExclusionRoute P (IPAddress_ofString Q i))
         (m_excludedAddresses config))
     (require (call (wg_updatePeer P config))
     (require (Daemon_maybeUpdateResolvers Q P config)
     (require (call_if (supportIPUtils P) (ip_addInterfaceIPs P config))
     (require (call_if (supportIPUtils P) (ip_setMTUAndUp P config))
     (require
       (require_all (\<lambda>ip. call (wg_updateRoutePrefix P ip)) (m_allowedIPAddressRanges config))
     (Daemon_finish P Up config))))))))"

text \<open>The scope guard of \<open>activate\<close>, dismissed on the paths that return true.\<close>

definition emit_failure_guard :: "bool \<times> 'p Daemon \<Rightarrow> bool \<times> 'p Daemon" where
  "emit_failure_guard r =
     (case r of (ok, d) \<Rightarrow> if ok then (True, d) else (False, emit_signal ActivationFailure d))"

lemma deactivate_clears:
  assumes "Daemon_deactivate P e d = (True, d')"
  shows "m_connections d' = []"
  using assms
  by (auto simp: Daemon_deactivate_def require_def perform_def skip_def Let_def
      split: prod.splits if_splits)

function Daemon_activate :: "Qt \<Rightarrow> 'p platform \<Rightarrow> InterfaceConfig \<Rightarrow> 'p Daemon action" where
  "Daemon_activate Q P config d =
     emit_failure_guard
       (if qmap_contains (m_connections d) (m_hopType config) then
          (if Daemon_supportServerSwitching config d then Daemon_activateSwitch Q P config d
           else (case Daemon_deactivate P False d of
                   (False, d') \<Rightarrow> (False, d')
                 | (True, d') \<Rightarrow> Daemon_activate Q P config d'))
        else Daemon_activateFresh Q P config d)"
  by pat_completeness auto
termination
proof (relation "measure (\<lambda>(Q, P, config, d). length (m_connections d))", goal_cases)
  case (2 Q P config d r d')
  then have "m_connections d' = []" using deactivate_clears by metis
  with 2 show ?case by (auto simp: qmap_contains_def)
qed simp

declare Daemon_activate.simps [simp del]

section \<open>Status and handshakes\<close>

definition Daemon_getStatus ::
  "(int option \<Rightarrow> string) \<Rightarrow> 'p platform \<Rightarrow> 'p Daemon \<Rightarrow> qjobject \<times> 'p Daemon"
where
  "Daemon_getStatus dateToString P d =
     (let off = json_insert ''connected'' (JBool False) []
      in case m_connections d of
           [] \<Rightarrow> (off, d)
         | (hop, connection) # _ \<Rightarrow>
             if \<not> wg_interfaceExists P (platform d) then (off, d)
             else
               (let (peers, p) = wg_getPeerStatus P (platform d); d = d\<lparr>platform := p\<rparr>
                in case find (\<lambda>status.
                         qeq (m_pubkey status) (m_serverPublicKey (m_config connection))) peers of
                     None \<Rightarrow> (off, d)
                   | Some status \<Rightarrow>
                       (let json = json_insert ''connected'' (JBool True) [];
                            json = json_insert ''serverIpv4Gateway''
                              (json_ofString (m_serverIpv4Gateway (m_config connection))) json;
                            json = json_insert ''deviceIpv4Address''
                              (json_ofString (m_deviceIpv4Address (m_config connection))) json;
                            json = json_insert ''date'' (JString (dateToString (m_date connection))) json;
                            json = json_insert ''txBytes'' (JDouble (of_int (m_txBytes status))) json;
                            json = json_insert ''rxBytes'' (JDouble (of_int (m_rxBytes status))) json
                        in (json, d))))"

text \<open>One connection against the list of peers: its new state and the signals emitted.\<close>

fun handshakeConnection ::
  "PeerStatus list \<Rightarrow> ConnectionState \<Rightarrow> signal list \<Rightarrow> ConnectionState \<times> signal list"
where
  "handshakeConnection [] connection sigs = (connection, sigs)"
| "handshakeConnection (status # peers) connection sigs =
     (if \<not> qeq (m_serverPublicKey (m_config connection)) (m_pubkey status)
      then handshakeConnection peers connection sigs
      else if m_handshake status \<noteq> 0
      then handshakeConnection peers (connection\<lparr>m_date := Some (m_handshake status)\<rparr>)
             (sigs @ [Connected (m_pubkey status)])
      else handshakeConnection peers connection sigs)"

fun handshakeLoop ::
  "PeerStatus list \<Rightarrow> (HopType \<times> ConnectionState) list
    \<Rightarrow> (HopType \<times> ConnectionState) list \<times> signal list \<times> nat"
where
  "handshakeLoop peers [] = ([], [], 0)"
| "handshakeLoop peers ((hop, connection) # conns) =
     (let (connection', sigs, pending) =
        (if m_date connection \<noteq> None then (connection, [], 0)
         else (let (connection', sigs) = handshakeConnection peers connection []
               in (connection', sigs, if m_date connection' = None then 1 else 0)));
          (conns', sigs', pending') = handshakeLoop peers conns
      in ((hop, connection') # conns', sigs @ sigs', pending + pending'))"

definition Daemon_checkHandshake :: "'p platform \<Rightarrow> 'p Daemon \<Rightarrow> 'p Daemon" where
  "Daemon_checkHandshake P d =
     (let (peers, p) = wg_getPeerStatus P (platform d);
          (conns, sigs, pendingHandshakes) = handshakeLoop peers (m_connections d)
      in d\<lparr>m_connections := conns, emitted := emitted d @ sigs, platform := p,
           m_handshakeTimer := pendingHandshakes > 0\<rparr>)"

section \<open>Reasoning about actions\<close>

definition keeps :: "('s \<Rightarrow> bool) \<Rightarrow> 's action \<Rightarrow> bool" where
  "keeps I f \<longleftrightarrow> (\<forall>s. I s \<longrightarrow> I (snd (f s)))"

lemma keepsD: "keeps I f \<Longrightarrow> I s \<Longrightarrow> f s = (ok, s') \<Longrightarrow> I s'"
  by (auto simp: keeps_def dest: spec [of _ s])

lemma keeps_skip [keeps_intros]: "keeps I skip"
  by (simp add: keeps_def skip_def)

lemma keeps_require [keeps_intros]: "keeps I f \<Longrightarrow> keeps I g \<Longrightarrow> keeps I (require f g)"
  by (fastforce simp: keeps_def require_def Let_def split: prod.splits)

lemma keeps_perform:
  "(\<And>s. I s \<Longrightarrow> I (f s)) \<Longrightarrow> keeps I g \<Longrightarrow> keeps I (perform f g)"
  by (simp add: keeps_def perform_def)

lemma keeps_ignore: "keeps I f \<Longrightarrow> I s \<Longrightarrow> I (ignore f s)"
  by (simp add: keeps_def ignore_def)

lemma keeps_require_all [keeps_intros]:
  assumes "\<And>x. keeps I (f x)" shows "keeps I (require_all f xs)"
proof (induction xs)
  case (Cons x xs)
  have "require_all f (x # xs) = require (f x) (require_all f xs)" by (rule ext) simp
  with Cons assms show ?case by (simp add: keeps_require)
qed (simp add: keeps_def)

lemma keeps_for_each:
  assumes "\<And>x. keeps I (f x)" "I s" shows "I (for_each f xs s)"
  using assms(2) unfolding for_each_def
  by (induction xs arbitrary: s) (simp_all add: keeps_ignore assms(1))

lemma keeps_perform_ignore [keeps_intros]:
  "keeps I f \<Longrightarrow> keeps I g \<Longrightarrow> keeps I (perform (ignore f) g)"
  by (simp add: keeps_perform keeps_ignore)

lemma keeps_perform_for_each [keeps_intros]:
  "(\<And>x. keeps I (f x)) \<Longrightarrow> keeps I g \<Longrightarrow> keeps I (perform (for_each f xs) g)"
  by (simp add: keeps_perform keeps_for_each)

lemma require_True:
  "require f g s = (True, s') \<longleftrightarrow> (\<exists>t. f s = (True, t) \<and> g t = (True, s'))"
  by (auto simp: require_def Let_def split: prod.splits)

lemma perform_True: "perform f g s = r \<longleftrightarrow> g (f s) = r"
  by (simp add: perform_def)

lemma skip_True: "skip s = (True, s') \<longleftrightarrow> s' = s"
  by (auto simp: skip_def)

lemmas action_True = require_True perform_True skip_True

lemma call_sel:
  assumes "call f d = (ok, d')"
  shows "m_connections d' = m_connections d" "m_excludedAddrSet d' = m_excludedAddrSet d"
    "m_handshakeTimer d' = m_handshakeTimer d" "emitted d' = emitted d"
  using assms by (auto simp: call_def Let_def split: prod.splits)

lemma call_if_sel:
  assumes "call_if b f d = (ok, d')"
  shows "m_connections d' = m_connections d" "m_excludedAddrSet d' = m_excludedAddrSet d"
    "m_handshakeTimer d' = m_handshakeTimer d" "emitted d' = emitted d"
  using assms by (auto simp: call_if_def dest: call_sel split: if_splits)

text \<open>Preservation by each method, for an invariant that ignores the platform.\<close>

definition platform_free :: "('p Daemon \<Rightarrow> bool) \<Rightarrow> bool" where
  "platform_free I \<longleftrightarrow> (\<forall>d p. I d \<longrightarrow> I (d\<lparr>platform := p\<rparr>))"

definition excl_safe :: "('p Daemon \<Rightarrow> bool) \<Rightarrow> bool" where
  "excl_safe I \<longleftrightarrow>
     (\<forall>P i. keeps I (Daemon_addExclusionRoute P i)) \<and>
     (\<forall>P i. keeps I (Daemon_delExclusionRoute P i)) \<and>
     (\<forall>d. I d \<longrightarrow> I (d\<lparr>m_excludedAddrSet := []\<rparr>))"

lemma keeps_call [keeps_intros]: "platform_free I \<Longrightarrow> keeps I (call f)"
  by (simp add: keeps_def call_def Let_def platform_free_def split: prod.splits)

lemma keeps_call_if [keeps_intros]: "platform_free I \<Longrightarrow> keeps I (call_if b f)"
  using keeps_call [of I f] by (simp add: keeps_def call_if_def)

lemma keeps_maybeUpdateResolvers [keeps_intros]:
  "platform_free I \<Longrightarrow> keeps I (Daemon_maybeUpdateResolvers Q P config)"
  using keeps_call [of I] by (auto simp: keeps_def Daemon_maybeUpdateResolvers_def platform_free_def)

lemma excl_safeI:
  assumes "platform_free I" "\<And>d x. I d \<Longrightarrow> I (d\<lparr>m_excludedAddrSet := x\<rparr>)"
  shows "excl_safe I"
  using assms(2) assms(1) [unfolded platform_free_def, rule_format]
  by (simp add: excl_safe_def keeps_def Daemon_addExclusionRoute_def Daemon_delExclusionRoute_def
      require_def call_def Let_def case_prod_unfold split: option.split)

lemma excl_safeD:
  assumes "excl_safe I"
  shows "keeps I (Daemon_addExclusionRoute P i)" "keeps I (Daemon_delExclusionRoute P i)"
    "I d \<Longrightarrow> I (d\<lparr>m_excludedAddrSet := []\<rparr>)"
  using assms by (simp_all add: excl_safe_def)

lemma keeps_finish [keeps_intros]:
  assumes "platform_free I" "\<And>d. I d \<Longrightarrow> I (setConnection config d)"
    and "\<And>d. I d \<Longrightarrow> I (d\<lparr>m_handshakeTimer := True\<rparr>)"
  shows "keeps I (Daemon_finish P op config)"
  unfolding Daemon_finish_def by (intro keeps_intros keeps_perform assms)

lemma keeps_deletePeers:
  assumes "platform_free I" "I d" shows "I (Daemon_deletePeers P d)"
proof -
  have "I (fold (\<lambda>(hop, st) d. ignore (call (wg_deletePeer P (m_config st)))
           (for_each (\<lambda>ip. call (wg_deleteRoutePrefix P ip))
             (m_allowedIPAddressRanges (m_config st)) d)) conns d)" for conns
    using assms(2)
    by (induction conns arbitrary: d)
      (simp_all add: case_prod_unfold keeps_ignore keeps_for_each keeps_call assms(1))
  then show ?thesis by (simp add: Daemon_deletePeers_def)
qed

lemma keeps_switchServer [keeps_intros]:
  assumes "platform_free I" "excl_safe I" "\<And>d. I d \<Longrightarrow> I (setConnection config d)"
  shows "keeps I (Daemon_switchServer Q P config)"
proof -
  have "keeps I (\<lambda>d. Daemon_switchServer Q P config d)"
    unfolding keeps_def
  proof (intro allI impI)
    fix d assume "I d"
    then show "I (snd (Daemon_switchServer Q P config d))"
      unfolding Daemon_switchServer_def Let_def
      by (rule keeps_def [THEN iffD1, rule_format, rotated])
        (intro keeps_intros keeps_perform excl_safeD(1,2) assms)
  qed
  then show ?thesis .
qed

lemma keeps_deleteExclusions:
  assumes "platform_free I" "excl_safe I" "I d" shows "I (Daemon_deleteExclusions P d)"
proof -
  have "I (for_each (\<lambda>e. call (wg_deleteExclusionRoute P (fst e))) (m_excludedAddrSet d) d)"
    by (rule keeps_for_each [OF keeps_call [OF assms(1)] assms(3)])
  then show ?thesis
    unfolding Daemon_deleteExclusions_def by (rule excl_safeD(3) [OF assms(2)])
qed

lemma keeps_deactivate:
  assumes "platform_free I" "excl_safe I" "\<And>d. I d \<Longrightarrow> I (d\<lparr>m_connections := []\<rparr>)"
    and "\<And>d. emitSignals \<Longrightarrow> I d \<Longrightarrow> I (emit_signal Disconnected d)"
  shows "keeps I (Daemon_deactivate P emitSignals)"
proof -
  have "keeps I (\<lambda>d. case m_connections d of [] \<Rightarrow> (True, d)
      | (hop, st) # _ \<Rightarrow> call (daemon_run P Down (m_config st)) d)"
    using keeps_call [OF assms(1)] by (simp add: keeps_def split: list.split)
  moreover have "keeps I (\<lambda>d. (wg_interfaceExists P (platform d), d))" by (simp add: keeps_def)
  ultimately show ?thesis
    unfolding Daemon_deactivate_def using assms(4)
    by (intro keeps_intros keeps_perform assms(1))
      (simp_all add: keeps_deletePeers keeps_deleteExclusions assms(1-3))
qed

lemma keeps_activateFresh [keeps_intros]:
  assumes "platform_free I" "excl_safe I" "\<And>d. I d \<Longrightarrow> I (setConnection config d)"
    and "\<And>d. I d \<Longrightarrow> I (d\<lparr>m_handshakeTimer := True\<rparr>)"
  shows "keeps I (Daemon_activateFresh Q P config)"
proof -
  have "keeps I (\<lambda>d. call_if (\<not> wg_interfaceExists P (platform d)) (wg_addInterface P config) d)"
    using keeps_call_if [OF assms(1)] by (simp add: keeps_def)
  moreover have "I (d\<lparr>platform := p\<rparr>)" if "I d" for d p
    using assms(1) that by (simp add: platform_free_def)
  ultimately show ?thesis
    unfolding Daemon_activateFresh_def
    by (intro keeps_intros keeps_perform excl_safeD(1) assms) simp_all
qed

lemma keeps_activateSwitch [keeps_intros]:
  assumes "platform_free I" "excl_safe I" "\<And>d. I d \<Longrightarrow> I (setConnection config d)"
    and "\<And>d. I d \<Longrightarrow> I (d\<lparr>m_handshakeTimer := True\<rparr>)"
  shows "keeps I (Daemon_activateSwitch Q P config)"
  unfolding Daemon_activateSwitch_def by (intro keeps_intros assms)

text \<open>After a successful \<open>deactivate\<close> the recursive call finds no connection: depth two.\<close>

lemma activate_unfold:
  "Daemon_activate Q P config d =
    emit_failure_guard
      (if qmap_contains (m_connections d) (m_hopType config) then
         (if Daemon_supportServerSwitching config d then Daemon_activateSwitch Q P config d
          else (case Daemon_deactivate P False d of
                  (False, d') \<Rightarrow> (False, d')
                | (True, d') \<Rightarrow> emit_failure_guard (Daemon_activateFresh Q P config d')))
       else Daemon_activateFresh Q P config d)"
proof -
  have "Daemon_activate Q P config d' = emit_failure_guard (Daemon_activateFresh Q P config d')"
    if "m_connections d' = []" for d'
    using that by (subst Daemon_activate.simps) simp
  with deactivate_clears [of P False d] show ?thesis
    by (subst Daemon_activate.simps) (simp split: prod.split bool.split)
qed

lemma keeps_activate:
  assumes "platform_free I" "excl_safe I" "\<And>d. I d \<Longrightarrow> I (setConnection config d)"
    and "\<And>d. I d \<Longrightarrow> I (d\<lparr>m_handshakeTimer := True\<rparr>)"
    and "\<And>d. I d \<Longrightarrow> I (d\<lparr>m_connections := []\<rparr>)" "\<And>d sig. I d \<Longrightarrow> I (emit_signal sig d)"
  shows "keeps I (Daemon_activate Q P config)"
proof -
  have guard: "I (snd (emit_failure_guard r))" if "I (snd r)" for r
    using that assms(6) by (simp add: emit_failure_guard_def case_prod_unfold)
  have fresh: "I (snd (Daemon_activateFresh Q P config d))" if "I d" for d
    using keeps_activateFresh [OF assms(1-4), of Q P] that by (simp add: keeps_def)
  have switch: "I (snd (Daemon_activateSwitch Q P config d))" if "I d" for d
    using keeps_activateSwitch [OF assms(1-4), of Q P] that by (simp add: keeps_def)
  have off: "I (snd (Daemon_deactivate P False d))" if "I d" for d
    using keeps_deactivate [OF assms(1,2,5), of False P] that by (simp add: keeps_def)
  show ?thesis
    unfolding keeps_def activate_unfold
    by (intro allI impI guard)
      (simp add: fresh switch off guard case_prod_unfold split: bool.split)
qed

section \<open>Activation and deactivation\<close>

lemma setConnection_sel [simp]:
  "emitted (setConnection c d) = emitted d"
  "m_excludedAddrSet (setConnection c d) = m_excludedAddrSet d"
  "platform (setConnection c d) = platform d"
  "m_handshakeTimer (setConnection c d) = m_handshakeTimer d"
  "m_connections (setConnection c d) =
    qmap_insert (m_hopType c) (ConnectionState_of c) (m_connections d)"
  by (simp_all add: setConnection_def)

lemma emit_signal_sel [simp]:
  "emitted (emit_signal sig d) = emitted d @ [sig]"
  "m_excludedAddrSet (emit_signal sig d) = m_excludedAddrSet d"
  "platform (emit_signal sig d) = platform d"
  "m_handshakeTimer (emit_signal sig d) = m_handshakeTimer d"
  "m_connections (emit_signal sig d) = m_connections d"
  by (simp_all add: emit_signal_def)

lemma emitted_free: "platform_free (\<lambda>d. emitted d = E)" "excl_safe (\<lambda>d. emitted d = E)"
proof -
  show "platform_free (\<lambda>d. emitted d = E)" by (simp add: platform_free_def)
  then show "excl_safe (\<lambda>d. emitted d = E)" by (rule excl_safeI) simp
qed

lemma emitted_activate_parts:
  "emitted (snd (Daemon_activateFresh Q P config d)) = emitted d"
  "emitted (snd (Daemon_activateSwitch Q P config d)) = emitted d"
  "emitted (snd (Daemon_deactivate P False d)) = emitted d"
proof -
  note E = emitted_free [where E = "emitted d"]
  have "keeps (\<lambda>x. emitted x = emitted d) (Daemon_activateFresh Q P config)"
    by (rule keeps_activateFresh [OF E]) simp_all
  then show "emitted (snd (Daemon_activateFresh Q P config d)) = emitted d" by (simp add: keeps_def)
  have "keeps (\<lambda>x. emitted x = emitted d) (Daemon_activateSwitch Q P config)"
    by (rule keeps_activateSwitch [OF E]) simp_all
  then show "emitted (snd (Daemon_activateSwitch Q P config d)) = emitted d"
    by (simp add: keeps_def)
  have "keeps (\<lambda>x. emitted x = emitted d) (Daemon_deactivate P False)"
    by (rule keeps_deactivate [OF E]) simp_all
  then show "emitted (snd (Daemon_deactivate P False d)) = emitted d" by (simp add: keeps_def)
qed

lemma finish_True:
  assumes "Daemon_finish P op config d = (True, d')"
  shows "map_of (m_connections d') (m_hopType config) = Some (ConnectionState_of config)"
    and "m_handshakeTimer d'"
  using assms by (auto simp: Daemon_finish_def action_True)

lemma activate_parts_True:
  assumes "Daemon_activateFresh Q P config d = (True, d') \<or> Daemon_activateSwitch Q P config d = (True, d')"
  shows "map_of (m_connections d') (m_hopType config) = Some (ConnectionState_of config)"
    and "m_handshakeTimer d'"
  using assms finish_True
  by (auto simp: Daemon_activateFresh_def Daemon_activateSwitch_def action_True)

lemma deletePeers_sel [simp]:
  "m_connections (Daemon_deletePeers P d) = m_connections d"
  "emitted (Daemon_deletePeers P d) = emitted d"
  "m_excludedAddrSet (Daemon_deletePeers P d) = m_excludedAddrSet d"
  using keeps_deletePeers [of "\<lambda>x. m_connections x = m_connections d" d P]
    keeps_deletePeers [of "\<lambda>x. emitted x = emitted d" d P]
    keeps_deletePeers [of "\<lambda>x. m_excludedAddrSet x = m_excludedAddrSet d" d P]
  by (simp_all add: platform_free_def)

lemma deleteExclusions_sel [simp]:
  "m_connections (Daemon_deleteExclusions P d) = m_connections d"
  "emitted (Daemon_deleteExclusions P d) = emitted d"
  "m_excludedAddrSet (Daemon_deleteExclusions P d) = []"
proof -
  have free: "platform_free (\<lambda>x. m_connections x = m_connections d)" by (simp add: platform_free_def)
  then have safe: "excl_safe (\<lambda>x. m_connections x = m_connections d)" by (rule excl_safeI) simp
  show "m_connections (Daemon_deleteExclusions P d) = m_connections d"
    by (rule keeps_deleteExclusions [OF free safe refl])
  show "emitted (Daemon_deleteExclusions P d) = emitted d"
    by (rule keeps_deleteExclusions [OF emitted_free refl])
qed (simp add: Daemon_deleteExclusions_def)


text \<open>
  C22: A deactivation that succeeds leaves no connection and no excluded prefix and, when asked to,
  emits \<open>disconnected\<close> once.  One that fails keeps the connections, and emits at most that signal.
\<close>

theorem deactivate_outcome:
  "case Daemon_deactivate P emitSignals d of
     (True, d') \<Rightarrow>
       m_connections d' = [] \<and> m_excludedAddrSet d' = [] \<and>
       emitted d' = emitted d @ (if emitSignals then [Disconnected] else [])
   | (False, d') \<Rightarrow>
       m_connections d' = m_connections d \<and>
       emitted d' \<in> {emitted d, emitted d @ (if emitSignals then [Disconnected] else [])}"
proof -
  let ?down = "\<lambda>d. case m_connections d of [] \<Rightarrow> (True, d)
    | (hop, st) # _ \<Rightarrow> call (daemon_run P Down (m_config st)) d"
  obtain a d1 where 1: "?down d = (a, d1)" by fastforce
  have s1: "m_connections d1 = m_connections d" "emitted d1 = emitted d"
    using 1 by (auto dest: call_sel split: list.splits)
  define d2 where "d2 = (if emitSignals then emit_signal Disconnected else id) d1"
  have s2: "m_connections d2 = m_connections d"
    "emitted d2 = emitted d @ (if emitSignals then [Disconnected] else [])"
    using s1 by (simp_all add: d2_def)
  obtain b d3 where 3: "call_if (supportDnsUtils P) (dns_restoreResolvers P) d2 = (b, d3)"
    by fastforce
  note s3 = call_if_sel [OF 3]
  define d4 where "d4 = Daemon_deleteExclusions P (Daemon_deletePeers P d3)"
  obtain e d5 where 5: "call (wg_deleteInterface P) d4 = (e, d5)" by fastforce
  note s5 = call_sel [OF 5]
  have "Daemon_deactivate P emitSignals d =
      (if \<not> a then (False, d1) else if \<not> b then (False, d3)
       else if \<not> wg_interfaceExists P (platform d3) then (False, d3)
       else if \<not> e then (False, d5) else (True, d5\<lparr>m_connections := []\<rparr>))"
    unfolding Daemon_deactivate_def
    by (simp add: require_def perform_def skip_def 1 3 5 del: id_apply flip: d2_def d4_def)
  then show ?thesis using s1 s2 s3 s5 by (simp add: d4_def)
qed

end
