(* ===== verification/Daemon_Props.thy ===== *)
theory Daemon_Props
  imports Daemon_Core
begin

text \<open>
  Properties of the daemon that hold whatever the platform does: the invariant of its tables over
  every sequence of requests, the reference counts of the excluded prefixes, and the polling for
  handshakes.
\<close>

section \<open>The requests the daemon serves\<close>

text \<open>
  One step of the process: an activation or deactivation request, a status request, the handshake
  timer firing, or the platform changing on its own.
\<close>

inductive daemon_step :: "Qt \<Rightarrow> 'p platform \<Rightarrow> 'p Daemon \<Rightarrow> 'p Daemon \<Rightarrow> bool" for Q P where
  activate: "daemon_step Q P d (snd (Daemon_activate Q P config d))"
| deactivate: "daemon_step Q P d (snd (Daemon_deactivate P emitSignals d))"
| status: "daemon_step Q P d (snd (Daemon_getStatus dateToString P d))"
| timer: "m_handshakeTimer d \<Longrightarrow> daemon_step Q P d (Daemon_checkHandshake P d)"
| environment: "daemon_step Q P d (d\<lparr>platform := p\<rparr>)"

inductive daemon_reach :: "Qt \<Rightarrow> 'p platform \<Rightarrow> 'p Daemon \<Rightarrow> bool" for Q P where
  start: "daemon_reach Q P (Daemon_new p)"
| step: "daemon_reach Q P d \<Longrightarrow> daemon_step Q P d d' \<Longrightarrow> daemon_reach Q P d'"

definition excl_ok :: "(IPAddress \<times> int) list \<Rightarrow> bool" where
  "excl_ok m \<longleftrightarrow> qhash_ok m \<and> (\<forall>e \<in> set m. 1 \<le> snd e)"

definition excl_inv :: "'p Daemon \<Rightarrow> bool" where
  "excl_inv d \<longleftrightarrow> excl_ok (m_excludedAddrSet d)"

definition conn_inv :: "'p Daemon \<Rightarrow> bool" where
  "conn_inv d \<longleftrightarrow>
     qmap_ok (m_connections d) \<and> (\<forall>e \<in> set (m_connections d). m_hopType (m_config (snd e)) = fst e)"

definition daemon_inv :: "'p Daemon \<Rightarrow> bool" where
  "daemon_inv d \<longleftrightarrow> conn_inv d \<and> excl_inv d"

section \<open>Handshakes\<close>

definition acked :: "PeerStatus list \<Rightarrow> ConnectionState \<Rightarrow> PeerStatus list" where
  "acked peers c =
     filter (\<lambda>st. qeq (m_serverPublicKey (m_config c)) (m_pubkey st) \<and> m_handshake st \<noteq> 0) peers"

definition confirm :: "PeerStatus list \<Rightarrow> ConnectionState \<Rightarrow> ConnectionState" where
  "confirm peers c =
     (if m_date c = None \<and> acked peers c \<noteq> []
      then c\<lparr>m_date := Some (m_handshake (last (acked peers c)))\<rparr> else c)"

lemma acked_date [simp]: "acked peers (c\<lparr>m_date := x\<rparr>) = acked peers c"
  by (simp add: acked_def)

lemma handshakeConnection_eq:
  "handshakeConnection peers c sigs =
    (if acked peers c = [] then c else c\<lparr>m_date := Some (m_handshake (last (acked peers c)))\<rparr>,
     sigs @ map (\<lambda>st. Connected (m_pubkey st)) (acked peers c))"
proof (induction peers c sigs rule: handshakeConnection.induct)
  case (2 status peers c sigs)
  then show ?case by (simp add: acked_def)
qed (simp add: acked_def)

lemma handshakeLoop_eq:
  "handshakeLoop peers conns =
    (map (\<lambda>e. (fst e, confirm peers (snd e))) conns,
     concat (map (\<lambda>e. if m_date (snd e) = None
                      then map (\<lambda>st. Connected (m_pubkey st)) (acked peers (snd e)) else []) conns),
     length (filter (\<lambda>e. m_date (confirm peers (snd e)) = None) conns))"
  by (induction peers conns rule: handshakeLoop.induct)
    (simp_all add: handshakeConnection_eq confirm_def Let_def case_prod_unfold)

text \<open>
  C23: When the timer fires, exactly the pending connections whose peer reports a handshake are
  dated and announced with \<open>connected\<close>, all others are left alone, and the timer is restarted if
  and only if some connection is still pending.
\<close>

theorem checkHandshake_exact:
  fixes P :: "'p platform" and d :: "'p Daemon"
  defines "peers \<equiv> fst (wg_getPeerStatus P (platform d))"
    and "d' \<equiv> Daemon_checkHandshake P d"
  shows "m_connections d' = map (\<lambda>e. (fst e, confirm peers (snd e))) (m_connections d) \<and>
    emitted d' = emitted d @
      concat (map (\<lambda>e. if m_date (snd e) = None
                       then map (\<lambda>st. Connected (m_pubkey st)) (acked peers (snd e)) else [])
        (m_connections d)) \<and>
    (m_handshakeTimer d' \<longleftrightarrow> (\<exists>e \<in> set (m_connections d'). m_date (snd e) = None)) \<and>
    m_excludedAddrSet d' = m_excludedAddrSet d"
  unfolding d'_def peers_def Daemon_checkHandshake_def
  by (auto simp: handshakeLoop_eq case_prod_unfold Let_def filter_empty_conv)

section \<open>The invariant\<close>

lemma conn_inv_free: "platform_free conn_inv" "excl_safe conn_inv"
proof -
  show "platform_free conn_inv" by (simp add: platform_free_def conn_inv_def)
  then show "excl_safe conn_inv" by (rule excl_safeI) (simp add: conn_inv_def)
qed

lemma excl_ok_update:
  assumes "excl_ok m" "1 \<le> n" shows "excl_ok (AList.update i n m)"
proof -
  have sub: "set (AList.update i n m) \<subseteq> insert (i, n) (set m)"
    by (induction m) auto
  have "1 \<le> snd e" if "e \<in> set (AList.update i n m)" for e
    using subsetD [OF sub that] assms by (auto simp: excl_ok_def)
  with assms show ?thesis by (simp add: excl_ok_def qhash.ok_insert)
qed

lemma excl_ok_delete: "excl_ok m \<Longrightarrow> excl_ok (AList.delete i m)"
  by (auto simp: excl_ok_def qhash.ok_remove) (auto simp: AList.delete_eq)

lemma excl_ok_Nil [simp]: "excl_ok []"
  by (simp add: excl_ok_def qhash_ok_def)

lemma excl_ok_lookup: "excl_ok m \<Longrightarrow> map_of m i = Some n \<Longrightarrow> 1 \<le> n"
  by (force simp: excl_ok_def dest: map_of_SomeD)

lemma excl_inv_simps [simp]:
  "excl_inv (d\<lparr>m_connections := conns\<rparr>) = excl_inv d" "excl_inv (emit_signal sig d) = excl_inv d"
  "excl_inv (d\<lparr>m_handshakeTimer := b\<rparr>) = excl_inv d" "excl_inv (setConnection c d) = excl_inv d"
  "excl_inv (d\<lparr>platform := p\<rparr>) = excl_inv d"
  by (simp_all add: excl_inv_def)

lemma excl_inv_free:
  "platform_free (excl_inv :: 'p Daemon \<Rightarrow> bool)" "excl_safe (excl_inv :: 'p Daemon \<Rightarrow> bool)"
proof -
  show "platform_free (excl_inv :: 'p Daemon \<Rightarrow> bool)" by (simp add: platform_free_def)
  have "keeps excl_inv (Daemon_addExclusionRoute P i)" for P :: "'p platform" and i
    unfolding keeps_def Daemon_addExclusionRoute_def
    by (auto simp: require_def call_def Let_def case_prod_unfold excl_inv_def excl_ok_update
        dest: excl_ok_lookup split: option.split intro!: excl_ok_update)
  moreover have "keeps excl_inv (Daemon_delExclusionRoute P i)" for P :: "'p platform" and i
    unfolding keeps_def Daemon_delExclusionRoute_def
    by (auto simp: call_def Let_def case_prod_unfold excl_inv_def excl_ok_update excl_ok_delete)
  ultimately show "excl_safe (excl_inv :: 'p Daemon \<Rightarrow> bool)" by (simp add: excl_safe_def excl_inv_def)
qed

lemma conn_inv_setConnection: "conn_inv d \<Longrightarrow> conn_inv (setConnection c d)"
  using set_qmap_insert_subset [of "m_hopType c" "ConnectionState_of c" "m_connections d"]
  by (auto simp: conn_inv_def qmap.ok_insert ConnectionState_of_def)

lemma conn_inv_simps [simp]:
  "conn_inv (d\<lparr>m_connections := []\<rparr>)" "conn_inv (emit_signal sig d) = conn_inv d"
  "conn_inv (d\<lparr>m_handshakeTimer := b\<rparr>) = conn_inv d" "conn_inv (d\<lparr>platform := p\<rparr>) = conn_inv d"
  by (simp_all add: conn_inv_def qmap_ok_def)

lemma activate_inv: "daemon_inv d \<Longrightarrow> daemon_inv (snd (Daemon_activate Q P config d))"
  using keeps_activate [OF conn_inv_free, where Q = Q and P = P and config = config]
    keeps_activate [OF excl_inv_free, where Q = Q and P = P and config = config]
  by (simp add: keeps_def daemon_inv_def conn_inv_setConnection)

lemma deactivate_inv: "daemon_inv d \<Longrightarrow> daemon_inv (snd (Daemon_deactivate P e d))"
  using keeps_deactivate [OF conn_inv_free, where P = P and emitSignals = e]
    keeps_deactivate [OF excl_inv_free, where P = P and emitSignals = e]
  by (simp add: keeps_def daemon_inv_def)

lemma checkHandshake_inv: "daemon_inv d \<Longrightarrow> daemon_inv (Daemon_checkHandshake P d)"
  by (auto simp: daemon_inv_def conn_inv_def excl_inv_def qmap_ok_def Daemon_checkHandshake_def
      handshakeLoop_eq case_prod_unfold Let_def comp_def confirm_def)

lemma getStatus_sel:
  "\<exists>p. snd (Daemon_getStatus dts P d) = d\<lparr>platform := p\<rparr>"
  by (auto simp: Daemon_getStatus_def Let_def case_prod_unfold intro: exI [of _ "platform d"]
      split: list.split option.split)

lemma daemon_step_inv: "daemon_step Q P d d' \<Longrightarrow> daemon_inv d \<Longrightarrow> daemon_inv d'"
proof (induction rule: daemon_step.induct)
  case (status d dts)
  with getStatus_sel [of dts P d] show ?case by (auto simp: daemon_inv_def)
qed (simp_all add: activate_inv deactivate_inv checkHandshake_inv, simp add: daemon_inv_def)

text \<open>
  C11: In every state the daemon can reach by any sequence of requests, timer events and changes of
  the platform, the connections are sorted by hop type, each filed under the hop type of its own
  configuration, and every excluded prefix occurs once with a positive reference count.
\<close>

theorem daemon_tables_invariant:
  assumes "daemon_reach Q P d"
  shows "qmap_ok (m_connections d) \<and>
    (\<forall>e \<in> set (m_connections d). m_hopType (m_config (snd e)) = fst e) \<and>
    distinct (map fst (m_excludedAddrSet d)) \<and> (\<forall>e \<in> set (m_excludedAddrSet d). 1 \<le> snd e)"
proof -
  from assms have "daemon_inv d"
  proof (induction rule: daemon_reach.induct)
    case (start p)
    show ?case
      by (simp add: daemon_inv_def conn_inv_def excl_inv_def Daemon_new_def qmap_ok_def)
  next
    case (step d d')
    then show ?case using daemon_step_inv by blast
  qed
  then show ?thesis by (simp add: daemon_inv_def conn_inv_def excl_inv_def excl_ok_def qhash_ok_def)
qed

section \<open>Reference counts of excluded prefixes\<close>

definition refcount :: "'p Daemon \<Rightarrow> IPAddress \<Rightarrow> int" where
  "refcount d i = (case map_of (m_excludedAddrSet d) i of None \<Rightarrow> 0 | Some n \<Rightarrow> n)"

text \<open>The references that a configuration holds, and the sum over the connections.\<close>

definition config_refs :: "Qt \<Rightarrow> InterfaceConfig \<Rightarrow> IPAddress \<Rightarrow> int" where
  "config_refs Q c i = int (count_list (map (IPAddress_ofString Q) (m_excludedAddresses c)) i)"

definition conn_refs :: "Qt \<Rightarrow> (HopType \<times> ConnectionState) list \<Rightarrow> IPAddress \<Rightarrow> int" where
  "conn_refs Q conns i = (\<Sum>e \<leftarrow> conns. config_refs Q (m_config (snd e)) i)"

definition refs_exact :: "Qt \<Rightarrow> 'p Daemon \<Rightarrow> bool" where
  "refs_exact Q d \<longleftrightarrow> (\<forall>i. refcount d i = conn_refs Q (m_connections d) i)"

text \<open>An exclusion that reads the same as a network and as a host address.\<close>

definition plain_host :: "Qt \<Rightarrow> string \<Rightarrow> bool" where
  "plain_host Q s \<longleftrightarrow> IPAddress_ofString Q s = IPAddress_ofHost (qt_host Q s)"

definition adds_succeed :: "'p platform \<Rightarrow> bool" where
  "adds_succeed P \<longleftrightarrow> (\<forall>i p. fst (wg_addExclusionRoute P i p))"

lemma refcount_nonneg: "excl_inv d \<Longrightarrow> 0 \<le> refcount d i"
  by (auto simp: refcount_def excl_inv_def dest: excl_ok_lookup split: option.split)

lemma refcount_cong: "m_excludedAddrSet d' = m_excludedAddrSet d \<Longrightarrow> refcount d' = refcount d"
  by (simp add: refcount_def fun_eq_iff)

lemma refcount_add:
  "adds_succeed P \<Longrightarrow>
    refcount (ignore (Daemon_addExclusionRoute P i) d) j = refcount d j + of_bool (j = i)"
  by (auto simp: refcount_def ignore_def Daemon_addExclusionRoute_def require_def call_def Let_def
      adds_succeed_def case_prod_unfold update_conv' split: option.split)

lemma refcount_adds:
  assumes "adds_succeed P"
  shows "refcount (for_each (\<lambda>s. Daemon_addExclusionRoute P (f s)) xs d) j =
    refcount d j + int (count_list (map f xs) j)"
  unfolding for_each_def
  by (induction xs arbitrary: d) (simp_all add: refcount_add [OF assms])

lemma refcount_del:
  assumes "0 \<le> refcount d j"
  shows "refcount (ignore (Daemon_delExclusionRoute P i) d) j =
    max 0 (refcount d j - of_bool (j = i))"
  using assms
  by (auto simp: refcount_def ignore_def Daemon_delExclusionRoute_def call_def Let_def
      case_prod_unfold update_conv' delete_conv' split: option.splits)

lemma refcount_dels:
  assumes "0 \<le> refcount d j"
  shows "refcount (for_each (\<lambda>s. Daemon_delExclusionRoute P (f s)) xs d) j =
    max 0 (refcount d j - int (count_list (map f xs) j))"
  using assms unfolding for_each_def
  by (induction xs arbitrary: d) (auto simp: refcount_del)

lemma refcount_frames:
  "call f d = (ok, d') \<Longrightarrow> refcount d' = refcount d"
  "call_if b f d = (ok, d') \<Longrightarrow> refcount d' = refcount d"
  "refcount (for_each (\<lambda>x. call (g x)) xs d) = refcount d"
  "refcount (ignore (require_all (\<lambda>x. call (g x)) xs) d) = refcount d"
  "require_all (\<lambda>x. call (g x)) xs d = (ok, d') \<Longrightarrow> refcount d' = refcount d"
  "Daemon_maybeUpdateResolvers Q P config d = (ok, d') \<Longrightarrow> refcount d' = refcount d"
proof -
  let ?I = "\<lambda>x. m_excludedAddrSet x = m_excludedAddrSet d"
  have I: "platform_free ?I" by (simp add: platform_free_def)
  show "call f d = (ok, d') \<Longrightarrow> refcount d' = refcount d"
    and "call_if b f d = (ok, d') \<Longrightarrow> refcount d' = refcount d"
    by (auto intro: refcount_cong dest: call_sel call_if_sel)
  show "refcount (for_each (\<lambda>x. call (g x)) xs d) = refcount d"
    by (rule refcount_cong, rule keeps_for_each [where I = ?I, OF keeps_call [OF I]]) simp
  have all: "keeps ?I (require_all (\<lambda>x. call (g x)) xs)"
    by (intro keeps_require_all keeps_call I)
  then show "refcount (ignore (require_all (\<lambda>x. call (g x)) xs) d) = refcount d"
    by (intro refcount_cong keeps_ignore [where I = ?I]) simp_all
  show "refcount d' = refcount d" if "require_all (\<lambda>x. call (g x)) xs d = (ok, d')"
    by (rule refcount_cong, rule keepsD [OF all _ that]) simp
  show "refcount d' = refcount d" if "Daemon_maybeUpdateResolvers Q P config d = (ok, d')"
    by (rule refcount_cong, rule keepsD [OF keeps_maybeUpdateResolvers [OF I] _ that]) simp
qed

lemma refcount_simps [simp]:
  "refcount (setConnection c d) = refcount d" "refcount (d\<lparr>m_handshakeTimer := b\<rparr>) = refcount d"
  "refcount (d\<lparr>platform := p\<rparr>) = refcount d" "refcount (d\<lparr>m_connections := x\<rparr>) = refcount d"
  by (simp_all add: refcount_def fun_eq_iff)

lemma switchServer_refcount:
  assumes "Daemon_switchServer Q P config d = (True, d')" "adds_succeed P" "0 \<le> refcount d i"
  shows "refcount d' i = max 0 (refcount d i + config_refs Q config i -
    int (count_list (map (\<lambda>s. IPAddress_ofHost (qt_host Q s))
      (m_excludedAddresses (lastConfig (m_hopType config) d))) i))"
proof -
  let ?last = "lastConfig (m_hopType config) d"
  define d1 where "d1 = for_each (\<lambda>s. Daemon_addExclusionRoute P (IPAddress_ofString Q s))
    (m_excludedAddresses config) d"
  have 1: "refcount d1 i = refcount d i + config_refs Q config i"
    unfolding d1_def config_refs_def by (rule refcount_adds [OF assms(2)])
  obtain d2 where 2: "call (wg_updatePeer P config) d1 = (True, d2)"
    and rest: "require (call_if (\<not> qeq (m_serverPublicKey config) (m_serverPublicKey ?last))
        (wg_deletePeer P ?last)) (perform (setConnection config) skip)
      (for_each (\<lambda>ip. call (wg_deleteRoutePrefix P ip))
        (filter (\<lambda>ip. ip \<notin> set (m_allowedIPAddressRanges config)) (m_allowedIPAddressRanges ?last))
        (for_each (\<lambda>s. Daemon_delExclusionRoute P (IPAddress_ofHost (qt_host Q s)))
          (m_excludedAddresses ?last)
          (ignore (require_all (\<lambda>ip. call (wg_updateRoutePrefix P ip))
            (m_allowedIPAddressRanges config)) d2))) = (True, d')"
    using assms(1) by (auto simp: Daemon_switchServer_def Let_def d1_def require_True perform_def)
  define d3 where "d3 = ignore (require_all (\<lambda>ip. call (wg_updateRoutePrefix P ip))
    (m_allowedIPAddressRanges config)) d2"
  have 3: "refcount d3 = refcount d1" by (simp add: d3_def refcount_frames refcount_frames(1) [OF 2])
  have "0 \<le> refcount d3 i" using 1 3 assms(3) by (simp add: config_refs_def)
  note del = refcount_dels [OF this, of P "\<lambda>s. IPAddress_ofHost (qt_host Q s)" "m_excludedAddresses ?last"]
  from rest have "refcount d' = refcount
      (for_each (\<lambda>s. Daemon_delExclusionRoute P (IPAddress_ofHost (qt_host Q s)))
        (m_excludedAddresses ?last) d3)"
    by (auto simp: action_True refcount_frames(3) simp flip: d3_def dest!: refcount_frames(2))
  with del 1 3 show ?thesis by simp
qed

lemma switchServer_connections:
  assumes "Daemon_switchServer Q P config d = (True, d')"
  shows "m_connections d' =
    qmap_insert (m_hopType config) (ConnectionState_of config) (m_connections d)"
proof -
  let ?I = "\<lambda>x. m_connections x = m_connections d"
  have I: "platform_free ?I" by (simp add: platform_free_def)
  then have E: "excl_safe ?I" by (rule excl_safeI) simp
  let ?last = "lastConfig (m_hopType config) d"
  let ?body = "\<lambda>k. perform
      (for_each (\<lambda>i. Daemon_addExclusionRoute P (IPAddress_ofString Q i)) (m_excludedAddresses config))
    (require (call (wg_updatePeer P config))
    (perform (ignore (require_all (\<lambda>ip. call (wg_updateRoutePrefix P ip))
        (m_allowedIPAddressRanges config)))
    (perform (for_each (\<lambda>i. Daemon_delExclusionRoute P (IPAddress_ofHost (qt_host Q i)))
        (m_excludedAddresses ?last))
    (perform (for_each (\<lambda>ip. call (wg_deleteRoutePrefix P ip))
        (filter (\<lambda>ip. ip \<notin> set (m_allowedIPAddressRanges config)) (m_allowedIPAddressRanges ?last)))
    (require (call_if (\<not> qeq (m_serverPublicKey config) (m_serverPublicKey ?last))
        (wg_deletePeer P ?last)) k)))))"
  have "keeps ?I (?body skip)"
    by (intro keeps_intros excl_safeD [OF E] I)
  moreover obtain d2 where "?body skip d = (True, d2)" "d' = setConnection config d2"
    using assms by (auto simp: Daemon_switchServer_def Let_def action_True perform_def)
  ultimately have "m_connections d2 = m_connections d" by (auto intro: keepsD)
  with \<open>d' = _\<close> show ?thesis by simp
qed

lemma finish_state:
  assumes "Daemon_finish P op config d = (True, d')"
  shows "refcount d' = refcount d" "m_connections d' =
    qmap_insert (m_hopType config) (ConnectionState_of config) (m_connections d)"
proof -
  obtain t where t: "call (daemon_run P op config) d = (True, t)"
    "d' = (setConnection config t)\<lparr>m_handshakeTimer := True\<rparr>"
    using assms by (auto simp: Daemon_finish_def action_True)
  show "refcount d' = refcount d" using t by (simp add: refcount_frames(1) [OF t(1)])
  show "m_connections d' =
      qmap_insert (m_hopType config) (ConnectionState_of config) (m_connections d)"
    using t by (simp add: call_sel [OF t(1)])
qed

lemma activateFresh_refcount:
  assumes "Daemon_activateFresh Q P config d = (True, d')" "adds_succeed P"
  shows "refcount d' i = refcount d i + config_refs Q config i"
proof -
  let ?d0 = "d\<lparr>platform := prepareActivation P config (platform d)\<rparr>"
  obtain d1 d3 d4 d5 d6 d7 where
    1: "call_if (\<not> wg_interfaceExists P (platform ?d0)) (wg_addInterface P config) ?d0 = (True, d1)"
    and 3: "call (wg_updatePeer P config)
      (for_each (\<lambda>s. Daemon_addExclusionRoute P (IPAddress_ofString Q s)) (m_excludedAddresses config) d1)
      = (True, d3)"
    and 4: "Daemon_maybeUpdateResolvers Q P config d3 = (True, d4)"
    and 5: "call_if (supportIPUtils P) (ip_addInterfaceIPs P config) d4 = (True, d5)"
    and 6: "call_if (supportIPUtils P) (ip_setMTUAndUp P config) d5 = (True, d6)"
    and 7: "require_all (\<lambda>ip. call (wg_updateRoutePrefix P ip)) (m_allowedIPAddressRanges config) d6
      = (True, d7)"
    and 8: "Daemon_finish P Up config d7 = (True, d')"
    using assms(1) unfolding Daemon_activateFresh_def require_True perform_True by blast
  have "refcount d1 = refcount d" using refcount_frames(2) [OF 1] by simp
  then have "refcount d3 i = refcount d i + config_refs Q config i"
    by (simp add: refcount_frames(1) [OF 3] refcount_adds [OF assms(2)] config_refs_def)
  then show ?thesis
    by (simp add: finish_state(1) [OF 8] refcount_frames(5) [OF 7] refcount_frames(2) [OF 6]
        refcount_frames(2) [OF 5] refcount_frames(6) [OF 4])
qed

lemma activateFresh_connections:
  assumes "Daemon_activateFresh Q P config d = (True, d')"
  shows "m_connections d' =
    qmap_insert (m_hopType config) (ConnectionState_of config) (m_connections d)"
proof -
  let ?I = "\<lambda>x. m_connections x = m_connections d"
  have I: "platform_free ?I" by (simp add: platform_free_def)
  then have E: "excl_safe ?I" by (rule excl_safeI) simp
  let ?body = "\<lambda>k. perform (\<lambda>d. d\<lparr>platform := prepareActivation P config (platform d)\<rparr>)
     (require (\<lambda>d. call_if (\<not> wg_interfaceExists P (platform d)) (wg_addInterface P config) d)
     (perform (for_each (\<lambda>i. Daemon_addExclusionRoute P (IPAddress_ofString Q i))
         (m_excludedAddresses config))
     (require (call (wg_updatePeer P config))
     (require (Daemon_maybeUpdateResolvers Q P config)
     (require (call_if (supportIPUtils P) (ip_addInterfaceIPs P config))
     (require (call_if (supportIPUtils P) (ip_setMTUAndUp P config))
     (require (require_all (\<lambda>ip. call (wg_updateRoutePrefix P ip))
       (m_allowedIPAddressRanges config)) k)))))))"
  have "keeps ?I (\<lambda>d. call_if (\<not> wg_interfaceExists P (platform d)) (wg_addInterface P config) d)"
    by (simp add: keeps_def call_if_def call_def Let_def case_prod_unfold)
  then have "keeps ?I (?body skip)"
    by (intro keeps_intros keeps_perform excl_safeD(1) [OF E] I) simp_all
  moreover obtain d2 where "?body skip d = (True, d2)" "Daemon_finish P Up config d2 = (True, d')"
    using assms unfolding Daemon_activateFresh_def require_True perform_True skip_True by blast
  ultimately show ?thesis using keepsD [of ?I _ d True d2] by (simp add: finish_state(2))
qed

lemma conn_refs_insert:
  assumes "qmap_ok m"
  shows "conn_refs Q (qmap_insert k v m) i = conn_refs Q m i -
    (case map_of m k of None \<Rightarrow> 0 | Some st \<Rightarrow> config_refs Q (m_config st) i) +
    config_refs Q (m_config v) i"
  using assms
proof (induction k v m rule: qmap_insert.induct)
  case (2 k v k' v' m)
  have "map_of m k = None" if "k < k'"
    using that 2(2) by (force simp: qmap_ok_def map_of_eq_None_iff)
  moreover have "qmap_ok m" using 2(2) by (simp add: qmap_ok_def)
  ultimately show ?case using 2(1)
    by (auto simp: qmap_insert.simps conn_refs_def split: option.split)
qed (simp add: qmap_insert.simps conn_refs_def)

lemma conn_refs_nonneg: "0 \<le> conn_refs Q conns i"
  unfolding conn_refs_def by (rule sum_list_nonneg) (auto simp: config_refs_def)

lemma maybeUpdateResolvers_connections:
  "Daemon_maybeUpdateResolvers Q P config d = (ok, d') \<Longrightarrow> m_connections d' = m_connections d"
  by (auto simp: Daemon_maybeUpdateResolvers_def Let_def dest: call_sel split: if_splits)

lemma deactivate_cleared:
  assumes "Daemon_deactivate P e d = (True, d')"
  shows "m_connections d' = []" "m_excludedAddrSet d' = []"
proof -
  show "m_connections d' = []" using assms by (rule deactivate_clears)
  obtain t u where "call (wg_deleteInterface P) (Daemon_deleteExclusions P t) = (True, u)"
    "d' = u\<lparr>m_connections := []\<rparr>"
    using assms unfolding Daemon_deactivate_def require_True perform_True skip_True by blast
  then show "m_excludedAddrSet d' = []" by (auto dest: call_sel)
qed


text \<open>
  Switching servers gives back the exclusions of the old server by the host address their
  text denotes.  A prefix that is not such an address, as every subnet is, never loses a reference:
  it stays excluded after its connection is gone.
\<close>

theorem switchServer_retains_subnets:
  assumes "Daemon_switchServer Q P config d = (True, d')" "adds_succeed P" "daemon_inv d"
    and "\<forall>s \<in> set (m_excludedAddresses (lastConfig (m_hopType config) d)).
      IPAddress_ofHost (qt_host Q s) \<noteq> i"
  shows "refcount d' i = refcount d i + config_refs Q config i"
proof -
  have nonneg: "0 \<le> refcount d i" using assms(3) by (simp add: daemon_inv_def refcount_nonneg)
  have "count_list (map (\<lambda>s. IPAddress_ofHost (qt_host Q s))
      (m_excludedAddresses (lastConfig (m_hopType config) d))) i = 0"
    using assms(4) by (auto simp: count_list_0_iff)
  with switchServer_refcount [OF assms(1,2) nonneg] nonneg show ?thesis
    by (simp add: config_refs_def)
qed

section \<open>Examples\<close>

text \<open>A platform on which every call succeeds, and which has no peer to report.\<close>

definition sample_platform :: "unit platform" where
  "sample_platform =
     \<lparr>wg_interfaceExists = \<lambda>_. True, wg_interfaceName = \<lambda>_. Some ''amn0'',
      wg_addInterface = \<lambda>_. skip, wg_deleteInterface = skip, wg_updatePeer = \<lambda>_. skip,
      wg_deletePeer = \<lambda>_. skip, wg_getPeerStatus = \<lambda>p. ([], p),
      wg_updateRoutePrefix = \<lambda>_. skip, wg_deleteRoutePrefix = \<lambda>_. skip,
      wg_addExclusionRoute = \<lambda>_. skip, wg_deleteExclusionRoute = \<lambda>_. skip,
      supportDnsUtils = True, dns_updateResolvers = \<lambda>_ _. skip, dns_restoreResolvers = skip,
      supportIPUtils = True, ip_addInterfaceIPs = \<lambda>_. skip, ip_setMTUAndUp = \<lambda>_. skip,
      daemon_run = \<lambda>_ _. skip, prepareActivation = \<lambda>_ p. p\<rparr>"

definition subnet_config :: InterfaceConfig where
  "subnet_config = sample_config\<lparr>m_excludedAddresses := [''192.0.2.0/24'']\<rparr>"

definition subnet_daemon :: "unit Daemon" where
  "subnet_daemon =
     \<lparr>m_connections = [(SingleHop, ConnectionState_of subnet_config)],
      m_excludedAddrSet = [(IPAddress_ofString sample_qt ''192.0.2.0/24'', 1)],
      m_handshakeTimer = True, emitted = [], platform = ()\<rparr>"

definition host_daemon :: "unit Daemon" where
  "host_daemon =
     \<lparr>m_connections = [(SingleHop, ConnectionState_of sample_config)],
      m_excludedAddrSet = [(IPAddress_ofString sample_qt ''203.0.113.7'', 1)],
      m_handshakeTimer = True, emitted = [], platform = ()\<rparr>"

lemma sample_adds: "adds_succeed sample_platform"
  by (simp add: adds_succeed_def sample_platform_def skip_def)

lemma sample_config_sel [simp]:
  "m_hopType sample_config = SingleHop" "m_hopType subnet_config = SingleHop"
  "m_excludedAddresses sample_config = [''203.0.113.7'']"
  "m_excludedAddresses subnet_config = [''192.0.2.0/24'']"
  by (simp_all add: sample_config_def subnet_config_def InterfaceConfig_new_def)

lemma sample_daemon_inv: "daemon_inv subnet_daemon" "daemon_inv host_daemon"
  by (simp_all add: daemon_inv_def conn_inv_def excl_inv_def excl_ok_def qmap_ok_def qhash_ok_def
      subnet_daemon_def host_daemon_def ConnectionState_of_def)

lemma sample_hosts_eval:
  "IPAddress_ofString sample_qt ''192.0.2.0/24'' =
    \<lparr>m_address = V4Address 0xC0000200, m_prefixLength = 24\<rparr>"
  "IPAddress_ofString sample_qt ''203.0.113.7'' =
    \<lparr>m_address = V4Address 0xCB007107, m_prefixLength = 32\<rparr>"
  "qt_host sample_qt ''192.0.2.0/24'' = NullAddress"
  "qt_host sample_qt ''203.0.113.7'' = V4Address 0xCB007107"
  by (simp_all add: IPAddress_ofString_def sample_qt_def sample_hosts_def)

lemma sample_platform_sel [simp]:
  "wg_updatePeer sample_platform c = skip" "wg_deletePeer sample_platform c = skip"
  "daemon_run sample_platform op c = skip" "dns_restoreResolvers sample_platform = skip"
  "dns_updateResolvers sample_platform n rs = skip"
  by (simp_all add: sample_platform_def)

text \<open>The result of a composed action, without its state.\<close>

lemma fst_actions:
  "fst (require f g s) \<longleftrightarrow> fst (f s) \<and> fst (g (snd (f s)))" "fst (perform f' g s) = fst (g (f' s))"
  "fst (skip s)" "fst (call h d) = fst (h (platform d))"
  "fst (call_if b h d) \<longleftrightarrow> (b \<longrightarrow> fst (h (platform d)))"
  "fst (emit_failure_guard r) = fst r"
  by (simp_all add: require_def perform_def skip_def call_def call_if_def emit_failure_guard_def
      Let_def case_prod_unfold)

lemma sample_switch_ok: "fst (Daemon_switchServer sample_qt sample_platform c d)"
  by (simp add: Daemon_switchServer_def Let_def fst_actions)

lemma switchServer_retains_subnets_witness:
  "\<exists>d'. Daemon_switchServer sample_qt sample_platform sample_config subnet_daemon = (True, d') \<and>
     refcount d' (IPAddress_ofString sample_qt ''192.0.2.0/24'') = 1"
proof -
  obtain ok d' where d': "Daemon_switchServer sample_qt sample_platform sample_config subnet_daemon = (ok, d')"
    by fastforce
  have ok using d' sample_switch_ok [of sample_config subnet_daemon] by simp
  have "\<forall>s \<in> set (m_excludedAddresses (lastConfig (m_hopType sample_config) subnet_daemon)).
      IPAddress_ofHost (qt_host sample_qt s) \<noteq> IPAddress_ofString sample_qt ''192.0.2.0/24''"
    by (simp add: subnet_daemon_def lastConfig_def ConnectionState_of_def IPAddress_ofHost_def
        sample_hosts_eval)
  from switchServer_retains_subnets [OF _ sample_adds sample_daemon_inv(1) this, of d'] d' \<open>ok\<close>
  show ?thesis
    by (auto simp: refcount_def subnet_daemon_def config_refs_def sample_hosts_eval)
qed


lemma daemon_tables_invariant_witness:
  "daemon_reach sample_qt sample_platform
      (snd (Daemon_activate sample_qt sample_platform sample_config (Daemon_new ()))) \<and>
   qmap_ok (m_connections
      (snd (Daemon_activate sample_qt sample_platform sample_config (Daemon_new ()))))"
proof -
  have "daemon_reach sample_qt sample_platform
      (snd (Daemon_activate sample_qt sample_platform sample_config (Daemon_new ())))"
    by (rule daemon_reach.step [OF daemon_reach.start daemon_step.activate])
  with daemon_tables_invariant [OF this] show ?thesis by blast
qed

end
