(* ===== verification/Daemon_Server.thy ===== *)
theory Daemon_Server
  imports Daemon_Props Local_Socket
begin

text \<open>
  \<open>client/daemon/daemonlocalserverconnection.cpp\<close> and \<open>client/daemon/daemonlocalserver.cpp\<close>: the
  daemon's end of the socket.  A session holds the read buffer, the objects written to the client
  and the daemon it serves.  The slots of the session run when the daemon emits a signal, so the
  signals a call of the daemon adds to its log are forwarded before the call returns.
\<close>

section \<open>Data\<close>

text \<open>
  What the daemon process runs on: the build, Qt, the sorting function, the platform, dates, and
  the two members that the constructor of a configuration leaves uninitialised.
\<close>

record 'p Host =
  h_windows :: bool
  h_qt :: Qt
  h_sort :: "IPAddress list \<Rightarrow> IPAddress list"
  h_platform :: "'p platform"
  h_date :: "int option \<Rightarrow> string"
  h_hopType :: HopType
  h_killSwitch :: bool

record 'p Session =
  s_buffer :: string
  s_out :: "qjobject list"
  s_daemon :: "'p Daemon"

section \<open>Slots\<close>

definition DaemonLocalServerConnection_write :: "qjobject \<Rightarrow> 'p Session \<Rightarrow> 'p Session" where
  "DaemonLocalServerConnection_write obj s = s\<lparr>s_out := s_out s @ [obj]\<rparr>"

definition DaemonLocalServerConnection_connected :: "qstring \<Rightarrow> 'p Session \<Rightarrow> 'p Session" where
  "DaemonLocalServerConnection_connected pubkey =
     DaemonLocalServerConnection_write
       (json_insert ''pubkey'' (json_ofString pubkey) (json_insert ''type'' (JString ''connected'') []))"

definition DaemonLocalServerConnection_disconnected :: "'p Session \<Rightarrow> 'p Session" where
  "DaemonLocalServerConnection_disconnected =
     DaemonLocalServerConnection_write (json_insert ''type'' (JString ''disconnected'') [])"

definition DaemonLocalServerConnection_backendFailure :: "'p Session \<Rightarrow> 'p Session" where
  "DaemonLocalServerConnection_backendFailure =
     DaemonLocalServerConnection_write (json_insert ''type'' (JString ''backendFailure'') [])"

text \<open>The connections of the constructor: \<open>activationFailure\<close> has no slot.\<close>

fun on_signal :: "signal \<Rightarrow> 'p Session \<Rightarrow> 'p Session" where
  "on_signal (Connected pubkey) s = DaemonLocalServerConnection_connected pubkey s"
| "on_signal Disconnected s = DaemonLocalServerConnection_disconnected s"
| "on_signal ActivationFailure s = s"

definition with_daemon :: "('p Daemon \<Rightarrow> 'r \<times> 'p Daemon) \<Rightarrow> 'p Session \<Rightarrow> 'r \<times> 'p Session" where
  "with_daemon f s =
     (let (r, d) = f (s_daemon s)
      in (r, fold on_signal (drop (length (emitted (s_daemon s))) (emitted d)) (s\<lparr>s_daemon := d\<rparr>)))"

section \<open>Commands\<close>

definition activate_command :: "'p Host \<Rightarrow> qjobject \<Rightarrow> 'p Session \<Rightarrow> 'p Session" where
  "activate_command H obj s =
     (case Daemon_parseConfig (h_windows H) (h_qt H) (h_sort H) obj
         (InterfaceConfig_new (h_hopType H) (h_killSwitch H)) of
        Inl e \<Rightarrow> DaemonLocalServerConnection_disconnected s
      | Inr config \<Rightarrow>
          (let (ok, s) = with_daemon (Daemon_activate (h_qt H) (h_platform H) config) s
           in if ok then s else DaemonLocalServerConnection_disconnected s))"

definition status_command :: "'p Host \<Rightarrow> 'p Session \<Rightarrow> 'p Session" where
  "status_command H s =
     (let (obj, s) = with_daemon (Daemon_getStatus (h_date H) (h_platform H)) s
      in DaemonLocalServerConnection_write (json_insert ''type'' (JString ''status'') obj) s)"

definition logs_command :: "'p Session \<Rightarrow> 'p Session" where
  "logs_command =
     DaemonLocalServerConnection_write
       (json_insert ''logs'' (json_ofString None) (json_insert ''type'' (JString ''logs'') []))"

definition DaemonLocalServerConnection_parseCommand ::
  "'p Host \<Rightarrow> Wire \<Rightarrow> string \<Rightarrow> 'p Session \<Rightarrow> 'p Session"
where
  "DaemonLocalServerConnection_parseCommand H W text s =
     (case fromJson W text of
        JObject obj \<Rightarrow>
          (case json_value obj ''type'' of
             JString type \<Rightarrow>
               if type = ''activate'' then activate_command H obj s
               else if type = ''deactivate'' then
                 snd (with_daemon (Daemon_deactivate (h_platform H) True) s)
               else if type = ''status'' then status_command H s
               else if type = ''logs'' then logs_command s
               else s
           | _ \<Rightarrow> s)
      | _ \<Rightarrow> s)"

section \<open>Reading\<close>

lemma session_parts:
  "s_buffer (DaemonLocalServerConnection_write obj s) = s_buffer s"
  "s_daemon (DaemonLocalServerConnection_write obj s) = s_daemon s"
  "DaemonLocalServerConnection_write obj (s\<lparr>s_buffer := b\<rparr>) =
    (DaemonLocalServerConnection_write obj s)\<lparr>s_buffer := b\<rparr>"
  by (simp_all add: DaemonLocalServerConnection_write_def)

lemmas slot_defs = DaemonLocalServerConnection_connected_def DaemonLocalServerConnection_disconnected_def

lemma on_signal_parts:
  "s_buffer (on_signal sig s) = s_buffer s" "s_daemon (on_signal sig s) = s_daemon s"
  "on_signal sig (s\<lparr>s_buffer := b\<rparr>) = (on_signal sig s)\<lparr>s_buffer := b\<rparr>"
  by (cases sig; simp add: slot_defs session_parts)+

lemma on_signals_parts:
  "s_buffer (fold on_signal sigs s) = s_buffer s" "s_daemon (fold on_signal sigs s) = s_daemon s"
  "fold on_signal sigs (s\<lparr>s_buffer := b\<rparr>) = (fold on_signal sigs s)\<lparr>s_buffer := b\<rparr>"
  by (induction sigs arbitrary: s) (simp_all add: on_signal_parts)

lemma with_daemon_parts:
  "s_buffer (snd (with_daemon f s)) = s_buffer s"
  "s_daemon (snd (with_daemon f s)) = snd (f (s_daemon s))"
  "fst (with_daemon f s) = fst (f (s_daemon s))"
  "with_daemon f (s\<lparr>s_buffer := b\<rparr>) = (fst (with_daemon f s), (snd (with_daemon f s))\<lparr>s_buffer := b\<rparr>)"
proof -
  have swap: "s\<lparr>s_buffer := b, s_daemon := d\<rparr> = s\<lparr>s_daemon := d\<rparr>\<lparr>s_buffer := b\<rparr>" for d by simp
  show "s_buffer (snd (with_daemon f s)) = s_buffer s"
    "s_daemon (snd (with_daemon f s)) = snd (f (s_daemon s))"
    "fst (with_daemon f s) = fst (f (s_daemon s))"
    by (simp_all add: with_daemon_def case_prod_unfold Let_def on_signals_parts)
  show "with_daemon f (s\<lparr>s_buffer := b\<rparr>) = (fst (with_daemon f s), (snd (with_daemon f s))\<lparr>s_buffer := b\<rparr>)"
    by (simp add: with_daemon_def case_prod_unfold Let_def swap on_signals_parts)
qed

lemma command_parts:
  "s_buffer (activate_command H obj s) = s_buffer s"
  "s_buffer (status_command H s) = s_buffer s"
  "s_buffer (logs_command s) = s_buffer s"
  "activate_command H obj (s\<lparr>s_buffer := b\<rparr>) = (activate_command H obj s)\<lparr>s_buffer := b\<rparr>"
  "status_command H (s\<lparr>s_buffer := b\<rparr>) = (status_command H s)\<lparr>s_buffer := b\<rparr>"
  "logs_command (s\<lparr>s_buffer := b\<rparr>) = (logs_command s)\<lparr>s_buffer := b\<rparr>"
  by (simp_all add: activate_command_def status_command_def logs_command_def case_prod_unfold Let_def
      with_daemon_parts session_parts slot_defs split: sum.split)

lemma s_buffer_parseCommand [simp]:
  "s_buffer (DaemonLocalServerConnection_parseCommand H W text s) = s_buffer s"
  by (simp add: DaemonLocalServerConnection_parseCommand_def command_parts with_daemon_parts split: qjson.split)

lemma parseCommand_set_s_buffer:
  "DaemonLocalServerConnection_parseCommand H W text (s\<lparr>s_buffer := b\<rparr>) =
    (DaemonLocalServerConnection_parseCommand H W text s)\<lparr>s_buffer := b\<rparr>"
  by (simp add: DaemonLocalServerConnection_parseCommand_def command_parts with_daemon_parts split: qjson.split)

text \<open>The loop of \<open>readData\<close>; \<open>inputs\<close> are the results of the successive calls of \<open>readAll\<close>.\<close>

function (sequential) serveLoop :: "'p Host \<Rightarrow> Wire \<Rightarrow> string list \<Rightarrow> 'p Session \<Rightarrow> 'p Session" where
  "serveLoop H W inputs s =
     (case take_line (s_buffer s) of
        None \<Rightarrow>
          (case inputs of
             [] \<Rightarrow> s
           | input # inputs' \<Rightarrow>
               if input = [] then s else serveLoop H W inputs' (s\<lparr>s_buffer := s_buffer s @ input\<rparr>))
      | Some (line, rest) \<Rightarrow>
          (let s = s\<lparr>s_buffer := rest\<rparr>; command = trimmed line
           in if command = [] then serveLoop H W inputs s
              else serveLoop H W inputs (DaemonLocalServerConnection_parseCommand H W command s)))"
  by pat_completeness auto
termination
  by (relation "measures [\<lambda>(H, W, inputs, s). length inputs, \<lambda>(H, W, inputs, s). length (s_buffer s)]")
    (auto simp: take_line_shorter)

declare serveLoop.simps [simp del]

definition DaemonLocalServerConnection_readData ::
  "'p Host \<Rightarrow> Wire \<Rightarrow> string list \<Rightarrow> 'p Session \<Rightarrow> 'p Session"
where
  "DaemonLocalServerConnection_readData H W inputs s = serveLoop H W inputs s"

definition serve_text :: "'p Host \<Rightarrow> Wire \<Rightarrow> string \<Rightarrow> 'p Session \<Rightarrow> 'p Session" where
  "serve_text H W input s = serveLoop H W [] (s\<lparr>s_buffer := s_buffer s @ input\<rparr>)"

interpretation session: line_reader s_buffer "\<lambda>b s. s\<lparr>s_buffer := b\<rparr>"
  "DaemonLocalServerConnection_parseCommand H W" "serve_text H W" for H :: "'p Host" and W
proof unfold_locales
  fix s :: "'p Session" and input line rest
  assume "take_line (s_buffer s @ input) = Some (line, rest)"
  then show "serve_text H W input s = serve_text H W []
     (if trimmed line = [] then s\<lparr>s_buffer := rest\<rparr>
      else DaemonLocalServerConnection_parseCommand H W (trimmed line) (s\<lparr>s_buffer := rest\<rparr>))"
    unfolding serve_text_def
    by (subst serveLoop.simps) (simp add: Let_def parseCommand_set_s_buffer)
next
  fix s :: "'p Session" and input
  assume "take_line (s_buffer s @ input) = None"
  then show "serve_text H W input s = s\<lparr>s_buffer := s_buffer s @ input\<rparr>"
    unfolding serve_text_def by (subst serveLoop.simps) simp
qed (simp_all add: parseCommand_set_s_buffer)

text \<open>\<open>readAll\<close> returns nothing once the socket is drained.\<close>

definition drained :: "string list \<Rightarrow> string" where
  "drained inputs = concat (takeWhile (\<lambda>i. i \<noteq> []) inputs)"

lemma take_line_prefix: "take_line (b @ later) = None \<Longrightarrow> take_line b = None"
  using take_line_append [of b _ _ later] by (cases "take_line b") auto

lemma serveLoop_drains: "serveLoop H W inputs s = serve_text H W (drained inputs) s"
proof (induction H W inputs s rule: serveLoop.induct)
  case (1 H W inputs s)
  show ?case
  proof (cases "take_line (s_buffer s)")
    case None
    show ?thesis
    proof (cases "inputs = [] \<or> hd inputs = []")
      case True
      then have "drained inputs = []" by (cases inputs) (simp_all add: drained_def)
      with None True show ?thesis
        by (subst serveLoop.simps) (cases inputs; simp add: session.read_None)
    next
      case False
      then obtain input inputs' where i: "inputs = input # inputs'" "input \<noteq> []" by (cases inputs) auto
      then have d: "drained inputs = input @ drained inputs'" by (simp add: drained_def)
      have "serveLoop H W inputs s = serve_text H W (drained inputs') (s\<lparr>s_buffer := s_buffer s @ input\<rparr>)"
        using None i 1(1) by (subst serveLoop.simps) simp
      also have "\<dots> = serve_text H W (drained inputs) s"
        by (simp add: serve_text_def d)
      finally show ?thesis .
    qed
  next
    case (Some lr)
    obtain line rest where lr: "lr = (line, rest)" by (cases lr)
    with Some have t: "take_line (s_buffer s) = Some (line, rest)" by simp
    let ?s = "if trimmed line = [] then s\<lparr>s_buffer := rest\<rparr>
      else DaemonLocalServerConnection_parseCommand H W (trimmed line) (s\<lparr>s_buffer := rest\<rparr>)"
    have "serveLoop H W inputs s = serveLoop H W inputs ?s"
      using t by (subst serveLoop.simps) (simp add: Let_def)
    also have "\<dots> = serve_text H W (drained inputs) ?s"
      using 1(2,3) [OF t] by simp
    also have "\<dots> = serve_text H W (drained inputs) s"
      using session.read_Some [OF take_line_append [OF t, of "drained inputs"], of H W]
      by (simp add: serve_text_def parseCommand_set_s_buffer)
    finally show ?thesis .
  qed
qed

section \<open>The server\<close>

definition TMP_PATH :: string where "TMP_PATH = ''/tmp/amneziavpn.socket''"
definition VAR_PATH :: string where "VAR_PATH = ''/var/run/amneziavpn/daemon.socket''"

definition DaemonLocalServer_daemonPath :: "bool \<Rightarrow> bool \<Rightarrow> bool \<Rightarrow> bool \<Rightarrow> bool \<Rightarrow> string" where
  "DaemonLocalServer_daemonPath win varRun haveDir mkdir chmod =
     (if win then [CHR 0x5C, CHR 0x5C, CHR ''.'', CHR 0x5C] @ ''pipe'' @ [CHR 0x5C] @ ''amneziavpn''
      else if \<not> varRun then TMP_PATH
      else if haveDir then VAR_PATH
      else if \<not> mkdir then TMP_PATH
      else if \<not> chmod then TMP_PATH
      else VAR_PATH)"

text \<open>\<open>newConnection\<close>: every pending connection becomes a session with an empty buffer.\<close>

definition DaemonLocalServer_newConnection :: "bool \<Rightarrow> 'p Daemon \<Rightarrow> 'p Session option" where
  "DaemonLocalServer_newConnection pending d =
     (if \<not> pending then None else Some \<lparr>s_buffer = [], s_out = [], s_daemon = d\<rparr>)"

section \<open>Properties\<close>

text \<open>
  C38: The daemon's reader handles exactly the complete, non-empty lines of its buffer and of what
  the socket delivers before it is drained, in order, and keeps the rest for the next call, however
  the stream is cut.
\<close>

theorem session_readData_exact:
  "DaemonLocalServerConnection_readData H W inputs s =
     (fold (DaemonLocalServerConnection_parseCommand H W) (commands (s_buffer s @ drained inputs)) s)
       \<lparr>s_buffer := remainder (s_buffer s @ drained inputs)\<rparr>"
  unfolding DaemonLocalServerConnection_readData_def serveLoop_drains by (rule session.read_eq)

lemma json_value_remove [simp]:
  "json_value (qmap_remove k ob) k' = (if k' = k then JUndefined else json_value ob k')"
  by (simp add: json_value_def)

lemma json_put_simps [simp]:
  "json_value (json_put k v ob) k' = (if k' = k then v else json_value ob k')"
  "qmap_contains (json_put k v ob) k' \<longleftrightarrow> (if k' = k then v \<noteq> JUndefined else qmap_contains ob k')"
  by (simp_all add: json_put_def qmap_contains_def)

lemma awg_members_other:
  assumes "k \<notin> set awg_keys"
  shows "json_value (awg_members name wg json) k = json_value json k"
    and "qmap_contains (awg_members name wg json) k = qmap_contains json k"
proof -
  have "json_value (fold (\<lambda>k. json_put k (f k)) ks json) k = json_value json k \<and>
      qmap_contains (fold (\<lambda>k. json_put k (f k)) ks json) k = qmap_contains json k"
    if "k \<notin> set ks" for ks f
    using that by (induction ks arbitrary: json) simp_all
  from this [of awg_keys "json_value wg"] assms
  show "json_value (awg_members name wg json) k = json_value json k"
    and "qmap_contains (awg_members name wg json) k = qmap_contains json k"
    by (simp_all add: awg_members_def)
qed

lemma range_object_ok [simp]: "rangeJson_ok (range_object a r v)"
  by (simp add: rangeJson_ok_def range_object_def)

lemma range_of_text_ok [simp]: "rangeJson_ok (range_of_text v)"
  by (simp add: range_of_text_def Let_def)

lemma allowed_ranges_ok: "list_all rangeJson_ok (allowed_ranges plain t sites)"
  by (simp add: allowed_ranges_def list.pred_map list.pred_True comp_def)

lemma strings_array_iff: "(\<exists>ss. xs = map JString ss) \<longleftrightarrow> list_all json_isString xs"
proof
  assume "list_all json_isString xs"
  then have "xs = map JString (map (\<lambda>v. qs (json_toString v)) xs)"
    by (induction xs) (auto simp: json_isString_iff)
  then show "\<exists>ss. xs = map JString ss" by blast
qed (auto simp: list_all_iff)

lemma excluded_addresses_ok:
  "list_all json_isString (excluded_addresses h t sites) \<longleftrightarrow> json_isString h"
  by (cases h) (auto simp: excluded_addresses_def json_item_def json_ofString_def list_all_iff)

definition request_wg :: "qjobject \<Rightarrow> string \<Rightarrow> qjson" where
  "request_wg raw = json_value (json_toObject (json_value raw
     (qs (json_toString (json_value raw ''protocol'')) @ ''_config_data'')))"

lemma activate_request_ok:
  "configJson_ok (activate_request raw) \<longleftrightarrow>
     json_isString (request_wg raw ''client_priv_key'') \<and>
     json_isString (request_wg raw ''server_pub_key'') \<and>
     json_isString (request_wg raw ''hostName'') \<and>
     (json_value raw ''dns1'' = JUndefined \<or> json_isString (json_value raw ''dns1'')) \<and>
     list_all json_isString (json_toArray (json_value raw ''splitTunnelApps''))"
proof -
  have other: "k \<notin> set awg_keys" if "length k > 4" for k
    using that by (auto simp: awg_keys_def)
  show ?thesis
    unfolding configJson_ok_def stringsJson_ok_def activate_request_def Let_def
    by (simp add: awg_members_other other allowed_ranges_ok strings_array_iff excluded_addresses_ok
        request_wg_def json_isString_iff) blast
qed

lemma activate_request_type: "json_value (activate_request raw) ''type'' = JString ''activate''"
  unfolding activate_request_def Let_def by (simp add: awg_members_other awg_keys_def)

text \<open>
  C9: Client and daemon agree: the request that \<open>LocalSocketController::activate\<close> builds is accepted by
  \<open>Daemon::parseConfig\<close> if and only if the configuration of the chosen protocol holds both keys and
  the host name as strings, the DNS server is a string or absent and the application list holds
  strings; the port, the allowed ranges and the device address never cause a rejection.
\<close>

theorem activate_request_accepted:
  "(\<exists>config. Daemon_parseConfig win Q srt (activate_request raw) c = Inr config) \<longleftrightarrow>
     json_isString (request_wg raw ''client_priv_key'') \<and>
     json_isString (request_wg raw ''server_pub_key'') \<and>
     json_isString (request_wg raw ''hostName'') \<and>
     (json_value raw ''dns1'' = JUndefined \<or> json_isString (json_value raw ''dns1'')) \<and>
     list_all json_isString (json_toArray (json_value raw ''splitTunnelApps''))"
  unfolding parseConfig_iff by (simp add: activate_request_ok)

lemma take_line_terminated: "newline \<notin> set t \<Longrightarrow> take_line (t @ [newline]) = Some (t, [])"
  by (induction t) (auto simp: take_line_Cons)

lemma commands_terminated:
  "newline \<notin> set t \<Longrightarrow> trimmed t = t \<Longrightarrow> t \<noteq> [] \<Longrightarrow>
    commands (t @ [newline]) = [t] \<and> remainder (t @ [newline]) = []"
  by (simp add: commands.simps [of "t @ [newline]"] remainder.simps [of "t @ [newline]"]
      commands.simps [of "[]"] remainder.simps [of "[]"] take_line_terminated)

text \<open>
  C1: From the client's call to the daemon's state: if the JSON text of the request can be read back
  and is one non-blank line, then serving the bytes that the client writes activates the daemon with
  the configuration of the request; the client is told of a disconnection if that fails, or if the
  request is rejected.
\<close>

theorem activation_end_to_end:
  assumes "fromJson W (toJson W (activate_request raw)) = JObject (activate_request raw)"
    and "newline \<notin> set (toJson W (activate_request raw))" "toJson W (activate_request raw) \<noteq> []"
    and "trimmed (toJson W (activate_request raw)) = toJson W (activate_request raw)"
    and "s_buffer s = []" "written ctl' = written (LocalSocketController_activate raw ctl)"
    and "r = DaemonLocalServerConnection_readData H W [toJson W (last (written ctl')) @ [newline]] s"
  shows "case Daemon_parseConfig (h_windows H) (h_qt H) (h_sort H) (activate_request raw)
      (InterfaceConfig_new (h_hopType H) (h_killSwitch H)) of
      Inl e \<Rightarrow> s_daemon r = s_daemon s \<and> s_out r = s_out s @ [type_request ''disconnected'']
    | Inr config \<Rightarrow>
        s_daemon r = snd (Daemon_activate (h_qt H) (h_platform H) config (s_daemon s)) \<and>
        (\<not> fst (Daemon_activate (h_qt H) (h_platform H) config (s_daemon s)) \<longrightarrow>
           last (s_out r) = type_request ''disconnected'')"
proof -
  let ?t = "toJson W (activate_request raw)"
  have "last (written ctl') = activate_request raw"
    by (simp add: assms(6) LocalSocketController_activate_def LocalSocketController_write_def)
  moreover have "drained [?t @ [newline]] = ?t @ [newline]" by (simp add: drained_def)
  ultimately have "r = (activate_command H (activate_request raw) s)\<lparr>s_buffer := []\<rparr>"
    using commands_terminated [OF assms(2,4,3)] assms(5,7)
    by (simp add: DaemonLocalServerConnection_readData_def serveLoop_drains session.read_eq
        DaemonLocalServerConnection_parseCommand_def assms(1) activate_request_type)
  then show ?thesis
    by (auto simp: activate_command_def case_prod_unfold Let_def with_daemon_parts session_parts slot_defs
        type_request_def DaemonLocalServerConnection_write_def split: sum.split)
qed

definition sample_raw :: qjobject where
  "sample_raw =
     [(''dns1'', JString ''1.1.1.1''), (''protocol'', JString ''awg''),
      (''awg_config_data'', JObject
         [(''client_priv_key'', JString ''priv''), (''client_ip'', JString ''10.8.0.2''),
          (''hostName'', JString ''203.0.113.7''), (''server_pub_key'', JString ''pub'')])]"

definition request_wire :: Wire where
  "request_wire = \<lparr>fromJson = (\<lambda>t. if t = ''{}'' then JObject (activate_request sample_raw) else JNull),
     toJson = (\<lambda>_. ''{}''), dateFromString = (\<lambda>_. None)\<rparr>"

definition sample_host :: "unit Host" where
  "sample_host = \<lparr>h_windows = False, h_qt = sample_qt, h_sort = sample_sort, h_platform = sample_platform,
     h_date = (\<lambda>_. []), h_hopType = SingleHop, h_killSwitch = False\<rparr>"

theorem activation_end_to_end_witness:
  "\<exists>config. s_daemon (DaemonLocalServerConnection_readData sample_host request_wire [''{}'' @ [newline]]
      \<lparr>s_buffer = [], s_out = [], s_daemon = Daemon_new ()\<rparr>) =
    snd (Daemon_activate (h_qt sample_host) (h_platform sample_host) config (Daemon_new ()))"
proof -
  have "configJson_ok (activate_request sample_raw)"
    unfolding activate_request_ok by (simp add: request_wg_def sample_raw_def json_value_def)
  then obtain config where c: "Daemon_parseConfig (h_windows sample_host) (h_qt sample_host) (h_sort sample_host) (activate_request sample_raw)
      (InterfaceConfig_new (h_hopType sample_host) (h_killSwitch sample_host)) = Inr config"
    using parseConfig_iff by blast
  have w: "toJson request_wire ob = ''{}''" "fromJson request_wire ''{}'' = JObject (activate_request sample_raw)"
    for ob by (simp_all add: request_wire_def)
  show ?thesis
    using activation_end_to_end [of request_wire sample_raw
        "\<lparr>s_buffer = [], s_out = [], s_daemon = Daemon_new ()\<rparr>"
        "LocalSocketController_activate sample_raw LocalSocketController_new" LocalSocketController_new, OF _ _ _ _ _ refl refl,
        of sample_host] c
    by (auto simp: w trimmed_def isSpace_def)
qed

end
