(* ===== verification/Vpn_Connection.thy ===== *)
theory Vpn_Connection
  imports Network_Utilities Containers Daemon_Server
begin

text \<open>
  \<open>client/protocols/vpnprotocol.cpp\<close> and \<open>client/vpnconnection.cpp\<close> in a desktop build: the state of a
  protocol, the configuration handed to it, and the routes requested from the service process.

  The settings a connection reads are the fields of \<open>Settings\<close>.  Calls of the service (\<open>IpcClient\<close>)
  are recorded in order; the virtual methods of a protocol are the fields of \<open>Protocols\<close>.  Reading
  past the end of a list is the fault \<open>OutOfRange\<close>.
\<close>

section \<open>Protocol state\<close>

datatype ConnState =
    StateUnknown | StateDisconnected | StatePreparing | StateConnecting | StateConnected
  | StateDisconnecting | StateReconnecting | StateError

record VpnProtocol =
  m_connectionState :: ConnState
  m_lastError :: int
  m_rawConfig :: qjobject
  m_receivedBytes :: "64 word"
  m_sentBytes :: "64 word"
  m_timeoutTimer :: bool
  m_vpnGateway :: string
  m_routeGateway :: string
  p_states :: "ConnState list"
  p_bytes :: "(64 word \<times> 64 word) list"

definition VpnProtocol_new :: "qjobject \<Rightarrow> int \<Rightarrow> VpnProtocol" where
  "VpnProtocol_new configuration lastError =
     \<lparr>m_connectionState = StateUnknown, m_lastError = lastError, m_rawConfig = configuration,
      m_receivedBytes = 0, m_sentBytes = 0, m_timeoutTimer = False,
      m_vpnGateway = [], m_routeGateway = [], p_states = [], p_bytes = []\<rparr>"

definition VpnProtocol_setConnectionState :: "ConnState \<Rightarrow> VpnProtocol \<Rightarrow> VpnProtocol" where
  "VpnProtocol_setConnectionState state p =
     (if m_connectionState p = state then p
      else if m_connectionState p = StateDisconnected \<and> state = StateDisconnecting then p
      else
        (let p = p\<lparr>m_connectionState := state\<rparr>;
             p = (if state = StateDisconnected then p\<lparr>m_receivedBytes := 0, m_sentBytes := 0\<rparr> else p)
         in p\<lparr>p_states := p_states p @ [state]\<rparr>))"

definition VpnProtocol_setLastError :: "int \<Rightarrow> VpnProtocol \<Rightarrow> VpnProtocol" where
  "VpnProtocol_setLastError lastError p =
     (let p = p\<lparr>m_lastError := lastError\<rparr>
      in if lastError \<noteq> 0 then VpnProtocol_setConnectionState StateError p else p)"

definition VpnProtocol_setBytesChanged :: "64 word \<Rightarrow> 64 word \<Rightarrow> VpnProtocol \<Rightarrow> VpnProtocol" where
  "VpnProtocol_setBytesChanged receivedBytes sentBytes p =
     (let rxDiff = receivedBytes - m_receivedBytes p; txDiff = sentBytes - m_sentBytes p
      in p\<lparr>p_bytes := p_bytes p @ [(rxDiff, txDiff)],
           m_receivedBytes := receivedBytes, m_sentBytes := sentBytes\<rparr>)"

definition VpnProtocol_startTimeoutTimer :: "VpnProtocol \<Rightarrow> VpnProtocol" where
  "VpnProtocol_startTimeoutTimer p = p\<lparr>m_timeoutTimer := True\<rparr>"

definition VpnProtocol_stopTimeoutTimer :: "VpnProtocol \<Rightarrow> VpnProtocol" where
  "VpnProtocol_stopTimeoutTimer p = p\<lparr>m_timeoutTimer := False\<rparr>"

fun VpnProtocol_textConnectionState :: "ConnState \<Rightarrow> string" where
  "VpnProtocol_textConnectionState StateUnknown = ''Unknown''"
| "VpnProtocol_textConnectionState StateDisconnected = ''Disconnected''"
| "VpnProtocol_textConnectionState StatePreparing = ''Preparing''"
| "VpnProtocol_textConnectionState StateConnecting = ''Connecting...''"
| "VpnProtocol_textConnectionState StateConnected = ''Connected''"
| "VpnProtocol_textConnectionState StateDisconnecting = ''Disconnecting...''"
| "VpnProtocol_textConnectionState StateReconnecting = ''Reconnecting...''"
| "VpnProtocol_textConnectionState StateError = ''Error''"

datatype ProtocolClass =
  Ikev2Protocol | OpenVpnProtocol | OpenVpnOverCloakProtocol | ShadowSocksVpnProtocol | WireguardProtocol | XrayProtocol

fun VpnProtocol_factory :: "bool \<Rightarrow> DockerContainer \<Rightarrow> ProtocolClass option" where
  "VpnProtocol_factory win DockerIpsec = (if win then Some Ikev2Protocol else None)"
| "VpnProtocol_factory win DockerOpenVpn = Some OpenVpnProtocol"
| "VpnProtocol_factory win DockerCloak = Some OpenVpnOverCloakProtocol"
| "VpnProtocol_factory win DockerShadowSocks = Some ShadowSocksVpnProtocol"
| "VpnProtocol_factory win DockerWireGuard = Some WireguardProtocol"
| "VpnProtocol_factory win DockerAwg = Some WireguardProtocol"
| "VpnProtocol_factory win DockerXray = Some XrayProtocol"
| "VpnProtocol_factory win DockerSSXray = Some XrayProtocol"
| "VpnProtocol_factory win _ = None"

section \<open>The configuration of a connection\<close>

datatype RouteMode = VpnAllSites | VpnOnlyForwardSites | VpnAllExceptSites
datatype AppsRouteMode = VpnAllApps | VpnOnlyForwardApps | VpnAllExceptApps

primrec RouteMode_value :: "RouteMode \<Rightarrow> int" where
  "RouteMode_value VpnAllSites = 0"
| "RouteMode_value VpnOnlyForwardSites = 1"
| "RouteMode_value VpnAllExceptSites = 2"

primrec AppsRouteMode_value :: "AppsRouteMode \<Rightarrow> int" where
  "AppsRouteMode_value VpnAllApps = 0"
| "AppsRouteMode_value VpnOnlyForwardApps = 1"
| "AppsRouteMode_value VpnAllExceptApps = 2"

record Settings =
  isKillSwitchEnabled :: bool
  isSitesSplitTunnelingEnabled :: bool
  routeMode :: RouteMode
  getVpnIps :: "RouteMode \<Rightarrow> string list"
  vpnSites :: "RouteMode \<Rightarrow> (string \<times> string) list"
  isAppsSplitTunnelingEnabled :: bool
  getAppsRouteMode :: AppsRouteMode
  getVpnApps :: "AppsRouteMode \<Rightarrow> (string \<times> string) list"

datatype list_fault = OutOfRange

definition VpnConnection_appendKillSwitchConfig :: "Settings \<Rightarrow> qjobject \<Rightarrow> qjobject" where
  "VpnConnection_appendKillSwitchConfig st config =
     json_put ''killSwitchOption'' (JString (if isKillSwitchEnabled st then ''true'' else ''false'')) config"

definition string_array :: "string list \<Rightarrow> qjson" where
  "string_array ss = JArray (map JString ss)"

text \<open>The value of the first line that contains \<open>key\<close>: no such line, its value, or a read past the end.\<close>

fun native_value :: "string \<Rightarrow> string list \<Rightarrow> list_fault + string option" where
  "native_value key [] = Inr None"
| "native_value key (line # ls) =
     (if contains_str key line then
        (let parts = split_str '' = '' line
         in if length parts < 1 then Inr None
            else if length parts \<le> 1 then Inl OutOfRange
            else Inr (Some (parts ! 1)))
      else native_value key ls)"

definition native_lines :: "qjobject \<Rightarrow> string list" where
  "native_lines configData = split newline (qs (json_toString (json_value configData ''config'')))"

definition split_allowed_ips :: "qjobject \<Rightarrow> list_fault + qjobject" where
  "split_allowed_ips configData =
     (case json_value configData ''allowed_ips'' of
        JString s \<Rightarrow> Inr (json_put ''allowed_ips'' (string_array (split_str '', '' s)) configData)
      | JUndefined \<Rightarrow>
          sbind (native_value ''AllowedIPs'' (native_lines configData)) (\<lambda>v. Inr
            (case v of
               None \<Rightarrow> configData
             | Some s \<Rightarrow> json_put ''allowed_ips'' (string_array (split_str '', '' s)) configData))
      | _ \<Rightarrow> Inr configData)"

definition split_keep_alive :: "qjobject \<Rightarrow> list_fault + qjobject" where
  "split_keep_alive configData =
     (case json_value configData ''persistent_keep_alive'' of
        JUndefined \<Rightarrow>
          sbind (native_value ''PersistentKeepalive'' (native_lines configData)) (\<lambda>v. Inr
            (case v of
               None \<Rightarrow> configData
             | Some s \<Rightarrow> json_put ''persistent_keep_alive'' (JString s) configData))
      | _ \<Rightarrow> Inr configData)"

definition split_sites :: "Settings \<Rightarrow> bool \<Rightarrow> qjobject \<Rightarrow> qjobject" where
  "split_sites st allowSiteBasedSplitTunneling config =
     (let mode = (if isSitesSplitTunnelingEnabled st then routeMode st else VpnAllSites);
          sites =
            (if isSitesSplitTunnelingEnabled st \<and> allowSiteBasedSplitTunneling
             then getVpnIps st mode @
               (if mode = VpnOnlyForwardSites
                then [qs (json_toString (json_value config ''dns1'')),
                      qs (json_toString (json_value config ''dns2''))] else [])
             else [])
      in json_put ''splitTunnelSites'' (string_array sites)
           (json_put ''splitTunnelType'' (JDouble (of_int (RouteMode_value mode))) config))"

definition split_apps :: "Settings \<Rightarrow> qjobject \<Rightarrow> qjobject" where
  "split_apps st config =
     (let mode = (if isAppsSplitTunnelingEnabled st then getAppsRouteMode st else VpnAllApps);
          apps =
            (if isAppsSplitTunnelingEnabled st
             then map (\<lambda>(packageName, appPath). if appPath = [] then packageName else appPath) (getVpnApps st mode)
             else [])
      in json_put ''splitTunnelApps'' (string_array apps)
           (json_put ''appSplitTunnelType'' (JDouble (of_int (AppsRouteMode_value mode))) config))"

definition VpnConnection_appendSplitTunnelingConfig ::
  "Settings \<Rightarrow> qjobject \<Rightarrow> list_fault + qjobject"
where
  "VpnConnection_appendSplitTunnelingConfig st config =
     (let protocolName = qs (json_toString (json_value config ''protocol''))
      in if protocolName = ProtocolProps_protoToString ProtoAwg \<or>
            protocolName = ProtocolProps_protoToString ProtoWireGuard
         then
           (let key = protocolName @ ''_config_data''; old = json_toObject (json_value config key)
            in sbind (split_allowed_ips old) (\<lambda>configData.
               sbind (split_keep_alive configData) (\<lambda>configData.
               (let config = (if configData = old then config else json_put key (JObject configData) config);
                    ips = json_toArray (json_value configData ''allowed_ips'')
                in Inr (split_apps st
                     (split_sites st (JString ''0.0.0.0/0'' \<in> set ips \<and> JString ''::/0'' \<in> set ips) config))))))
         else Inr (split_apps st (split_sites st True config)))"

section \<open>The connection\<close>

text \<open>
  Requests to the service process, in the order they are made; \<open>LookupHost\<close> is the asynchronous name
  lookup that \<open>addSitesRoutes\<close> starts, \<open>SiteAdded\<close> the address it stores in the settings.
\<close>

datatype ipc_call =
    Reinitialize
  | ResetIpStack
  | FlushDns
  | RouteAddList string "string list"
  | RouteDeleteList string "string list"
  | ClearSavedRoutes
  | LookupHost string
  | SiteAdded RouteMode string string

record VpnConnection =
  m_vpnProtocol :: "VpnProtocol option"
  m_vpnConfiguration :: qjobject
  m_remoteAddress :: string
  ipcInterface :: bool
  ipc :: "ipc_call list"
  v_sitesTimer :: bool
  v_states :: "ConnState list"

text \<open>The virtual methods of the protocol classes, and their uninitialised error code.\<close>

record Protocols =
  pv_prepare :: "VpnProtocol \<Rightarrow> VpnProtocol"
  pv_start :: "VpnProtocol \<Rightarrow> int \<times> VpnProtocol"
  pv_lastError :: int

definition ipc_calls :: "ipc_call list \<Rightarrow> VpnConnection \<Rightarrow> VpnConnection" where
  "ipc_calls cs v = v\<lparr>ipc := ipc v @ cs\<rparr>"

definition v_emit :: "ConnState \<Rightarrow> VpnConnection \<Rightarrow> VpnConnection" where
  "v_emit s v = v\<lparr>v_states := v_states v @ [s]\<rparr>"

definition proto_vpnGateway :: "VpnConnection \<Rightarrow> string" where
  "proto_vpnGateway v = (case m_vpnProtocol v of None \<Rightarrow> [] | Some p \<Rightarrow> m_vpnGateway p)"

definition proto_routeGateway :: "VpnConnection \<Rightarrow> string" where
  "proto_routeGateway v = (case m_vpnProtocol v of None \<Rightarrow> [] | Some p \<Rightarrow> m_routeGateway p)"

fun removeDuplicates :: "string list \<Rightarrow> string list" where
  "removeDuplicates [] = []"
| "removeDuplicates (x # xs) = x # removeDuplicates (filter (\<lambda>y. y \<noteq> x) xs)"

definition site_ips :: "Qt \<Rightarrow> (string \<times> string) list \<Rightarrow> string list" where
  "site_ips Q m =
     removeDuplicates (concat (map (\<lambda>(key, v).
       if NetworkUtilities_checkIpSubnetFormat Q key then [key]
       else if NetworkUtilities_checkIpSubnetFormat Q v then [v] else []) m))"

definition site_names :: "Qt \<Rightarrow> (string \<times> string) list \<Rightarrow> string list" where
  "site_names Q m = map fst (filter (\<lambda>(key, v). \<not> NetworkUtilities_checkIpSubnetFormat Q key) m)"

definition VpnConnection_addSitesRoutes ::
  "Qt \<Rightarrow> Settings \<Rightarrow> string \<Rightarrow> RouteMode \<Rightarrow> VpnConnection \<Rightarrow> VpnConnection"
where
  "VpnConnection_addSitesRoutes Q st gw mode v =
     ipc_calls (RouteAddList gw (site_ips Q (vpnSites st mode)) #
       map LookupHost (site_names Q (vpnSites st mode))) v"

definition VpnConnection_flushDns :: "VpnConnection \<Rightarrow> VpnConnection" where
  "VpnConnection_flushDns v = (if ipcInterface v then ipc_calls [FlushDns] v else v)"

text \<open>The callback of a lookup: the first IPv4 address counts.\<close>

definition VpnConnection_cbResolv ::
  "Qt \<Rightarrow> string \<Rightarrow> string \<Rightarrow> RouteMode \<Rightarrow> string list \<Rightarrow> QHostAddress list \<Rightarrow> VpnConnection \<Rightarrow> VpnConnection"
where
  "VpnConnection_cbResolv Q site gw mode ips addresses v =
     (case find (\<lambda>a. protocol a = IPv4Protocol) addresses of
        None \<Rightarrow> v
      | Some a \<Rightarrow>
          (let ip = qt_hostToString Q a
           in VpnConnection_flushDns
                (if ip \<in> set ips then v
                 else ipc_calls [RouteAddList gw [ip], SiteAdded mode site ip] v)))"

definition VpnConnection_onConnectionStateChanged ::
  "Qt \<Rightarrow> Settings \<Rightarrow> ConnState \<Rightarrow> VpnConnection \<Rightarrow> VpnConnection"
where
  "VpnConnection_onConnectionStateChanged Q st state v =
     v_emit state
       (if \<not> ipcInterface v then v
        else if state = StateConnected then
          (let v = ipc_calls [ResetIpStack, FlushDns] v; config = json_value (m_vpnConfiguration v)
           in if json_toInt (config ''config_version'') \<noteq> 0 then v
              else
                (let v = ipc_calls [RouteAddList (proto_vpnGateway v)
                           [qs (json_toString (config ''dns1'')), qs (json_toString (config ''dns2''))]] v
                 in if \<not> isSitesSplitTunnelingEnabled st then v
                    else
                      (let v = ipc_calls [RouteDeleteList (proto_vpnGateway v) [''0.0.0.0'']] v
                       in case routeMode st of
                            VpnOnlyForwardSites \<Rightarrow> v\<lparr>v_sitesTimer := True\<rparr>
                          | VpnAllExceptSites \<Rightarrow>
                              VpnConnection_addSitesRoutes Q st (proto_routeGateway v) VpnAllExceptSites
                                (ipc_calls [RouteAddList (proto_vpnGateway v) [''0.0.0.0/1''],
                                   RouteAddList (proto_vpnGateway v) [''128.0.0.0/1''],
                                   RouteAddList (proto_routeGateway v) [m_remoteAddress v]] v)
                          | VpnAllSites \<Rightarrow> v)))
        else if state = StateError then
          (let v = ipc_calls [FlushDns] v
           in if isSitesSplitTunnelingEnabled st \<and> routeMode st = VpnOnlyForwardSites
              then ipc_calls [ClearSavedRoutes] v else v)
        else v)"

text \<open>The timer of \<open>onConnectionStateChanged\<close> belongs to the protocol and dies with it.\<close>

definition VpnConnection_sitesTimer :: "Qt \<Rightarrow> Settings \<Rightarrow> VpnConnection \<Rightarrow> VpnConnection" where
  "VpnConnection_sitesTimer Q st v =
     (if v_sitesTimer v \<and> m_vpnProtocol v \<noteq> None
      then VpnConnection_addSitesRoutes Q st (proto_vpnGateway v) (routeMode st) (v\<lparr>v_sitesTimer := False\<rparr>)
      else v)"

definition VpnConnection_connectionState :: "VpnConnection \<Rightarrow> ConnState" where
  "VpnConnection_connectionState v =
     (case m_vpnProtocol v of None \<Rightarrow> StateDisconnected | Some p \<Rightarrow> m_connectionState p)"

definition VpnConnection_isConnected :: "VpnConnection \<Rightarrow> bool" where
  "VpnConnection_isConnected v =
     (case m_vpnProtocol v of None \<Rightarrow> False | Some p \<Rightarrow> m_connectionState p = StateConnected)"

definition VpnConnection_isDisconnected :: "VpnConnection \<Rightarrow> bool" where
  "VpnConnection_isDisconnected v =
     (case m_vpnProtocol v of None \<Rightarrow> True | Some p \<Rightarrow> m_connectionState p = StateDisconnected)"

definition VpnConnection_lastError :: "VpnConnection \<Rightarrow> int" where
  "VpnConnection_lastError v = (case m_vpnProtocol v of None \<Rightarrow> 101 | Some p \<Rightarrow> m_lastError p)"

definition VpnConnection_addRoutes :: "Settings \<Rightarrow> string list \<Rightarrow> VpnConnection \<Rightarrow> VpnConnection" where
  "VpnConnection_addRoutes st ips v =
     (if VpnConnection_connectionState v = StateConnected \<and> ipcInterface v
      then (case routeMode st of
              VpnOnlyForwardSites \<Rightarrow> ipc_calls [RouteAddList (proto_vpnGateway v) ips] v
            | VpnAllExceptSites \<Rightarrow> ipc_calls [RouteAddList (proto_routeGateway v) ips] v
            | VpnAllSites \<Rightarrow> v)
      else v)"

definition VpnConnection_deleteRoutes :: "Settings \<Rightarrow> string list \<Rightarrow> VpnConnection \<Rightarrow> VpnConnection" where
  "VpnConnection_deleteRoutes st ips v =
     (if VpnConnection_connectionState v = StateConnected \<and> ipcInterface v
      then (case routeMode st of
              VpnOnlyForwardSites \<Rightarrow> ipc_calls [RouteDeleteList (proto_vpnGateway v) ips] v
            | VpnAllExceptSites \<Rightarrow> ipc_calls [RouteDeleteList (proto_routeGateway v) ips] v
            | VpnAllSites \<Rightarrow> v)
      else v)"

definition VpnConnection_connectToVpn ::
  "Qt \<Rightarrow> (string \<Rightarrow> QHostAddress list) \<Rightarrow> bool \<Rightarrow> Protocols \<Rightarrow> Settings \<Rightarrow> string \<Rightarrow> DockerContainer \<Rightarrow> qjobject
    \<Rightarrow> VpnConnection \<Rightarrow> list_fault + VpnConnection"
where
  "VpnConnection_connectToVpn Q lookup win V st hostName container vpnConfiguration v =
     (let v = ipc_calls [Reinitialize] v;
          v = v_emit StateConnecting (v\<lparr>m_remoteAddress := NetworkUtilities_getIPAddress Q lookup hostName\<rparr>)
      in sbind (VpnConnection_appendSplitTunnelingConfig st
                 (VpnConnection_appendKillSwitchConfig st vpnConfiguration)) (\<lambda>config.
         (let v = v\<lparr>m_vpnConfiguration := config, m_vpnProtocol := None, v_sitesTimer := False\<rparr>
          in case VpnProtocol_factory win container of
               None \<Rightarrow> Inr (v_emit StateError v)
             | Some cls \<Rightarrow>
                 (let p = pv_prepare V (VpnProtocol_new config (pv_lastError V));
                      (errorCode, p') = pv_start V p;
                      v = fold (VpnConnection_onConnectionStateChanged Q st)
                            (drop (length (p_states p)) (p_states p')) (v\<lparr>m_vpnProtocol := Some p'\<rparr>)
                  in Inr (if errorCode \<noteq> 0 then v_emit StateError v else v)))))"

definition VpnConnection_disconnectFromVpn :: "VpnConnection \<Rightarrow> VpnConnection" where
  "VpnConnection_disconnectFromVpn v =
     (let v = (if ipcInterface v then ipc_calls [FlushDns, ClearSavedRoutes] v else v)
      in if m_vpnProtocol v = None then v_emit StateDisconnected v
         else v\<lparr>m_vpnProtocol := None, v_sitesTimer := False\<rparr>)"

section \<open>Properties\<close>

text \<open>Occurrence of a text, by its position and by its suffixes.\<close>

lemma indexOf_str_found:
  "i \<ge> 0 \<Longrightarrow> indexOf_str t i s \<ge> 0 \<longleftrightarrow> (\<exists>u v. s = u @ v \<and> starts_with t v)"
proof (induction t i s rule: indexOf_str.induct)
  case (2 t i c s)
  then show ?case
    by (auto simp: Cons_eq_append_conv simp del: starts_with.simps)
qed simp

lemma contains_str_Cons:
  "contains_str t (c # s) \<longleftrightarrow> starts_with t (c # s) \<or> contains_str t s"
  by (auto simp: contains_str_def indexOf_str_found Cons_eq_append_conv simp del: starts_with.simps indexOf_str.simps)

lemma split_str_nonempty: "split_str sep s \<noteq> []"
  by (induction sep s rule: split_str.induct) (auto split: list.split)

lemma split_str_single:
  assumes "sep \<noteq> []"
  shows "length (split_str sep s) \<le> 1 \<longleftrightarrow> \<not> contains_str sep s"
  using assms
proof (induction sep s rule: split_str.induct)
  case (1 sep)
  then show ?case by (simp add: contains_str_def)
next
  case (2 sep c s)
  show ?case
  proof (cases "starts_with sep (c # s)")
    case True
    with 2(3) split_str_nonempty show ?thesis
      by (simp add: contains_str_Cons Suc_le_eq del: starts_with.simps)
  next
    case False
    moreover have "length (case split_str sep s of [] \<Rightarrow> [[c]] | w # ws \<Rightarrow> (c # w) # ws) = length (split_str sep s)"
      using split_str_nonempty [of sep s] by (simp split: list.split)
    ultimately show ?thesis
      using 2 by (simp add: contains_str_Cons del: starts_with.simps)
  qed
qed

text \<open>The first line with a key lacks the separator.\<close>

definition bad_line :: "string \<Rightarrow> string list \<Rightarrow> bool" where
  "bad_line key ls \<longleftrightarrow>
     (case find (contains_str key) ls of None \<Rightarrow> False | Some line \<Rightarrow> \<not> contains_str '' = '' line)"

lemma native_value_fault: "native_value key ls = Inl OutOfRange \<longleftrightarrow> bad_line key ls"
proof (induction key ls rule: native_value.induct)
  case (2 key line ls)
  then show ?case
    using split_str_single [of "'' = ''" line] split_str_nonempty [of "'' = ''" line]
    by (auto simp: bad_line_def Let_def)
qed (simp add: bad_line_def)

lemma sbind_fault: "sbind m f = Inl (e :: list_fault) \<longleftrightarrow> m = Inl OutOfRange \<or> (\<exists>x. m = Inr x \<and> f x = Inl OutOfRange)"
  by (cases e; cases m; cases "projl m") auto

lemma split_allowed_ips_fault:
  "split_allowed_ips d = Inl OutOfRange \<longleftrightarrow>
    json_value d ''allowed_ips'' = JUndefined \<and> bad_line ''AllowedIPs'' (native_lines d)"
  by (auto simp: split_allowed_ips_def sbind_fault native_value_fault split: qjson.split)

lemma split_keep_alive_fault:
  "split_keep_alive d = Inl OutOfRange \<longleftrightarrow>
    json_value d ''persistent_keep_alive'' = JUndefined \<and> bad_line ''PersistentKeepalive'' (native_lines d)"
  by (auto simp: split_keep_alive_def sbind_fault native_value_fault split: qjson.split)

lemma split_allowed_ips_other:
  assumes "split_allowed_ips d = Inr d'" "k \<noteq> ''allowed_ips''"
  shows "json_value d' k = json_value d k"
  using assms by (auto simp: split_allowed_ips_def sbind_Inr_iff split: qjson.splits option.splits)

text \<open>
  C37: Preparing the split-tunnelling configuration reads past the end of a list exactly when the
  protocol is WireGuard or AmneziaWG, one of the two members is missing and the first line of the
  native configuration that names it does not contain an equals sign surrounded by spaces: the
  check on the number of parts lets a single part through.
\<close>

theorem splitTunneling_fault:
  "VpnConnection_appendSplitTunnelingConfig st config = Inl OutOfRange \<longleftrightarrow>
    (let protocolName = qs (json_toString (json_value config ''protocol''));
         configData = json_toObject (json_value config (protocolName @ ''_config_data''))
     in (protocolName = ''awg'' \<or> protocolName = ''wireguard'') \<and>
        (json_value configData ''allowed_ips'' = JUndefined \<and> bad_line ''AllowedIPs'' (native_lines configData) \<or>
         json_value configData ''persistent_keep_alive'' = JUndefined \<and>
           bad_line ''PersistentKeepalive'' (native_lines configData)))"
proof -
  have names: "ProtocolProps_protoToString ProtoAwg = ''awg''"
    "ProtocolProps_protoToString ProtoWireGuard = ''wireguard''"
    by code_simp+
  have second: "split_keep_alive d' = Inl OutOfRange \<longleftrightarrow> split_keep_alive d = Inl OutOfRange"
    if "split_allowed_ips d = Inr d'" for d d'
    using split_allowed_ips_other [OF that] by (simp add: split_keep_alive_fault native_lines_def)
  have chain: "sbind (split_allowed_ips d) (\<lambda>x. sbind (split_keep_alive x) (\<lambda>y. Inr (g y))) = Inl OutOfRange \<longleftrightarrow>
      split_allowed_ips d = Inl OutOfRange \<or> split_keep_alive d = Inl OutOfRange" for d and g :: "qjobject \<Rightarrow> qjobject"
  proof (cases "split_allowed_ips d")
    case (Inl e)
    then show ?thesis by (cases e) simp
  next
    case (Inr d')
    then show ?thesis using second [OF Inr] by (simp add: sbind_fault)
  qed
  show ?thesis
    unfolding VpnConnection_appendSplitTunnelingConfig_def Let_def names
    by (simp add: chain split_allowed_ips_fault split_keep_alive_fault)
qed

text \<open>
  Nothing that the split-tunnelling settings add makes the daemon reject the request: the
  modes are among the three the controller knows and the site and application lists hold strings.
\<close>

theorem split_config_typed:
  assumes "VpnConnection_appendSplitTunnelingConfig st config = Inr config'"
  shows "json_toInt (json_value config' ''splitTunnelType'') \<in> {0, 1, 2} \<and>
    list_all json_isString (json_toArray (json_value config' ''splitTunnelSites'')) \<and>
    list_all json_isString (json_toArray (json_value config' ''splitTunnelApps'')) \<and>
    (\<not> isSitesSplitTunnelingEnabled st \<longrightarrow>
       json_toInt (json_value config' ''splitTunnelType'') = 0 \<and> json_value config' ''splitTunnelSites'' = JArray [])"
proof -
  obtain allow c where c: "config' = split_apps st (split_sites st allow c)"
    using assms by (auto simp: VpnConnection_appendSplitTunnelingConfig_def Let_def sbind_Inr_iff split: if_splits)
  have "json_toInt (JDouble (of_int (RouteMode_value m))) = RouteMode_value m" for m
    by (cases m) simp_all
  moreover have "RouteMode_value m \<in> {0, 1, 2}" for m by (cases m) simp_all
  ultimately show ?thesis
    unfolding c split_apps_def split_sites_def Let_def
    by (simp add: string_array_def list.pred_map comp_def list.pred_True)
qed

definition sample_settings :: Settings where
  "sample_settings =
     \<lparr>isKillSwitchEnabled = True, isSitesSplitTunnelingEnabled = False, routeMode = VpnOnlyForwardSites,
      getVpnIps = (\<lambda>_. [''10.0.0.1'']), vpnSites = (\<lambda>_. []), isAppsSplitTunnelingEnabled = True,
      getAppsRouteMode = VpnAllExceptApps, getVpnApps = (\<lambda>_. [(''browser'', [])])\<rparr>"

theorem split_config_typed_witness:
  "\<exists>config'. VpnConnection_appendSplitTunnelingConfig sample_settings sample_raw = Inr config' \<and>
     json_value config' ''splitTunnelSites'' = JArray []"
proof -
  have "VpnConnection_appendSplitTunnelingConfig sample_settings sample_raw \<noteq> Inl OutOfRange"
    unfolding VpnConnection_appendSplitTunnelingConfig_def
    by (simp add: sample_raw_def json_value_def native_lines_def split_allowed_ips_def split_keep_alive_def
        Let_def contains_str_def)
  then obtain config' where c: "VpnConnection_appendSplitTunnelingConfig sample_settings sample_raw = Inr config'"
    by (cases "VpnConnection_appendSplitTunnelingConfig sample_settings sample_raw")
      (metis list_fault.exhaust, simp)
  with split_config_typed [OF c] show ?thesis by (auto simp: sample_settings_def)
qed

lemma setBytesChanged_sel:
  "p_bytes (VpnProtocol_setBytesChanged rx tx p) = p_bytes p @ [(rx - m_receivedBytes p, tx - m_sentBytes p)]"
  "m_receivedBytes (VpnProtocol_setBytesChanged rx tx p) = rx"
  "m_sentBytes (VpnProtocol_setBytesChanged rx tx p) = tx"
  by (simp_all add: VpnProtocol_setBytesChanged_def Let_def)

text \<open>
  The traffic counters wrap consistently: whatever samples arrive, the differences announced
  add up, modulo 2 to the 64, to the growth of the counters.
\<close>

theorem bytes_announced:
  "let p' = fold (\<lambda>(rx, tx). VpnProtocol_setBytesChanged rx tx) samples p;
       new = drop (length (p_bytes p)) (p_bytes p')
   in sum_list (map fst new) = m_receivedBytes p' - m_receivedBytes p \<and>
      sum_list (map snd new) = m_sentBytes p' - m_sentBytes p \<and> length new = length samples"
proof -
  let ?f = "\<lambda>samples. fold (\<lambda>(rx, tx). VpnProtocol_setBytesChanged rx tx) samples p"
  have "\<exists>new. p_bytes (?f samples) = p_bytes p @ new \<and>
      sum_list (map fst new) = m_receivedBytes (?f samples) - m_receivedBytes p \<and>
      sum_list (map snd new) = m_sentBytes (?f samples) - m_sentBytes p \<and> length new = length samples"
  proof (induction samples rule: rev_induct)
    case (snoc s samples)
    then obtain new where new: "p_bytes (?f samples) = p_bytes p @ new"
      "sum_list (map fst new) = m_receivedBytes (?f samples) - m_receivedBytes p"
      "sum_list (map snd new) = m_sentBytes (?f samples) - m_sentBytes p"
      "length new = length samples" by blast
    obtain rx tx where s: "s = (rx, tx)" by (cases s)
    show ?case
      by (rule exI [of _ "new @ [(rx - m_receivedBytes (?f samples), tx - m_sentBytes (?f samples))]"])
        (simp add: s setBytesChanged_sel new)
  qed simp
  then show ?thesis by (auto simp: Let_def)
qed

text \<open>Updates of a protocol: state changes, errors and samples.\<close>

inductive protocol_reach :: "VpnProtocol \<Rightarrow> bool" where
  new: "protocol_reach (VpnProtocol_new configuration err)"
| state: "protocol_reach p \<Longrightarrow> protocol_reach (VpnProtocol_setConnectionState s p)"
| error: "protocol_reach p \<Longrightarrow> protocol_reach (VpnProtocol_setLastError e p)"
| bytes: "protocol_reach p \<Longrightarrow> protocol_reach (VpnProtocol_setBytesChanged rx tx p)"

definition states_ok :: "VpnProtocol \<Rightarrow> bool" where
  "states_ok p \<longleftrightarrow>
     successively (\<lambda>a b. a \<noteq> b \<and> \<not> (a = StateDisconnected \<and> b = StateDisconnecting)) (StateUnknown # p_states p) \<and>
     last (StateUnknown # p_states p) = m_connectionState p"

lemma states_ok_set: "states_ok p \<Longrightarrow> states_ok (VpnProtocol_setConnectionState s p)"
  by (auto simp: states_ok_def VpnProtocol_setConnectionState_def Let_def successively_append_iff
      simp flip: append_Cons)

text \<open>
  A protocol never announces the state it is already in, and never goes from disconnected to
  disconnecting; the last state announced is its current one.
\<close>

theorem protocol_states:
  assumes "protocol_reach p"
  shows "successively (\<lambda>a b. a \<noteq> b \<and> \<not> (a = StateDisconnected \<and> b = StateDisconnecting)) (StateUnknown # p_states p) \<and>
    last (StateUnknown # p_states p) = m_connectionState p"
proof -
  have "states_ok p" using assms
  proof induction
    case (error p e)
    then have "states_ok (p\<lparr>m_lastError := e\<rparr>)" by (simp add: states_ok_def)
    then show ?case by (auto simp: VpnProtocol_setLastError_def Let_def states_ok_set)
  next
    case (bytes p rx tx)
    then show ?case by (simp add: states_ok_def VpnProtocol_setBytesChanged_def Let_def)
  qed (simp_all add: states_ok_set, simp add: states_ok_def VpnProtocol_new_def)
  then show ?thesis by (simp add: states_ok_def)
qed

theorem protocol_states_witness:
  "m_connectionState (VpnProtocol_setLastError 101 (VpnProtocol_setConnectionState StateConnecting (VpnProtocol_new [] 0))) = StateError"
  using protocol_states [OF protocol_reach.error [OF protocol_reach.state [OF protocol_reach.new]],
      of 101 StateConnecting "[]" 0]
  by (simp add: VpnProtocol_setLastError_def VpnProtocol_setConnectionState_def VpnProtocol_new_def Let_def)

lemma set_removeDuplicates: "set (removeDuplicates xs) = set xs \<and> distinct (removeDuplicates xs)"
  by (induction xs rule: removeDuplicates.induct) auto

lemma site_ips_iff:
  "ip \<in> set (site_ips Q m) \<longleftrightarrow> NetworkUtilities_checkIpSubnetFormat Q ip \<and>
    (\<exists>e \<in> set m. ip = fst e \<or> ip = snd e \<and> \<not> NetworkUtilities_checkIpSubnetFormat Q (fst e))"
proof (induction m)
  case (Cons e m)
  have "set (site_ips Q (e # m)) =
      (if NetworkUtilities_checkIpSubnetFormat Q (fst e) then {fst e}
       else if NetworkUtilities_checkIpSubnetFormat Q (snd e) then {snd e} else {}) \<union> set (site_ips Q m)"
    by (simp add: site_ips_def set_removeDuplicates case_prod_unfold)
  with Cons show ?case
    by (cases "NetworkUtilities_checkIpSubnetFormat Q (fst e)";
        cases "NetworkUtilities_checkIpSubnetFormat Q (snd e)") auto
qed (simp add: site_ips_def)


definition site_settings :: Settings where
  "site_settings = sample_settings
     \<lparr>isSitesSplitTunnelingEnabled := True, routeMode := VpnAllExceptSites,
      vpnSites := (\<lambda>_. [(''1.1.1.1'', [])])\<rparr>"

definition site_connection :: VpnConnection where
  "site_connection =
     \<lparr>m_vpnProtocol = Some (VpnProtocol_new [] 0), m_vpnConfiguration = [], m_remoteAddress = ''203.0.113.7'',
      ipcInterface = True, ipc = [], v_sitesTimer = False, v_states = []\<rparr>"


text \<open>
  Connecting announces the attempt first; with a container that no protocol class serves the
  connection then reports an error and holds no protocol, and disconnecting always leaves none and
  asks the service to drop the saved routes.
\<close>

theorem connect_disconnect:
  "(VpnProtocol_factory win container = None \<longrightarrow>
     VpnConnection_connectToVpn Q lookup win V st hostName container config v = Inr v' \<longrightarrow>
     m_vpnProtocol v' = None \<and> v_states v' = v_states v @ [StateConnecting, StateError] \<and>
     VpnConnection_connectionState v' = StateDisconnected) \<and>
   m_vpnProtocol (VpnConnection_disconnectFromVpn v) = None \<and>
   VpnConnection_isDisconnected (VpnConnection_disconnectFromVpn v) \<and>
   (ipcInterface v \<longrightarrow> ipc (VpnConnection_disconnectFromVpn v) = ipc v @ [FlushDns, ClearSavedRoutes])"
  by (auto simp: VpnConnection_connectToVpn_def VpnConnection_disconnectFromVpn_def sbind_Inr_iff Let_def
      v_emit_def ipc_calls_def VpnConnection_connectionState_def VpnConnection_isDisconnected_def)

definition sample_protocols :: Protocols where
  "sample_protocols = \<lparr>pv_prepare = id, pv_start = Pair 0, pv_lastError = 0\<rparr>"

theorem connect_disconnect_witness:
  "ipc (VpnConnection_disconnectFromVpn site_connection) = [FlushDns, ClearSavedRoutes]"
  using connect_disconnect [of False DockerDns sample_qt "\<lambda>_. []" sample_protocols site_settings "[]" "[]" site_connection site_connection]
  by (simp add: site_connection_def)

end
