(* ===== verification/Linux_Firewall.thy ===== *)
theory Linux_Firewall
  imports Qt_Prelude
begin

text \<open>
  \<open>client/platforms/linux/daemon/linuxfirewall.{h,cpp}\<close>: the kill switch, a set of iptables chains.

  Every method of \<open>LinuxFirewall\<close> hands shell commands to \<open>/bin/bash -c\<close>, and only \<open>isInstalled\<close>
  looks at an exit code that matters, so a method is modelled by the list of commands it executes,
  in order.  A command is a value of \<open>fwcmd\<close>, and \<open>fw_text\<close> is the text the source passes to the
  shell.  A rule is a pair of its match part and its target.  The static table of callbacks that
  \<open>installAnchor\<close> fills and \<open>setAnchorEnabled\<close> consults is the state of the class.

  \<open>ipt_step\<close> is the effect of a command on the chains, as the manual of iptables documents it; it
  serves the properties only.
\<close>

section \<open>Commands\<close>

datatype IPVersion = IPv4 | IPv6 | Both

type_synonym rule = "string \<times> string"

datatype fwcmd =
    CreateChain IPVersion string string
  | DeleteChain IPVersion string string
  | LinkFirst IPVersion string string string
  | LinkLast IPVersion string string string
  | UnlinkChain IPVersion string string string
  | AppendRule IPVersion string rule string
  | EnableAnchor IPVersion string string
  | DisableAnchor IPVersion string string
  | ReplaceAnchor IPVersion string string string
  | CheckAnchor IPVersion string string
  | CheckRoot
  | FlushChain string
  | AppendFilter string rule
  | Shell string

definition kAnchorName :: string where "kAnchorName = ''amnvpn''"
definition kPacketTag :: string where "kPacketTag = ''0x3211''"
definition kCGroupId :: string where "kCGroupId = ''0x567''"
definition kRtableName :: string where "kRtableName = kAnchorName @ ''rt''"
definition kOutputChain :: string where "kOutputChain = ''OUTPUT''"
definition kPostRoutingChain :: string where "kPostRoutingChain = ''POSTROUTING''"
definition kPreRoutingChain :: string where "kPreRoutingChain = ''PREROUTING''"
definition kRootChain :: string where "kRootChain = kAnchorName @ ''.anchors''"
definition kFilterTable :: string where "kFilterTable = ''filter''"
definition kNatTable :: string where "kNatTable = ''nat''"
definition kRawTable :: string where "kRawTable = ''raw''"
definition kMangleTable :: string where "kMangleTable = ''mangle''"

definition getCommand :: "IPVersion \<Rightarrow> string" where
  "getCommand ip = (if ip = IPv6 then ''ip6tables'' else ''iptables'')"

definition anchorChain :: "string \<Rightarrow> string" where
  "anchorChain anchor = kAnchorName @ ''.a.'' @ anchor"

definition actualChain :: "string \<Rightarrow> string" where
  "actualChain anchor = kAnchorName @ ''.'' @ anchor"

definition ipStr :: "IPVersion \<Rightarrow> string" where
  "ipStr ip = (if ip = IPv6 then ''(IPv6)'' else ''(IPv4)'')"

definition rule_text :: "rule \<Rightarrow> string" where
  "rule_text r = (if fst r = [] then ''-j '' @ snd r else fst r @ '' -j '' @ snd r)"

definition sq :: string where "sq = [CHR 39]"
definition dq :: string where "dq = [CHR 34]"

text \<open>The shell text of a command, with the placeholders of the source filled in.\<close>

fun fw_text :: "fwcmd \<Rightarrow> string" where
  "fw_text (CreateChain ip chain tableName) =
     (let cmd = getCommand ip
      in cmd @ '' -N '' @ chain @ '' -t '' @ tableName @ '' || '' @
         cmd @ '' -F '' @ chain @ '' -t '' @ tableName)"
| "fw_text (DeleteChain ip chain tableName) =
     (let cmd = getCommand ip
      in ''if '' @ cmd @ '' -L '' @ chain @ '' -n -t '' @ tableName @
         '' > /dev/null 2> /dev/null ; then '' @ cmd @ '' -F '' @ chain @ '' -t '' @ tableName @
         '' && '' @ cmd @ '' -X '' @ chain @ '' -t '' @ tableName @ ''; fi'')"
| "fw_text (LinkFirst ip parent chain tableName) =
     (let cmd = getCommand ip
      in ''if ! '' @ cmd @ '' -L '' @ parent @ '' -n --line-numbers -t '' @ tableName @
         '' 2> /dev/null | awk '' @ sq @ ''int($1) == 1 && $2 == '' @ dq @ chain @ dq @
         '' { found=1 } END { if(found==1) { exit 0 } else { exit 1 } }'' @ sq @ '' ; then '' @
         cmd @ '' -I '' @ parent @ '' -j '' @ chain @ '' -t '' @ tableName @ '' && '' @
         cmd @ '' -L '' @ parent @ '' -n --line-numbers -t '' @ tableName @
         '' 2> /dev/null | awk '' @ sq @ ''int($1) > 1 && $2 == '' @ dq @ chain @ dq @
         '' { print $1; exit }'' @ sq @ '' | xargs '' @ cmd @ '' -t '' @ tableName @ '' -D '' @
         parent @ '' ; fi'')"
| "fw_text (LinkLast ip parent chain tableName) =
     (let cmd = getCommand ip
      in ''if ! '' @ cmd @ '' -C '' @ parent @ '' -j '' @ chain @ '' -t '' @ tableName @
         '' 2> /dev/null ; then '' @ cmd @ '' -A '' @ parent @ '' -j '' @ chain @ '' -t '' @
         tableName @ ''; fi'')"
| "fw_text (UnlinkChain ip parent chain tableName) =
     (let cmd = getCommand ip
      in ''if '' @ cmd @ '' -C '' @ parent @ '' -j '' @ chain @ '' -t '' @ tableName @
         '' 2> /dev/null ; then '' @ cmd @ '' -D '' @ parent @ '' -j '' @ chain @ '' -t '' @
         tableName @ ''; fi'')"
| "fw_text (AppendRule ip chain rule tableName) =
     getCommand ip @ '' -A '' @ chain @ '' '' @ rule_text rule @ '' -t '' @ tableName"
| "fw_text (EnableAnchor ip anchor tableName) =
     (let cmd = getCommand ip;
          jump = anchorChain anchor @ '' -j '' @ actualChain anchor @ '' -t '' @ tableName
      in ''if '' @ cmd @ '' -C '' @ jump @ '' 2> /dev/null ; then echo '' @ sq @ anchor @
         ipStr ip @ '': ON'' @ sq @ '' ; else echo '' @ sq @ anchor @ ipStr ip @ '': OFF -> ON'' @
         sq @ '' ; '' @ cmd @ '' -A '' @ jump @ ''; fi'')"
| "fw_text (DisableAnchor ip anchor tableName) =
     (let cmd = getCommand ip;
          jump = anchorChain anchor @ '' -j '' @ actualChain anchor @ '' -t '' @ tableName
      in ''if ! '' @ cmd @ '' -C '' @ jump @ '' 2> /dev/null ; then echo '' @ sq @ anchor @
         ipStr ip @ '': OFF'' @ sq @ '' ; else echo '' @ sq @ anchor @ ipStr ip @ '': ON -> OFF'' @
         sq @ '' ; '' @ cmd @ '' -F '' @ anchorChain anchor @ '' -t '' @ tableName @ ''; fi'')"
| "fw_text (ReplaceAnchor ip anchor newRule tableName) =
     getCommand ip @ '' -R '' @ actualChain anchor @ '' 1 '' @ newRule @ '' -t '' @ tableName @
     '' ; echo '' @ sq @ ''Replaced rule '' @ actualChain anchor @ '' '' @ ipStr ip @ '' with '' @
     newRule @ sq"
| "fw_text (CheckAnchor ip anchor tableName) =
     getCommand ip @ '' -C '' @ anchorChain anchor @ '' -j '' @ actualChain anchor @ '' -t '' @
     tableName @ '' 2> /dev/null''"
| "fw_text CheckRoot =
     ''iptables -C '' @ kOutputChain @ '' -j '' @ kRootChain @ '' 2> /dev/null''"
| "fw_text (FlushChain chain) = ''iptables -F '' @ chain"
| "fw_text (AppendFilter chain rule) = ''iptables -A '' @ chain @ '' '' @ rule_text rule"
| "fw_text (Shell command) = command"

section \<open>The class\<close>

text \<open>A method called for both versions runs for IPv4 first.\<close>

definition both :: "IPVersion \<Rightarrow> (IPVersion \<Rightarrow> fwcmd list) \<Rightarrow> fwcmd list" where
  "both ip f = (if ip = Both then f IPv4 @ f IPv6 else f ip)"

definition LinuxFirewall_createChain :: "IPVersion \<Rightarrow> string \<Rightarrow> string \<Rightarrow> fwcmd list" where
  "LinuxFirewall_createChain ip chain tableName = both ip (\<lambda>ip. [CreateChain ip chain tableName])"

definition LinuxFirewall_deleteChain :: "IPVersion \<Rightarrow> string \<Rightarrow> string \<Rightarrow> fwcmd list" where
  "LinuxFirewall_deleteChain ip chain tableName = both ip (\<lambda>ip. [DeleteChain ip chain tableName])"

definition LinuxFirewall_linkChain ::
  "IPVersion \<Rightarrow> string \<Rightarrow> string \<Rightarrow> bool \<Rightarrow> string \<Rightarrow> fwcmd list"
where
  "LinuxFirewall_linkChain ip chain parent mustBeFirst tableName =
     both ip (\<lambda>ip. if mustBeFirst then [LinkFirst ip parent chain tableName]
                   else [LinkLast ip parent chain tableName])"

definition LinuxFirewall_unlinkChain ::
  "IPVersion \<Rightarrow> string \<Rightarrow> string \<Rightarrow> string \<Rightarrow> fwcmd list"
where
  "LinuxFirewall_unlinkChain ip chain parent tableName =
     both ip (\<lambda>ip. [UnlinkChain ip parent chain tableName])"

definition LinuxFirewall_ensureRootAnchorPriority :: "IPVersion \<Rightarrow> fwcmd list" where
  "LinuxFirewall_ensureRootAnchorPriority ip =
     LinuxFirewall_linkChain ip kRootChain kOutputChain True kFilterTable"

text \<open>\<open>anchorCallbacks\<close>: the commands of the callback stored under a key.\<close>

type_synonym callbacks = "(string \<times> fwcmd list) list"

definition enabledKey :: "string \<Rightarrow> string \<Rightarrow> string" where
  "enabledKey tableName anchor = ''enabled:'' @ tableName @ '':'' @ anchor"

definition disabledKey :: "string \<Rightarrow> string \<Rightarrow> string" where
  "disabledKey tableName anchor = ''disabled:'' @ tableName @ '':'' @ anchor"

definition addCallback :: "string \<Rightarrow> fwcmd list option \<Rightarrow> callbacks \<Rightarrow> callbacks" where
  "addCallback key func cbs =
     (case func of
        None \<Rightarrow> cbs
      | Some f \<Rightarrow> if map_of cbs key \<noteq> None then cbs else qhash_insert key f cbs)"

definition LinuxFirewall_installAnchor ::
  "IPVersion \<Rightarrow> string \<Rightarrow> rule list \<Rightarrow> string \<Rightarrow> fwcmd list"
where
  "LinuxFirewall_installAnchor ip anchor rules tableName =
     both ip (\<lambda>ip.
       LinuxFirewall_createChain ip (anchorChain anchor) tableName @
       LinuxFirewall_linkChain ip (anchorChain anchor) kRootChain False tableName @
       LinuxFirewall_createChain ip (actualChain anchor) tableName @
       map (\<lambda>rule. AppendRule ip (actualChain anchor) rule tableName) rules)"

definition LinuxFirewall_uninstallAnchor :: "IPVersion \<Rightarrow> string \<Rightarrow> string \<Rightarrow> fwcmd list" where
  "LinuxFirewall_uninstallAnchor ip anchor tableName =
     both ip (\<lambda>ip.
       LinuxFirewall_unlinkChain ip (anchorChain anchor) kRootChain tableName @
       LinuxFirewall_deleteChain ip (anchorChain anchor) tableName @
       LinuxFirewall_deleteChain ip (actualChain anchor) tableName)"

definition LinuxFirewall_getDNSRules :: "string list \<Rightarrow> rule list" where
  "LinuxFirewall_getDNSRules servers =
     concat (map (\<lambda>server.
       [(''-o amn0+ -d '' @ server @ '' -p udp --dport 53'', ''ACCEPT''),
        (''-o amn0+ -d '' @ server @ '' -p tcp --dport 53'', ''ACCEPT''),
        (''-o tun0+ -d '' @ server @ '' -p udp --dport 53'', ''ACCEPT''),
        (''-o tun0+ -d '' @ server @ '' -p tcp --dport 53'', ''ACCEPT'')]) servers)"

definition LinuxFirewall_getAllowRule :: "string list \<Rightarrow> rule list" where
  "LinuxFirewall_getAllowRule servers = map (\<lambda>server. (''-d '' @ server, ''ACCEPT'')) servers"

definition LinuxFirewall_getBlockRule :: "string list \<Rightarrow> rule list" where
  "LinuxFirewall_getBlockRule servers = map (\<lambda>server. (''-d '' @ server, ''REJECT'')) servers"

definition LinuxFirewall_setupTrafficSplitting :: "fwcmd list" where
  "LinuxFirewall_setupTrafficSplitting =
     (let cGroupDir = ''/sys/fs/cgroup/net_cls/amnvpnexclusions/''
      in [Shell (''if [ ! -d '' @ cGroupDir @ '' ] ; then mkdir '' @ cGroupDir @
            '' ; sleep 0.1 ; echo '' @ kCGroupId @ '' > '' @ cGroupDir @ ''/net_cls.classid ; fi''),
          Shell (''if ! ip rule list | grep -q '' @ kPacketTag @
            '' ; then ip rule add from all fwmark '' @ kPacketTag @ '' lookup '' @ kRtableName @
            '' pri 100 ; fi'')])"

definition LinuxFirewall_teardownTrafficSplitting :: "fwcmd list" where
  "LinuxFirewall_teardownTrafficSplitting =
     [Shell (''if ip rule list | grep -q '' @ kPacketTag @ ''; then ip rule del from all fwmark '' @
        kPacketTag @ '' lookup '' @ kRtableName @ '' 2> /dev/null ; fi''),
      Shell (''ip route flush table '' @ kRtableName),
      Shell ''ip route flush cache'']"

definition LinuxFirewall_uninstall :: "fwcmd list" where
  "LinuxFirewall_uninstall =
     LinuxFirewall_unlinkChain Both kRootChain kOutputChain kFilterTable @
     LinuxFirewall_deleteChain Both kRootChain kFilterTable @
     LinuxFirewall_unlinkChain Both kRootChain kPreRoutingChain kRawTable @
     LinuxFirewall_deleteChain Both kRootChain kRawTable @
     LinuxFirewall_unlinkChain Both kRootChain kPostRoutingChain kNatTable @
     LinuxFirewall_deleteChain Both kRootChain kNatTable @
     LinuxFirewall_unlinkChain Both kRootChain kOutputChain kMangleTable @
     LinuxFirewall_deleteChain Both kRootChain kMangleTable @
     LinuxFirewall_uninstallAnchor Both ''000.allowLoopback'' kFilterTable @
     LinuxFirewall_uninstallAnchor Both ''400.allowPIA'' kFilterTable @
     LinuxFirewall_uninstallAnchor IPv4 ''320.allowDNS'' kFilterTable @
     LinuxFirewall_uninstallAnchor Both ''310.blockDNS'' kFilterTable @
     LinuxFirewall_uninstallAnchor Both ''300.allowLAN'' kFilterTable @
     LinuxFirewall_uninstallAnchor Both ''290.allowDHCP'' kFilterTable @
     LinuxFirewall_uninstallAnchor IPv6 ''250.blockIPv6'' kFilterTable @
     LinuxFirewall_uninstallAnchor Both ''200.allowVPN'' kFilterTable @
     LinuxFirewall_uninstallAnchor IPv4 ''120.blockNets'' kFilterTable @
     LinuxFirewall_uninstallAnchor IPv4 ''110.allowNets'' kFilterTable @
     LinuxFirewall_uninstallAnchor Both ''100.blockAll'' kFilterTable @
     LinuxFirewall_uninstallAnchor Both ''100.transIp'' kNatTable @
     LinuxFirewall_uninstallAnchor Both ''100.tagPkts'' kMangleTable @
     LinuxFirewall_uninstallAnchor Both ''100.vpnTunOnly'' kRawTable @
     LinuxFirewall_teardownTrafficSplitting"

text \<open>The filter anchors in the order \<open>install\<close> creates them.\<close>

definition filterAnchors :: "(IPVersion \<times> string \<times> rule list) list" where
  "filterAnchors =
     [(Both, ''000.allowLoopback'', [(''-o lo+'', ''ACCEPT'')]),
      (IPv4, ''320.allowDNS'', []),
      (Both, ''310.blockDNS'',
         [(''-p udp --dport 53'', ''REJECT''), (''-p tcp --dport 53'', ''REJECT'')]),
      (IPv4, ''300.allowLAN'',
         [(''-d 10.0.0.0/8'', ''ACCEPT''), (''-d 169.254.0.0/16'', ''ACCEPT''),
          (''-d 172.16.0.0/12'', ''ACCEPT''), (''-d 192.168.0.0/16'', ''ACCEPT''),
          (''-d 224.0.0.0/4'', ''ACCEPT''), (''-d 255.255.255.255/32'', ''ACCEPT'')]),
      (IPv6, ''300.allowLAN'',
         [(''-d fc00::/7'', ''ACCEPT''), (''-d fe80::/10'', ''ACCEPT''),
          (''-d ff00::/8'', ''ACCEPT'')]),
      (IPv4, ''290.allowDHCP'',
         [(''-p udp -d 255.255.255.255 --sport 68 --dport 67'', ''ACCEPT'')]),
      (IPv6, ''290.allowDHCP'', [(''-p udp -d ff00::/8 --sport 546 --dport 547'', ''ACCEPT'')]),
      (IPv6, ''250.blockIPv6'', [(''! -o lo+'', ''REJECT'')]),
      (Both, ''200.allowVPN'', [(''-o amn0+'', ''ACCEPT''), (''-o tun0+'', ''ACCEPT'')]),
      (IPv4, ''120.blockNets'', []),
      (IPv4, ''110.allowNets'', []),
      (Both, ''100.blockAll'', [([], ''REJECT'')])]"

definition LinuxFirewall_install :: "fwcmd list" where
  "LinuxFirewall_install =
     LinuxFirewall_uninstall @
     LinuxFirewall_createChain Both kRootChain kFilterTable @
     LinuxFirewall_createChain Both kRootChain kRawTable @
     LinuxFirewall_createChain Both kRootChain kNatTable @
     LinuxFirewall_createChain Both kRootChain kMangleTable @
     concat (map (\<lambda>(ip, anchor, rules).
       LinuxFirewall_installAnchor ip anchor rules kFilterTable) filterAnchors) @
     LinuxFirewall_installAnchor Both ''100.transIp'' [([], ''MASQUERADE'')] kNatTable @
     LinuxFirewall_installAnchor Both ''100.tagPkts''
       [(''-m cgroup --cgroup '' @ kCGroupId, ''MARK --set-mark '' @ kPacketTag)] kMangleTable @
     LinuxFirewall_installAnchor Both ''100.vpnTunOnly'' [([], ''ACCEPT'')] kRawTable @
     LinuxFirewall_linkChain Both kRootChain kOutputChain True kFilterTable @
     LinuxFirewall_linkChain Both kRootChain kPostRoutingChain True kNatTable @
     LinuxFirewall_linkChain Both kRootChain kOutputChain True kMangleTable @
     LinuxFirewall_linkChain Both kRootChain kPreRoutingChain True kRawTable @
     LinuxFirewall_setupTrafficSplitting"

text \<open>The callbacks registered by \<open>install\<close>; a key that is present keeps its function.\<close>

definition LinuxFirewall_installCallbacks :: "callbacks \<Rightarrow> callbacks" where
  "LinuxFirewall_installCallbacks cbs =
     addCallback (disabledKey kMangleTable ''100.tagPkts'')
       (Some LinuxFirewall_teardownTrafficSplitting)
       (addCallback (enabledKey kMangleTable ''100.tagPkts'')
         (Some LinuxFirewall_setupTrafficSplitting) cbs)"

definition LinuxFirewall_enableAnchor :: "IPVersion \<Rightarrow> string \<Rightarrow> string \<Rightarrow> fwcmd list" where
  "LinuxFirewall_enableAnchor ip anchor tableName =
     both ip (\<lambda>ip. [EnableAnchor ip anchor tableName])"

definition LinuxFirewall_disableAnchor :: "IPVersion \<Rightarrow> string \<Rightarrow> string \<Rightarrow> fwcmd list" where
  "LinuxFirewall_disableAnchor ip anchor tableName =
     both ip (\<lambda>ip. [DisableAnchor ip anchor tableName])"

definition LinuxFirewall_replaceAnchor ::
  "IPVersion \<Rightarrow> string \<Rightarrow> string \<Rightarrow> string \<Rightarrow> fwcmd list"
where
  "LinuxFirewall_replaceAnchor ip anchor newRule tableName =
     both ip (\<lambda>ip. [ReplaceAnchor ip anchor newRule tableName])"

definition LinuxFirewall_setAnchorEnabled ::
  "callbacks \<Rightarrow> IPVersion \<Rightarrow> string \<Rightarrow> bool \<Rightarrow> string \<Rightarrow> fwcmd list"
where
  "LinuxFirewall_setAnchorEnabled cbs ip anchor enabled tableName =
     (let key = (if enabled then enabledKey tableName anchor else disabledKey tableName anchor)
      in (if enabled then LinuxFirewall_enableAnchor ip anchor tableName
          else LinuxFirewall_disableAnchor ip anchor tableName) @
         (case map_of cbs key of None \<Rightarrow> [] | Some f \<Rightarrow> f))"

definition updateRules :: "string \<Rightarrow> rule list \<Rightarrow> fwcmd list" where
  "updateRules chain rules = FlushChain chain # map (AppendFilter chain) rules"

definition LinuxFirewall_updateDNSServers :: "string list \<Rightarrow> fwcmd list" where
  "LinuxFirewall_updateDNSServers servers =
     updateRules (kAnchorName @ ''.320.allowDNS'') (LinuxFirewall_getDNSRules servers)"

definition LinuxFirewall_updateAllowNets :: "string list \<Rightarrow> fwcmd list" where
  "LinuxFirewall_updateAllowNets servers =
     updateRules (kAnchorName @ ''.110.allowNets'') (LinuxFirewall_getAllowRule servers)"

definition LinuxFirewall_updateBlockNets :: "string list \<Rightarrow> fwcmd list" where
  "LinuxFirewall_updateBlockNets servers =
     updateRules (kAnchorName @ ''.120.blockNets'') (LinuxFirewall_getBlockRule servers)"

text \<open>The exit code of a process: failure to run, a crash, or its own code.\<close>

definition waitForExitCode :: "bool \<Rightarrow> bool \<Rightarrow> bool \<Rightarrow> int \<Rightarrow> int" where
  "waitForExitCode finished failedToStart normalExit exitCode =
     (if \<not> finished \<or> failedToStart then -2 else if \<not> normalExit then -1 else exitCode)"

section \<open>The effect of the commands\<close>

type_synonym chain_id = "IPVersion \<times> string \<times> string"
type_synonym ipt = "(chain_id \<times> rule list) list"

definition jump :: "string \<Rightarrow> rule" where
  "jump chain = ([], chain)"

definition ipt_update :: "chain_id \<Rightarrow> (rule list \<Rightarrow> rule list) \<Rightarrow> ipt \<Rightarrow> ipt" where
  "ipt_update k f s = map (\<lambda>(k', rs). (k', if k' = k then f rs else rs)) s"

definition ipt_exists :: "ipt \<Rightarrow> chain_id \<Rightarrow> bool" where
  "ipt_exists s k \<longleftrightarrow> list_ex (\<lambda>e. fst e = k) s"

definition ipt_rules :: "ipt \<Rightarrow> chain_id \<Rightarrow> rule list" where
  "ipt_rules s k = (case map_of s k of None \<Rightarrow> [] | Some rs \<Rightarrow> rs)"

text \<open>A chain can only be deleted while no rule of its table jumps to it.\<close>

definition ipt_referenced :: "ipt \<Rightarrow> chain_id \<Rightarrow> bool" where
  "ipt_referenced s k =
     (case k of (ip, t, c) \<Rightarrow>
        list_ex (\<lambda>((ip', t', c'), rs). ip' = ip \<and> t' = t \<and> list_ex (\<lambda>r. snd r = c) rs) s)"

fun ipt_step :: "fwcmd \<Rightarrow> ipt \<Rightarrow> ipt" where
  "ipt_step (CreateChain ip c t) s =
     (if ipt_exists s (ip, t, c) then ipt_update (ip, t, c) (\<lambda>_. []) s else s @ [((ip, t, c), [])])"
| "ipt_step (DeleteChain ip c t) s =
     (let s' = ipt_update (ip, t, c) (\<lambda>_. []) s
      in if ipt_referenced s' (ip, t, c) then s' else filter (\<lambda>e. fst e \<noteq> (ip, t, c)) s')"
| "ipt_step (LinkFirst ip p c t) s =
     ipt_update (ip, t, p)
       (\<lambda>rs. if \<not> ipt_exists s (ip, t, c) \<or> take 1 rs = [jump c] then rs
             else jump c # remove1 (jump c) rs) s"
| "ipt_step (LinkLast ip p c t) s =
     ipt_update (ip, t, p)
       (\<lambda>rs. if \<not> ipt_exists s (ip, t, c) \<or> jump c \<in> set rs then rs else rs @ [jump c]) s"
| "ipt_step (UnlinkChain ip p c t) s = ipt_update (ip, t, p) (remove1 (jump c)) s"
| "ipt_step (AppendRule ip c r t) s = ipt_update (ip, t, c) (\<lambda>rs. rs @ [r]) s"
| "ipt_step (EnableAnchor ip a t) s =
     ipt_update (ip, t, anchorChain a)
       (\<lambda>rs. if \<not> ipt_exists s (ip, t, actualChain a) \<or> jump (actualChain a) \<in> set rs then rs
             else rs @ [jump (actualChain a)]) s"
| "ipt_step (DisableAnchor ip a t) s =
     ipt_update (ip, t, anchorChain a)
       (\<lambda>rs. if jump (actualChain a) \<in> set rs then [] else rs) s"
| "ipt_step (FlushChain c) s = ipt_update (IPv4, kFilterTable, c) (\<lambda>_. []) s"
| "ipt_step (AppendFilter c r) s = ipt_update (IPv4, kFilterTable, c) (\<lambda>rs. rs @ [r]) s"
| "ipt_step _ s = s"

definition ipt_run :: "fwcmd list \<Rightarrow> ipt \<Rightarrow> ipt" where
  "ipt_run cmds s = fold ipt_step cmds s"

text \<open>The built-in chains of a machine without any rule.\<close>

definition ipt_initial :: ipt where
  "ipt_initial =
     [((ip, t, c), []).
       ip \<leftarrow> [IPv4, IPv6],
       (t, c) \<leftarrow> [(kFilterTable, kOutputChain), (kRawTable, kPreRoutingChain),
                 (kNatTable, kPostRoutingChain), (kMangleTable, kOutputChain)]]"

section \<open>Verdicts\<close>

text \<open>
  The fate of a packet in a chain: the first rule that matches and ends in a verdict decides;
  \<open>m\<close> tells which match texts the packet satisfies.  \<open>n\<close> bounds the depth of jumps: the chains of
  this firewall nest three deep.
\<close>

primrec verdict_rules ::
  "(string \<Rightarrow> string option) \<Rightarrow> (string \<Rightarrow> bool) \<Rightarrow> rule list \<Rightarrow> string option"
where
  "verdict_rules sub m [] = None"
| "verdict_rules sub m (r # rs) =
     (if \<not> m (fst r) then verdict_rules sub m rs
      else if snd r = ''ACCEPT'' \<or> snd r = ''REJECT'' then Some (snd r)
      else (case sub (snd r) of None \<Rightarrow> verdict_rules sub m rs | Some v \<Rightarrow> Some v))"

primrec verdict ::
  "nat \<Rightarrow> ipt \<Rightarrow> IPVersion \<Rightarrow> (string \<Rightarrow> bool) \<Rightarrow> string \<Rightarrow> string option"
where
  "verdict 0 s ip m chain = None"
| "verdict (Suc n) s ip m chain =
     verdict_rules (verdict n s ip m) m (ipt_rules s (ip, kFilterTable, chain))"

definition filterAnchors4 :: "(string \<times> rule list) list" where
  "filterAnchors4 = map snd (filter (\<lambda>e. fst e \<noteq> IPv6) filterAnchors)"

definition filterChains4 :: "(string \<times> rule list) list" where
  "filterChains4 =
     (kOutputChain, [jump kRootChain]) #
     (kRootChain, map (\<lambda>e. jump (anchorChain (fst e))) filterAnchors4) #
     map (\<lambda>e. (anchorChain (fst e), [])) filterAnchors4 @
     map (\<lambda>e. (actualChain (fst e), snd e)) filterAnchors4"

definition ipt_filter4 :: "ipt \<Rightarrow> (string \<times> rule list) list" where
  "ipt_filter4 s = [(c, rs). ((ip, t, c), rs) \<leftarrow> s, ip = IPv4 \<and> t = kFilterTable]"

text \<open>Installing on a clean machine gives exactly these IPv4 filter chains.\<close>

lemma install_filter4:
  "list_all (\<lambda>e. map_of (ipt_filter4 (ipt_run LinuxFirewall_install ipt_initial)) (fst e) = Some (snd e))
     filterChains4"
  by code_simp

text \<open>The IPv4 filter table as a map, and what each command does to it.\<close>

definition chains4 :: "ipt \<Rightarrow> string \<Rightarrow> rule list option" where
  "chains4 s = map_of (ipt_filter4 s)"

lemma ipt_filter4_Cons:
  "ipt_filter4 (((ip, t, c), rs) # s) =
    (if ip = IPv4 \<and> t = kFilterTable then (c, rs) # ipt_filter4 s else ipt_filter4 s)"
  by (simp add: ipt_filter4_def)

lemma chains4_update:
  "chains4 (ipt_update k f s) =
    (case k of (ip, t, c) \<Rightarrow>
       if ip = IPv4 \<and> t = kFilterTable then (chains4 s)(c := map_option f (chains4 s c)) else chains4 s)"
proof -
  obtain ip t c where k: "k = (ip, t, c)" by (cases k)
  have "map_of (ipt_filter4 (ipt_update (ip, t, c) f s)) =
      (if ip = IPv4 \<and> t = kFilterTable
       then (map_of (ipt_filter4 s))(c := map_option f (map_of (ipt_filter4 s) c))
       else map_of (ipt_filter4 s))"
  proof (induction s)
    case Nil
    show ?case by (simp add: ipt_update_def ipt_filter4_def)
  next
    case (Cons e s)
    obtain ip' t' c' rs where e: "e = ((ip', t', c'), rs)" by (metis prod.collapse)
    have "ipt_update (ip, t, c) f (e # s) =
        ((ip', t', c'), if (ip', t', c') = (ip, t, c) then f rs else rs) # ipt_update (ip, t, c) f s"
      by (simp add: ipt_update_def e)
    with Cons.IH show ?case by (auto simp: e ipt_filter4_Cons fun_eq_iff)
  qed
  then show ?thesis by (simp add: k chains4_def)
qed

lemma ipt_exists4: "ipt_exists s (IPv4, kFilterTable, c) \<longleftrightarrow> chains4 s c \<noteq> None"
proof (induction s)
  case (Cons e s)
  obtain ip' t' c' rs where e: "e = ((ip', t', c'), rs)" by (metis prod.collapse)
  from Cons show ?case by (auto simp: e ipt_exists_def chains4_def ipt_filter4_Cons)
qed (simp add: ipt_exists_def chains4_def ipt_filter4_def)

lemma ipt_rules4: "ipt_rules s (IPv4, kFilterTable, c) = (case chains4 s c of None \<Rightarrow> [] | Some rs \<Rightarrow> rs)"
proof -
  have "map_of s (IPv4, kFilterTable, c) = chains4 s c"
  proof (induction s)
    case (Cons e s)
    obtain ip' t' c' rs where e: "e = ((ip', t', c'), rs)" by (metis prod.collapse)
    from Cons show ?case by (auto simp: e chains4_def ipt_filter4_Cons)
  qed (simp add: chains4_def ipt_filter4_def)
  then show ?thesis by (simp add: ipt_rules_def)
qed

lemma ipt_run_simps [simp]:
  "ipt_run [] s = s" "ipt_run (c # cs) s = ipt_run cs (ipt_step c s)"
  "ipt_run (cs @ ds) s = ipt_run ds (ipt_run cs s)"
  by (simp_all add: ipt_run_def)

lemma chains4_updateRules:
  "chains4 (ipt_run (updateRules c rules) s) = (chains4 s)(c := map_option (\<lambda>_. rules) (chains4 s c))"
proof -
  have app: "chains4 (ipt_run (map (AppendFilter c) rules) s) =
      (chains4 s)(c := map_option (\<lambda>rs. rs @ rules) (chains4 s c))" for s
    by (induction rules arbitrary: s)
      (simp_all add: chains4_update fun_upd_idem_iff option.map_ident option.map_comp comp_def)
  show ?thesis
    by (simp add: updateRules_def app chains4_update option.map_comp comp_def)
qed

text \<open>Enabling or disabling an anchor whose two chains exist.\<close>

lemma chains4_setAnchor:
  assumes "chains4 s (anchorChain a) = Some rs" "chains4 s (actualChain a) \<noteq> None"
  shows "chains4 (ipt_step (EnableAnchor IPv4 a kFilterTable) s) =
      (chains4 s)(anchorChain a \<mapsto>
        (if jump (actualChain a) \<in> set rs then rs else rs @ [jump (actualChain a)]))"
    and "chains4 (ipt_step (DisableAnchor IPv4 a kFilterTable) s) =
      (chains4 s)(anchorChain a \<mapsto> (if jump (actualChain a) \<in> set rs then [] else rs))"
  using assms by (simp_all add: chains4_update ipt_exists4)

lemma chains4_setAnchor6:
  "chains4 (ipt_step (EnableAnchor IPv6 a t) s) = chains4 s"
  "chains4 (ipt_step (DisableAnchor IPv6 a t) s) = chains4 s"
  "chains4 (ipt_step (LinkFirst IPv6 p c t) s) = chains4 s"
  by (simp_all add: chains4_update)

end
