(* ===== verification/Linux_Route.thy ===== *)
theory Linux_Route
  imports Daemon_Core Linux_Firewall
begin

text \<open>
  \<open>client/platforms/linux/daemon/linuxroutemonitor.cpp\<close>: routes are added and removed by netlink
  messages, which are built here attribute by attribute in a buffer of fixed size.

  The operating system is the record \<open>os\<close> of functions on a world of type \<open>'w\<close>: processes,
  sockets, files, \<open>ioctl\<close>s, D-Bus and the C library's \<open>inet_pton\<close>.  \<open>LinuxState\<close> holds the members
  of the three utility classes of the Linux daemon and that world.  Its component \<open>sent\<close> records
  the netlink messages the socket took whole; no method reads it.
\<close>

section \<open>Netlink messages\<close>

record nlmsg =
  nlmsg_len :: nat
  nlmsg_type :: nat
  nlmsg_flags :: nat
  nlmsg_pid :: int
  nlmsg_seq :: int
  rtm_dst_len :: "8 word"
  rtm_family :: nat
  rtm_type :: nat
  rtm_attrs :: "(nat \<times> 8 word list) list"

text \<open>The constants of \<open>linux/netlink.h\<close>, \<open>linux/rtnetlink.h\<close> and \<open>sys/socket.h\<close>.\<close>

definition AF_INET :: nat where "AF_INET = 2"
definition AF_INET6 :: nat where "AF_INET6 = 10"
definition RTM_NEWROUTE :: nat where "RTM_NEWROUTE = 24"
definition RTM_DELROUTE :: nat where "RTM_DELROUTE = 25"
definition RTN_UNICAST :: nat where "RTN_UNICAST = 1"
definition RTN_THROW :: nat where "RTN_THROW = 9"
definition RTA_DST :: nat where "RTA_DST = 1"
definition RTA_OIF :: nat where "RTA_OIF = 4"
definition RTA_GATEWAY :: nat where "RTA_GATEWAY = 5"
definition RTA_PRIORITY :: nat where "RTA_PRIORITY = 6"

definition insert_flags :: nat where
  "insert_flags = 0x1 + 0x400 + 0x100 + 0x4"

definition delete_flags :: nat where
  "delete_flags = 0x1 + 0x4"

lemmas netlink_constants = AF_INET_def AF_INET6_def RTM_NEWROUTE_def RTM_DELROUTE_def
  RTN_UNICAST_def RTN_THROW_def RTA_DST_def RTA_OIF_def RTA_GATEWAY_def RTA_PRIORITY_def

definition NLMSG_ALIGN :: "nat \<Rightarrow> nat" where
  "NLMSG_ALIGN len = (len + 3) div 4 * 4"

definition NLMSG_LENGTH :: "nat \<Rightarrow> nat" where
  "NLMSG_LENGTH len = len + 16"

definition RTA_SPACE :: "nat \<Rightarrow> nat" where
  "RTA_SPACE len = NLMSG_ALIGN (len + 4)"

definition sizeof_rtmsg :: nat where "sizeof_rtmsg = 12"

definition sizeof_buf :: nat where
  "sizeof_buf = NLMSG_ALIGN (NLMSG_LENGTH (sizeof_rtmsg + 2 * RTA_SPACE 4 + RTA_SPACE 16))"

definition nlmsg_append_attr :: "nat \<Rightarrow> nat \<Rightarrow> 8 word list \<Rightarrow> nlmsg \<Rightarrow> nlmsg" where
  "nlmsg_append_attr maxlen attrtype attrdata nlmsg =
     (let newlen = NLMSG_ALIGN (nlmsg_len nlmsg) + RTA_SPACE (length attrdata)
      in if newlen \<le> maxlen
         then nlmsg\<lparr>nlmsg_len := newlen, rtm_attrs := rtm_attrs nlmsg @ [(attrtype, attrdata)]\<rparr>
         else nlmsg)"

text \<open>An \<open>uint32_t\<close> in memory, least significant byte first.\<close>

definition le32 :: "32 word \<Rightarrow> 8 word list" where
  "le32 v = [ucast v, ucast (drop_bit 8 v), ucast (drop_bit 16 v), ucast (drop_bit 24 v)]"

definition nlmsg_append_attr32 :: "nat \<Rightarrow> nat \<Rightarrow> 32 word \<Rightarrow> nlmsg \<Rightarrow> nlmsg" where
  "nlmsg_append_attr32 maxlen attrtype v nlmsg = nlmsg_append_attr maxlen attrtype (le32 v) nlmsg"

section \<open>The operating system and the state of the Linux classes\<close>

datatype ProcessState = NotRunning | Starting | Running

datatype ioctl =
    SIOCSIFMTU string int
  | SIOCSIFFLAGS_UP string
  | SIOCSIFADDR4 string string
  | SIOGIFINDEX string
  | SIOCSIFADDR6 int string nat

datatype dbus =
    SetLinkDNS int "QHostAddress list"
  | SetLinkDefaultRoute int bool
  | GetDomains
  | SetLinkDomains int "(string \<times> bool) list"
  | RevertLink int

record 'w os =
  os_tunnelState :: "'w \<Rightarrow> ProcessState"
  os_tunnelStart :: "string \<Rightarrow> 'w \<Rightarrow> bool \<times> 'w"
  os_tunnelProbes :: "string \<Rightarrow> 'w \<Rightarrow> (ProcessState \<times> bool \<times> bool) list"
  os_tunnelTerminate :: "'w \<Rightarrow> bool \<times> 'w"
  os_tunnelKill :: "'w \<Rightarrow> 'w"
  os_dirExists :: "string \<Rightarrow> 'w \<Rightarrow> bool"
  os_mkpath :: "string \<Rightarrow> 'w \<Rightarrow> 'w"
  os_removeFile :: "string \<Rightarrow> 'w \<Rightarrow> 'w"
  os_uapiConnect :: "string \<Rightarrow> 'w \<Rightarrow> bool"
  os_uapiExchange :: "string \<Rightarrow> string \<Rightarrow> 'w \<Rightarrow> string list \<times> 'w"
  os_bash :: "string \<Rightarrow> 'w \<Rightarrow> int \<times> 'w"
  os_netlinkSocket :: "'w \<Rightarrow> int"
  os_ifNameToIndex :: "string \<Rightarrow> 'w \<Rightarrow> int"
  os_gateway :: "'w \<Rightarrow> string"
  os_pton4 :: "string \<Rightarrow> 8 word list option"
  os_pton6 :: "string \<Rightarrow> 8 word list option"
  os_uninitialised :: "'w \<Rightarrow> 8 word list"
  os_pid :: int
  os_sendto :: "int \<Rightarrow> nlmsg \<Rightarrow> 'w \<Rightarrow> int \<times> 'w"
  os_socket :: "'w \<Rightarrow> int"
  os_ioctl :: "ioctl \<Rightarrow> 'w \<Rightarrow> int \<times> 'w"
  os_ioctlEexist :: "'w \<Rightarrow> bool"
  os_ifrIndex :: "'w \<Rightarrow> int"
  os_dbus :: "dbus \<Rightarrow> 'w \<Rightarrow> 'w"

record LinuxRouteMonitor =
  m_rtifname :: qstring
  m_nlsock :: int
  m_nlseq :: int

record 'w LinuxState =
  m_ifname :: qstring
  m_rtmonitor :: "LinuxRouteMonitor option"
  anchorCallbacks :: callbacks
  m_dnsIfindex :: int
  m_linkDomains :: "(int \<times> (string \<times> bool) list) list"
  sent :: "nlmsg list"
  world :: 'w

definition WG_INTERFACE :: string where "WG_INTERFACE = ''amn0''"

section \<open>The route monitor\<close>

definition LinuxRouteMonitor_new :: "'w os \<Rightarrow> qstring \<Rightarrow> 'w \<Rightarrow> LinuxRouteMonitor" where
  "LinuxRouteMonitor_new os ifname w =
     \<lparr>m_rtifname = ifname, m_nlsock = os_netlinkSocket os w, m_nlseq = 0\<rparr>"

text \<open>\<open>buildAllowedIp\<close>: family, address bytes and prefix length, or failure.\<close>

definition buildAllowedIp ::
  "'w os \<Rightarrow> Qt \<Rightarrow> IPAddress \<Rightarrow> (nat \<times> 8 word list \<times> 8 word) option"
where
  "buildAllowedIp os Q prefix =
     (let addrString = qt_hostToString Q (m_address prefix)
      in if IPAddress_type prefix = IPv4Protocol then
           map_option (\<lambda>ip4. (AF_INET, ip4, word_of_int (m_prefixLength prefix)))
             (os_pton4 os addrString)
         else if IPAddress_type prefix = IPv6Protocol then
           map_option (\<lambda>ip6. (AF_INET6, ip6, word_of_int (m_prefixLength prefix)))
             (os_pton6 os addrString)
         else None)"

definition rtm_header :: "'w os \<Rightarrow> nat \<Rightarrow> nat \<Rightarrow> nat \<Rightarrow> int \<Rightarrow> nat \<Rightarrow> 8 word \<Rightarrow> nlmsg" where
  "rtm_header os action flags type seq family cidr =
     \<lparr>nlmsg_len = NLMSG_LENGTH sizeof_rtmsg, nlmsg_type = action, nlmsg_flags = flags,
      nlmsg_pid = os_pid os, nlmsg_seq = seq, rtm_dst_len = cidr, rtm_family = family,
      rtm_type = type, rtm_attrs = []\<rparr>"

text \<open>The attributes of an exclusion: the gateway of the physical network and the best metric.\<close>

definition rtm_exclusion :: "'w os \<Rightarrow> 'w \<Rightarrow> nlmsg \<Rightarrow> nlmsg" where
  "rtm_exclusion os w msg =
     (let ip4 = (case os_pton4 os (os_gateway os w) of
                   Some bs \<Rightarrow> bs | None \<Rightarrow> os_uninitialised os w);
          msg = nlmsg_append_attr sizeof_buf RTA_GATEWAY ip4 msg;
          msg = nlmsg_append_attr32 sizeof_buf RTA_PRIORITY 0 msg
      in msg\<lparr>rtm_type := RTN_UNICAST\<rparr>)"

definition rtm_tunnel :: "int \<Rightarrow> nlmsg \<Rightarrow> nlmsg" where
  "rtm_tunnel index msg =
     nlmsg_append_attr32 sizeof_buf RTA_PRIORITY 1
       (nlmsg_append_attr32 sizeof_buf RTA_OIF (word_of_int index) msg)"

definition rtmDeliver :: "'w os \<Rightarrow> LinuxRouteMonitor \<Rightarrow> nlmsg \<Rightarrow> 'w LinuxState action" where
  "rtmDeliver os mon msg st =
     (let (res, w) = os_sendto os (m_nlsock mon) msg (world st); st = st\<lparr>world := w\<rparr>
      in if res = int (nlmsg_len msg) then (True, st\<lparr>sent := sent st @ [msg]\<rparr>) else (False, st))"

definition LinuxRouteMonitor_rtmSendRoute ::
  "'w os \<Rightarrow> Qt \<Rightarrow> nat \<Rightarrow> nat \<Rightarrow> nat \<Rightarrow> IPAddress \<Rightarrow> LinuxRouteMonitor \<Rightarrow> 'w LinuxState action"
where
  "LinuxRouteMonitor_rtmSendRoute os Q action flags type prefix mon st =
     (case buildAllowedIp os Q prefix of
        None \<Rightarrow> (False, st)
      | Some (family, dst, cidr) \<Rightarrow>
          (let msg = nlmsg_append_attr sizeof_buf RTA_DST dst
                 (rtm_header os action flags type (m_nlseq mon) family cidr);
               mon' = mon\<lparr>m_nlseq := m_nlseq mon + 1\<rparr>;
               st = st\<lparr>m_rtmonitor := Some mon'\<rparr>
           in if type = RTN_UNICAST then
                (let index = os_ifNameToIndex os WG_INTERFACE (world st)
                 in if index \<le> 0 then (False, st)
                    else rtmDeliver os mon' (rtm_tunnel index msg) st)
              else if type = RTN_THROW then
                rtmDeliver os mon' (rtm_exclusion os (world st) msg) st
              else rtmDeliver os mon' msg st))"

definition LinuxRouteMonitor_insertRoute ::
  "'w os \<Rightarrow> Qt \<Rightarrow> IPAddress \<Rightarrow> LinuxRouteMonitor \<Rightarrow> 'w LinuxState action"
where
  "LinuxRouteMonitor_insertRoute os Q =
     LinuxRouteMonitor_rtmSendRoute os Q RTM_NEWROUTE insert_flags RTN_UNICAST"

definition LinuxRouteMonitor_deleteRoute ::
  "'w os \<Rightarrow> Qt \<Rightarrow> IPAddress \<Rightarrow> LinuxRouteMonitor \<Rightarrow> 'w LinuxState action"
where
  "LinuxRouteMonitor_deleteRoute os Q =
     LinuxRouteMonitor_rtmSendRoute os Q RTM_DELROUTE delete_flags RTN_UNICAST"

definition LinuxRouteMonitor_addExclusionRoute ::
  "'w os \<Rightarrow> Qt \<Rightarrow> IPAddress \<Rightarrow> LinuxRouteMonitor \<Rightarrow> 'w LinuxState action"
where
  "LinuxRouteMonitor_addExclusionRoute os Q =
     LinuxRouteMonitor_rtmSendRoute os Q RTM_NEWROUTE insert_flags RTN_THROW"

definition LinuxRouteMonitor_deleteExclusionRoute ::
  "'w os \<Rightarrow> Qt \<Rightarrow> IPAddress \<Rightarrow> LinuxRouteMonitor \<Rightarrow> 'w LinuxState action"
where
  "LinuxRouteMonitor_deleteExclusionRoute os Q =
     LinuxRouteMonitor_rtmSendRoute os Q RTM_DELROUTE delete_flags RTN_THROW"

text \<open>
  \<open>nlsockReady\<close> only writes the log; its loop stops at \<open>NLMSG_DONE\<close>.  A received message is its
  type and, for an error message, its code; the result lists the codes that are logged.
\<close>

definition NLMSG_ERROR :: nat where "NLMSG_ERROR = 2"
definition NLMSG_DONE :: nat where "NLMSG_DONE = 3"

fun LinuxRouteMonitor_nlsockReady :: "(nat \<times> int) list \<Rightarrow> int list" where
  "LinuxRouteMonitor_nlsockReady [] = []"
| "LinuxRouteMonitor_nlsockReady ((type, err) # msgs) =
     (if type = NLMSG_DONE then []
      else if type \<noteq> NLMSG_ERROR then LinuxRouteMonitor_nlsockReady msgs
      else if err \<noteq> 0 then err # LinuxRouteMonitor_nlsockReady msgs
      else LinuxRouteMonitor_nlsockReady msgs)"

section \<open>DNS through systemd-resolved\<close>

definition os_call :: "'w os \<Rightarrow> dbus \<Rightarrow> 'w LinuxState \<Rightarrow> 'w LinuxState" where
  "os_call os c st = st\<lparr>world := os_dbus os c (world st)\<rparr>"

definition DnsUtilsLinux_updateResolvers ::
  "'w os \<Rightarrow> qstring \<Rightarrow> QHostAddress list \<Rightarrow> 'w LinuxState action"
where
  "DnsUtilsLinux_updateResolvers os ifname resolvers st =
     (let index = os_ifNameToIndex os (qs ifname) (world st); st = st\<lparr>m_dnsIfindex := index\<rparr>
      in if index \<le> 0 then (False, st)
         else (True, os_call os GetDomains
                 (os_call os (SetLinkDefaultRoute index True)
                   (os_call os (SetLinkDNS index resolvers) st))))"

definition DnsUtilsLinux_restoreResolvers :: "'w os \<Rightarrow> 'w LinuxState action" where
  "DnsUtilsLinux_restoreResolvers os st =
     (let st = fold (\<lambda>(index, domains). os_call os (SetLinkDomains index domains)) (m_linkDomains st) st;
          st = st\<lparr>m_linkDomains := []\<rparr>
      in if m_dnsIfindex st > 0
         then (True, (os_call os (RevertLink (m_dnsIfindex st)) st)\<lparr>m_dnsIfindex := 0\<rparr>)
         else (True, st))"

definition addLinkDomain ::
  "int \<times> string \<times> bool \<Rightarrow> (int \<times> (string \<times> bool) list) list \<Rightarrow> (int \<times> (string \<times> bool) list) list"
where
  "addLinkDomain d m =
     (case d of (index, domain, search) \<Rightarrow>
        if index = 0 then m
        else qmap_insert index
               ((case map_of m index of None \<Rightarrow> [] | Some ds \<Rightarrow> ds) @ [(domain, search)]) m)"

text \<open>The reply to \<open>GetDomains\<close>: an error, or the domains of every link.\<close>

definition DnsUtilsLinux_dnsDomainsReceived ::
  "'w os \<Rightarrow> (int \<times> string \<times> bool) list option \<Rightarrow> 'w LinuxState \<Rightarrow> 'w LinuxState"
where
  "DnsUtilsLinux_dnsDomainsReceived os reply st =
     (case reply of
        None \<Rightarrow> st
      | Some ds \<Rightarrow>
          (let root = (''.'', True);
               st = st\<lparr>m_linkDomains := fold addLinkDomain ds []\<rparr>;
               st = fold (\<lambda>(index, domains) st.
                      if root \<notin> set domains then st
                      else os_call os (SetLinkDomains index (removeAll root domains)) st)
                    (m_linkDomains st) st
           in os_call os (SetLinkDomains (m_dnsIfindex st) [root]) st))"

section \<open>Addresses and MTU of the interface\<close>

definition ioctl_call :: "'w os \<Rightarrow> ioctl \<Rightarrow> 'w LinuxState \<Rightarrow> int \<times> 'w LinuxState" where
  "ioctl_call os req st = (let (ret, w) = os_ioctl os req (world st) in (ret, st\<lparr>world := w\<rparr>))"

definition IPUtilsLinux_setMTUAndUp :: "'w os \<Rightarrow> InterfaceConfig \<Rightarrow> 'w LinuxState action" where
  "IPUtilsLinux_setMTUAndUp os config st =
     (if os_socket os (world st) < 0 then (False, st)
      else (let (ret, st) = ioctl_call os (SIOCSIFMTU WG_INTERFACE (m_deviceMTU config)) st
            in if ret \<noteq> 0 then (False, st)
               else (let (ret, st) = ioctl_call os (SIOCSIFFLAGS_UP WG_INTERFACE) st
                     in (ret = 0, st))))"

definition IPUtilsLinux_addIP4AddressToDevice ::
  "'w os \<Rightarrow> Qt \<Rightarrow> InterfaceConfig \<Rightarrow> 'w LinuxState action"
where
  "IPUtilsLinux_addIP4AddressToDevice os Q config st =
     (let deviceAddr =
        qt_hostToString Q (fst (qt_parseSubnet Q (qs (m_deviceIpv4Address config))))
      in if os_socket os (world st) < 0 then (False, st)
         else (let (ret, st) = ioctl_call os (SIOCSIFADDR4 WG_INTERFACE deviceAddr) st
               in (ret = 0, st)))"

definition IPUtilsLinux_addIP6AddressToDevice ::
  "'w os \<Rightarrow> Qt \<Rightarrow> InterfaceConfig \<Rightarrow> 'w LinuxState action"
where
  "IPUtilsLinux_addIP6AddressToDevice os Q config st =
     (let deviceAddr =
        qt_hostToString Q (fst (qt_parseSubnet Q (qs (m_deviceIpv6Address config))))
      in if os_socket os (world st) < 0 then (False, st)
         else (let (ret, st) = ioctl_call os (SIOGIFINDEX WG_INTERFACE) st
               in if ret \<noteq> 0 then (False, st)
                  else (let (ret, st) =
                          ioctl_call os (SIOCSIFADDR6 (os_ifrIndex os (world st)) deviceAddr 64) st
                        in (ret = 0 \<or> os_ioctlEexist os (world st), st))))"

definition IPUtilsLinux_addInterfaceIPs ::
  "'w os \<Rightarrow> Qt \<Rightarrow> InterfaceConfig \<Rightarrow> 'w LinuxState action"
where
  "IPUtilsLinux_addInterfaceIPs os Q config =
     require (IPUtilsLinux_addIP4AddressToDevice os Q config)
       (IPUtilsLinux_addIP6AddressToDevice os Q config)"

section \<open>Properties\<close>

lemma sizeof_buf_eval: "sizeof_buf = 64"
  by (simp add: sizeof_buf_def sizeof_rtmsg_def NLMSG_ALIGN_def NLMSG_LENGTH_def RTA_SPACE_def)

lemma length_le32 [simp]: "length (le32 v) = 4"
  by (simp add: le32_def)

lemma rtm_fits_aux:
  assumes "length dst \<le> 16" "length gw = 4"
  shows "nlmsg_append_attr sizeof_buf RTA_DST dst (rtm_header os action flags type seq family cidr) =
      (rtm_header os action flags type seq family cidr)
        \<lparr>nlmsg_len := 28 + RTA_SPACE (length dst), rtm_attrs := [(RTA_DST, dst)]\<rparr>"
    and "28 + RTA_SPACE (length dst) \<le> 48" "NLMSG_ALIGN (28 + RTA_SPACE (length dst)) = 28 + RTA_SPACE (length dst)"
proof -
  have "(length dst + 4 + 3) div 4 \<le> (16 + 4 + 3) div 4" using assms(1) by (intro div_le_mono) simp
  then show *: "28 + RTA_SPACE (length dst) \<le> 48" by (simp add: RTA_SPACE_def NLMSG_ALIGN_def)
  have "28 + RTA_SPACE (length dst) = 4 * (7 + (length dst + 4 + 3) div 4)"
    by (simp add: RTA_SPACE_def NLMSG_ALIGN_def)
  then show "NLMSG_ALIGN (28 + RTA_SPACE (length dst)) = 28 + RTA_SPACE (length dst)"
    unfolding NLMSG_ALIGN_def by simp
  show "nlmsg_append_attr sizeof_buf RTA_DST dst (rtm_header os action flags type seq family cidr) =
      (rtm_header os action flags type seq family cidr)
        \<lparr>nlmsg_len := 28 + RTA_SPACE (length dst), rtm_attrs := [(RTA_DST, dst)]\<rparr>"
    using * by (simp add: nlmsg_append_attr_def rtm_header_def sizeof_buf_eval NLMSG_LENGTH_def
        sizeof_rtmsg_def NLMSG_ALIGN_def)
qed

lemma append4_fits:
  assumes "nlmsg_len msg \<le> 56" "NLMSG_ALIGN (nlmsg_len msg) = nlmsg_len msg" "length d = 4"
  shows "nlmsg_append_attr sizeof_buf t d msg =
      msg\<lparr>nlmsg_len := nlmsg_len msg + 8, rtm_attrs := rtm_attrs msg @ [(t, d)]\<rparr>"
    and "NLMSG_ALIGN (nlmsg_len msg + 8) = nlmsg_len msg + 8"
proof -
  show "nlmsg_append_attr sizeof_buf t d msg =
      msg\<lparr>nlmsg_len := nlmsg_len msg + 8, rtm_attrs := rtm_attrs msg @ [(t, d)]\<rparr>"
    using assms by (simp add: nlmsg_append_attr_def sizeof_buf_eval RTA_SPACE_def) (simp add: NLMSG_ALIGN_def)
  show "NLMSG_ALIGN (nlmsg_len msg + 8) = nlmsg_len msg + 8"
    using assms(2) unfolding NLMSG_ALIGN_def by presburger
qed

text \<open>
  The message buffer is large enough: for a destination of at most sixteen bytes no attribute
  is dropped, neither of a tunnel route nor of an exclusion, and the message stays within the
  buffer.
\<close>

theorem route_message_fits:
  assumes "length dst \<le> 16" "length (case os_pton4 os (os_gateway os w) of
      Some bs \<Rightarrow> bs | None \<Rightarrow> os_uninitialised os w) = 4"
    and "msg = nlmsg_append_attr sizeof_buf RTA_DST dst
      (rtm_header os action flags type seq family cidr)"
  shows "map fst (rtm_attrs (rtm_tunnel index msg)) = [RTA_DST, RTA_OIF, RTA_PRIORITY] \<and>
    map fst (rtm_attrs (rtm_exclusion os w msg)) = [RTA_DST, RTA_GATEWAY, RTA_PRIORITY] \<and>
    nlmsg_len (rtm_tunnel index msg) \<le> sizeof_buf \<and>
    nlmsg_len (rtm_exclusion os w msg) \<le> sizeof_buf"
proof -
  note aux = rtm_fits_aux [OF assms(1,2)]
  let ?L = "28 + RTA_SPACE (length dst)"
  have msg: "msg = (rtm_header os action flags type seq family cidr)
      \<lparr>nlmsg_len := ?L, rtm_attrs := [(RTA_DST, dst)]\<rparr>"
    unfolding assms(3) by (rule aux(1))
  have step: "nlmsg_append_attr sizeof_buf t2 d2 (nlmsg_append_attr sizeof_buf t1 d1 msg) =
      msg\<lparr>nlmsg_len := ?L + 16, rtm_attrs := [(RTA_DST, dst), (t1, d1), (t2, d2)]\<rparr>"
    if d: "length d1 = 4" "length d2 = 4" for t1 t2 d1 d2
  proof -
    have "nlmsg_append_attr sizeof_buf t1 d1 msg =
        msg\<lparr>nlmsg_len := ?L + 8, rtm_attrs := [(RTA_DST, dst), (t1, d1)]\<rparr>"
      using append4_fits(1) [of msg d1 t1] aux(2,3) d by (simp add: msg)
    moreover have "NLMSG_ALIGN (?L + 8) = ?L + 8"
      using append4_fits(2) [of msg d1] aux(2,3) d by (simp add: msg)
    ultimately show ?thesis
      using append4_fits(1) [of "nlmsg_append_attr sizeof_buf t1 d1 msg" d2 t2] aux(2) d
      by (simp add: msg)
  qed
  show ?thesis
    using aux(2) assms(2)
    by (simp add: rtm_tunnel_def rtm_exclusion_def nlmsg_append_attr32_def step
        sizeof_buf_eval [symmetric] Let_def) (simp add: sizeof_buf_eval)
qed

text \<open>
  An operating system on which every call succeeds: its world counts the calls that change it, the
  gateway is 192.168.1.1 and the interface has index 7.
\<close>

definition sample_os :: "nat os" where
  "sample_os =
     \<lparr>os_tunnelState = (\<lambda>w. if w = 0 then NotRunning else Running),
      os_tunnelStart = (\<lambda>_ w. (True, Suc w)),
      os_tunnelProbes = (\<lambda>_ _. [(Running, True, False), (Running, True, True)]),
      os_tunnelTerminate = (\<lambda>w. (True, 0)),
      os_tunnelKill = (\<lambda>_. 0),
      os_dirExists = (\<lambda>_ _. True),
      os_mkpath = (\<lambda>_ w. w),
      os_removeFile = (\<lambda>_ w. w),
      os_uapiConnect = (\<lambda>_ _. True),
      os_uapiExchange = (\<lambda>_ _ w. ([''errno=0'', [CHR 0x0A, CHR 0x0A]], Suc w)),
      os_bash = (\<lambda>_ w. (0, Suc w)),
      os_netlinkSocket = (\<lambda>_. 3),
      os_ifNameToIndex = (\<lambda>_ _. 7),
      os_gateway = (\<lambda>_. ''192.168.1.1''),
      os_pton4 = (\<lambda>_. Some [192, 168, 1, 1]),
      os_pton6 = (\<lambda>_. Some (replicate 16 0)),
      os_uninitialised = (\<lambda>_. [0, 0, 0, 0]),
      os_pid = 1,
      os_sendto = (\<lambda>_ msg w. (int (nlmsg_len msg), Suc w)),
      os_socket = (\<lambda>_. 4),
      os_ioctl = (\<lambda>_ w. (0, Suc w)),
      os_ioctlEexist = (\<lambda>_. False),
      os_ifrIndex = (\<lambda>_. 7),
      os_dbus = (\<lambda>_ w. Suc w)\<rparr>"

theorem route_message_fits_witness:
  "map fst (rtm_attrs (rtm_exclusion sample_os 0 (nlmsg_append_attr sizeof_buf RTA_DST (replicate 16 0)
     (rtm_header sample_os RTM_NEWROUTE insert_flags RTN_THROW 0 AF_INET6 64)))) =
   [RTA_DST, RTA_GATEWAY, RTA_PRIORITY]"
  using route_message_fits [of "replicate 16 0" sample_os 0 _ RTM_NEWROUTE insert_flags RTN_THROW 0 AF_INET6 64]
  by (simp add: sample_os_def)

end
