(* ===== verification/Wireguard_Linux.thy ===== *)
theory Wireguard_Linux
  imports Linux_Route
begin

text \<open>
  \<open>client/platforms/linux/daemon/wireguardutilslinux.{h,cpp}\<close> and \<open>linuxdaemon.{h,cpp}\<close>: the
  tunnel process, its control protocol (UAPI) and the platform of the Linux daemon.

  Waiting loops run until a timer expires: what they observe in successive rounds is a finite list
  supplied by the operating system, whose end is the expiry.  Commands for the firewall are run by
  the shell one after the other.
\<close>

section \<open>The control protocol\<close>

fun endsWith :: "string \<Rightarrow> string \<Rightarrow> bool" where
  "endsWith suffix s \<longleftrightarrow> length suffix \<le> length s \<and> drop (length s - length suffix) s = suffix"

text \<open>\<open>while (!message.endsWith("\n\n")) message.append('\n')\<close>.\<close>

definition pad_count :: "string \<Rightarrow> nat" where
  "pad_count s = (if endsWith [newline, newline] s then 0 else if endsWith [newline] s then 1 else 2)"

lemma endsWith_append: "endsWith t (s @ t)"
  by simp

function uapiMessage :: "string \<Rightarrow> string" where
  "uapiMessage message =
     (if endsWith [newline, newline] message then message else uapiMessage (message @ [newline]))"
  by pat_completeness auto
termination
proof (relation "measure pad_count", simp)
  fix message assume *: "\<not> endsWith [newline, newline] message"
  show "(message @ [newline], message) \<in> measure pad_count"
  proof (cases "endsWith [newline] message")
    case True
    then have "message \<noteq> []" "last message = newline"
      by (cases message rule: rev_cases; simp)+
    then have "endsWith [newline, newline] (message @ [newline])"
      by (cases message rule: rev_cases) simp_all
    with * True show ?thesis by (simp add: pad_count_def)
  next
    case False
    with * endsWith_append [of "[newline]" message] show ?thesis by (simp add: pad_count_def)
  qed
qed

declare uapiMessage.simps [simp del]

fun contains_sub :: "string \<Rightarrow> string \<Rightarrow> bool" where
  "contains_sub t [] = (t = [])"
| "contains_sub t (c # s) = (take (length t) (c # s) = t \<or> contains_sub t s)"

fun uapiReply :: "string list \<Rightarrow> string \<Rightarrow> qstring" where
  "uapiReply chunks reply =
     (if contains_sub [newline, newline] reply then Some (trimmed reply)
      else (case chunks of [] \<Rightarrow> None | chunk # chunks' \<Rightarrow> uapiReply chunks' (reply @ chunk)))"

declare uapiReply.simps [simp del]

definition WG_RUNTIME_DIR :: string where "WG_RUNTIME_DIR = ''/var/run/amneziawg''"

definition filePath :: "string \<Rightarrow> string \<Rightarrow> string" where
  "filePath dir name = dir @ ''/'' @ name"

definition WireguardUtilsLinux_uapiCommand ::
  "'w os \<Rightarrow> string \<Rightarrow> 'w LinuxState \<Rightarrow> qstring \<times> 'w LinuxState"
where
  "WireguardUtilsLinux_uapiCommand os command st =
     (let wgSocketFile = filePath WG_RUNTIME_DIR (qs (m_ifname st) @ ''.sock'')
      in if \<not> os_uapiConnect os wgSocketFile (world st) then (None, st)
         else (let (chunks, w) = os_uapiExchange os wgSocketFile (uapiMessage command) (world st)
               in (uapiReply chunks [], st\<lparr>world := w\<rparr>)))"

definition EINVAL :: int where "EINVAL = 22"

definition line_name :: "string \<Rightarrow> string" where
  "line_name line = take (nat (indexOf CHR ''='' line)) line"

definition line_value :: "string \<Rightarrow> string" where
  "line_value line = drop (nat (indexOf CHR ''='' line) + 1) line"

fun uapiErrnoLines :: "Qt \<Rightarrow> string list \<Rightarrow> int" where
  "uapiErrnoLines Q [] = EINVAL"
| "uapiErrnoLines Q (line # ls) =
     (if indexOf CHR ''='' line \<le> 0 then uapiErrnoLines Q ls
      else if line_name line = ''errno'' then toInt Q (Some (line_value line))
      else uapiErrnoLines Q ls)"

definition WireguardUtilsLinux_uapiErrno :: "Qt \<Rightarrow> qstring \<Rightarrow> int" where
  "WireguardUtilsLinux_uapiErrno Q reply = uapiErrnoLines Q (split newline (qs reply))"

fun WireguardUtilsLinux_waitForTunnelName :: "(ProcessState \<times> bool \<times> bool) list \<Rightarrow> qstring" where
  "WireguardUtilsLinux_waitForTunnelName [] = None"
| "WireguardUtilsLinux_waitForTunnelName ((state, timeoutActive, conn) # rounds) =
     (if state = Running \<and> timeoutActive then
        (if conn then Some ''amn0'' else WireguardUtilsLinux_waitForTunnelName rounds)
      else None)"

section \<open>Status of the peers\<close>

definition PeerStatus_new :: "qstring \<Rightarrow> PeerStatus" where
  "PeerStatus_new pubkey = \<lparr>m_pubkey = pubkey, m_handshake = 0, m_rxBytes = 0, m_txBytes = 0\<rparr>"

definition toDouble :: "Qt \<Rightarrow> string \<Rightarrow> rat" where
  "toDouble Q s = (case qt_toDouble Q s of None \<Rightarrow> 0 | Some r \<Rightarrow> r)"

definition toLongLong :: "Qt \<Rightarrow> string \<Rightarrow> int" where
  "toLongLong Q s = (case qt_toLongLong Q s of None \<Rightarrow> 0 | Some i \<Rightarrow> i)"

text \<open>Integer division of C truncates towards zero.\<close>

definition cdiv :: "int \<Rightarrow> int \<Rightarrow> int" where
  "cdiv a b = (if (a < 0) = (b < 0) then \<bar>a\<bar> div \<bar>b\<bar> else - (\<bar>a\<bar> div \<bar>b\<bar>))"

definition peerLine :: "Qt \<Rightarrow> string \<Rightarrow> PeerStatus \<times> PeerStatus list \<Rightarrow> PeerStatus \<times> PeerStatus list" where
  "peerLine Q line acc =
     (if indexOf CHR ''='' line \<le> 0 then acc
      else
        (let name = line_name line; v = line_value line; (status, peerList) = acc
         in if name = ''public_key'' then
              (PeerStatus_new (Some (qt_toBase64 Q (qt_fromHex Q v))),
               if isEmpty (m_pubkey status) then peerList else peerList @ [status])
            else if name = ''tx_bytes'' then
              (status\<lparr>m_txBytes := double_toInt (toDouble Q v)\<rparr>, peerList)
            else if name = ''rx_bytes'' then
              (status\<lparr>m_rxBytes := double_toInt (toDouble Q v)\<rparr>, peerList)
            else if name = ''last_handshake_time_sec'' then
              (status\<lparr>m_handshake := m_handshake status + toLongLong Q v * 1000\<rparr>, peerList)
            else if name = ''last_handshake_time_nsec'' then
              (status\<lparr>m_handshake := m_handshake status + cdiv (toLongLong Q v) 1000000\<rparr>, peerList)
            else (status, peerList)))"

definition parsePeers :: "Qt \<Rightarrow> qstring \<Rightarrow> PeerStatus list" where
  "parsePeers Q reply =
     (let (status, peerList) = fold (peerLine Q) (split newline (qs reply)) (PeerStatus_new None, [])
      in if isEmpty (m_pubkey status) then peerList else peerList @ [status])"

definition WireguardUtilsLinux_getPeerStatus ::
  "'w os \<Rightarrow> Qt \<Rightarrow> 'w LinuxState \<Rightarrow> PeerStatus list \<times> 'w LinuxState"
where
  "WireguardUtilsLinux_getPeerStatus os Q st =
     (let (reply, st) = WireguardUtilsLinux_uapiCommand os ''get=1'' st in (parsePeers Q reply, st))"

section \<open>The kill switch\<close>

record FirewallParams =
  dnsServers :: "string list"
  allowAddrs :: "string list"
  blockAddrs :: "string list"
  blockAll :: bool
  allowNets :: bool
  blockNets :: bool

definition killSwitchParams :: "Qt \<Rightarrow> InterfaceConfig \<Rightarrow> FirewallParams" where
  "killSwitchParams Q config =
     (let params = \<lparr>dnsServers = [qs (m_dnsServer config)], allowAddrs = [], blockAddrs = [],
                    blockAll = False, allowNets = False, blockNets = False\<rparr>
      in if IPAddress_ofString Q ''0.0.0.0/0'' \<in> set (m_allowedIPAddressRanges config) then
           (if m_excludedAddresses config \<noteq> []
            then params\<lparr>blockAll := True, allowNets := True, allowAddrs := m_excludedAddresses config\<rparr>
            else params\<lparr>blockAll := True\<rparr>)
         else params\<lparr>blockNets := True,
                blockAddrs := map (IPAddress_toString Q) (m_allowedIPAddressRanges config)\<rparr>)"

definition WireguardUtilsLinux_firewallRules :: "callbacks \<Rightarrow> FirewallParams \<Rightarrow> fwcmd list" where
  "WireguardUtilsLinux_firewallRules cbs params =
     (let setAnchor = (\<lambda>ip anchor enabled. LinuxFirewall_setAnchorEnabled cbs ip anchor enabled kFilterTable)
      in LinuxFirewall_ensureRootAnchorPriority Both @
         setAnchor Both ''000.allowLoopback'' True @
         setAnchor Both ''100.blockAll'' (blockAll params) @
         setAnchor IPv4 ''110.allowNets'' (allowNets params) @
         LinuxFirewall_updateAllowNets (allowAddrs params) @
         setAnchor IPv4 ''120.blockNets'' (blockNets params) @
         LinuxFirewall_updateBlockNets (blockAddrs params) @
         setAnchor IPv4 ''200.allowVPN'' True @
         setAnchor IPv6 ''250.blockIPv6'' True @
         setAnchor Both ''290.allowDHCP'' True @
         setAnchor Both ''300.allowLAN'' True @
         setAnchor IPv4 ''310.blockDNS'' True @
         LinuxFirewall_updateDNSServers (dnsServers params) @
         setAnchor IPv4 ''320.allowDNS'' True @
         setAnchor Both ''400.allowPIA'' True)"

definition LinuxFirewall_execute :: "'w os \<Rightarrow> fwcmd \<Rightarrow> 'w LinuxState \<Rightarrow> int \<times> 'w LinuxState" where
  "LinuxFirewall_execute os c st =
     (let (code, w) = os_bash os (fw_text c) (world st) in (code, st\<lparr>world := w\<rparr>))"

definition firewall_run :: "'w os \<Rightarrow> fwcmd list \<Rightarrow> 'w LinuxState \<Rightarrow> 'w LinuxState" where
  "firewall_run os cmds st = fold (\<lambda>c st. snd (LinuxFirewall_execute os c st)) cmds st"

definition LinuxFirewall_isInstalled :: "'w os \<Rightarrow> 'w LinuxState \<Rightarrow> bool \<times> 'w LinuxState" where
  "LinuxFirewall_isInstalled os st =
     (let (code, st) = LinuxFirewall_execute os CheckRoot st in (code = 0, st))"

definition LinuxFirewall_isAnchorEnabled ::
  "'w os \<Rightarrow> IPVersion \<Rightarrow> string \<Rightarrow> string \<Rightarrow> 'w LinuxState \<Rightarrow> bool \<times> 'w LinuxState"
where
  "LinuxFirewall_isAnchorEnabled os ip anchor tableName st =
     (let (code, st) = LinuxFirewall_execute os (CheckAnchor ip anchor tableName) st
      in (code = 0, st))"

definition WireguardUtilsLinux_applyFirewallRules ::
  "'w os \<Rightarrow> FirewallParams \<Rightarrow> 'w LinuxState \<Rightarrow> 'w LinuxState"
where
  "WireguardUtilsLinux_applyFirewallRules os params st =
     (let (installed, st) = LinuxFirewall_isInstalled os st;
          st = (if installed then st
                else (firewall_run os LinuxFirewall_install st)
                  \<lparr>anchorCallbacks := LinuxFirewall_installCallbacks (anchorCallbacks st)\<rparr>)
      in firewall_run os (WireguardUtilsLinux_firewallRules (anchorCallbacks st) params) st)"

section \<open>Interface and peers\<close>

definition uapi_opt :: "string \<Rightarrow> qstring \<Rightarrow> string" where
  "uapi_opt key s = (if isEmpty s then [] else key @ ''='' @ qs s @ endl)"

definition interfaceMessage :: "Qt \<Rightarrow> InterfaceConfig \<Rightarrow> string" where
  "interfaceMessage Q config =
     ''set=1'' @ endl @
     ''private_key='' @ qt_toHex Q (qt_fromBase64 Q (qs (m_privateKey config))) @ endl @
     ''replace_peers=true'' @ endl @
     uapi_opt ''jc'' (m_junkPacketCount config) @
     uapi_opt ''jmin'' (m_junkPacketMinSize config) @
     uapi_opt ''jmax'' (m_junkPacketMaxSize config) @
     uapi_opt ''s1'' (m_initPacketJunkSize config) @
     uapi_opt ''s2'' (m_responsePacketJunkSize config) @
     uapi_opt ''h1'' (m_initPacketMagicHeader config) @
     uapi_opt ''h2'' (m_responsePacketMagicHeader config) @
     uapi_opt ''h3'' (m_underloadPacketMagicHeader config) @
     uapi_opt ''h4'' (m_transportPacketMagicHeader config)"

definition st_world :: "('w \<Rightarrow> 'w) \<Rightarrow> 'w LinuxState \<Rightarrow> 'w LinuxState" where
  "st_world f st = st\<lparr>world := f (world st)\<rparr>"

definition WireguardUtilsLinux_addInterface ::
  "'w os \<Rightarrow> Qt \<Rightarrow> InterfaceConfig \<Rightarrow> 'w LinuxState action"
where
  "WireguardUtilsLinux_addInterface os Q config st =
     (if os_tunnelState os (world st) \<noteq> NotRunning then (False, st)
      else
        (let st = (if os_dirExists os WG_RUNTIME_DIR (world st) then st
                   else st_world (os_mkpath os WG_RUNTIME_DIR) st);
             wgNameFile = filePath WG_RUNTIME_DIR (WG_INTERFACE @ ''.sock'');
             (started, w) = os_tunnelStart os wgNameFile (world st); st = st\<lparr>world := w\<rparr>
         in if \<not> started then (False, st_world (os_tunnelKill os) st)
            else
              (let ifname = WireguardUtilsLinux_waitForTunnelName (os_tunnelProbes os wgNameFile (world st));
                   st = st\<lparr>m_ifname := ifname\<rparr>
               in if isNull ifname then (False, st_world (os_tunnelKill os) st)
                  else
                    (let st = st\<lparr>m_rtmonitor := Some (LinuxRouteMonitor_new os ifname (world st))\<rparr>;
                         (reply, st) = WireguardUtilsLinux_uapiCommand os (interfaceMessage Q config) st;
                         err = WireguardUtilsLinux_uapiErrno Q reply
                     in (err = 0,
                         if err = 0 \<and> m_killSwitchEnabled config
                         then WireguardUtilsLinux_applyFirewallRules os (killSwitchParams Q config) st
                         else st)))))"

definition WireguardUtilsLinux_deleteInterface :: "'w os \<Rightarrow> 'w LinuxState action" where
  "WireguardUtilsLinux_deleteInterface os st =
     (let st = st\<lparr>m_rtmonitor := None\<rparr>
      in if os_tunnelState os (world st) = NotRunning then (False, st)
         else
           (let (finished, w) = os_tunnelTerminate os (world st);
                st = st\<lparr>world := (if finished then w else os_tunnelKill os w)\<rparr>;
                st = st_world (os_removeFile os (filePath WG_RUNTIME_DIR (WG_INTERFACE @ ''.name''))) st
            in (True, firewall_run os LinuxFirewall_uninstall st)))"

definition with_monitor ::
  "(LinuxRouteMonitor \<Rightarrow> 'w LinuxState action) \<Rightarrow> 'w LinuxState action"
where
  "with_monitor f st = (case m_rtmonitor st of None \<Rightarrow> (False, st) | Some mon \<Rightarrow> f mon st)"

definition peerMessage :: "Qt \<Rightarrow> InterfaceConfig \<Rightarrow> string option" where
  "peerMessage Q config =
     (let endpoint =
        (if \<not> isNull (m_serverIpv4AddrIn config)
         then Some (''endpoint='' @ qs (m_serverIpv4AddrIn config) @ '':'')
         else if \<not> isNull (m_serverIpv6AddrIn config)
         then Some (''endpoint=['' @ qs (m_serverIpv6AddrIn config) @ '']:'')
         else None)
      in map_option (\<lambda>ep.
           ''set=1'' @ endl @
           ''public_key='' @ qt_toHex Q (qt_fromBase64 Q (qs (m_serverPublicKey config))) @ endl @
           (if isNull (m_serverPskKey config) then []
            else ''preshared_key='' @ qt_toHex Q (qt_fromBase64 Q (qs (m_serverPskKey config))) @ endl) @
           ep @ number (m_serverPort config) @ endl @
           ''replace_allowed_ips=true'' @ endl @
           ''persistent_keepalive_interval='' @ number 60 @ endl @
           concat (map (\<lambda>ip. ''allowed_ip='' @ IPAddress_toString Q ip @ endl)
             (m_allowedIPAddressRanges config))) endpoint)"

text \<open>The exclusion routes of the server addresses, except behind an exit hop.\<close>

definition peer_exclusions ::
  "(IPAddress \<Rightarrow> LinuxRouteMonitor \<Rightarrow> 'w LinuxState action) \<Rightarrow> Qt \<Rightarrow> InterfaceConfig
    \<Rightarrow> 'w LinuxState \<Rightarrow> 'w LinuxState"
where
  "peer_exclusions f Q config st =
     (if m_hopType config \<noteq> MultiHopExit \<and> m_rtmonitor st \<noteq> None
      then for_each (\<lambda>ip. with_monitor (f ip))
             [IPAddress_ofString Q (qs (m_serverIpv4AddrIn config)),
              IPAddress_ofString Q (qs (m_serverIpv6AddrIn config))] st
      else st)"

definition uapi_ok :: "'w os \<Rightarrow> Qt \<Rightarrow> string \<Rightarrow> 'w LinuxState action" where
  "uapi_ok os Q message st =
     (let (reply, st) = WireguardUtilsLinux_uapiCommand os message st
      in (WireguardUtilsLinux_uapiErrno Q reply = 0, st))"

definition WireguardUtilsLinux_updatePeer ::
  "'w os \<Rightarrow> Qt \<Rightarrow> InterfaceConfig \<Rightarrow> 'w LinuxState action"
where
  "WireguardUtilsLinux_updatePeer os Q config st =
     (case peerMessage Q config of
        None \<Rightarrow> (False, st)
      | Some message \<Rightarrow>
          uapi_ok os Q message
            (peer_exclusions (LinuxRouteMonitor_addExclusionRoute os Q) Q config st))"

definition WireguardUtilsLinux_deletePeer ::
  "'w os \<Rightarrow> Qt \<Rightarrow> InterfaceConfig \<Rightarrow> 'w LinuxState action"
where
  "WireguardUtilsLinux_deletePeer os Q config st =
     uapi_ok os Q
       (''set=1'' @ endl @
        ''public_key='' @ qt_toHex Q (qt_fromBase64 Q (qs (m_serverPublicKey config))) @ endl @
        ''remove=true'' @ endl)
       (peer_exclusions (LinuxRouteMonitor_deleteExclusionRoute os Q) Q config st)"

definition WireguardUtilsLinux_updateRoutePrefix ::
  "'w os \<Rightarrow> Qt \<Rightarrow> IPAddress \<Rightarrow> 'w LinuxState action"
where
  "WireguardUtilsLinux_updateRoutePrefix os Q prefix =
     with_monitor (\<lambda>mon.
       if m_prefixLength prefix > 0 then LinuxRouteMonitor_insertRoute os Q prefix mon
       else if IPAddress_type prefix = IPv4Protocol then
         require (with_monitor (LinuxRouteMonitor_insertRoute os Q (IPAddress_ofString Q ''0.0.0.0/1'')))
           (with_monitor (LinuxRouteMonitor_insertRoute os Q (IPAddress_ofString Q ''128.0.0.0/1'')))
       else if IPAddress_type prefix = IPv6Protocol then
         require (with_monitor (LinuxRouteMonitor_insertRoute os Q (IPAddress_ofString Q ''::/1'')))
           (with_monitor (LinuxRouteMonitor_insertRoute os Q (IPAddress_ofString Q ''8000::/1'')))
       else (\<lambda>st. (False, st)))"

definition WireguardUtilsLinux_deleteRoutePrefix ::
  "'w os \<Rightarrow> Qt \<Rightarrow> IPAddress \<Rightarrow> 'w LinuxState action"
where
  "WireguardUtilsLinux_deleteRoutePrefix os Q prefix =
     with_monitor (\<lambda>mon.
       if m_prefixLength prefix > 0 then LinuxRouteMonitor_insertRoute os Q prefix mon
       else if IPAddress_type prefix = IPv4Protocol then
         require (with_monitor (LinuxRouteMonitor_deleteRoute os Q (IPAddress_ofString Q ''0.0.0.0/1'')))
           (with_monitor (LinuxRouteMonitor_deleteRoute os Q (IPAddress_ofString Q ''128.0.0.0/1'')))
       else if IPAddress_type prefix = IPv6Protocol then
         require (with_monitor (LinuxRouteMonitor_deleteRoute os Q (IPAddress_ofString Q ''::/1'')))
           (with_monitor (LinuxRouteMonitor_deleteRoute os Q (IPAddress_ofString Q ''8000::/1'')))
       else (\<lambda>st. (False, st)))"

definition WireguardUtilsLinux_addExclusionRoute ::
  "'w os \<Rightarrow> Qt \<Rightarrow> IPAddress \<Rightarrow> 'w LinuxState action"
where
  "WireguardUtilsLinux_addExclusionRoute os Q prefix =
     with_monitor (LinuxRouteMonitor_addExclusionRoute os Q prefix)"

definition WireguardUtilsLinux_deleteExclusionRoute ::
  "'w os \<Rightarrow> Qt \<Rightarrow> IPAddress \<Rightarrow> 'w LinuxState action"
where
  "WireguardUtilsLinux_deleteExclusionRoute os Q prefix =
     with_monitor (LinuxRouteMonitor_deleteExclusionRoute os Q prefix)"

text \<open>The platform of \<open>LinuxDaemon\<close>; \<open>run\<close> and \<open>prepareActivation\<close> keep their default bodies.\<close>

definition LinuxDaemon_platform :: "'w os \<Rightarrow> Qt \<Rightarrow> 'w LinuxState platform" where
  "LinuxDaemon_platform os Q =
     \<lparr>wg_interfaceExists = (\<lambda>st. os_tunnelState os (world st) = Running),
      wg_interfaceName = m_ifname,
      wg_addInterface = WireguardUtilsLinux_addInterface os Q,
      wg_deleteInterface = WireguardUtilsLinux_deleteInterface os,
      wg_updatePeer = WireguardUtilsLinux_updatePeer os Q,
      wg_deletePeer = WireguardUtilsLinux_deletePeer os Q,
      wg_getPeerStatus = WireguardUtilsLinux_getPeerStatus os Q,
      wg_updateRoutePrefix = WireguardUtilsLinux_updateRoutePrefix os Q,
      wg_deleteRoutePrefix = WireguardUtilsLinux_deleteRoutePrefix os Q,
      wg_addExclusionRoute = WireguardUtilsLinux_addExclusionRoute os Q,
      wg_deleteExclusionRoute = WireguardUtilsLinux_deleteExclusionRoute os Q,
      supportDnsUtils = True,
      dns_updateResolvers = DnsUtilsLinux_updateResolvers os,
      dns_restoreResolvers = DnsUtilsLinux_restoreResolvers os,
      supportIPUtils = True,
      ip_addInterfaceIPs = IPUtilsLinux_addInterfaceIPs os Q,
      ip_setMTUAndUp = IPUtilsLinux_setMTUAndUp os,
      daemon_run = (\<lambda>op config. skip),
      prepareActivation = (\<lambda>config st. st)\<rparr>"

section \<open>The filter of the kill switch\<close>

lemma anchor_names [simp]:
  "anchorChain a = anchorChain b \<longleftrightarrow> a = b" "actualChain a = actualChain b \<longleftrightarrow> a = b"
  "anchorChain a = actualChain b \<longleftrightarrow> b = ''a.'' @ a" "actualChain b = anchorChain a \<longleftrightarrow> b = ''a.'' @ a"
  "kRootChain = anchorChain a \<longleftrightarrow> False" "kRootChain = actualChain b \<longleftrightarrow> b = ''anchors''"
  "kOutputChain = anchorChain a \<longleftrightarrow> False" "kOutputChain = actualChain b \<longleftrightarrow> False"
  "anchorChain a \<noteq> ''ACCEPT''" "anchorChain a \<noteq> ''REJECT''"
  "actualChain a \<noteq> ''ACCEPT''" "actualChain a \<noteq> ''REJECT''"
  "kRootChain \<noteq> ''ACCEPT''" "kRootChain \<noteq> ''REJECT''"
  by (auto simp: anchorChain_def actualChain_def kAnchorName_def kRootChain_def kOutputChain_def)

lemma update_chain_names:
  "kAnchorName @ ''.320.allowDNS'' = actualChain ''320.allowDNS''"
  "kAnchorName @ ''.110.allowNets'' = actualChain ''110.allowNets''"
  "kAnchorName @ ''.120.blockNets'' = actualChain ''120.blockNets''"
  by (simp_all add: actualChain_def)

lemma installed_callbacks:
  "map_of (LinuxFirewall_installCallbacks []) (enabledKey kFilterTable a) = None"
  "map_of (LinuxFirewall_installCallbacks []) (disabledKey kFilterTable a) = None"
  by (simp_all add: LinuxFirewall_installCallbacks_def addCallback_def enabledKey_def disabledKey_def
      kFilterTable_def kMangleTable_def)

lemma verdict_terminal:
  assumes "v = ''ACCEPT'' \<or> v = ''REJECT''"
  shows "verdict_rules sub m (map (\<lambda>x. (x, v)) xs) = (if \<exists>x \<in> set xs. m x then Some v else None)"
  using assms by (induction xs) auto

lemma dns_rules_map:
  "LinuxFirewall_getDNSRules servers =
    map (\<lambda>x. (x, ''ACCEPT'')) (map fst (LinuxFirewall_getDNSRules servers))"
  by (induction servers) (simp_all add: LinuxFirewall_getDNSRules_def)

text \<open>One command at a time on the map of IPv4 filter chains.\<close>

lemma chains4_step:
  "chains4 (ipt_step (EnableAnchor IPv4 a kFilterTable) s) =
    (chains4 s)(anchorChain a := map_option (\<lambda>rs.
       if chains4 s (actualChain a) = None \<or> jump (actualChain a) \<in> set rs then rs
       else rs @ [jump (actualChain a)]) (chains4 s (anchorChain a)))"
  "chains4 (ipt_step (DisableAnchor IPv4 a kFilterTable) s) =
    (chains4 s)(anchorChain a := map_option (\<lambda>rs.
       if jump (actualChain a) \<in> set rs then [] else rs) (chains4 s (anchorChain a)))"
  "chains4 (ipt_step (LinkFirst IPv4 p c kFilterTable) s) =
    (chains4 s)(p := map_option (\<lambda>rs.
       if chains4 s c = None \<or> take 1 rs = [jump c] then rs else jump c # remove1 (jump c) rs)
       (chains4 s p))"
  by (simp_all add: chains4_update ipt_exists4)

definition installed :: ipt where
  "installed = ipt_run LinuxFirewall_install ipt_initial"

lemma installed_chains:
  "chains4 installed kOutputChain = Some [jump kRootChain]"
  "chains4 installed kRootChain = Some (map (\<lambda>e. jump (anchorChain (fst e))) filterAnchors4)"
  "e \<in> set filterAnchors4 \<Longrightarrow> chains4 installed (anchorChain (fst e)) = Some []"
  "e \<in> set filterAnchors4 \<Longrightarrow> chains4 installed (actualChain (fst e)) = Some (snd e)"
  using install_filter4
  by (auto simp: filterChains4_def list_all_iff installed_def chains4_def ball_Un)

lemma installed_anchors:
  "list_all (\<lambda>e. chains4 installed (anchorChain (fst e)) = Some [] \<and>
     chains4 installed (actualChain (fst e)) = Some (snd e)) filterAnchors4"
  by (simp add: list_all_iff installed_chains)

lemmas installed_each = installed_anchors [unfolded filterAnchors4_def filterAnchors_def, simplified]

definition protected :: "FirewallParams \<Rightarrow> ipt" where
  "protected params =
     ipt_run (WireguardUtilsLinux_firewallRules (LinuxFirewall_installCallbacks []) params) installed"

text \<open>
  The IPv4 filter chain a command writes.  Commands that neither create nor delete chains can be
  followed one chain at a time.
\<close>

fun target4 :: "fwcmd \<Rightarrow> string option" where
  "target4 (EnableAnchor ip a t) = (if ip = IPv4 \<and> t = kFilterTable then Some (anchorChain a) else None)"
| "target4 (DisableAnchor ip a t) = (if ip = IPv4 \<and> t = kFilterTable then Some (anchorChain a) else None)"
| "target4 (LinkFirst ip p c t) = (if ip = IPv4 \<and> t = kFilterTable then Some p else None)"
| "target4 (FlushChain c) = Some c"
| "target4 (AppendFilter c r) = Some c"
| "target4 _ = None"

fun soft :: "fwcmd \<Rightarrow> bool" where
  "soft (EnableAnchor ip a t) = True"
| "soft (DisableAnchor ip a t) = True"
| "soft (LinkFirst ip p c t) = True"
| "soft (FlushChain c) = True"
| "soft (AppendFilter c r) = True"
| "soft _ = False"

lemma chains4_step_filter:
  "chains4 (ipt_step (FlushChain c) s) = (chains4 s)(c := map_option (\<lambda>_. []) (chains4 s c))"
  "chains4 (ipt_step (AppendFilter c r) s) = (chains4 s)(c := map_option (\<lambda>rs. rs @ [r]) (chains4 s c))"
  by (simp_all add: chains4_update)

lemma soft_step_None: "soft cmd \<Longrightarrow> chains4 (ipt_step cmd s) x = None \<longleftrightarrow> chains4 s x = None"
  by (cases cmd) (simp_all add: chains4_update)

lemma soft_step_other:
  "soft cmd \<Longrightarrow> target4 cmd \<noteq> Some c \<Longrightarrow> chains4 (ipt_step cmd s) c = chains4 s c"
  by (cases cmd) (auto simp: chains4_update split: if_split_asm)

lemma soft_step_same:
  assumes "soft cmd" "chains4 s c = chains4 s' c"
    and eq: "\<And>x. chains4 s x = None \<longleftrightarrow> chains4 s' x = None"
  shows "chains4 (ipt_step cmd s) c = chains4 (ipt_step cmd s') c"
  using assms(1,2) by (cases cmd) (auto simp: chains4_update ipt_exists4 eq)

lemma soft_run:
  assumes "list_all soft cmds" "\<And>x. chains4 s x = None \<longleftrightarrow> chains4 s' x = None"
    "chains4 s c = chains4 s' c"
  shows "chains4 (ipt_run cmds s) c =
    chains4 (ipt_run (filter (\<lambda>cmd. target4 cmd = Some c) cmds) s') c"
  using assms
proof (induction cmds arbitrary: s s')
  case (Cons cmd cmds)
  have soft: "soft cmd" "list_all soft cmds" using Cons.prems(1) by simp_all
  show ?case
  proof (cases "target4 cmd = Some c")
    case True
    have "chains4 (ipt_step cmd s) c = chains4 (ipt_step cmd s') c"
      by (rule soft_step_same [OF soft(1) Cons.prems(3,2)])
    with Cons.IH [OF soft(2), of "ipt_step cmd s" "ipt_step cmd s'"] Cons.prems(2) True
    show ?thesis by (simp add: soft_step_None [OF soft(1)])
  next
    case False
    then have "chains4 (ipt_step cmd s) c = chains4 s' c"
      using soft_step_other [OF soft(1) False] Cons.prems(3) by simp
    with Cons.IH [OF soft(2), of "ipt_step cmd s" s'] Cons.prems(2) False
    show ?thesis by (simp add: soft_step_None [OF soft(1)])
  qed
qed simp

definition anchorCmd :: "IPVersion \<Rightarrow> string \<Rightarrow> bool \<Rightarrow> fwcmd" where
  "anchorCmd ip a e = (if e then EnableAnchor ip a kFilterTable else DisableAnchor ip a kFilterTable)"

lemma anchorCmd_props [simp]:
  "target4 (anchorCmd ip a e) = (if ip = IPv4 then Some (anchorChain a) else None)"
  "soft (anchorCmd ip a e)"
  by (simp_all add: anchorCmd_def)

lemma anchorCmd_step:
  assumes "chains4 s (anchorChain a) = Some []" "chains4 s (actualChain a) = Some rs"
  shows "chains4 (ipt_step (anchorCmd IPv4 a e) s) (anchorChain a) =
    Some (if e then [jump (actualChain a)] else [])"
  using assms by (simp add: anchorCmd_def chains4_step del: ipt_step.simps)

lemma setAnchor_cmds:
  "LinuxFirewall_setAnchorEnabled (LinuxFirewall_installCallbacks []) ip a e kFilterTable =
    (if ip = Both then [anchorCmd IPv4 a e, anchorCmd IPv6 a e] else [anchorCmd ip a e])"
  by (simp add: LinuxFirewall_setAnchorEnabled_def LinuxFirewall_enableAnchor_def
      LinuxFirewall_disableAnchor_def both_def installed_callbacks anchorCmd_def)

lemma firewall_cmds:
  "WireguardUtilsLinux_firewallRules (LinuxFirewall_installCallbacks []) params =
     [LinkFirst IPv4 kOutputChain kRootChain kFilterTable,
      LinkFirst IPv6 kOutputChain kRootChain kFilterTable,
      anchorCmd IPv4 ''000.allowLoopback'' True, anchorCmd IPv6 ''000.allowLoopback'' True,
      anchorCmd IPv4 ''100.blockAll'' (blockAll params), anchorCmd IPv6 ''100.blockAll'' (blockAll params),
      anchorCmd IPv4 ''110.allowNets'' (allowNets params)] @
     updateRules (actualChain ''110.allowNets'') (LinuxFirewall_getAllowRule (allowAddrs params)) @
     [anchorCmd IPv4 ''120.blockNets'' (blockNets params)] @
     updateRules (actualChain ''120.blockNets'') (LinuxFirewall_getBlockRule (blockAddrs params)) @
     [anchorCmd IPv4 ''200.allowVPN'' True, anchorCmd IPv6 ''250.blockIPv6'' True,
      anchorCmd IPv4 ''290.allowDHCP'' True, anchorCmd IPv6 ''290.allowDHCP'' True,
      anchorCmd IPv4 ''300.allowLAN'' True, anchorCmd IPv6 ''300.allowLAN'' True,
      anchorCmd IPv4 ''310.blockDNS'' True] @
     updateRules (actualChain ''320.allowDNS'') (LinuxFirewall_getDNSRules (dnsServers params)) @
     [anchorCmd IPv4 ''320.allowDNS'' True, anchorCmd IPv4 ''400.allowPIA'' True,
      anchorCmd IPv6 ''400.allowPIA'' True]"
  by (simp add: WireguardUtilsLinux_firewallRules_def setAnchor_cmds Let_def both_def
      LinuxFirewall_ensureRootAnchorPriority_def LinuxFirewall_linkChain_def
      LinuxFirewall_updateAllowNets_def LinuxFirewall_updateBlockNets_def
      LinuxFirewall_updateDNSServers_def update_chain_names)

lemma rules_soft: "list_all soft (WireguardUtilsLinux_firewallRules (LinuxFirewall_installCallbacks []) params)"
  by (simp add: firewall_cmds updateRules_def list_all_iff ball_Un)

lemma protected_chain:
  "chains4 (protected params) c =
    chains4 (ipt_run (filter (\<lambda>cmd. target4 cmd = Some c)
      (WireguardUtilsLinux_firewallRules (LinuxFirewall_installCallbacks []) params)) installed) c"
  unfolding protected_def by (rule soft_run [OF rules_soft]) simp_all

lemma filter_updateRules:
  "filter (\<lambda>cmd. target4 cmd = Some c) (updateRules c' rules) = (if c' = c then updateRules c rules else [])"
  by (simp add: updateRules_def filter_map comp_def)

lemma protected_anchorI:
  assumes "filter (\<lambda>cmd. target4 cmd = Some (anchorChain a))
      (WireguardUtilsLinux_firewallRules (LinuxFirewall_installCallbacks []) params) = [anchorCmd IPv4 a e]"
    and "chains4 installed (anchorChain a) = Some []" "chains4 installed (actualChain a) = Some rs"
  shows "chains4 (protected params) (anchorChain a) = Some (if e then [jump (actualChain a)] else [])"
  unfolding protected_chain assms(1) using anchorCmd_step [OF assms(2,3)] by simp

lemma protected_actualI:
  assumes "filter (\<lambda>cmd. target4 cmd = Some (actualChain a))
      (WireguardUtilsLinux_firewallRules (LinuxFirewall_installCallbacks []) params) = cmds"
    and "chains4 installed (actualChain a) = Some rs0"
    and "cmds = [] \<and> rs = rs0 \<or> cmds = updateRules (actualChain a) rs"
  shows "chains4 (protected params) (actualChain a) = Some rs"
  unfolding protected_chain assms(1) using assms(2,3) by (auto simp: chains4_updateRules)

lemma protected_allowLoopback:
  "chains4 (protected params) (anchorChain ''000.allowLoopback'') = Some (if True then [jump (actualChain ''000.allowLoopback'')] else [])"
  using protected_anchorI [of "''000.allowLoopback''" params "True"] installed_each
  by (simp add: firewall_cmds filter_updateRules)

lemma protected_allowDNS:
  "chains4 (protected params) (anchorChain ''320.allowDNS'') = Some (if True then [jump (actualChain ''320.allowDNS'')] else [])"
  using protected_anchorI [of "''320.allowDNS''" params "True"] installed_each
  by (simp add: firewall_cmds filter_updateRules)

lemma protected_blockDNS:
  "chains4 (protected params) (anchorChain ''310.blockDNS'') = Some (if True then [jump (actualChain ''310.blockDNS'')] else [])"
  using protected_anchorI [of "''310.blockDNS''" params "True"] installed_each
  by (simp add: firewall_cmds filter_updateRules)

lemma protected_allowLAN:
  "chains4 (protected params) (anchorChain ''300.allowLAN'') = Some (if True then [jump (actualChain ''300.allowLAN'')] else [])"
  using protected_anchorI [of "''300.allowLAN''" params "True"] installed_each
  by (simp add: firewall_cmds filter_updateRules)

lemma protected_allowDHCP:
  "chains4 (protected params) (anchorChain ''290.allowDHCP'') = Some (if True then [jump (actualChain ''290.allowDHCP'')] else [])"
  using protected_anchorI [of "''290.allowDHCP''" params "True"] installed_each
  by (simp add: firewall_cmds filter_updateRules)

lemma protected_allowVPN:
  "chains4 (protected params) (anchorChain ''200.allowVPN'') = Some (if True then [jump (actualChain ''200.allowVPN'')] else [])"
  using protected_anchorI [of "''200.allowVPN''" params "True"] installed_each
  by (simp add: firewall_cmds filter_updateRules)

lemma protected_blockNets:
  "chains4 (protected params) (anchorChain ''120.blockNets'') = Some (if blockNets params then [jump (actualChain ''120.blockNets'')] else [])"
  using protected_anchorI [of "''120.blockNets''" params "blockNets params"] installed_each
  by (simp add: firewall_cmds filter_updateRules)

lemma protected_allowNets:
  "chains4 (protected params) (anchorChain ''110.allowNets'') = Some (if allowNets params then [jump (actualChain ''110.allowNets'')] else [])"
  using protected_anchorI [of "''110.allowNets''" params "allowNets params"] installed_each
  by (simp add: firewall_cmds filter_updateRules)

lemma protected_blockAll:
  "chains4 (protected params) (anchorChain ''100.blockAll'') = Some (if blockAll params then [jump (actualChain ''100.blockAll'')] else [])"
  using protected_anchorI [of "''100.blockAll''" params "blockAll params"] installed_each
  by (simp add: firewall_cmds filter_updateRules)

text \<open>The chains with fixed rules are as installed, the other three hold the rules of the parameters.\<close>

lemma protected_rules_allowLoopback:
  "chains4 (protected params) (actualChain ''000.allowLoopback'') =
    Some [(''-o lo+'', ''ACCEPT'')]"
  using protected_actualI [of "''000.allowLoopback''" params] installed_each
  by (simp add: firewall_cmds filter_updateRules)

lemma protected_rules_blockDNS:
  "chains4 (protected params) (actualChain ''310.blockDNS'') =
    Some [(''-p udp --dport 53'', ''REJECT''), (''-p tcp --dport 53'', ''REJECT'')]"
  using protected_actualI [of "''310.blockDNS''" params] installed_each
  by (simp add: firewall_cmds filter_updateRules)

lemma protected_rules_allowLAN:
  "chains4 (protected params) (actualChain ''300.allowLAN'') =
    Some 
     [(''-d 10.0.0.0/8'', ''ACCEPT''), (''-d 169.254.0.0/16'', ''ACCEPT''),
      (''-d 172.16.0.0/12'', ''ACCEPT''), (''-d 192.168.0.0/16'', ''ACCEPT''),
      (''-d 224.0.0.0/4'', ''ACCEPT''), (''-d 255.255.255.255/32'', ''ACCEPT'')]"
  using protected_actualI [of "''300.allowLAN''" params] installed_each
  by (simp add: firewall_cmds filter_updateRules)

lemma protected_rules_allowDHCP:
  "chains4 (protected params) (actualChain ''290.allowDHCP'') =
    Some [(''-p udp -d 255.255.255.255 --sport 68 --dport 67'', ''ACCEPT'')]"
  using protected_actualI [of "''290.allowDHCP''" params] installed_each
  by (simp add: firewall_cmds filter_updateRules)

lemma protected_rules_allowVPN:
  "chains4 (protected params) (actualChain ''200.allowVPN'') =
    Some [(''-o amn0+'', ''ACCEPT''), (''-o tun0+'', ''ACCEPT'')]"
  using protected_actualI [of "''200.allowVPN''" params] installed_each
  by (simp add: firewall_cmds filter_updateRules)

lemma protected_rules_blockAll:
  "chains4 (protected params) (actualChain ''100.blockAll'') =
    Some [([], ''REJECT'')]"
  using protected_actualI [of "''100.blockAll''" params] installed_each
  by (simp add: firewall_cmds filter_updateRules)

lemma protected_rules_allowDNS:
  "chains4 (protected params) (actualChain ''320.allowDNS'') = Some (LinuxFirewall_getDNSRules (dnsServers params))"
  by (rule protected_actualI [OF refl])
    (simp_all add: firewall_cmds filter_updateRules installed_each)

lemma protected_rules_blockNets:
  "chains4 (protected params) (actualChain ''120.blockNets'') = Some (LinuxFirewall_getBlockRule (blockAddrs params))"
  by (rule protected_actualI [OF refl])
    (simp_all add: firewall_cmds filter_updateRules installed_each)

lemma protected_rules_allowNets:
  "chains4 (protected params) (actualChain ''110.allowNets'') = Some (LinuxFirewall_getAllowRule (allowAddrs params))"
  by (rule protected_actualI [OF refl])
    (simp_all add: firewall_cmds filter_updateRules installed_each)

lemma root_chain_names:
  "kOutputChain \<noteq> anchorChain a" "kOutputChain \<noteq> actualChain a" "kOutputChain \<noteq> kRootChain"
  "actualChain a = kRootChain \<longleftrightarrow> a = ''anchors''" "anchorChain a \<noteq> kRootChain"
  by (auto simp: kOutputChain_def kRootChain_def kAnchorName_def anchorChain_def actualChain_def)

lemma protected_output: "chains4 (protected params) kOutputChain = Some [jump kRootChain]"
  unfolding protected_chain
  using installed_chains(1,2)
  by (simp add: firewall_cmds filter_updateRules root_chain_names not_sym [OF root_chain_names(1)]
      not_sym [OF root_chain_names(2)] chains4_step del: ipt_step.simps)

lemma protected_root:
  "chains4 (protected params) kRootChain = Some (map (\<lambda>e. jump (anchorChain (fst e))) filterAnchors4)"
  unfolding protected_chain
  using installed_chains(2)
  by (simp add: firewall_cmds filter_updateRules root_chain_names)

text \<open>The verdict of a chain that only accepts or rejects, and of an anchor in front of it.\<close>

lemma chains4_rules: "chains4 s c = Some rs \<Longrightarrow> ipt_rules s (IPv4, kFilterTable, c) = rs"
  by (simp add: ipt_rules4)

lemma verdict_leaf:
  assumes "list_all (\<lambda>r. snd r = ''ACCEPT'' \<or> snd r = ''REJECT'') rs"
  shows "verdict_rules sub m rs = verdict_rules (\<lambda>_. None) m rs"
  using assms by (induction rs) auto

lemma verdict_anchor:
  assumes "m []" "chains4 s (anchorChain a) = Some (if e then [jump (actualChain a)] else [])"
    and "chains4 s (actualChain a) = Some rs"
    and "list_all (\<lambda>r. snd r = ''ACCEPT'' \<or> snd r = ''REJECT'') rs"
  shows "verdict (Suc (Suc 0)) s IPv4 m (anchorChain a) = (if e then verdict_rules (\<lambda>_. None) m rs else None)"
proof -
  have leaf: "verdict (Suc 0) s IPv4 m (actualChain a) = verdict_rules (\<lambda>_. None) m rs"
    by (simp add: chains4_rules [OF assms(3)] verdict_leaf [OF assms(4), of "verdict 0 s IPv4 m"])
  have "actualChain a \<noteq> ''ACCEPT''" "actualChain a \<noteq> ''REJECT''"
    by (simp_all add: actualChain_def kAnchorName_def)
  with assms(1) leaf show ?thesis
    by (simp add: chains4_rules [OF assms(2)] jump_def del: verdict.simps(2) split: option.split)
      (simp add: verdict.simps(2) [of "Suc 0"] chains4_rules [OF assms(2)] jump_def del: verdict.simps(2) split: option.split)
qed

text \<open>The decision list of the kill switch: the first group that matches the packet decides.\<close>

definition killswitch :: "FirewallParams \<Rightarrow> (string \<Rightarrow> bool) \<Rightarrow> string option" where
  "killswitch params m =
     (let hit = \<lambda>rules. \<exists>r \<in> set rules. m (fst r)
      in if m ''-o lo+'' then Some ''ACCEPT''
         else if hit (LinuxFirewall_getDNSRules (dnsServers params)) then Some ''ACCEPT''
         else if m ''-p udp --dport 53'' \<or> m ''-p tcp --dport 53'' then Some ''REJECT''
         else if \<exists>net \<in> {''10.0.0.0/8'', ''169.254.0.0/16'', ''172.16.0.0/12'', ''192.168.0.0/16'',
                ''224.0.0.0/4'', ''255.255.255.255/32''}. m (''-d '' @ net) then Some ''ACCEPT''
         else if m ''-p udp -d 255.255.255.255 --sport 68 --dport 67'' then Some ''ACCEPT''
         else if m ''-o amn0+'' \<or> m ''-o tun0+'' then Some ''ACCEPT''
         else if blockNets params \<and> hit (LinuxFirewall_getBlockRule (blockAddrs params)) then Some ''REJECT''
         else if allowNets params \<and> hit (LinuxFirewall_getAllowRule (allowAddrs params)) then Some ''ACCEPT''
         else if blockAll params then Some ''REJECT'' else None)"

lemma verdict_uniform:
  assumes "list_all (\<lambda>r. snd r = v) rs" "v = ''ACCEPT'' \<or> v = ''REJECT''"
  shows "verdict_rules sub m rs = (if \<exists>r \<in> set rs. m (fst r) then Some v else None)"
  using assms by (induction rs) auto

lemma rule_targets:
  "list_all (\<lambda>r. snd r = ''ACCEPT'') (LinuxFirewall_getDNSRules servers)"
  "list_all (\<lambda>r. snd r = ''ACCEPT'') (LinuxFirewall_getAllowRule servers)"
  "list_all (\<lambda>r. snd r = ''REJECT'') (LinuxFirewall_getBlockRule servers)"
  by (simp_all add: list_all_iff LinuxFirewall_getDNSRules_def LinuxFirewall_getAllowRule_def
      LinuxFirewall_getBlockRule_def)

lemma anchor_uniform:
  assumes "m []" "chains4 s (anchorChain a) = Some (if e then [jump (actualChain a)] else [])"
    and "chains4 s (actualChain a) = Some rs"
    and "list_all (\<lambda>r. snd r = v) rs" "v = ''ACCEPT'' \<or> v = ''REJECT''"
  shows "verdict (Suc (Suc 0)) s IPv4 m (anchorChain a) =
    (if e \<and> (\<exists>r \<in> set rs. m (fst r)) then Some v else None)"
proof -
  have "list_all (\<lambda>r. snd r = ''ACCEPT'' \<or> snd r = ''REJECT'') rs"
    using assms(4,5) by (auto simp: list_all_iff)
  from verdict_anchor [of m, OF assms(1-3) this] show ?thesis
    by (simp add: verdict_uniform [OF assms(4,5)])
qed

lemma verdict_jump:
  "m [] \<Longrightarrow> verdict_rules sub m (jump (anchorChain a) # rs) =
    (case sub (anchorChain a) of None \<Rightarrow> verdict_rules sub m rs | Some v \<Rightarrow> Some v)"
  by (simp add: jump_def anchorChain_def kAnchorName_def)

declare verdict.simps(2) [simp del] verdict_rules.simps(2) [simp del]

lemmas verdict_allowLoopback =
  anchor_uniform [where v = "''ACCEPT''", OF _ protected_allowLoopback protected_rules_allowLoopback, simplified rule_targets list.pred_inject, simplified]

lemmas verdict_allowDNS =
  anchor_uniform [where v = "''ACCEPT''", OF _ protected_allowDNS protected_rules_allowDNS, simplified rule_targets list.pred_inject, simplified]

lemmas verdict_blockDNS =
  anchor_uniform [where v = "''REJECT''", OF _ protected_blockDNS protected_rules_blockDNS, simplified rule_targets list.pred_inject, simplified]

lemmas verdict_allowLAN =
  anchor_uniform [where v = "''ACCEPT''", OF _ protected_allowLAN protected_rules_allowLAN, simplified rule_targets list.pred_inject, simplified]

lemmas verdict_allowDHCP =
  anchor_uniform [where v = "''ACCEPT''", OF _ protected_allowDHCP protected_rules_allowDHCP, simplified rule_targets list.pred_inject, simplified]

lemmas verdict_allowVPN =
  anchor_uniform [where v = "''ACCEPT''", OF _ protected_allowVPN protected_rules_allowVPN, simplified rule_targets list.pred_inject, simplified]

lemmas verdict_blockNets =
  anchor_uniform [where v = "''REJECT''", OF _ protected_blockNets protected_rules_blockNets, simplified rule_targets list.pred_inject, simplified]

lemmas verdict_allowNets =
  anchor_uniform [where v = "''ACCEPT''", OF _ protected_allowNets protected_rules_allowNets, simplified rule_targets list.pred_inject, simplified]

lemmas verdict_blockAll =
  anchor_uniform [where v = "''REJECT''", OF _ protected_blockAll protected_rules_blockAll, simplified rule_targets list.pred_inject, simplified]

lemmas verdict_anchors =
  verdict_allowLoopback verdict_allowDNS verdict_blockDNS verdict_allowLAN verdict_allowDHCP verdict_allowVPN verdict_blockNets verdict_allowNets verdict_blockAll

lemma case_if_Some:
  "(case if b then Some v else None of None \<Rightarrow> x | Some w \<Rightarrow> Some w) = (if b then Some v else x)"
  by simp

lemma output_verdict:
  assumes "m []"
  shows "verdict 4 (protected params) IPv4 m kOutputChain = killswitch params m"
proof -
  have root_target: "kRootChain \<noteq> ''ACCEPT''" "kRootChain \<noteq> ''REJECT''"
    by (simp_all add: kRootChain_def kAnchorName_def)
  have root: "verdict 4 (protected params) IPv4 m kOutputChain =
      verdict_rules (verdict (Suc (Suc 0)) (protected params) IPv4 m) m
        (map (\<lambda>e. jump (anchorChain (fst e))) filterAnchors4)"
    using assms root_target
    by (simp add: numeral_eq_Suc verdict.simps(2) [of "Suc (Suc (Suc 0))"] verdict.simps(2) [of "Suc (Suc 0)"]
        chains4_rules [OF protected_output] chains4_rules [OF protected_root]
        jump_def verdict_rules.simps(2) split: option.split)
  show ?thesis
    unfolding root filterAnchors4_def filterAnchors_def
    using assms
    by (simp add: verdict_jump verdict_anchors case_if_Some killswitch_def Let_def
        split del: if_split cong: if_cong)
qed

end
