(* ===== verification/Linux_Props.thy ===== *)
theory Linux_Props
  imports Wireguard_Linux
begin

text \<open>
  Properties of the Linux backend: the packet filter of the kill switch, the control protocol of the
  tunnel process, and the netlink messages the route methods send.
\<close>

section \<open>The kill switch\<close>

text \<open>
  C2: On a machine where the firewall was just installed, the commands of \<open>applyFirewallRules\<close>
  filter outgoing IPv4 packets by one decision list: loopback and the tunnel's DNS servers pass,
  other DNS is rejected, local networks, DHCP and the tunnel interfaces pass, then the blocked and
  the allowed networks are looked up, and with \<open>blockAll\<close> everything else is rejected.
\<close>

theorem killswitch_decides:
  assumes "m []"
  shows "verdict 4 (ipt_run (LinuxFirewall_install @
      WireguardUtilsLinux_firewallRules (LinuxFirewall_installCallbacks []) params) ipt_initial)
    IPv4 m kOutputChain = killswitch params m"
  using output_verdict [of m params, OF assms] by (simp add: protected_def installed_def)

text \<open>A packet for a public address that leaves by the physical interface: no rule text matches it.\<close>

theorem killswitch_decides_witness:
  "verdict 4 (ipt_run (LinuxFirewall_install @ WireguardUtilsLinux_firewallRules (LinuxFirewall_installCallbacks [])
      \<lparr>dnsServers = [''1.1.1.1''], allowAddrs = [''5.5.5.5''], blockAddrs = [],
       blockAll = True, allowNets = True, blockNets = False\<rparr>) ipt_initial)
    IPv4 (\<lambda>t. t = []) kOutputChain = Some ''REJECT'' \<and>
   verdict 4 (ipt_run (LinuxFirewall_install @ WireguardUtilsLinux_firewallRules (LinuxFirewall_installCallbacks [])
      \<lparr>dnsServers = [''1.1.1.1''], allowAddrs = [''5.5.5.5''], blockAddrs = [],
       blockAll = True, allowNets = True, blockNets = False\<rparr>) ipt_initial)
    IPv4 (\<lambda>t. t = [] \<or> t = ''-d 5.5.5.5'') kOutputChain = Some ''ACCEPT''"
  by (intro conjI; subst killswitch_decides;
      simp add: killswitch_def LinuxFirewall_getDNSRules_def LinuxFirewall_getAllowRule_def)

section \<open>The control protocol\<close>

text \<open>
  The padding loop of \<open>uapiCommand\<close> ends after at most two rounds: the message sent is the
  command followed by at most two newlines, and ends in an empty line.
\<close>

theorem uapiMessage_terminated:
  "endsWith [newline, newline] (uapiMessage command) \<and>
   (\<exists>n \<le> 2. uapiMessage command = command @ replicate n newline)"
proof -
  have "endsWith [newline, newline] (command @ [newline, newline])" by simp
  then have two: "uapiMessage (command @ [newline, newline]) = command @ [newline, newline]"
    by (subst uapiMessage.simps) simp
  consider (none) "endsWith [newline, newline] command"
    | (one) "\<not> endsWith [newline, newline] command" "endsWith [newline, newline] (command @ [newline])"
    | (two) "\<not> endsWith [newline, newline] command" "\<not> endsWith [newline, newline] (command @ [newline])"
    by blast
  then show ?thesis
  proof cases
    case none
    then have "uapiMessage command = command" by (subst uapiMessage.simps) simp
    with none show ?thesis by (intro conjI exI [of _ 0]) simp_all
  next
    case one
    then have "uapiMessage command = command @ [newline]"
      by (subst uapiMessage.simps, simp only: if_False, subst uapiMessage.simps) (simp only: if_True)
    with one show ?thesis by (intro conjI exI [of _ 1]) (simp_all only:, simp_all)
  next
    case two
    then have "uapiMessage command = command @ [newline, newline]"
      using \<open>uapiMessage (command @ [newline, newline]) = _\<close>
      by (subst uapiMessage.simps, simp only: if_False, subst uapiMessage.simps) simp
    then show ?thesis by (intro conjI exI [of _ 2]) (simp_all add: numeral_2_eq_2)
  qed
qed

lemma contains_sub_append: "contains_sub t s \<Longrightarrow> contains_sub t (s @ s')"
proof (induction s)
  case Nil
  then show ?case by (cases s') simp_all
next
  case (Cons c s)
  have "take (length t) (c # s @ s') = t" if take: "take (length t) (c # s) = t"
  proof -
    have "length t \<le> length (c # s)" using arg_cong [OF take, of length] by simp
    with take show ?thesis using take_append [of "length t" "c # s" s'] by simp
  qed
  with Cons show ?case by auto
qed

text \<open>
  \<open>uapiCommand\<close> returns a reply exactly when the chunks it reads contain an empty line, however
  the reply is cut into chunks; otherwise the result is the null string, which \<open>uapiErrno\<close> turns
  into \<open>EINVAL\<close>.
\<close>

theorem uapiReply_complete:
  "(uapiReply chunks [] \<noteq> None \<longleftrightarrow> contains_sub [newline, newline] (concat chunks)) \<and>
   WireguardUtilsLinux_uapiErrno Q None = EINVAL"
proof -
  have "uapiReply chunks reply \<noteq> None \<longleftrightarrow> contains_sub [newline, newline] (reply @ concat chunks)" for reply
  proof (induction chunks arbitrary: reply)
    case Nil
    show ?case by (simp add: uapiReply.simps)
  next
    case (Cons chunk chunks)
    show ?case
      using Cons contains_sub_append [of "[newline, newline]" reply "chunk @ concat chunks"]
      by (subst uapiReply.simps) simp
  qed
  then show ?thesis by (simp add: WireguardUtilsLinux_uapiErrno_def)
qed

section \<open>Routes\<close>

text \<open>What one call sends: nothing when it fails, one message when it succeeds.\<close>

definition route_message ::
  "'w os \<Rightarrow> nat \<Rightarrow> nat \<Rightarrow> nat \<Rightarrow> int \<Rightarrow> nat \<times> 8 word list \<times> 8 word \<Rightarrow> 'w \<Rightarrow> nlmsg"
where
  "route_message os action flags type seq ip w =
     (case ip of (family, dst, cidr) \<Rightarrow>
        (let msg = nlmsg_append_attr sizeof_buf RTA_DST dst (rtm_header os action flags type seq family cidr)
         in if type = RTN_UNICAST then rtm_tunnel (os_ifNameToIndex os WG_INTERFACE w) msg
            else if type = RTN_THROW then rtm_exclusion os w msg else msg))"

lemma rtmSendRoute_sent:
  "sent (snd (LinuxRouteMonitor_rtmSendRoute os Q action flags type prefix mon st)) = sent st @
    (if fst (LinuxRouteMonitor_rtmSendRoute os Q action flags type prefix mon st)
     then [route_message os action flags type (m_nlseq mon) (the (buildAllowedIp os Q prefix)) (world st)]
     else [])"
  by (auto simp: LinuxRouteMonitor_rtmSendRoute_def rtmDeliver_def route_message_def Let_def case_prod_unfold
      split: option.split)

lemma tunnel_message_type [simp]:
  "nlmsg_type (rtm_tunnel i msg) = nlmsg_type msg" "rtm_type (rtm_tunnel i msg) = rtm_type msg"
  "nlmsg_type (rtm_exclusion os w msg) = nlmsg_type msg"
  "rtm_type (rtm_exclusion os w msg) = RTN_UNICAST"
  "nlmsg_type (nlmsg_append_attr n t d msg) = nlmsg_type msg"
  "rtm_type (nlmsg_append_attr n t d msg) = rtm_type msg"
  by (simp_all add: rtm_tunnel_def rtm_exclusion_def nlmsg_append_attr32_def nlmsg_append_attr_def Let_def)

lemma route_message_action [simp]: "nlmsg_type (route_message os action flags type seq ip w) = action"
  by (simp add: route_message_def Let_def rtm_header_def split: prod.split)

text \<open>
  \<open>deleteRoutePrefix\<close> does not delete: for every prefix longer than zero it does exactly what
  \<open>updateRoutePrefix\<close> does, and each message it sends asks the kernel to insert a route.
\<close>

theorem deleteRoutePrefix_inserts:
  assumes "m_prefixLength prefix > 0"
  shows "WireguardUtilsLinux_deleteRoutePrefix os Q prefix st = WireguardUtilsLinux_updateRoutePrefix os Q prefix st \<and>
    (\<exists>msgs. sent (snd (WireguardUtilsLinux_deleteRoutePrefix os Q prefix st)) = sent st @ msgs \<and>
      list_all (\<lambda>msg. nlmsg_type msg = RTM_NEWROUTE) msgs)"
  using assms
  by (auto simp: WireguardUtilsLinux_deleteRoutePrefix_def WireguardUtilsLinux_updateRoutePrefix_def
      with_monitor_def LinuxRouteMonitor_insertRoute_def rtmSendRoute_sent split: option.split)

definition sample_state :: "nat LinuxState" where
  "sample_state =
     \<lparr>m_ifname = Some ''amn0'',
      m_rtmonitor = Some \<lparr>m_rtifname = Some ''amn0'', m_nlsock = 3, m_nlseq = 0\<rparr>,
      anchorCallbacks = [], m_dnsIfindex = 0, m_linkDomains = [], sent = [], world = 1\<rparr>"

theorem deleteRoutePrefix_inserts_witness:
  "WireguardUtilsLinux_deleteRoutePrefix sample_os sample_qt
     net_64 sample_state =
   WireguardUtilsLinux_updateRoutePrefix sample_os sample_qt
     net_64 sample_state"
proof -
  have "m_prefixLength net_64 > 0" by (simp add: net_64_def)
  from deleteRoutePrefix_inserts [OF this] show ?thesis by blast
qed

text \<open>
  An exclusion route: \<open>addExclusionRoute\<close> reports success exactly when the kernel took a
  message that inserts a route of type unicast, and \<open>deleteExclusionRoute\<close> one that deletes it; a
  failed call sends nothing, and without a route monitor both fail and change nothing.
\<close>

theorem exclusion_routes_sent:
  assumes "f = (WireguardUtilsLinux_addExclusionRoute os Q, RTM_NEWROUTE) \<or>
    f = (WireguardUtilsLinux_deleteExclusionRoute os Q, RTM_DELROUTE)"
  shows "(m_rtmonitor st = None \<longrightarrow> fst f prefix st = (False, st)) \<and>
    (\<not> fst (fst f prefix st) \<longrightarrow> sent (snd (fst f prefix st)) = sent st) \<and>
    (fst (fst f prefix st) \<longrightarrow> (\<exists>msg. sent (snd (fst f prefix st)) = sent st @ [msg] \<and>
      nlmsg_type msg = snd f \<and> rtm_type msg = RTN_UNICAST))"
proof -
  have type: "rtm_type (route_message os action flags RTN_THROW seq ip w) = RTN_UNICAST" for action flags seq ip w
    by (simp add: route_message_def Let_def netlink_constants split: prod.split)
  show ?thesis
    using assms
    by (auto simp: WireguardUtilsLinux_addExclusionRoute_def WireguardUtilsLinux_deleteExclusionRoute_def
        with_monitor_def LinuxRouteMonitor_addExclusionRoute_def LinuxRouteMonitor_deleteExclusionRoute_def
        rtmSendRoute_sent type split: option.splits)
qed

theorem exclusion_routes_sent_witness:
  "\<exists>msg. sent (snd (WireguardUtilsLinux_addExclusionRoute sample_os sample_qt
       net_64 sample_state)) = [msg] \<and>
     nlmsg_type msg = RTM_NEWROUTE \<and> rtm_type msg = RTN_UNICAST"
proof -
  have "fst (WireguardUtilsLinux_addExclusionRoute sample_os sample_qt
       net_64 sample_state)"
    by (simp add: WireguardUtilsLinux_addExclusionRoute_def with_monitor_def sample_state_def
        LinuxRouteMonitor_addExclusionRoute_def LinuxRouteMonitor_rtmSendRoute_def buildAllowedIp_def
        net_64_def IPAddress_type_def sample_os_def rtmDeliver_def netlink_constants Let_def)
  moreover have "sent sample_state = []" by (simp add: sample_state_def)
  ultimately show ?thesis
    using exclusion_routes_sent [of "(WireguardUtilsLinux_addExclusionRoute sample_os sample_qt, RTM_NEWROUTE)"
        sample_os sample_qt sample_state net_64]
    by simp
qed

end
