(* ===== verification/Service_Router.thy ===== *)
theory Service_Router
  imports Vpn_Connection Linux_Props
begin

text \<open>
  The privileged service on Linux: \<open>service/server/router_linux.cpp\<close> (the routes and the tunnel
  device), \<open>service/server/router.cpp\<close> (its facade) and \<open>ipc/ipcserver.cpp\<close> (the calls the client
  makes over the local socket).

  \<open>router_os\<close> holds what these files use of the system beyond the record \<open>os\<close>: the route
  \<open>ioctl\<close>s, \<open>inet_addr\<close>, processes, the netlink socket, local servers and the logger.  An
  undefined shift in \<open>netMaskFromIpWithSubnet\<close> is the result \<open>None\<close> of the route operations.
  The static instance of \<open>RouterLinux\<close> and the members of \<open>IpcServer\<close> form one record; the static
  callbacks of the firewall and the members of \<open>DnsUtilsLinux\<close> are in its \<open>linux\<close> component.
\<close>

section \<open>The state of the service\<close>

record rtentry =
  rt_gateway :: "32 word"
  rt_dst :: "32 word"
  rt_genmask :: "32 word"

datatype route_ioctl = SIOCADDRT rtentry | SIOCDELRT rtentry

datatype logger_call = Logger_init bool | Logger_deInit | Logger_cleanUp | Logger_clearLogs bool

text \<open>The \<open>RTM_DELLINK\<close> request of \<open>deleteTun\<close>: its length and the name attribute.\<close>

record dellink =
  dl_len :: nat
  dl_name :: "8 word list"

record 'w router_os =
  ro_inet_addr :: "string \<Rightarrow> 32 word"
  ro_ioctl :: "route_ioctl \<Rightarrow> 'w \<Rightarrow> int \<times> 'w"
  ro_exists :: "string \<Rightarrow> 'w \<Rightarrow> bool"
  ro_start :: "string \<Rightarrow> string list \<Rightarrow> 'w \<Rightarrow> 'w"
  ro_sudo :: "string list \<Rightarrow> 'w \<Rightarrow> (bool \<times> bool) \<times> 'w"
  ro_rtnl :: "'w \<Rightarrow> int"
  ro_send :: "dellink \<Rightarrow> 'w \<Rightarrow> int \<times> 'w"
  ro_past_end :: "'w \<Rightarrow> 8 word list"
  ro_listen :: "string \<Rightarrow> 'w \<Rightarrow> bool \<times> 'w"
  ro_logger :: "logger_call \<Rightarrow> 'w \<Rightarrow> 'w"

record 'w IpcServer =
  linux :: "'w LinuxState"
  m_addedRoutes :: "(string \<times> string) list"
  m_localpid :: int
  m_processes :: "(int \<times> unit) list"
  m_pendingCleanClose :: "string list"

definition IpcServer_new :: "'w LinuxState \<Rightarrow> 'w IpcServer" where
  "IpcServer_new l =
     \<lparr>linux = l, m_addedRoutes = [], m_localpid = 0, m_processes = [], m_pendingCleanClose = []\<rparr>"

definition sworld :: "'w IpcServer \<Rightarrow> 'w" where
  "sworld st = world (linux st)"

definition set_world :: "'w \<Rightarrow> 'w IpcServer \<Rightarrow> 'w IpcServer" where
  "set_world w st = st\<lparr>linux := (linux st)\<lparr>world := w\<rparr>\<rparr>"

section \<open>Routes\<close>

text \<open>The kernel's view of a route: the three addresses, when the mask is defined.\<close>

definition route_entry :: "Qt \<Rightarrow> 'w router_os \<Rightarrow> string \<Rightarrow> string \<Rightarrow> rtentry option" where
  "route_entry Q ro ipWithSubnet gw =
     map_option (\<lambda>mask.
         \<lparr>rt_gateway = ro_inet_addr ro gw,
          rt_dst = ro_inet_addr ro (NetworkUtilities_ipAddressFromIpWithSubnet ipWithSubnet),
          rt_genmask = ro_inet_addr ro mask\<rparr>)
       (NetworkUtilities_netMaskFromIpWithSubnet Q ipWithSubnet)"

definition RouterLinux_routeAdd ::
  "Qt \<Rightarrow> 'w router_os \<Rightarrow> string \<Rightarrow> string \<Rightarrow> 'w IpcServer \<Rightarrow> (bool \<times> 'w IpcServer) option"
where
  "RouterLinux_routeAdd Q ro ipWithSubnet gw st =
     (let ip = NetworkUtilities_ipAddressFromIpWithSubnet ipWithSubnet
      in case route_entry Q ro ipWithSubnet gw of
           None \<Rightarrow> None
         | Some route \<Rightarrow>
             if \<not> NetworkUtilities_checkIPv4Format Q ip \<or> \<not> NetworkUtilities_checkIPv4Format Q gw
             then Some (False, st)
             else
               (let (ret, w) = ro_ioctl ro (SIOCADDRT route) (sworld st); st = set_world w st
                in if ret < 0 then Some (False, st)
                   else Some (True, st\<lparr>m_addedRoutes := m_addedRoutes st @ [(ipWithSubnet, gw)]\<rparr>)))"

primrec count_calls ::
  "('a \<Rightarrow> 's \<Rightarrow> (bool \<times> 's) option) \<Rightarrow> 'a list \<Rightarrow> nat \<Rightarrow> 's \<Rightarrow> (nat \<times> 's) option"
where
  "count_calls f [] cnt st = Some (cnt, st)"
| "count_calls f (x # xs) cnt st =
     (case f x st of
        None \<Rightarrow> None
      | Some (ok, st) \<Rightarrow> count_calls f xs (if ok then cnt + 1 else cnt) st)"

definition RouterLinux_routeAddList ::
  "Qt \<Rightarrow> 'w router_os \<Rightarrow> string \<Rightarrow> string list \<Rightarrow> 'w IpcServer \<Rightarrow> (nat \<times> 'w IpcServer) option"
where
  "RouterLinux_routeAddList Q ro gw ips st =
     count_calls (\<lambda>ip. RouterLinux_routeAdd Q ro ip gw) ips 0 st"

definition RouterLinux_routeDelete ::
  "Qt \<Rightarrow> 'w router_os \<Rightarrow> string \<Rightarrow> string \<Rightarrow> 'w IpcServer \<Rightarrow> (bool \<times> 'w IpcServer) option"
where
  "RouterLinux_routeDelete Q ro ipWithSubnet gw st =
     (let ip = NetworkUtilities_ipAddressFromIpWithSubnet ipWithSubnet
      in case route_entry Q ro ipWithSubnet gw of
           None \<Rightarrow> None
         | Some route \<Rightarrow>
             if \<not> NetworkUtilities_checkIPv4Format Q ip \<or> \<not> NetworkUtilities_checkIPv4Format Q gw
             then Some (False, st)
             else if ipWithSubnet = ''0.0.0.0/0'' then Some (True, st)
             else
               (let (ret, w) = ro_ioctl ro (SIOCDELRT route) (sworld st)
                in Some (\<not> ret < 0, set_world w st)))"

definition RouterLinux_clearSavedRoutes ::
  "Qt \<Rightarrow> 'w router_os \<Rightarrow> 'w IpcServer \<Rightarrow> (bool \<times> 'w IpcServer) option"
where
  "RouterLinux_clearSavedRoutes Q ro st =
     map_option (\<lambda>(cnt, st). (cnt = length (m_addedRoutes st), st\<lparr>m_addedRoutes := []\<rparr>))
       (count_calls (\<lambda>(dst, gw). RouterLinux_routeDelete Q ro dst gw) (m_addedRoutes st) 0 st)"

definition RouterLinux_routeDeleteList ::
  "Qt \<Rightarrow> 'w router_os \<Rightarrow> string \<Rightarrow> string list \<Rightarrow> 'w IpcServer \<Rightarrow> (bool \<times> 'w IpcServer) option"
where
  "RouterLinux_routeDeleteList Q ro gw ips st =
     map_option (\<lambda>(cnt, st). (cnt \<noteq> 0, st))
       (count_calls (\<lambda>ip. RouterLinux_routeDelete Q ro ip gw) ips 0 st)"

section \<open>DNS cache, tunnel device and IPv6\<close>

text \<open>\<open>QProcess::start\<close> with one text takes all of it as the name of the program.\<close>

definition RouterLinux_flushDns :: "'w router_os \<Rightarrow> 'w IpcServer \<Rightarrow> 'w IpcServer" where
  "RouterLinux_flushDns ro st =
     (let w = sworld st
      in set_world
           (ro_start ro
             (if ro_exists ro ''/usr/bin/nscd'' w \<or> ro_exists ro ''/usr/sbin/nscd'' w \<or>
                 ro_exists ro ''/usr/lib/systemd/system/nscd.service'' w
              then ''systemctl restart nscd'' else ''systemctl restart systemd-resolved'') [] w) st)"

text \<open>Commands run one after another; the first that does not start or does not finish ends the run.\<close>

primrec sudo_all :: "'w router_os \<Rightarrow> string list list \<Rightarrow> 'w IpcServer \<Rightarrow> bool \<times> 'w IpcServer" where
  "sudo_all ro [] st = (True, st)"
| "sudo_all ro (cmd # rest) st =
     (let ((started, finished), w) = ro_sudo ro cmd (sworld st); st = set_world w st
      in if \<not> started then (False, st)
         else if \<not> finished then (False, st)
         else sudo_all ro rest st)"

definition RouterLinux_createTun ::
  "'w router_os \<Rightarrow> string \<Rightarrow> string \<Rightarrow> 'w IpcServer \<Rightarrow> bool \<times> 'w IpcServer"
where
  "RouterLinux_createTun ro dev subnet st =
     sudo_all ro
       [[''ip'', ''tuntap'', ''add'', ''mode'', ''tun'', ''dev'', dev],
        [''ip'', ''addr'', ''add'', subnet @ ''/24'', ''dev'', dev],
        [''ip'', ''link'', ''set'', ''dev'', dev, ''up'']] st"

definition IFNAMSIZ :: nat where "IFNAMSIZ = 16"
definition sizeof_ifinfomsg :: nat where "sizeof_ifinfomsg = 16"

text \<open>
  \<open>memcpy\<close> takes \<open>IFNAMSIZ\<close> bytes from a string that may be shorter: the bytes behind its
  terminator are whatever the memory holds.
\<close>

definition dellink_request :: "string \<Rightarrow> 8 word list \<Rightarrow> dellink" where
  "dellink_request dev past_end =
     \<lparr>dl_len = NLMSG_ALIGN (NLMSG_LENGTH sizeof_ifinfomsg) + (4 + IFNAMSIZ),
      dl_name = take IFNAMSIZ (map of_char dev @ [0] @ past_end)\<rparr>"

definition RouterLinux_deleteTun :: "'w router_os \<Rightarrow> string \<Rightarrow> 'w IpcServer \<Rightarrow> bool \<times> 'w IpcServer" where
  "RouterLinux_deleteTun ro dev st =
     (if ro_rtnl ro (sworld st) < 0 then (True, st)
      else
        (let req = dellink_request dev (ro_past_end ro (sworld st));
             (ret, w) = ro_send ro req (sworld st)
         in ((word_of_int ret :: 32 word) \<noteq> of_nat (dl_len req), set_world w st)))"

definition RouterLinux_updateResolvers ::
  "'w os \<Rightarrow> string \<Rightarrow> QHostAddress list \<Rightarrow> 'w IpcServer \<Rightarrow> bool \<times> 'w IpcServer"
where
  "RouterLinux_updateResolvers os ifname resolvers st =
     (let (ok, l) = DnsUtilsLinux_updateResolvers os (Some ifname) resolvers (linux st)
      in (ok, st\<lparr>linux := l\<rparr>))"

definition RouterLinux_StartRoutingIpv6 :: "'w router_os \<Rightarrow> 'w IpcServer \<Rightarrow> 'w IpcServer" where
  "RouterLinux_StartRoutingIpv6 ro st =
     snd (sudo_all ro
       [[''sysctl'', ''-w'', ''net.ipv6.conf.all.disable_ipv6=0''],
        [''sysctl'', ''-w'', ''net.ipv6.conf.default.disable_ipv6=0'']] st)"

definition RouterLinux_StopRoutingIpv6 :: "'w router_os \<Rightarrow> 'w IpcServer \<Rightarrow> 'w IpcServer" where
  "RouterLinux_StopRoutingIpv6 ro st =
     snd (sudo_all ro
       [[''sysctl'', ''-w'', ''net.ipv6.conf.all.disable_ipv6=1''],
        [''sysctl'', ''-w'', ''net.ipv6.conf.default.disable_ipv6=1'']] st)"

section \<open>The facade\<close>

definition Router_routeAddList ::
  "Qt \<Rightarrow> 'w router_os \<Rightarrow> string \<Rightarrow> string list \<Rightarrow> 'w IpcServer \<Rightarrow> (nat \<times> 'w IpcServer) option"
where
  "Router_routeAddList Q ro gw ips st = RouterLinux_routeAddList Q ro gw ips st"

definition Router_clearSavedRoutes ::
  "Qt \<Rightarrow> 'w router_os \<Rightarrow> 'w IpcServer \<Rightarrow> (bool \<times> 'w IpcServer) option"
where
  "Router_clearSavedRoutes Q ro st = RouterLinux_clearSavedRoutes Q ro st"

text \<open>The facade returns an \<open>int\<close>: the truth value of the router as 0 or 1.\<close>

definition Router_routeDeleteList ::
  "Qt \<Rightarrow> 'w router_os \<Rightarrow> string \<Rightarrow> string list \<Rightarrow> 'w IpcServer \<Rightarrow> (int \<times> 'w IpcServer) option"
where
  "Router_routeDeleteList Q ro gw ips st =
     map_option (\<lambda>(b, st). (if b then 1 else 0, st)) (RouterLinux_routeDeleteList Q ro gw ips st)"

definition Router_flushDns :: "'w router_os \<Rightarrow> 'w IpcServer \<Rightarrow> 'w IpcServer" where
  "Router_flushDns ro st = RouterLinux_flushDns ro st"

text \<open>Only Windows resets its IP stack.\<close>

definition Router_resetIpStack :: "'w IpcServer \<Rightarrow> 'w IpcServer" where
  "Router_resetIpStack st = st"

definition Router_createTun ::
  "'w router_os \<Rightarrow> string \<Rightarrow> string \<Rightarrow> 'w IpcServer \<Rightarrow> bool \<times> 'w IpcServer"
where
  "Router_createTun ro dev subnet st = RouterLinux_createTun ro dev subnet st"

definition Router_deleteTun :: "'w router_os \<Rightarrow> string \<Rightarrow> 'w IpcServer \<Rightarrow> bool \<times> 'w IpcServer" where
  "Router_deleteTun ro dev st = RouterLinux_deleteTun ro dev st"

definition Router_updateResolvers ::
  "'w os \<Rightarrow> string \<Rightarrow> QHostAddress list \<Rightarrow> 'w IpcServer \<Rightarrow> bool \<times> 'w IpcServer"
where
  "Router_updateResolvers os ifname resolvers st = RouterLinux_updateResolvers os ifname resolvers st"

definition Router_StopRoutingIpv6 :: "'w router_os \<Rightarrow> 'w IpcServer \<Rightarrow> 'w IpcServer" where
  "Router_StopRoutingIpv6 ro st = RouterLinux_StopRoutingIpv6 ro st"

definition Router_StartRoutingIpv6 :: "'w router_os \<Rightarrow> 'w IpcServer \<Rightarrow> 'w IpcServer" where
  "Router_StartRoutingIpv6 ro st = RouterLinux_StartRoutingIpv6 ro st"

lemmas Router_defs = Router_routeAddList_def Router_clearSavedRoutes_def Router_routeDeleteList_def
  Router_flushDns_def Router_resetIpStack_def Router_createTun_def Router_deleteTun_def
  Router_updateResolvers_def Router_StopRoutingIpv6_def Router_StartRoutingIpv6_def

section \<open>The calls of the client\<close>

definition getIpcProcessUrl :: "int \<Rightarrow> string" where
  "getIpcProcessUrl pid = ''/tmp/local:ZloVpnIpcInterface_'' @ number pid"

text \<open>A process descriptor is kept by its key only: its remote objects are not modelled.\<close>

definition IpcServer_createPrivilegedProcess :: "'w router_os \<Rightarrow> 'w IpcServer \<Rightarrow> int \<times> 'w IpcServer" where
  "IpcServer_createPrivilegedProcess ro st =
     (let pid = m_localpid st + 1; st = st\<lparr>m_localpid := pid\<rparr>;
          (ok, w) = ro_listen ro (getIpcProcessUrl pid) (sworld st); st = set_world w st
      in if \<not> ok then (-1, st)
         else (pid, st\<lparr>m_processes := qmap_insert pid () (m_processes st)\<rparr>))"

definition IpcServer_routeAddList ::
  "Qt \<Rightarrow> 'w router_os \<Rightarrow> string \<Rightarrow> string list \<Rightarrow> 'w IpcServer \<Rightarrow> (nat \<times> 'w IpcServer) option"
where
  "IpcServer_routeAddList Q ro gw ips st = Router_routeAddList Q ro gw ips st"

definition IpcServer_clearSavedRoutes ::
  "Qt \<Rightarrow> 'w router_os \<Rightarrow> 'w IpcServer \<Rightarrow> (bool \<times> 'w IpcServer) option"
where
  "IpcServer_clearSavedRoutes Q ro st = Router_clearSavedRoutes Q ro st"

definition IpcServer_routeDeleteList ::
  "Qt \<Rightarrow> 'w router_os \<Rightarrow> string \<Rightarrow> string list \<Rightarrow> 'w IpcServer \<Rightarrow> (bool \<times> 'w IpcServer) option"
where
  "IpcServer_routeDeleteList Q ro gw ips st =
     map_option (\<lambda>(n, st). (n \<noteq> 0, st)) (Router_routeDeleteList Q ro gw ips st)"

definition IpcServer_flushDns :: "'w router_os \<Rightarrow> 'w IpcServer \<Rightarrow> 'w IpcServer" where
  "IpcServer_flushDns ro st = Router_flushDns ro st"

definition IpcServer_resetIpStack :: "'w IpcServer \<Rightarrow> 'w IpcServer" where
  "IpcServer_resetIpStack st = Router_resetIpStack st"

text \<open>The TAP driver exists on Windows only.\<close>

definition IpcServer_checkAndInstallDriver :: bool where
  "IpcServer_checkAndInstallDriver = True"

definition IpcServer_getTapList :: "string list" where
  "IpcServer_getTapList = []"

definition logger_calls :: "'w router_os \<Rightarrow> logger_call list \<Rightarrow> 'w IpcServer \<Rightarrow> 'w IpcServer" where
  "logger_calls ro cs st = set_world (fold (ro_logger ro) cs (sworld st)) st"

definition IpcServer_cleanUp :: "'w router_os \<Rightarrow> 'w IpcServer \<Rightarrow> 'w IpcServer" where
  "IpcServer_cleanUp ro st = logger_calls ro [Logger_deInit, Logger_cleanUp] st"

definition IpcServer_clearLogs :: "'w router_os \<Rightarrow> 'w IpcServer \<Rightarrow> 'w IpcServer" where
  "IpcServer_clearLogs ro st = logger_calls ro [Logger_clearLogs True] st"

definition IpcServer_setLogsEnabled :: "'w router_os \<Rightarrow> bool \<Rightarrow> 'w IpcServer \<Rightarrow> 'w IpcServer" where
  "IpcServer_setLogsEnabled ro enabled st =
     logger_calls ro [if enabled then Logger_init True else Logger_deInit] st"

definition IpcServer_createTun ::
  "'w router_os \<Rightarrow> string \<Rightarrow> string \<Rightarrow> 'w IpcServer \<Rightarrow> bool \<times> 'w IpcServer"
where
  "IpcServer_createTun ro dev subnet st = Router_createTun ro dev subnet st"

definition IpcServer_deleteTun :: "'w router_os \<Rightarrow> string \<Rightarrow> 'w IpcServer \<Rightarrow> bool \<times> 'w IpcServer" where
  "IpcServer_deleteTun ro dev st = Router_deleteTun ro dev st"

definition IpcServer_updateResolvers ::
  "'w os \<Rightarrow> string \<Rightarrow> QHostAddress list \<Rightarrow> 'w IpcServer \<Rightarrow> bool \<times> 'w IpcServer"
where
  "IpcServer_updateResolvers os ifname resolvers st = Router_updateResolvers os ifname resolvers st"

definition IpcServer_StartRoutingIpv6 :: "'w router_os \<Rightarrow> 'w IpcServer \<Rightarrow> 'w IpcServer" where
  "IpcServer_StartRoutingIpv6 ro st = Router_StartRoutingIpv6 ro st"

definition IpcServer_StopRoutingIpv6 :: "'w router_os \<Rightarrow> 'w IpcServer \<Rightarrow> 'w IpcServer" where
  "IpcServer_StopRoutingIpv6 ro st = Router_StopRoutingIpv6 ro st"

section \<open>The kill switch of the other protocols\<close>

definition json_strings :: "qjson list \<Rightarrow> string list" where
  "json_strings vs = map (\<lambda>v. qs (json_toString v)) vs"

text \<open>What \<open>enableKillSwitch\<close> computes from the configuration, before the platform's rules.\<close>

definition IpcServer_killSwitchParams :: "qjobject \<Rightarrow> FirewallParams" where
  "IpcServer_killSwitchParams configStr =
     (let splitTunnelType = json_toInt (json_value configStr ''splitTunnelType'');
          splitTunnelSites = json_toArray (json_value configStr ''splitTunnelSites'');
          vpnServer = qs (json_toString (json_value configStr ''vpnServer''));
          params = \<lparr>dnsServers = [qs (json_toString (json_value configStr ''dns1'')),
                                  qs (json_toString (json_value configStr ''dns2'')),
                                  ''127.0.0.1'', ''127.0.0.53''],
                    allowAddrs = [], blockAddrs = [],
                    blockAll = False, allowNets = False, blockNets = False\<rparr>
      in if splitTunnelType = 0 then
           params\<lparr>blockAll := True, allowNets := True, allowAddrs := [vpnServer]\<rparr>
         else if splitTunnelType = 1 then
           params\<lparr>blockNets := True, blockAddrs := json_strings splitTunnelSites\<rparr>
         else if splitTunnelType = 2 then
           params\<lparr>blockAll := True, allowNets := True,
                  allowAddrs := vpnServer # json_strings splitTunnelSites\<rparr>
         else params)"

definition IpcServer_firewallRules :: "callbacks \<Rightarrow> FirewallParams \<Rightarrow> fwcmd list" where
  "IpcServer_firewallRules cbs params =
     (let setAnchor = (\<lambda>ip anchor enabled. LinuxFirewall_setAnchorEnabled cbs ip anchor enabled kFilterTable)
      in setAnchor Both ''000.allowLoopback'' True @
         setAnchor Both ''100.blockAll'' (blockAll params) @
         setAnchor IPv4 ''110.allowNets'' (allowNets params) @
         LinuxFirewall_updateAllowNets (allowAddrs params) @
         setAnchor IPv4 ''120.blockNets'' (blockAll params) @
         LinuxFirewall_updateBlockNets (blockAddrs params) @
         setAnchor IPv4 ''200.allowVPN'' True @
         setAnchor IPv6 ''250.blockIPv6'' True @
         setAnchor Both ''290.allowDHCP'' True @
         setAnchor Both ''300.allowLAN'' True @
         setAnchor IPv4 ''310.blockDNS'' True @
         LinuxFirewall_updateDNSServers (dnsServers params) @
         setAnchor IPv4 ''320.allowDNS'' True @
         setAnchor Both ''400.allowPIA'' True)"

definition IpcServer_enableKillSwitch ::
  "'w os \<Rightarrow> qjobject \<Rightarrow> int \<Rightarrow> 'w IpcServer \<Rightarrow> bool \<times> 'w IpcServer"
where
  "IpcServer_enableKillSwitch os configStr vpnAdapterIndex st =
     (True, st\<lparr>linux := firewall_run os
        (IpcServer_firewallRules (anchorCallbacks (linux st)) (IpcServer_killSwitchParams configStr))
        (linux st)\<rparr>)"

definition IpcServer_disableKillSwitch :: "'w os \<Rightarrow> 'w IpcServer \<Rightarrow> bool \<times> 'w IpcServer" where
  "IpcServer_disableKillSwitch os st =
     (True, st\<lparr>linux := firewall_run os LinuxFirewall_uninstall (linux st)\<rparr>)"

text \<open>Traffic of single peers is filtered on Windows only.\<close>

definition IpcServer_enablePeerTraffic :: "qjobject \<Rightarrow> 'w IpcServer \<Rightarrow> bool \<times> 'w IpcServer" where
  "IpcServer_enablePeerTraffic configStr st = (True, st)"

section \<open>Clients that go away\<close>

definition IpcServer_connectionEstablished :: "string \<Rightarrow> 'w IpcServer \<Rightarrow> 'w IpcServer" where
  "IpcServer_connectionEstablished uniqueId st =
     st\<lparr>m_pendingCleanClose := List.insert uniqueId (m_pendingCleanClose st)\<rparr>"

definition IpcServer_connectionClose :: "string \<Rightarrow> 'w IpcServer \<Rightarrow> 'w IpcServer" where
  "IpcServer_connectionClose uniqueId st =
     st\<lparr>m_pendingCleanClose := removeAll uniqueId (m_pendingCleanClose st)\<rparr>"

definition IpcServer_hasPendingConnectionClose :: "'w IpcServer \<Rightarrow> bool" where
  "IpcServer_hasPendingConnectionClose st \<longleftrightarrow> m_pendingCleanClose st \<noteq> []"

definition IpcServer_amneziaKilled :: "'w os \<Rightarrow> 'w router_os \<Rightarrow> 'w IpcServer \<Rightarrow> 'w IpcServer" where
  "IpcServer_amneziaKilled os ro st =
     IpcServer_StartRoutingIpv6 ro (snd (IpcServer_disableKillSwitch os st))"

section \<open>The service on the receiving end of the client's calls\<close>

text \<open>The slots of \<open>ipc_interface.rep\<close> that \<open>VpnConnection\<close> uses; its other calls stay in the client.\<close>

primrec IpcServer_serve :: "Qt \<Rightarrow> 'w router_os \<Rightarrow> ipc_call \<Rightarrow> 'w IpcServer \<Rightarrow> 'w IpcServer option" where
  "IpcServer_serve Q ro Reinitialize st = Some st"
| "IpcServer_serve Q ro ResetIpStack st = Some (IpcServer_resetIpStack st)"
| "IpcServer_serve Q ro FlushDns st = Some (IpcServer_flushDns ro st)"
| "IpcServer_serve Q ro (RouteAddList gw ips) st = map_option snd (IpcServer_routeAddList Q ro gw ips st)"
| "IpcServer_serve Q ro (RouteDeleteList gw ips) st = map_option snd (IpcServer_routeDeleteList Q ro gw ips st)"
| "IpcServer_serve Q ro ClearSavedRoutes st = map_option snd (IpcServer_clearSavedRoutes Q ro st)"
| "IpcServer_serve Q ro (LookupHost host) st = Some st"
| "IpcServer_serve Q ro (SiteAdded mode site ip) st = Some st"

primrec serve_all :: "Qt \<Rightarrow> 'w router_os \<Rightarrow> ipc_call list \<Rightarrow> 'w IpcServer \<Rightarrow> 'w IpcServer option" where
  "serve_all Q ro [] st = Some st"
| "serve_all Q ro (c # cs) st = Option.bind (IpcServer_serve Q ro c st) (serve_all Q ro cs)"

lemma serve_all_append:
  "serve_all Q ro (cs @ ds) st = Option.bind (serve_all Q ro cs st) (serve_all Q ro ds)"
proof (induction cs arbitrary: st)
  case (Cons c cs)
  then show ?case by (cases "IpcServer_serve Q ro c st") simp_all
qed simp

section \<open>Routes are taken back\<close>

text \<open>
  What the kernel promises of the route \<open>ioctl\<close>s, on the set \<open>T\<close> of its routes: an added route is
  new, a deleted one is gone, a failed call changes nothing and a route that is not deleted was
  not there.
\<close>

definition route_kernel :: "'w router_os \<Rightarrow> ('w \<Rightarrow> rtentry set) \<Rightarrow> bool" where
  "route_kernel ro T \<longleftrightarrow>
     (\<forall>r w. (let (ret, w') = ro_ioctl ro (SIOCADDRT r) w
             in if ret < 0 then T w' = T w else r \<notin> T w \<and> T w' = insert r (T w))) \<and>
     (\<forall>r w. (let (ret, w') = ro_ioctl ro (SIOCDELRT r) w
             in if ret < 0 then T w' = T w \<and> r \<notin> T w else T w' = T w - {r})) \<and>
     (\<forall>c args w. T (ro_start ro c args w) = T w)"

definition entries :: "Qt \<Rightarrow> 'w router_os \<Rightarrow> (string \<times> string) list \<Rightarrow> rtentry set" where
  "entries Q ro rs = (\<Union>(ip, gw) \<in> set rs. set_option (route_entry Q ro ip gw))"

definition deletable :: "Qt \<Rightarrow> string \<times> string \<Rightarrow> bool" where
  "deletable Q r =
     (NetworkUtilities_netMaskFromIpWithSubnet Q (fst r) \<noteq> None \<and>
      NetworkUtilities_checkIPv4Format Q (NetworkUtilities_ipAddressFromIpWithSubnet (fst r)) \<and>
      NetworkUtilities_checkIPv4Format Q (snd r) \<and> fst r \<noteq> ''0.0.0.0/0'')"

definition saved_inv :: "Qt \<Rightarrow> 'w router_os \<Rightarrow> ('w \<Rightarrow> rtentry set) \<Rightarrow> rtentry set \<Rightarrow> 'w IpcServer \<Rightarrow> bool" where
  "saved_inv Q ro T base st \<longleftrightarrow>
     base \<subseteq> T (sworld st) \<and> T (sworld st) \<subseteq> base \<union> entries Q ro (m_addedRoutes st) \<and>
     entries Q ro (m_addedRoutes st) \<inter> base = {} \<and> list_all (deletable Q) (m_addedRoutes st)"

lemma world_simps [simp]:
  "sworld (set_world w st) = w" "m_addedRoutes (set_world w st) = m_addedRoutes st"
  "sworld (m_addedRoutes_update f st) = sworld st"
  by (simp_all add: sworld_def set_world_def)

lemma entries_simps [simp]:
  "entries Q ro [] = {}"
  "entries Q ro (r # rs) = set_option (route_entry Q ro (fst r) (snd r)) \<union> entries Q ro rs"
  "entries Q ro (rs @ rs') = entries Q ro rs \<union> entries Q ro rs'"
  by (auto simp: entries_def case_prod_beta)

lemma route_entry_None: "route_entry Q ro ip gw = None \<longleftrightarrow> NetworkUtilities_netMaskFromIpWithSubnet Q ip = None"
  by (simp add: route_entry_def)

lemma default_mask:
  assumes "qt_toInt Q ''0'' = Some 0"
  shows "NetworkUtilities_netMaskFromIpWithSubnet Q ''0.0.0.0/0'' = None"
  using assms by (simp add: NetworkUtilities_netMaskFromIpWithSubnet_def)

lemma kernel_add:
  assumes "route_kernel ro T" "ro_ioctl ro (SIOCADDRT r) w = (ret, w')"
  shows "if ret < 0 then T w' = T w else r \<notin> T w \<and> T w' = insert r (T w)"
  using assms(1) [unfolded route_kernel_def, THEN conjunct1, rule_format, of r w] assms(2) by simp

lemma kernel_delete:
  assumes "route_kernel ro T" "ro_ioctl ro (SIOCDELRT r) w = (ret, w')"
  shows "T w' = T w - {r}"
  using assms(1) [unfolded route_kernel_def, THEN conjunct2, THEN conjunct1, rule_format, of r w] assms(2)
  by (simp split: if_split_asm)

lemma routeAdd_inv:
  assumes "route_kernel ro T" "qt_toInt Q ''0'' = Some 0" "saved_inv Q ro T base st"
    and "NetworkUtilities_netMaskFromIpWithSubnet Q ip \<noteq> None"
  shows "\<exists>ok st'. RouterLinux_routeAdd Q ro ip gw st = Some (ok, st') \<and> saved_inv Q ro T base st'"
proof -
  obtain r where r: "route_entry Q ro ip gw = Some r"
    using assms(4) by (metis not_None_eq route_entry_None)
  obtain ret w where io: "ro_ioctl ro (SIOCADDRT r) (sworld st) = (ret, w)" by fastforce
  note k = kernel_add [OF assms(1) io]
  have "ip \<noteq> ''0.0.0.0/0''" using default_mask [OF assms(2)] assms(4) by auto
  with assms(3,4) r io k show ?thesis
    by (auto simp: RouterLinux_routeAdd_def Let_def saved_inv_def deletable_def split: if_split_asm)
qed

lemma routeDelete_inv:
  assumes "route_kernel ro T" "saved_inv Q ro T base st"
    and "route_entry Q ro ip gw = Some r" "r \<notin> base"
  shows "\<exists>ok st'. RouterLinux_routeDelete Q ro ip gw st = Some (ok, st') \<and> saved_inv Q ro T base st'"
proof -
  obtain ret w where io: "ro_ioctl ro (SIOCDELRT r) (sworld st) = (ret, w)" by fastforce
  with kernel_delete [OF assms(1) io] assms(2-4) show ?thesis
    by (auto simp: RouterLinux_routeDelete_def Let_def saved_inv_def split: if_split_asm)
qed

lemma count_calls_inv:
  assumes "\<And>x st. x \<in> set xs \<Longrightarrow> P st \<Longrightarrow> \<exists>ok st'. f x st = Some (ok, st') \<and> P st'" "P st"
  shows "\<exists>k st'. count_calls f xs n st = Some (k, st') \<and> P st'"
  using assms
proof (induction xs arbitrary: n st)
  case (Cons x xs)
  obtain ok st' where f: "f x st = Some (ok, st')" "P st'"
    using Cons.prems by (meson list.set_intros(1))
  with Cons.IH [of st'] Cons.prems(1) show ?case by auto
qed simp

lemma delete_saved:
  assumes "route_kernel ro T" "list_all (deletable Q) rs"
  shows "\<exists>k st'. count_calls (\<lambda>(dst, gw). RouterLinux_routeDelete Q ro dst gw) rs n st = Some (k, st') \<and>
    T (sworld st') = T (sworld st) - entries Q ro rs \<and> m_addedRoutes st' = m_addedRoutes st"
  using assms(2)
proof (induction rs arbitrary: n st)
  case (Cons e rs)
  obtain ip gw where e: "e = (ip, gw)" by (cases e)
  have d: "deletable Q (ip, gw)" "list_all (deletable Q) rs" using Cons.prems by (simp_all add: e)
  obtain r where r: "route_entry Q ro ip gw = Some r"
    using d(1) by (metis deletable_def fst_conv not_None_eq route_entry_None)
  obtain ret w where io: "ro_ioctl ro (SIOCDELRT r) (sworld st) = (ret, w)" by fastforce
  note w = kernel_delete [OF assms(1) io]
  from d(1) r io have "RouterLinux_routeDelete Q ro ip gw st = Some (\<not> ret < 0, set_world w st)"
    by (simp add: RouterLinux_routeDelete_def deletable_def)
  then show ?case
    using Cons.IH [OF d(2), of "if ret < 0 then n else n + 1" "set_world w st"] w r
    by (fastforce simp: e)
qed simp

lemma clear_restores:
  assumes "route_kernel ro T" "saved_inv Q ro T base st"
  shows "\<exists>st'. IpcServer_serve Q ro ClearSavedRoutes st = Some st' \<and> T (sworld st') = base \<and> m_addedRoutes st' = []"
  using delete_saved [OF assms(1), of Q "m_addedRoutes st" 0 st] assms(2)
  by (fastforce simp: IpcServer_clearSavedRoutes_def Router_clearSavedRoutes_def
      RouterLinux_clearSavedRoutes_def saved_inv_def)

text \<open>A call that the service can carry out and that deletes none of the routes of \<open>base\<close>.\<close>

primrec harmless :: "Qt \<Rightarrow> 'w router_os \<Rightarrow> rtentry set \<Rightarrow> ipc_call \<Rightarrow> bool" where
  "harmless Q ro base Reinitialize = True"
| "harmless Q ro base ResetIpStack = True"
| "harmless Q ro base FlushDns = True"
| "harmless Q ro base (RouteAddList gw ips) =
     list_all (\<lambda>ip. NetworkUtilities_netMaskFromIpWithSubnet Q ip \<noteq> None) ips"
| "harmless Q ro base (RouteDeleteList gw ips) =
     list_all (\<lambda>ip. case route_entry Q ro ip gw of None \<Rightarrow> False | Some r \<Rightarrow> r \<notin> base) ips"
| "harmless Q ro base ClearSavedRoutes = True"
| "harmless Q ro base (LookupHost host) = True"
| "harmless Q ro base (SiteAdded mode site ip) = True"

lemma add_list_inv:
  assumes "route_kernel ro T" "qt_toInt Q ''0'' = Some 0" "saved_inv Q ro T base st"
    and "harmless Q ro base (RouteAddList gw ips)"
  shows "\<exists>st'. IpcServer_serve Q ro (RouteAddList gw ips) st = Some st' \<and> saved_inv Q ro T base st'"
  using count_calls_inv [of ips "saved_inv Q ro T base" "\<lambda>ip. RouterLinux_routeAdd Q ro ip gw" st 0]
    routeAdd_inv [OF assms(1,2)] assms(3,4)
  by (fastforce simp: IpcServer_routeAddList_def Router_routeAddList_def RouterLinux_routeAddList_def list_all_iff)

lemma delete_list_inv:
  assumes "route_kernel ro T" "saved_inv Q ro T base st"
    and "harmless Q ro base (RouteDeleteList gw ips)"
  shows "\<exists>st'. IpcServer_serve Q ro (RouteDeleteList gw ips) st = Some st' \<and> saved_inv Q ro T base st'"
proof -
  have "\<exists>ok st'. RouterLinux_routeDelete Q ro ip gw st = Some (ok, st') \<and> saved_inv Q ro T base st'"
    if "ip \<in> set ips" "saved_inv Q ro T base st" for ip st
    using routeDelete_inv [OF assms(1) that(2), of ip gw] assms(3) that(1)
    by (fastforce simp: list_all_iff split: option.split_asm)
  from count_calls_inv [of ips "saved_inv Q ro T base" "\<lambda>ip. RouterLinux_routeDelete Q ro ip gw" st 0, OF this assms(2)]
  show ?thesis
    by (fastforce simp: IpcServer_routeDeleteList_def Router_routeDeleteList_def RouterLinux_routeDeleteList_def)
qed

lemma serve_inv:
  assumes "route_kernel ro T" "qt_toInt Q ''0'' = Some 0" "saved_inv Q ro T base st" "harmless Q ro base c"
  shows "\<exists>st'. IpcServer_serve Q ro c st = Some st' \<and> saved_inv Q ro T base st'"
proof (cases c)
  case FlushDns
  have "T (ro_start ro cmd args w) = T w" for cmd args w using assms(1) by (simp add: route_kernel_def)
  with FlushDns assms(3) show ?thesis
    by (simp add: IpcServer_flushDns_def Router_flushDns_def RouterLinux_flushDns_def saved_inv_def Let_def)
next
  case ClearSavedRoutes
  with clear_restores [OF assms(1,3)] show ?thesis
    by (auto simp: saved_inv_def)
next
  case (RouteAddList gw ips)
  with add_list_inv [OF assms(1,2,3)] assms(4) show ?thesis by metis
next
  case (RouteDeleteList gw ips)
  with delete_list_inv [OF assms(1,3)] assms(4) show ?thesis by metis
qed (use assms in \<open>simp_all add: IpcServer_resetIpStack_def Router_resetIpStack_def\<close>)

lemma serve_all_inv:
  assumes "route_kernel ro T" "qt_toInt Q ''0'' = Some 0" "saved_inv Q ro T base st"
    and "list_all (harmless Q ro base) cs"
  shows "\<exists>st'. serve_all Q ro cs st = Some st' \<and> saved_inv Q ro T base st'"
  using assms(3,4)
proof (induction cs arbitrary: st)
  case (Cons c cs)
  obtain st' where "IpcServer_serve Q ro c st = Some st'" "saved_inv Q ro T base st'"
    using serve_inv [OF assms(1,2) Cons.prems(1)] Cons.prems(2) by auto
  with Cons show ?case by simp
qed simp

lemma calls_restored:
  assumes "route_kernel ro T" "qt_toInt Q ''0'' = Some 0" "m_addedRoutes st = []"
    and "list_all (harmless Q ro (T (sworld st))) calls"
  shows "\<exists>st'. serve_all Q ro (calls @ [ClearSavedRoutes]) st = Some st' \<and>
    T (sworld st') = T (sworld st) \<and> m_addedRoutes st' = []"
proof -
  have "saved_inv Q ro T (T (sworld st)) st" using assms(3) by (simp add: saved_inv_def)
  from serve_all_inv [OF assms(1,2) this assms(4)]
  obtain st1 where s: "serve_all Q ro calls st = Some st1" "saved_inv Q ro T (T (sworld st)) st1" by blast
  from clear_restores [OF assms(1) s(2)] s(1) show ?thesis
    by (auto simp: serve_all_append simp del: IpcServer_serve.simps)
qed

section \<open>Client and service together\<close>

lemma session_deletes:
  "RouteDeleteList gw ips \<in> set (ipc (VpnConnection_onConnectionStateChanged Q sett StateConnected v)) \<Longrightarrow>
    ipc v = [] \<Longrightarrow> gw = proto_vpnGateway v \<and> ips = [''0.0.0.0'']"
  by (cases "routeMode sett")
    (auto simp: VpnConnection_onConnectionStateChanged_def VpnConnection_addSitesRoutes_def v_emit_def
      ipc_calls_def proto_vpnGateway_def Let_def split: if_split_asm)

lemma handler_ipcInterface:
  "ipcInterface (VpnConnection_onConnectionStateChanged Q sett state v) = ipcInterface v"
  by (simp add: VpnConnection_onConnectionStateChanged_def VpnConnection_addSitesRoutes_def v_emit_def
      ipc_calls_def Let_def split: RouteMode.split)

lemma zero_host_mask: "route_entry Q ro ''0.0.0.0'' gw \<noteq> None"
  by (simp add: route_entry_None NetworkUtilities_netMaskFromIpWithSubnet_def)

lemma session_harmless:
  assumes "ipc v = []"
    and "\<forall>gw ips. RouteAddList gw ips \<in> set (ipc v1) \<longrightarrow>
      (\<forall>ip \<in> set ips. NetworkUtilities_netMaskFromIpWithSubnet Q ip \<noteq> None)"
    and "route_entry Q ro ''0.0.0.0'' (proto_vpnGateway v) \<notin> Some ` base"
    and v1: "v1 = VpnConnection_onConnectionStateChanged Q sett StateConnected v"
  shows "list_all (harmless Q ro base) (ipc v1)"
  unfolding list_all_iff
proof
  fix c assume c: "c \<in> set (ipc v1)"
  show "harmless Q ro base c"
  proof (cases c)
    case (RouteDeleteList gw ips)
    with session_deletes assms(1) c v1 have "gw = proto_vpnGateway v \<and> ips = [''0.0.0.0'']" by metis
    with RouteDeleteList assms(3) zero_host_mask [of Q ro gw] show ?thesis by (auto split: option.split)
  next
    case (RouteAddList gw ips)
    with assms(2) c have "\<forall>ip \<in> set ips. NetworkUtilities_netMaskFromIpWithSubnet Q ip \<noteq> None" by blast
    with RouteAddList show ?thesis by (simp add: list_all_iff)
  qed simp_all
qed

text \<open>
  C3: The routes of a session are taken back.  Whatever the client asks for when the connection is
  up and when it is closed again, the service leaves the routing table as it found it and
  remembers no route, whether or not the single additions and deletions succeeded: sites, DNS
  servers and the two halves of the address space included.  The mask of every added address
  must be defined, and the table must not hold the host route the client deletes.
\<close>

theorem session_restores_routes:
  assumes "route_kernel ro T" "qt_toInt Q ''0'' = Some 0"
    and "m_addedRoutes st = []" "ipcInterface v" "ipc v = []"
    and "v1 = VpnConnection_onConnectionStateChanged Q sett StateConnected v"
    and "\<forall>gw ips. RouteAddList gw ips \<in> set (ipc v1) \<longrightarrow>
      (\<forall>ip \<in> set ips. NetworkUtilities_netMaskFromIpWithSubnet Q ip \<noteq> None)"
    and "route_entry Q ro ''0.0.0.0'' (proto_vpnGateway v) \<notin> Some ` T (sworld st)"
  shows "\<exists>st'. serve_all Q ro (ipc (VpnConnection_disconnectFromVpn v1)) st = Some st' \<and>
    T (sworld st') = T (sworld st) \<and> m_addedRoutes st' = []"
proof -
  have "ipc (VpnConnection_disconnectFromVpn v1) = (ipc v1 @ [FlushDns]) @ [ClearSavedRoutes]"
    using assms(4,6) handler_ipcInterface
    by (auto simp: VpnConnection_disconnectFromVpn_def ipc_calls_def v_emit_def Let_def)
  moreover have "list_all (harmless Q ro (T (sworld st))) (ipc v1 @ [FlushDns])"
    using session_harmless [OF assms(5,7,8,6)] by simp
  ultimately show ?thesis using calls_restored [OF assms(1-3), of "ipc v1 @ [FlushDns]"] by simp
qed

text \<open>A kernel that keeps its routes in a list, for examples.\<close>

definition sample_ioctl :: "route_ioctl \<Rightarrow> rtentry list \<Rightarrow> int \<times> rtentry list" where
  "sample_ioctl c w =
     (case c of
        SIOCADDRT r \<Rightarrow> if r \<in> set w then (-1, w) else (0, r # w)
      | SIOCDELRT r \<Rightarrow> if r \<in> set w then (0, removeAll r w) else (-1, w))"

definition sample_ro :: "rtentry list router_os" where
  "sample_ro =
     \<lparr>ro_inet_addr = (\<lambda>s. case qt_host sample_qt s of V4Address a \<Rightarrow> a | _ \<Rightarrow> 0xFFFFFFFF),
      ro_ioctl = sample_ioctl, ro_exists = (\<lambda>_ _. False), ro_start = (\<lambda>_ _ w. w),
      ro_sudo = (\<lambda>_ w. ((True, True), w)), ro_rtnl = (\<lambda>_. 3), ro_send = (\<lambda>m w. (52, w)),
      ro_past_end = (\<lambda>_. []), ro_listen = (\<lambda>_ w. (True, w)), ro_logger = (\<lambda>_ w. w)\<rparr>"

definition sample_linux :: "'w \<Rightarrow> 'w LinuxState" where
  "sample_linux w =
     \<lparr>m_ifname = None, m_rtmonitor = None, anchorCallbacks = [], m_dnsIfindex = 0,
      m_linkDomains = [], sent = [], world = w\<rparr>"

definition routed_connection :: VpnConnection where
  "routed_connection =
     \<lparr>m_vpnProtocol = Some ((VpnProtocol_new [] 0)\<lparr>m_vpnGateway := ''10.8.0.1'', m_routeGateway := ''10.8.0.2''\<rparr>),
      m_vpnConfiguration = [(''dns1'', JString ''1.1.1.1'')], m_remoteAddress = ''203.0.113.7'',
      ipcInterface = True, ipc = [], v_sitesTimer = False, v_states = []\<rparr>"

lemma sample_kernel: "route_kernel sample_ro set"
  by (auto simp: route_kernel_def sample_ro_def sample_ioctl_def)

lemma routed_ipc:
  "ipc (VpnConnection_onConnectionStateChanged sample_qt sample_settings StateConnected routed_connection) =
    [ResetIpStack, FlushDns, RouteAddList ''10.8.0.1'' [''1.1.1.1'', []]]"
  by (simp add: VpnConnection_onConnectionStateChanged_def routed_connection_def v_emit_def ipc_calls_def
      proto_vpnGateway_def json_value_def sample_settings_def Let_def)

theorem session_restores_routes_witness:
  "\<exists>st'. serve_all sample_qt sample_ro (ipc (VpnConnection_disconnectFromVpn
      (VpnConnection_onConnectionStateChanged sample_qt sample_settings StateConnected routed_connection)))
      (IpcServer_new (sample_linux [])) = Some st' \<and>
    set (sworld st') = {} \<and> m_addedRoutes st' = []"
  using session_restores_routes [OF sample_kernel _ _ _ _ refl, of sample_qt "IpcServer_new (sample_linux [])"
      routed_connection sample_settings]
  unfolding routed_ipc
  by (simp add: IpcServer_new_def sample_linux_def sworld_def routed_connection_def sample_qt_def number_def
      digits.simps NetworkUtilities_netMaskFromIpWithSubnet_def)

section \<open>The kill switch\<close>

lemma ipc_rules_suffix:
  "WireguardUtilsLinux_firewallRules cbs (params\<lparr>blockNets := blockAll params\<rparr>) =
    LinuxFirewall_ensureRootAnchorPriority Both @ IpcServer_firewallRules cbs params"
  by (simp add: WireguardUtilsLinux_firewallRules_def IpcServer_firewallRules_def)

lemma ensure_installed:
  "chains4 (ipt_run (LinuxFirewall_ensureRootAnchorPriority Both) installed) = chains4 installed"
  using installed_chains(1)
  by (simp add: LinuxFirewall_ensureRootAnchorPriority_def LinuxFirewall_linkChain_def both_def
      chains4_step chains4_setAnchor6 fun_upd_idem del: ipt_step.simps)

lemma ipt_run_append: "ipt_run (cmds @ cmds') s = ipt_run cmds' (ipt_run cmds s)"
  by (simp add: ipt_run_def)

lemma verdict_cong:
  assumes "\<And>c. chains4 s c = chains4 s' c"
  shows "verdict n s IPv4 m c = verdict n s' IPv4 m c"
proof (induction n arbitrary: c)
  case (Suc n)
  then have "verdict n s IPv4 m = verdict n s' IPv4 m" by (rule ext)
  then show ?case by (simp add: verdict.simps(2) ipt_rules4 assms)
qed simp

lemma ipc_chains:
  "chains4 (ipt_run (IpcServer_firewallRules (LinuxFirewall_installCallbacks []) params) installed) c =
    chains4 (protected (params\<lparr>blockNets := blockAll params\<rparr>)) c"
proof -
  let ?rules = "IpcServer_firewallRules (LinuxFirewall_installCallbacks []) params"
  have soft: "list_all soft ?rules"
    using rules_soft [of "params\<lparr>blockNets := blockAll params\<rparr>"] unfolding ipc_rules_suffix by simp
  note run = soft_run [OF soft, where s' = installed and c = c]
  have "chains4 (ipt_run ?rules installed) c =
      chains4 (ipt_run ?rules (ipt_run (LinuxFirewall_ensureRootAnchorPriority Both) installed)) c"
    using run [of installed] run [of "ipt_run (LinuxFirewall_ensureRootAnchorPriority Both) installed"]
    by (simp add: ensure_installed)
  then show ?thesis by (simp add: protected_def ipc_rules_suffix ipt_run_append)
qed

lemma ipc_verdict:
  assumes "m []"
  shows "verdict 4 (ipt_run (LinuxFirewall_install @
      IpcServer_firewallRules (LinuxFirewall_installCallbacks []) params) ipt_initial) IPv4 m kOutputChain =
    killswitch (params\<lparr>blockNets := blockAll params\<rparr>) m"
  using output_verdict [of m "params\<lparr>blockNets := blockAll params\<rparr>", OF assms]
    verdict_cong [of "ipt_run (IpcServer_firewallRules (LinuxFirewall_installCallbacks []) params) installed", OF ipc_chains]
  by (simp add: ipt_run_append installed_def)

text \<open>
  The kill switch of the service.  On an installed firewall an outgoing IPv4 packet gets the
  verdict of the kill switch for the parameters, with one difference: the chain of the blocked
  networks is switched on with \<open>blockAll\<close>, not with \<open>blockNets\<close>.
\<close>

theorem ipc_kill_switch:
  assumes "m []"
  shows "verdict 4 (ipt_run (LinuxFirewall_install @
      IpcServer_firewallRules (LinuxFirewall_installCallbacks []) params) ipt_initial) IPv4 m kOutputChain =
    killswitch (params\<lparr>blockNets := blockAll params\<rparr>) m"
  by (rule ipc_verdict [of m, OF assms])

theorem ipc_kill_switch_witness:
  "verdict 4 (ipt_run (LinuxFirewall_install @ IpcServer_firewallRules (LinuxFirewall_installCallbacks [])
      (IpcServer_killSwitchParams [])) ipt_initial) IPv4 (\<lambda>x. x = []) kOutputChain = Some ''REJECT''"
  using ipc_kill_switch [of "\<lambda>x. x = []" "IpcServer_killSwitchParams []"]
  by (simp add: killswitch_def IpcServer_killSwitchParams_def json_value_def json_strings_def
      LinuxFirewall_getDNSRules_def LinuxFirewall_getAllowRule_def LinuxFirewall_getBlockRule_def)

text \<open>
  C36: With the split mode that sends only the listed sites through the tunnel, the kill switch of
  the service protects none of them: the parameters ask for the sites to be blocked, but no packet
  except plain DNS is rejected, whatever the sites are and whatever else the packet matches.
\<close>

theorem forward_sites_unprotected:
  assumes "m []" "json_toInt (json_value config ''splitTunnelType'') = 1"
    and "\<not> m ''-p udp --dport 53''" "\<not> m ''-p tcp --dport 53''"
  shows "blockNets (IpcServer_killSwitchParams config) \<and>
    blockAddrs (IpcServer_killSwitchParams config) =
      json_strings (json_toArray (json_value config ''splitTunnelSites'')) \<and>
    verdict 4 (ipt_run (LinuxFirewall_install @ IpcServer_firewallRules (LinuxFirewall_installCallbacks [])
      (IpcServer_killSwitchParams config)) ipt_initial) IPv4 m kOutputChain \<noteq> Some ''REJECT''"
proof -
  have "killswitch ((IpcServer_killSwitchParams config)\<lparr>blockNets := False\<rparr>) m \<noteq> Some ''REJECT''"
    using assms(2-4) by (auto simp: killswitch_def IpcServer_killSwitchParams_def Let_def)
  with assms(2) ipc_verdict [of m, OF assms(1), of "IpcServer_killSwitchParams config"] show ?thesis
    by (simp add: IpcServer_killSwitchParams_def Let_def)
qed

theorem forward_sites_unprotected_witness:
  "verdict 4 (ipt_run (LinuxFirewall_install @ IpcServer_firewallRules (LinuxFirewall_installCallbacks [])
      (IpcServer_killSwitchParams [(''splitTunnelSites'', JArray [JString ''192.0.2.0/24'']),
        (''splitTunnelType'', JDouble 1)])) ipt_initial) IPv4
      (\<lambda>x. x = [] \<or> x = ''-d 192.0.2.0/24'') kOutputChain \<noteq> Some ''REJECT''"
  using forward_sites_unprotected [of "\<lambda>x. x = [] \<or> x = ''-d 192.0.2.0/24''"
      "[(''splitTunnelSites'', JArray [JString ''192.0.2.0/24'']), (''splitTunnelType'', JDouble 1)]"]
  by (simp add: json_value_def)

section \<open>The tunnel device\<close>

lemma int32_eq_52:
  assumes "- 1 \<le> r" "r < 2 ^ 31"
  shows "(word_of_int r :: 32 word) = 52 \<longleftrightarrow> r = 52"
proof (cases "r = - 1")
  case False
  with assms have "take_bit 32 r = r" by (simp add: take_bit_int_eq_self)
  moreover have "(word_of_int r :: 32 word) = word_of_int 52 \<longleftrightarrow> take_bit 32 r = take_bit 32 (52 :: int)"
    by (simp only: word_of_int_eq_iff len_num0 len_num1 len_bit0 len_of_numeral_defs) simp
  ultimately show ?thesis by simp
qed simp

text \<open>
  \<open>deleteTun\<close> answers the other way round: it returns true when the socket cannot be opened or
  the request is not sent whole, and false when the request went out.
\<close>

theorem deleteTun_inverted:
  assumes "\<And>m w. - 1 \<le> fst (ro_send ro m w) \<and> fst (ro_send ro m w) < 2 ^ 31"
  shows "fst (IpcServer_deleteTun ro dev st) \<longleftrightarrow>
    \<not> (ro_rtnl ro (sworld st) \<ge> 0 \<and>
       fst (ro_send ro (dellink_request dev (ro_past_end ro (sworld st))) (sworld st)) = 52)"
  using int32_eq_52 [of "fst (ro_send ro (dellink_request dev (ro_past_end ro (sworld st))) (sworld st))"]
    assms [of "dellink_request dev (ro_past_end ro (sworld st))" "sworld st"]
  by (simp add: IpcServer_deleteTun_def Router_deleteTun_def RouterLinux_deleteTun_def dellink_request_def
      NLMSG_ALIGN_def NLMSG_LENGTH_def IFNAMSIZ_def sizeof_ifinfomsg_def case_prod_beta Let_def)

theorem deleteTun_inverted_witness:
  "\<not> fst (IpcServer_deleteTun sample_ro ''tun2'' (IpcServer_new (sample_linux [])))"
  using deleteTun_inverted [of sample_ro "''tun2''" "IpcServer_new (sample_linux [])"]
  by (simp add: sample_ro_def)

end
