(* ===== verification/Local_Service.thy ===== *)
theory Local_Service
  imports Service_Router
begin

text \<open>
  The processes and the connections of the service: \<open>client/utilities.cpp\<close> (Linux),
  \<open>ipc/ipcserverprocess.cpp\<close>, \<open>ipc/ipctun2socksprocess.cpp\<close>, \<open>service/server/localserver.cpp\<close>, and
  the client's end of the connection, \<open>client/core/ipcclient.cpp\<close>.

  A \<open>QProcess\<close> is a record of its settings and its state; its component \<open>pr_log\<close> lists what is run.
  Whether a program can be launched is an argument of the operation that starts it.
\<close>

section \<open>Utilities\<close>

definition possibleCharacters :: string where
  "possibleCharacters = ''ABCDEFGHIJKLMNOPQRSTUVWXYZabcdefghijklmnopqrstuvwxyz0123456789''"

text \<open>\<open>draw i\<close> is the number the global generator yields in round \<open>i\<close>.\<close>

definition Utils_getRandomString :: "(nat \<Rightarrow> 32 word) \<Rightarrow> int \<Rightarrow> string" where
  "Utils_getRandomString draw len =
     map (\<lambda>i. possibleCharacters ! (unat (draw i) mod length possibleCharacters)) [0..<nat len]"

text \<open>\<open>parse\<close> is the JSON parser of Qt: an error text or the object of the document.\<close>

definition Utils_VerifyJsonString :: "(string \<Rightarrow> string + qjobject) \<Rightarrow> string \<Rightarrow> string" where
  "Utils_VerifyJsonString parse source =
     (case parse source of Inl errorString \<Rightarrow> errorString | Inr doc \<Rightarrow> [])"

definition Utils_JsonFromString :: "(string \<Rightarrow> string + qjobject) \<Rightarrow> string \<Rightarrow> qjobject" where
  "Utils_JsonFromString parse text =
     (case parse (trimmed text) of Inl errorString \<Rightarrow> [] | Inr doc \<Rightarrow> doc)"

definition Utils_SafeBase64Decode :: "(string \<Rightarrow> string) \<Rightarrow> string \<Rightarrow> string" where
  "Utils_SafeBase64Decode fromBase64 text =
     fromBase64 (map (\<lambda>c. if c = CHR ''-'' then CHR ''+'' else if c = CHR ''_'' then CHR ''/'' else c) text)"

definition Utils_executable :: "string \<Rightarrow> string \<Rightarrow> bool \<Rightarrow> string" where
  "Utils_executable applicationDirPath baseName absPath =
     (if \<not> absPath then baseName else applicationDirPath @ ''/'' @ baseName)"

definition Utils_usrExecutable :: "(string \<Rightarrow> bool) \<Rightarrow> string \<Rightarrow> string" where
  "Utils_usrExecutable exists baseName =
     (if exists (''/usr/sbin/'' @ baseName) then ''/usr/sbin/'' @ baseName else ''/usr/bin/'' @ baseName)"

text \<open>
  \<open>pgrep\<close> is the command: its normal exit and its output, which is \<open>None\<close> when it did not exit
  normally.  \<open>toUInt\<close> is the conversion of a byte array.
\<close>

definition firstLine :: "string \<Rightarrow> string" where
  "firstLine s = takeWhile (\<lambda>c. c \<noteq> CHR 0x0A) s @ (if CHR 0x0A \<in> set s then endl else [])"

definition Utils_processIsRunning ::
  "(string list \<Rightarrow> string option) \<Rightarrow> (string \<Rightarrow> nat option) \<Rightarrow> string \<Rightarrow> bool \<Rightarrow> bool"
where
  "Utils_processIsRunning pgrep toUInt fileName fullFlag =
     (case pgrep [if fullFlag then ''-f'' else [], fileName] of
        None \<Rightarrow> False
      | Some output \<Rightarrow>
          (case toUInt (if fullFlag then firstLine output else output) of
             None \<Rightarrow> False | Some n \<Rightarrow> n > 0))"

text \<open>The directory of the program and the file system, which the paths depend on.\<close>

record paths =
  applicationDirPath :: string
  fileExists :: "string \<Rightarrow> bool"

definition Utils_openVpnExecPath :: "paths \<Rightarrow> string" where
  "Utils_openVpnExecPath P = Utils_executable (applicationDirPath P) ''../../client/bin/openvpn'' True"

definition Utils_wireguardExecPath :: "paths \<Rightarrow> string" where
  "Utils_wireguardExecPath P = Utils_usrExecutable (fileExists P) ''wg-quick''"

definition Utils_certUtilPath :: string where
  "Utils_certUtilPath = []"

definition Utils_tun2socksPath :: "paths \<Rightarrow> string" where
  "Utils_tun2socksPath P = Utils_executable (applicationDirPath P) ''../../client/bin/tun2socks'' True"

datatype PermittedProcess = OpenVPN | Wireguard | Tun2Socks | CertUtil

text \<open>The enumerator of a number that a client sends, if it is one.\<close>

definition PermittedProcess_of :: "int \<Rightarrow> PermittedProcess option" where
  "PermittedProcess_of n =
     (if n = 0 then Some OpenVPN else if n = 1 then Some Wireguard else if n = 2 then Some Tun2Socks
      else if n = 3 then Some CertUtil else None)"

definition permittedProcessPath :: "paths \<Rightarrow> PermittedProcess option \<Rightarrow> string" where
  "permittedProcessPath P pid =
     (if pid = Some OpenVPN then Utils_openVpnExecPath P
      else if pid = Some Wireguard then Utils_wireguardExecPath P
      else if pid = Some CertUtil then Utils_certUtilPath
      else if pid = Some Tun2Socks then Utils_tun2socksPath P
      else [])"

section \<open>Processes\<close>

datatype effect =
    Execute string "string list"
  | StartProgram string "string list"
  | CloseProcess

record QProcess =
  pr_program :: string
  pr_arguments :: "string list"
  pr_workingDirectory :: string
  pr_inputChannelMode :: int
  pr_processChannelMode :: int
  pr_state :: ProcessState
  pr_log :: "effect list"

definition QProcess_new :: QProcess where
  "QProcess_new =
     \<lparr>pr_program = [], pr_arguments = [], pr_workingDirectory = [], pr_inputChannelMode = 0,
      pr_processChannelMode = 0, pr_state = NotRunning, pr_log = []\<rparr>"

definition pr_effect :: "effect \<Rightarrow> QProcess \<Rightarrow> QProcess" where
  "pr_effect e p = p\<lparr>pr_log := pr_log p @ [e]\<rparr>"

text \<open>A process that runs is not started again, and no process is started without a program.\<close>

definition QProcess_start :: "QProcess \<Rightarrow> QProcess" where
  "QProcess_start p =
     (if pr_state p \<noteq> NotRunning then p
      else if pr_program p = [] then p
      else pr_effect (StartProgram (pr_program p) (pr_arguments p)) (p\<lparr>pr_state := Starting\<rparr>))"

definition QProcess_waitForStarted :: "bool \<Rightarrow> QProcess \<Rightarrow> QProcess" where
  "QProcess_waitForStarted launched p =
     (if pr_state p = Starting then p\<lparr>pr_state := (if launched then Running else NotRunning)\<rparr> else p)"

definition QProcess_close :: "QProcess \<Rightarrow> QProcess" where
  "QProcess_close p = pr_effect CloseProcess (p\<lparr>pr_state := NotRunning\<rparr>)"

text \<open>\<open>QProcess::execute\<close> with one text takes all of it as the name of the program.\<close>

definition Utils_killProcessByName :: "string \<Rightarrow> QProcess \<Rightarrow> QProcess" where
  "Utils_killProcessByName name p = pr_effect (Execute (''pkill '' @ name) []) p"

definition IpcServerProcess_start :: "bool \<Rightarrow> QProcess \<Rightarrow> QProcess" where
  "IpcServerProcess_start launched p =
     QProcess_waitForStarted launched (QProcess_start (Utils_killProcessByName (pr_program p) p))"

definition IpcServerProcess_close :: "QProcess \<Rightarrow> QProcess" where
  "IpcServerProcess_close p = QProcess_close p"

definition IpcServerProcess_setArguments :: "string list \<Rightarrow> QProcess \<Rightarrow> QProcess" where
  "IpcServerProcess_setArguments arguments p = p\<lparr>pr_arguments := arguments\<rparr>"

definition IpcServerProcess_setInputChannelMode :: "int \<Rightarrow> QProcess \<Rightarrow> QProcess" where
  "IpcServerProcess_setInputChannelMode mode p = p\<lparr>pr_inputChannelMode := mode\<rparr>"

text \<open>Native arguments exist on Windows only.\<close>

definition IpcServerProcess_setNativeArguments :: "string \<Rightarrow> QProcess \<Rightarrow> QProcess" where
  "IpcServerProcess_setNativeArguments arguments p = p"

definition IpcServerProcess_setProcessChannelMode :: "int \<Rightarrow> QProcess \<Rightarrow> QProcess" where
  "IpcServerProcess_setProcessChannelMode mode p = p\<lparr>pr_processChannelMode := mode\<rparr>"

definition IpcServerProcess_setProgram :: "paths \<Rightarrow> int \<Rightarrow> QProcess \<Rightarrow> QProcess" where
  "IpcServerProcess_setProgram P programId p =
     p\<lparr>pr_program := permittedProcessPath P (PermittedProcess_of programId)\<rparr>"

definition IpcServerProcess_setWorkingDirectory :: "string \<Rightarrow> QProcess \<Rightarrow> QProcess" where
  "IpcServerProcess_setWorkingDirectory dir p = p\<lparr>pr_workingDirectory := dir\<rparr>"

text \<open>The slots of \<open>ipc_process_interface.rep\<close> that change the process, and its end.\<close>

datatype process_call =
    PStart bool
  | PClose
  | PSetArguments "string list"
  | PSetInputChannelMode int
  | PSetNativeArguments string
  | PSetProcessChannelMode int
  | PSetProgram int
  | PSetWorkingDirectory string
  | PFinished

primrec process_step :: "paths \<Rightarrow> process_call \<Rightarrow> QProcess \<Rightarrow> QProcess" where
  "process_step P (PStart launched) p = IpcServerProcess_start launched p"
| "process_step P PClose p = IpcServerProcess_close p"
| "process_step P (PSetArguments arguments) p = IpcServerProcess_setArguments arguments p"
| "process_step P (PSetInputChannelMode mode) p = IpcServerProcess_setInputChannelMode mode p"
| "process_step P (PSetNativeArguments arguments) p = IpcServerProcess_setNativeArguments arguments p"
| "process_step P (PSetProcessChannelMode mode) p = IpcServerProcess_setProcessChannelMode mode p"
| "process_step P (PSetProgram programId) p = IpcServerProcess_setProgram P programId p"
| "process_step P (PSetWorkingDirectory dir) p = IpcServerProcess_setWorkingDirectory dir p"
| "process_step P PFinished p = p\<lparr>pr_state := NotRunning\<rparr>"

section \<open>tun2socks\<close>

text \<open>\<open>t_bingus\<close> and \<open>t_bungus\<close> count the connections of the two slots; \<open>t_states\<close> lists the signals.\<close>

record Tun2SocksProcess =
  m_t2sProcess :: QProcess
  t_bingus :: nat
  t_bungus :: nat
  t_states :: "ConnState list"

definition IpcProcessTun2Socks_new :: Tun2SocksProcess where
  "IpcProcessTun2Socks_new = \<lparr>m_t2sProcess = QProcess_new, t_bingus = 0, t_bungus = 0, t_states = []\<rparr>"

definition t_process :: "(QProcess \<Rightarrow> QProcess) \<Rightarrow> Tun2SocksProcess \<Rightarrow> Tun2SocksProcess" where
  "t_process f t = t\<lparr>m_t2sProcess := f (m_t2sProcess t)\<rparr>"

definition t_emit :: "ConnState \<Rightarrow> Tun2SocksProcess \<Rightarrow> Tun2SocksProcess" where
  "t_emit s t = t\<lparr>t_states := t_states t @ [s]\<rparr>"

definition IpcProcessTun2Socks_start :: "paths \<Rightarrow> bool \<Rightarrow> Tun2SocksProcess \<Rightarrow> Tun2SocksProcess" where
  "IpcProcessTun2Socks_start P launched t =
     (let program = permittedProcessPath P (Some Tun2Socks);
          arguments = [''-device'', ''tun://tun3'', ''-proxy'', ''socks5://127.0.0.1:10833''];
          t = t_process (\<lambda>p. Utils_killProcessByName program
                (p\<lparr>pr_program := program, pr_arguments := arguments\<rparr>)) t;
          t = t\<lparr>t_bingus := t_bingus t + 1, t_bungus := t_bungus t + 1\<rparr>
      in t_process (\<lambda>p. QProcess_waitForStarted launched (QProcess_start (QProcess_start p))) t)"

definition IpcProcessTun2Socks_stop :: "Tun2SocksProcess \<Rightarrow> Tun2SocksProcess" where
  "IpcProcessTun2Socks_stop t = t_process QProcess_close t"

definition IpcProcessTun2Socks_bingus :: "string \<Rightarrow> Tun2SocksProcess \<Rightarrow> Tun2SocksProcess" where
  "IpcProcessTun2Socks_bingus line t =
     (if contains_str ''[STACK] tun://'' line \<and> contains_str ''<-> socks5://127.0.0.1'' line
      then t_emit StateConnected t else t)"

definition IpcProcessTun2Socks_bungus :: "int \<Rightarrow> bool \<Rightarrow> Tun2SocksProcess \<Rightarrow> Tun2SocksProcess" where
  "IpcProcessTun2Socks_bungus exitCode normalExit t =
     (let t = t_emit StateDisconnected t;
          t = (if \<not> normalExit then IpcProcessTun2Socks_stop t else t)
      in if exitCode \<noteq> 0 then IpcProcessTun2Socks_stop t else t)"

text \<open>
  The signals of the process: every connection of a slot is one call of it.  The first call reads
  the whole output, the later ones find none.
\<close>

definition tun2socks_output :: "string \<Rightarrow> Tun2SocksProcess \<Rightarrow> Tun2SocksProcess" where
  "tun2socks_output line t =
     (if t_bingus t = 0 then t
      else (IpcProcessTun2Socks_bingus [] ^^ (t_bingus t - 1)) (IpcProcessTun2Socks_bingus line t))"

definition tun2socks_finished :: "int \<Rightarrow> bool \<Rightarrow> Tun2SocksProcess \<Rightarrow> Tun2SocksProcess" where
  "tun2socks_finished exitCode normalExit t =
     (IpcProcessTun2Socks_bungus exitCode normalExit ^^ t_bungus t)
       (t_process (\<lambda>p. p\<lparr>pr_state := NotRunning\<rparr>) t)"

section \<open>The server\<close>

definition getIpcServiceUrl :: string where
  "getIpcServiceUrl = ''/tmp/local:ZloVpnIpcInterface''"

record 'w LocalServer =
  m_ipcServer :: "'w IpcServer"
  m_tun2socks :: Tun2SocksProcess
  m_connectionCount :: "64 word"
  m_isRemotingEnabled :: bool
  ls_listening :: bool

definition LocalServer_new :: "'w router_os \<Rightarrow> 'w LinuxState \<Rightarrow> 'w LocalServer" where
  "LocalServer_new ro l =
     (let st = IpcServer_new l; (listening, w) = ro_listen ro getIpcServiceUrl (sworld st)
      in \<lparr>m_ipcServer = set_world w st, m_tun2socks = IpcProcessTun2Socks_new, m_connectionCount = 0,
          m_isRemotingEnabled = False, ls_listening = listening\<rparr>)"

definition LocalServer_newConnection :: "'w LocalServer \<Rightarrow> 'w LocalServer" where
  "LocalServer_newConnection s =
     (let s = s\<lparr>m_connectionCount := m_connectionCount s + 1\<rparr>
      in if \<not> m_isRemotingEnabled s then s\<lparr>m_isRemotingEnabled := True\<rparr> else s)"

definition LocalServer_disconnected :: "'w os \<Rightarrow> 'w router_os \<Rightarrow> 'w LocalServer \<Rightarrow> 'w LocalServer" where
  "LocalServer_disconnected os ro s =
     (let s = (if m_connectionCount s > 0 then s\<lparr>m_connectionCount := m_connectionCount s - 1\<rparr> else s)
      in if m_connectionCount s = 0 \<and> IpcServer_hasPendingConnectionClose (m_ipcServer s)
         then s\<lparr>m_ipcServer := IpcServer_amneziaKilled os ro (m_ipcServer s),
                m_tun2socks := IpcProcessTun2Socks_stop (m_tun2socks s)\<rparr>
         else s)"

section \<open>The client's end\<close>

datatype null_pointer = NullPointer

text \<open>
  The replicas are null, or valid or not.  \<open>ic_calls\<close> lists the calls that reach the service; a call
  on a replica that is not valid is dropped.
\<close>

datatype session_call = ConnectionEstablished string | ConnectionClose string

record IpcClient =
  ic_uuid :: string
  m_isSocketConnected :: bool
  m_ipcClient :: "bool option"
  m_Tun2SocksClient :: "bool option"

type_synonym ipc_client = "IpcClient option \<times> session_call list"

text \<open>What meets an attempt to connect: the socket connects, and the two replicas become valid.\<close>

record attempt =
  at_uuid :: string
  at_connects :: bool
  at_ipcValid :: bool
  at_t2sValid :: bool

definition IpcClient_new :: "string \<Rightarrow> IpcClient" where
  "IpcClient_new uuid =
     \<lparr>ic_uuid = uuid, m_isSocketConnected = False, m_ipcClient = None, m_Tun2SocksClient = None\<rparr>"

definition IpcClient_init :: "attempt \<Rightarrow> IpcClient \<Rightarrow> session_call list \<Rightarrow> bool \<times> ipc_client" where
  "IpcClient_init a i calls =
     (if \<not> at_connects a then (False, (Some i, calls))
      else
        (at_ipcValid a \<and> at_t2sValid a,
         (Some (i\<lparr>m_ipcClient := Some (at_ipcValid a), m_Tun2SocksClient := Some (at_t2sValid a)\<rparr>),
          calls @ (if at_ipcValid a then [ConnectionEstablished (ic_uuid i)] else []))))"

definition IpcClient_Reinitialize :: "attempt \<Rightarrow> ipc_client \<Rightarrow> null_pointer + (bool \<times> ipc_client)" where
  "IpcClient_Reinitialize a st =
     (let create = \<lambda>calls.
            (let i = IpcClient_new (at_uuid a)
             in Inr (if \<not> m_isSocketConnected i then IpcClient_init a i calls else (True, (Some i, calls))))
      in case fst st of
           None \<Rightarrow> create (snd st)
         | Some i \<Rightarrow>
             (case m_ipcClient i of
                None \<Rightarrow> Inl NullPointer
              | Some valid \<Rightarrow> create (snd st @ (if valid then [ConnectionClose (ic_uuid i)] else []))))"

definition IpcClient_disconnected :: "ipc_client \<Rightarrow> ipc_client" where
  "IpcClient_disconnected st = (map_option (\<lambda>i. i\<lparr>m_isSocketConnected := False\<rparr>) (fst st), snd st)"

primrec serve_session :: "session_call \<Rightarrow> 'w IpcServer \<Rightarrow> 'w IpcServer" where
  "serve_session (ConnectionEstablished uuid) st = IpcServer_connectionEstablished uuid st"
| "serve_session (ConnectionClose uuid) st = IpcServer_connectionClose uuid st"

section \<open>Properties\<close>

definition permitted :: "paths \<Rightarrow> string set" where
  "permitted P = {Utils_openVpnExecPath P, Utils_wireguardExecPath P, Utils_tun2socksPath P}"

lemma process_step_program:
  "pr_program (process_step P c p) = pr_program p \<or> pr_program (process_step P c p) \<in> insert [] (permitted P)"
  by (cases c)
    (auto simp: IpcServerProcess_start_def IpcServerProcess_close_def IpcServerProcess_setArguments_def
      IpcServerProcess_setInputChannelMode_def IpcServerProcess_setNativeArguments_def
      IpcServerProcess_setProcessChannelMode_def IpcServerProcess_setProgram_def
      IpcServerProcess_setWorkingDirectory_def QProcess_waitForStarted_def QProcess_start_def QProcess_close_def
      Utils_killProcessByName_def pr_effect_def permittedProcessPath_def Utils_certUtilPath_def permitted_def)

lemma process_step_started:
  "StartProgram program args \<in> set (pr_log (process_step P c p)) \<Longrightarrow>
    StartProgram program args \<in> set (pr_log p) \<or> program = pr_program p \<and> program \<noteq> [] \<and> pr_state p = NotRunning"
  by (cases c)
    (auto simp: IpcServerProcess_start_def IpcServerProcess_close_def IpcServerProcess_setArguments_def
      IpcServerProcess_setInputChannelMode_def IpcServerProcess_setNativeArguments_def
      IpcServerProcess_setProcessChannelMode_def IpcServerProcess_setProgram_def
      IpcServerProcess_setWorkingDirectory_def QProcess_waitForStarted_def QProcess_start_def QProcess_close_def
      Utils_killProcessByName_def pr_effect_def split: if_split_asm)

definition permitted_inv :: "paths \<Rightarrow> QProcess \<Rightarrow> bool" where
  "permitted_inv P p \<longleftrightarrow>
     pr_program p \<in> insert [] (permitted P) \<and>
     (\<forall>program args. StartProgram program args \<in> set (pr_log p) \<longrightarrow> program \<in> permitted P)"

lemma permitted_step: "permitted_inv P p \<Longrightarrow> permitted_inv P (process_step P c p)"
  using process_step_program [of P c p] process_step_started [of _ _ P c p]
  by (auto simp: permitted_inv_def)

lemma permitted_calls: "permitted_inv P p \<Longrightarrow> permitted_inv P (fold (process_step P) calls p)"
  by (induction calls arbitrary: p) (simp_all add: permitted_step)

lemma permitted_new: "permitted_inv P QProcess_new"
  by (simp add: permitted_inv_def QProcess_new_def)

text \<open>
  C10: The privileged service runs no program of the client's choice.  Whatever calls a client
  makes on a privileged process, in whatever order and with whatever numbers and arguments, the
  programs that are started are OpenVPN, \<open>wg-quick\<close> and tun2socks at their fixed places.
\<close>

theorem only_permitted_programs:
  "{program. \<exists>args. StartProgram program args \<in> set (pr_log (fold (process_step P) calls QProcess_new))} \<subseteq>
    {Utils_openVpnExecPath P, Utils_wireguardExecPath P, Utils_tun2socksPath P}"
  using permitted_calls [OF permitted_new, of P calls] by (auto simp: permitted_inv_def permitted_def)

text \<open>
  After a start that found no service the next one reads a null pointer: the client that was
  created holds no replica, and \<open>Reinitialize\<close> calls \<open>connectionClose\<close> on it.
\<close>

theorem reinitialize_after_failure:
  assumes "IpcClient_Reinitialize a st = Inr (ok, st')" "\<not> at_connects a"
  shows "\<not> ok \<and> IpcClient_Reinitialize b st' = Inl NullPointer"
  using assms
  by (auto simp: IpcClient_Reinitialize_def IpcClient_init_def IpcClient_new_def Let_def
      split: option.split_asm)

theorem reinitialize_after_failure_witness:
  "\<exists>st'. IpcClient_Reinitialize \<lparr>at_uuid = ''a'', at_connects = False, at_ipcValid = False, at_t2sValid = False\<rparr>
      (None, []) = Inr (False, st') \<and>
    IpcClient_Reinitialize \<lparr>at_uuid = ''b'', at_connects = True, at_ipcValid = True, at_t2sValid = True\<rparr> st' =
      Inl NullPointer"
  using reinitialize_after_failure [of "\<lparr>at_uuid = ''a'', at_connects = False, at_ipcValid = False, at_t2sValid = False\<rparr>"
      "(None, [])" False "(Some (IpcClient_new ''a''), [])"
      "\<lparr>at_uuid = ''b'', at_connects = True, at_ipcValid = True, at_t2sValid = True\<rparr>"]
  by (auto simp: IpcClient_Reinitialize_def IpcClient_init_def IpcClient_new_def)

text \<open>While every attempt succeeds, the service waits for the close of the current client only.\<close>

definition good :: "attempt \<Rightarrow> bool" where
  "good a \<longleftrightarrow> at_connects a \<and> at_ipcValid a \<and> at_t2sValid a"

definition session_inv :: "'w IpcServer \<Rightarrow> ipc_client \<Rightarrow> bool" where
  "session_inv st c \<longleftrightarrow>
     (case fst c of
        None \<Rightarrow> m_pendingCleanClose (fold serve_session (snd c) st) = []
      | Some i \<Rightarrow> m_ipcClient i = Some True \<and>
          m_pendingCleanClose (fold serve_session (snd c) st) = [ic_uuid i])"

lemma reinitialize_good:
  assumes "session_inv st c" "good a"
  shows "\<exists>c'. IpcClient_Reinitialize a c = Inr (True, c') \<and> session_inv st c' \<and>
    map_option ic_uuid (fst c') = Some (at_uuid a)"
  using assms
  by (cases "fst c")
    (auto simp: session_inv_def good_def IpcClient_Reinitialize_def IpcClient_init_def IpcClient_new_def
      IpcServer_connectionEstablished_def IpcServer_connectionClose_def Let_def)

primrec reinitialize_all :: "attempt list \<Rightarrow> ipc_client \<Rightarrow> null_pointer + ipc_client" where
  "reinitialize_all [] c = Inr c"
| "reinitialize_all (a # as) c = sbind (IpcClient_Reinitialize a c) (\<lambda>(_, c). reinitialize_all as c)"

lemma reinitialize_all_good:
  assumes "session_inv st c" "list_all good as"
  shows "\<exists>c'. reinitialize_all as c = Inr c' \<and> session_inv st c' \<and>
    (as \<noteq> [] \<longrightarrow> map_option ic_uuid (fst c') = Some (at_uuid (last as)))"
  using assms
proof (induction as arbitrary: c)
  case (Cons a as)
  obtain c1 where c1: "IpcClient_Reinitialize a c = Inr (True, c1)" "session_inv st c1"
    "map_option ic_uuid (fst c1) = Some (at_uuid a)"
    using reinitialize_good [OF Cons.prems(1), of a] Cons.prems(2) by auto
  with Cons.IH [OF c1(2)] Cons.prems(2) show ?case by (cases as) auto
qed simp

text \<open>
  C18: A client that goes away without a word is noticed.  After any number of reconnections the
  service waits for exactly the client that connected last, and when the last connection breaks
  off it switches the kill switch off, turns IPv6 on again and stops tun2socks; a client that
  said goodbye leaves the service as it is.
\<close>

theorem dead_client_noticed:
  assumes "m_pendingCleanClose (m_ipcServer s) = []" "list_all good as" "as \<noteq> []" "m_connectionCount s = 1"
  shows "\<exists>i calls. reinitialize_all as (None, []) = Inr (Some i, calls) \<and> ic_uuid i = at_uuid (last as) \<and>
    (let st = fold serve_session calls (m_ipcServer s)
     in m_pendingCleanClose st = [ic_uuid i] \<and>
        m_ipcServer (LocalServer_disconnected os ro (s\<lparr>m_ipcServer := st\<rparr>)) =
          RouterLinux_StartRoutingIpv6 ro (st\<lparr>linux := firewall_run os LinuxFirewall_uninstall (linux st)\<rparr>) \<and>
        pr_log (m_t2sProcess (m_tun2socks (LocalServer_disconnected os ro (s\<lparr>m_ipcServer := st\<rparr>)))) =
          pr_log (m_t2sProcess (m_tun2socks s)) @ [CloseProcess] \<and>
        (let bye = serve_session (ConnectionClose (ic_uuid i)) st
         in m_ipcServer (LocalServer_disconnected os ro (s\<lparr>m_ipcServer := bye\<rparr>)) = bye))"
proof -
  have "session_inv (m_ipcServer s) (None, [])" using assms(1) by (simp add: session_inv_def)
  from reinitialize_all_good [OF this assms(2)] assms(3)
  obtain i calls where i: "reinitialize_all as (None, []) = Inr (Some i, calls)" "ic_uuid i = at_uuid (last as)"
    "m_pendingCleanClose (fold serve_session calls (m_ipcServer s)) = [ic_uuid i]"
    by (auto simp: session_inv_def)
  then show ?thesis
    using assms(4)
    by (simp add: LocalServer_disconnected_def IpcServer_hasPendingConnectionClose_def IpcServer_amneziaKilled_def
        IpcServer_StartRoutingIpv6_def Router_StartRoutingIpv6_def IpcServer_disableKillSwitch_def
        IpcServer_connectionClose_def IpcProcessTun2Socks_stop_def t_process_def QProcess_close_def pr_effect_def)
qed

definition sample_attempt :: attempt where
  "sample_attempt = \<lparr>at_uuid = ''a'', at_connects = True, at_ipcValid = True, at_t2sValid = True\<rparr>"

text \<open>A system whose world counts the calls, as in \<open>sample_os\<close>.\<close>

definition counting_ro :: "nat router_os" where
  "counting_ro =
     \<lparr>ro_inet_addr = ro_inet_addr sample_ro, ro_ioctl = (\<lambda>_ w. (0, Suc w)), ro_exists = (\<lambda>_ _. False),
      ro_start = (\<lambda>_ _ w. Suc w), ro_sudo = (\<lambda>_ w. ((True, True), Suc w)), ro_rtnl = (\<lambda>_. 3),
      ro_send = (\<lambda>_ w. (52, Suc w)), ro_past_end = (\<lambda>_. []), ro_listen = (\<lambda>_ w. (True, w)),
      ro_logger = (\<lambda>_ w. Suc w)\<rparr>"

theorem dead_client_noticed_witness:
  "\<exists>i calls. reinitialize_all [sample_attempt, sample_attempt\<lparr>at_uuid := ''b''\<rparr>] (None, []) =
    Inr (Some i, calls) \<and> ic_uuid i = ''b''"
  using dead_client_noticed [of "(LocalServer_new counting_ro (sample_linux 0))\<lparr>m_connectionCount := 1\<rparr>"
      "[sample_attempt, sample_attempt\<lparr>at_uuid := ''b''\<rparr>]" sample_os counting_ro]
  by (auto simp: LocalServer_new_def IpcServer_new_def sample_attempt_def good_def case_prod_beta set_world_def Let_def)

text \<open>Every start of tun2socks connects the slots once more, so one end is signalled once per start.\<close>

lemma bungus_states: "t_states (IpcProcessTun2Socks_bungus code normal t) = t_states t @ [StateDisconnected]"
  by (simp add: IpcProcessTun2Socks_bungus_def IpcProcessTun2Socks_stop_def t_process_def t_emit_def Let_def)

lemma bungus_iterated:
  "t_states ((IpcProcessTun2Socks_bungus code normal ^^ n) t) = t_states t @ replicate n StateDisconnected"
  by (induction n) (simp_all add: bungus_states replicate_append_same)

lemma tun2socks_starts:
  "t_bungus ((IpcProcessTun2Socks_start P launched ^^ n) t) = t_bungus t + n"
  "t_states ((IpcProcessTun2Socks_start P launched ^^ n) t) = t_states t"
  by (induction n) (simp_all add: IpcProcessTun2Socks_start_def t_process_def Let_def)

lemma tun2socks_repeated_signals:
  "t_states (tun2socks_finished code normal ((IpcProcessTun2Socks_start P launched ^^ n) IpcProcessTun2Socks_new)) =
    replicate n StateDisconnected"
  by (simp add: tun2socks_finished_def bungus_iterated tun2socks_starts t_process_def)
    (simp add: IpcProcessTun2Socks_new_def)

end
