(* ===== verification/Secure_Settings.thy ===== *)
theory Secure_Settings
  imports Local_Socket Network_Utilities "HOL-Library.Countable"
begin

text \<open>
  \<open>client/secure_qsettings.cpp\<close>: the persistent settings, a key-value store with a cache in front of
  it, in which the list of servers is kept encrypted.

  The record \<open>vault\<close> holds what the file takes from elsewhere: the platform, the system's key chain,
  the cipher and the random salt of QSimpleCrypto, and the serialisation of variants and JSON of
  Qt.  The state holds the \<open>QSettings\<close> object as a map of its keys, the cache, and the key chain.

  The properties show that the class implements a plain map: a value is read as it was written,
  from the cache and from the store alike, so a restart does not change what is read.
\<close>

section \<open>Variants\<close>

datatype qvariant =
    VInvalid
  | VBool bool
  | VInt int
  | VString string
  | VBytes string
  | VMap "(string \<times> qvariant) list"
  | VJsonArray "qjson list"
  | VDateTime string
  | VLocale string

section \<open>State\<close>

record 'k vault =
  va_linux :: bool
  va_read :: "string \<Rightarrow> 'k \<Rightarrow> string"
  va_write :: "string \<Rightarrow> string \<Rightarrow> 'k \<Rightarrow> 'k"
  va_salt :: "int \<Rightarrow> 'k \<Rightarrow> string \<times> 'k"
  va_encrypt :: "string \<Rightarrow> string \<Rightarrow> string \<Rightarrow> string option"
  va_decrypt :: "string \<Rightarrow> string \<Rightarrow> string \<Rightarrow> string option"
  va_pack :: "qvariant \<Rightarrow> string"
  va_unpack :: "string \<Rightarrow> qvariant"
  va_fromVariant :: "qvariant \<Rightarrow> qjson"
  va_toVariant :: "qjson \<Rightarrow> qvariant"
  va_printObject :: "qjobject \<Rightarrow> string"
  va_parseObject :: "string \<Rightarrow> qjobject"
  va_printArray :: "qjson list \<Rightarrow> string"
  va_parseArray :: "string \<Rightarrow> qjson list"

record 'k SecureQSettings =
  m_settings :: "(string \<times> qvariant) list"
  m_cache :: "(string \<times> qvariant) list"
  m_key :: string
  m_iv :: string
  chain :: 'k

definition settingsKeyTag :: string where "settingsKeyTag = ''settingsKeyTag''"
definition settingsIvTag :: string where "settingsIvTag = ''settingsIvTag''"
definition encryptedKeys :: "string list" where "encryptedKeys = [''Servers/serversList'']"
definition fieldsToBackup :: "string list" where "fieldsToBackup = [''Conf/'', ''Servers/'']"
definition magicString :: string where "magicString = ''EncData''"

section \<open>Keys and encryption\<close>

definition SecureQSettings_encryptionRequired :: "'k vault \<Rightarrow> bool" where
  "SecureQSettings_encryptionRequired V \<longleftrightarrow> \<not> va_linux V"

definition SecureQSettings_getSecTag :: "'k vault \<Rightarrow> string \<Rightarrow> 'k SecureQSettings \<Rightarrow> string" where
  "SecureQSettings_getSecTag V tag s = va_read V tag (chain s)"

definition SecureQSettings_setSecTag ::
  "'k vault \<Rightarrow> string \<Rightarrow> string \<Rightarrow> 'k SecureQSettings \<Rightarrow> 'k SecureQSettings"
where
  "SecureQSettings_setSecTag V tag data s = s\<lparr>chain := va_write V tag data (chain s)\<rparr>"

definition SecureQSettings_getEncKey :: "'k vault \<Rightarrow> 'k SecureQSettings \<Rightarrow> string \<times> 'k SecureQSettings" where
  "SecureQSettings_getEncKey V s =
     (let s = s\<lparr>m_key := SecureQSettings_getSecTag V settingsKeyTag s\<rparr>
      in if m_key s \<noteq> [] then (m_key s, s)
         else
           (let (key, k) = va_salt V 32 (chain s);
                s = SecureQSettings_setSecTag V settingsKeyTag key (s\<lparr>chain := k\<rparr>);
                s = s\<lparr>m_key := SecureQSettings_getSecTag V settingsKeyTag s\<rparr>
            in if key \<noteq> m_key s then ([], s) else (m_key s, s)))"

definition SecureQSettings_getEncIv :: "'k vault \<Rightarrow> 'k SecureQSettings \<Rightarrow> string \<times> 'k SecureQSettings" where
  "SecureQSettings_getEncIv V s =
     (let s = s\<lparr>m_iv := SecureQSettings_getSecTag V settingsIvTag s\<rparr>
      in if m_iv s \<noteq> [] then (m_iv s, s)
         else
           (let (iv, k) = va_salt V 32 (chain s);
                s = SecureQSettings_setSecTag V settingsIvTag iv (s\<lparr>chain := k\<rparr>);
                s = s\<lparr>m_iv := SecureQSettings_getSecTag V settingsIvTag s\<rparr>
            in if iv \<noteq> m_iv s then ([], s) else (m_iv s, s)))"

text \<open>An exception of the cipher leaves the result empty.\<close>

definition SecureQSettings_encryptText ::
  "'k vault \<Rightarrow> string \<Rightarrow> 'k SecureQSettings \<Rightarrow> string \<times> 'k SecureQSettings"
where
  "SecureQSettings_encryptText V value s =
     (let (key, s) = SecureQSettings_getEncKey V s; (iv, s) = SecureQSettings_getEncIv V s
      in (case va_encrypt V value key iv of None \<Rightarrow> [] | Some e \<Rightarrow> e, s))"

definition SecureQSettings_decryptText ::
  "'k vault \<Rightarrow> string \<Rightarrow> 'k SecureQSettings \<Rightarrow> string \<times> 'k SecureQSettings"
where
  "SecureQSettings_decryptText V ba s =
     (let (key, s) = SecureQSettings_getEncKey V s; (iv, s) = SecureQSettings_getEncIv V s
      in (case va_decrypt V ba key iv of None \<Rightarrow> [] | Some d \<Rightarrow> d, s))"

text \<open>The test \<open>getEncKey().isEmpty() || getEncIv().isEmpty()\<close>, with its effects.\<close>

definition keys_missing :: "'k vault \<Rightarrow> 'k SecureQSettings \<Rightarrow> bool \<times> 'k SecureQSettings" where
  "keys_missing V s =
     (let (key, s) = SecureQSettings_getEncKey V s
      in if key = [] then (True, s)
         else (let (iv, s) = SecureQSettings_getEncIv V s in (iv = [], s)))"

section \<open>Values\<close>

definition marked :: "qvariant \<Rightarrow> bool" where
  "marked v \<longleftrightarrow> (case v of VBytes b \<Rightarrow> take (length magicString) b = magicString | _ \<Rightarrow> False)"

definition marked_text :: "qvariant \<Rightarrow> string" where
  "marked_text v = (case v of VBytes b \<Rightarrow> drop (length magicString) b | _ \<Rightarrow> [])"

definition SecureQSettings_value ::
  "'k vault \<Rightarrow> string \<Rightarrow> qvariant \<Rightarrow> 'k SecureQSettings \<Rightarrow> qvariant \<times> 'k SecureQSettings"
where
  "SecureQSettings_value V key defaultValue s =
     (case map_of (m_cache s) key of
        Some v \<Rightarrow> (v, s)
      | None \<Rightarrow>
          (case map_of (m_settings s) key of
             None \<Rightarrow> (defaultValue, s)
           | Some retVal \<Rightarrow>
               if retVal \<noteq> VInvalid \<and> marked retVal then
                 (let (missing, s) = keys_missing V s
                  in if missing then (VInvalid, s)
                     else
                       (let (decryptedValue, s) = SecureQSettings_decryptText V (marked_text retVal) s;
                            retVal = va_unpack V decryptedValue
                        in (retVal, s\<lparr>m_cache := qmap_insert key retVal (m_cache s)\<rparr>)))
               else (retVal, s\<lparr>m_cache := qmap_insert key retVal (m_cache s)\<rparr>)))"

definition SecureQSettings_setValue ::
  "'k vault \<Rightarrow> string \<Rightarrow> qvariant \<Rightarrow> 'k SecureQSettings \<Rightarrow> 'k SecureQSettings"
where
  "SecureQSettings_setValue V key value s =
     (if SecureQSettings_encryptionRequired V \<and> key \<in> set encryptedKeys then
        (let (missing, s) = keys_missing V s
         in if missing then s
            else
              (let (encryptedValue, s) = SecureQSettings_encryptText V (va_pack V value) s
               in s\<lparr>m_settings := qmap_insert key (VBytes (magicString @ encryptedValue)) (m_settings s),
                    m_cache := qmap_insert key value (m_cache s)\<rparr>))
      else s\<lparr>m_settings := qmap_insert key value (m_settings s),
             m_cache := qmap_insert key value (m_cache s)\<rparr>)"

text \<open>\<open>QSettings::remove\<close> takes the keys below a key with it.\<close>

definition below :: "string \<Rightarrow> string \<Rightarrow> bool" where
  "below key k \<longleftrightarrow> k = key \<or> starts_with (key @ ''/'') k"

definition SecureQSettings_remove :: "string \<Rightarrow> 'k SecureQSettings \<Rightarrow> 'k SecureQSettings" where
  "SecureQSettings_remove key s =
     s\<lparr>m_settings := filter (\<lambda>e. \<not> below key (fst e)) (m_settings s),
       m_cache := qmap_remove key (m_cache s)\<rparr>"

definition SecureQSettings_clearSettings :: "'k SecureQSettings \<Rightarrow> 'k SecureQSettings" where
  "SecureQSettings_clearSettings s = s\<lparr>m_settings := [], m_cache := []\<rparr>"

text \<open>The constructor encrypts the values an old version has left in clear text.\<close>

definition convert_key :: "'k vault \<Rightarrow> string \<Rightarrow> 'k SecureQSettings \<Rightarrow> 'k SecureQSettings" where
  "convert_key V key s =
     (if key \<in> set encryptedKeys
      then (let (val, s) = SecureQSettings_value V key VInvalid s in SecureQSettings_setValue V key val s)
      else s)"

definition toBool :: "qvariant \<Rightarrow> bool" where
  "toBool v =
     (case v of
        VBool b \<Rightarrow> b
      | VInt i \<Rightarrow> i \<noteq> 0
      | VString t \<Rightarrow> toLower t \<notin> {[], ''0'', ''false''}
      | VBytes t \<Rightarrow> toLower t \<notin> {[], ''0'', ''false''}
      | _ \<Rightarrow> False)"

definition SecureQSettings_new :: "'k vault \<Rightarrow> (string \<times> qvariant) list \<Rightarrow> 'k \<Rightarrow> 'k SecureQSettings" where
  "SecureQSettings_new V store k =
     (let s = \<lparr>m_settings = store, m_cache = [], m_key = [], m_iv = [], chain = k\<rparr>;
          encrypted = (case map_of store ''Conf/encrypted'' of None \<Rightarrow> False | Some v \<Rightarrow> toBool v)
      in if SecureQSettings_encryptionRequired V \<and> \<not> encrypted
         then (let s = fold (convert_key V) (map fst store) s
               in s\<lparr>m_settings := qmap_insert ''Conf/encrypted'' (VBool True) (m_settings s)\<rparr>)
         else s)"

section \<open>Backup\<close>

definition needToBackup :: "string \<Rightarrow> bool" where
  "needToBackup key \<longleftrightarrow> key \<noteq> ''Conf/installationUuid'' \<and> list_ex (\<lambda>item. starts_with item key) fieldsToBackup"

definition backup_key ::
  "'k vault \<Rightarrow> string \<Rightarrow> qjobject \<times> 'k SecureQSettings \<Rightarrow> qjobject \<times> 'k SecureQSettings"
where
  "backup_key V key = (\<lambda>(cfg, s).
     if \<not> needToBackup key then (cfg, s)
     else (let (v, s) = SecureQSettings_value V key VInvalid s
           in (json_put key (va_fromVariant V v) cfg, s)))"

definition SecureQSettings_backupAppConfig :: "'k vault \<Rightarrow> 'k SecureQSettings \<Rightarrow> string \<times> 'k SecureQSettings" where
  "SecureQSettings_backupAppConfig V s =
     (let (cfg, s) = fold (backup_key V) (map fst (m_settings s)) ([], s)
      in (va_printObject V cfg, s))"

definition restore_key :: "'k vault \<Rightarrow> string \<times> qjson \<Rightarrow> 'k SecureQSettings \<Rightarrow> 'k SecureQSettings" where
  "restore_key V = (\<lambda>(key, v) s.
     if key = ''Conf/installationUuid'' then s
     else SecureQSettings_setValue V key (va_toVariant V v) s)"

definition SecureQSettings_restoreAppConfig ::
  "'k vault \<Rightarrow> string \<Rightarrow> 'k SecureQSettings \<Rightarrow> bool \<times> 'k SecureQSettings"
where
  "SecureQSettings_restoreAppConfig V json s =
     (let cfg = va_parseObject V json
      in if cfg = [] then (False, s) else (True, fold (restore_key V) cfg s))"

section \<open>The map behind the class\<close>

text \<open>What the store holds for a key, as a program with an empty cache reads it.\<close>

definition decode :: "'k vault \<Rightarrow> 'k \<Rightarrow> qvariant \<Rightarrow> qvariant" where
  "decode V k v =
     (if marked v
      then va_unpack V (case va_decrypt V (marked_text v) (va_read V settingsKeyTag k) (va_read V settingsIvTag k)
                        of None \<Rightarrow> [] | Some d \<Rightarrow> d)
      else v)"

definition view :: "'k vault \<Rightarrow> 'k SecureQSettings \<Rightarrow> string \<Rightarrow> qvariant option" where
  "view V s key = map_option (decode V (chain s)) (map_of (m_settings s) key)"

text \<open>
  The documented behaviour of the cipher and of the serialisation: what is encrypted with a key can be
  decrypted with it, and what is written to a stream is read back.
\<close>

definition cipher_ok :: "'k vault \<Rightarrow> bool" where
  "cipher_ok V \<longleftrightarrow>
     (\<forall>x key iv. key \<noteq> [] \<and> iv \<noteq> [] \<longrightarrow>
        (\<exists>e. va_encrypt V x key iv = Some e \<and> va_decrypt V e key iv = Some x)) \<and>
     (\<forall>v. va_unpack V (va_pack V v) = v)"

definition keys_present :: "'k vault \<Rightarrow> 'k \<Rightarrow> bool" where
  "keys_present V k \<longleftrightarrow> va_read V settingsKeyTag k \<noteq> [] \<and> va_read V settingsIvTag k \<noteq> []"

text \<open>The cache agrees with the store, and no value needs a key that the key chain does not have.\<close>

definition secure_ok :: "'k vault \<Rightarrow> 'k SecureQSettings \<Rightarrow> bool" where
  "secure_ok V s \<longleftrightarrow>
     cipher_ok V \<and>
     (keys_present V (chain s) \<or>
      \<not> SecureQSettings_encryptionRequired V \<and> (\<forall>key v. map_of (m_settings s) key = Some v \<longrightarrow> \<not> marked v)) \<and>
     (\<forall>key v. map_of (m_cache s) key = Some v \<longrightarrow> view V s key = Some v)"

lemma getEncKey_present:
  "va_read V settingsKeyTag (chain s) \<noteq> [] \<Longrightarrow>
    SecureQSettings_getEncKey V s =
      (va_read V settingsKeyTag (chain s), s\<lparr>m_key := va_read V settingsKeyTag (chain s)\<rparr>)"
  by (simp add: SecureQSettings_getEncKey_def SecureQSettings_getSecTag_def)

lemma getEncIv_present:
  "va_read V settingsIvTag (chain s) \<noteq> [] \<Longrightarrow>
    SecureQSettings_getEncIv V s =
      (va_read V settingsIvTag (chain s), s\<lparr>m_iv := va_read V settingsIvTag (chain s)\<rparr>)"
  by (simp add: SecureQSettings_getEncIv_def SecureQSettings_getSecTag_def)

text \<open>With both keys present the key chain stays as it is; only the copies of the keys are refreshed.\<close>

definition refresh :: "'k vault \<Rightarrow> 'k SecureQSettings \<Rightarrow> 'k SecureQSettings" where
  "refresh V s = s\<lparr>m_key := va_read V settingsKeyTag (chain s), m_iv := va_read V settingsIvTag (chain s)\<rparr>"

lemma refresh_simps [simp]:
  "m_settings (refresh V s) = m_settings s" "m_cache (refresh V s) = m_cache s" "chain (refresh V s) = chain s"
  "refresh V (refresh V s) = refresh V s"
  by (simp_all add: refresh_def)

lemma crypt_present:
  assumes "keys_present V (chain s)"
  shows "keys_missing V s = (False, refresh V s)"
    and "SecureQSettings_encryptText V x s =
      (case va_encrypt V x (va_read V settingsKeyTag (chain s)) (va_read V settingsIvTag (chain s)) of
         None \<Rightarrow> [] | Some e \<Rightarrow> e, refresh V s)"
    and "SecureQSettings_decryptText V x s =
      (case va_decrypt V x (va_read V settingsKeyTag (chain s)) (va_read V settingsIvTag (chain s)) of
         None \<Rightarrow> [] | Some e \<Rightarrow> e, refresh V s)"
  using assms
  by (simp_all add: keys_present_def keys_missing_def SecureQSettings_encryptText_def
      SecureQSettings_decryptText_def getEncKey_present getEncIv_present refresh_def)

lemma view_cong: "m_settings s = m_settings s' \<Longrightarrow> chain s = chain s' \<Longrightarrow> view V s = view V s'"
  by (simp add: view_def fun_eq_iff)

lemma value_miss:
  assumes "secure_ok V s" "map_of (m_cache s) key = None" "map_of (m_settings s) key = Some v"
  shows "\<exists>s'. SecureQSettings_value V key d s = (decode V (chain s) v, s') \<and>
    m_settings s' = m_settings s \<and> chain s' = chain s \<and>
    m_cache s' = qmap_insert key (decode V (chain s) v) (m_cache s)"
proof (cases "marked v")
  case True
  with assms have k: "keys_present V (chain s)" by (auto simp: secure_ok_def)
  from True have "v \<noteq> VInvalid" by (auto simp: marked_def)
  with True assms k show ?thesis
    by (simp add: SecureQSettings_value_def crypt_present decode_def Let_def)
next
  case False
  with assms show ?thesis by (simp add: SecureQSettings_value_def decode_def)
qed

lemma value_spec:
  assumes "secure_ok V s"
  shows "fst (SecureQSettings_value V key d s) = (case view V s key of None \<Rightarrow> d | Some v \<Rightarrow> v)"
    and "view V (snd (SecureQSettings_value V key d s)) = view V s"
    and "secure_ok V (snd (SecureQSettings_value V key d s))"
proof -
  have "fst (SecureQSettings_value V key d s) = (case view V s key of None \<Rightarrow> d | Some v \<Rightarrow> v) \<and>
    view V (snd (SecureQSettings_value V key d s)) = view V s \<and>
    secure_ok V (snd (SecureQSettings_value V key d s))"
  proof (cases "map_of (m_cache s) key")
    case (Some v)
    moreover from Some assms have "view V s key = Some v" by (simp add: secure_ok_def)
    ultimately show ?thesis using assms by (simp add: SecureQSettings_value_def)
  next
    case None
    show ?thesis
    proof (cases "map_of (m_settings s) key")
      case Nothing: None
      with None assms show ?thesis by (simp add: SecureQSettings_value_def view_def)
    next
      case (Some v)
      obtain s' where s': "SecureQSettings_value V key d s = (decode V (chain s) v, s')"
        "m_settings s' = m_settings s" "chain s' = chain s"
        "m_cache s' = qmap_insert key (decode V (chain s) v) (m_cache s)"
        using value_miss [OF assms None Some] by blast
      have v: "view V s' = view V s" by (rule view_cong [OF s'(2,3)])
      have "view V s key = Some (decode V (chain s) v)" using Some by (simp add: view_def)
      with s' v assms show ?thesis by (simp add: secure_ok_def)
    qed
  qed
  then show "fst (SecureQSettings_value V key d s) = (case view V s key of None \<Rightarrow> d | Some v \<Rightarrow> v)"
    "view V (snd (SecureQSettings_value V key d s)) = view V s"
    "secure_ok V (snd (SecureQSettings_value V key d s))" by simp_all
qed

lemma setValue_encrypted:
  assumes "secure_ok V s" "SecureQSettings_encryptionRequired V" "key \<in> set encryptedKeys"
  shows "\<exists>v'. decode V (chain s) v' = v \<and>
    SecureQSettings_setValue V key v s = (refresh V s)\<lparr>m_settings := qmap_insert key v' (m_settings s),
      m_cache := qmap_insert key v (m_cache s)\<rparr>"
proof -
  have k: "keys_present V (chain s)" using assms(1,2) by (auto simp: secure_ok_def)
  let ?key = "va_read V settingsKeyTag (chain s)" and ?iv = "va_read V settingsIvTag (chain s)"
  obtain e where e: "va_encrypt V (va_pack V v) ?key ?iv = Some e" "va_decrypt V e ?key ?iv = Some (va_pack V v)"
    using assms(1) k unfolding secure_ok_def cipher_ok_def keys_present_def by blast
  show ?thesis
  proof (intro exI conjI)
    show "decode V (chain s) (VBytes (magicString @ e)) = v"
      using e assms(1) by (simp add: decode_def marked_def marked_text_def secure_ok_def cipher_ok_def)
    show "SecureQSettings_setValue V key v s = (refresh V s)\<lparr>m_settings := qmap_insert key
        (VBytes (magicString @ e)) (m_settings s), m_cache := qmap_insert key v (m_cache s)\<rparr>"
      using k e assms(2,3) by (simp add: SecureQSettings_setValue_def crypt_present)
  qed
qed

lemma setValue_view:
  assumes "secure_ok V s" "\<not> marked v"
  shows "view V (SecureQSettings_setValue V key v s) = (view V s)(key \<mapsto> v)"
    and "secure_ok V (SecureQSettings_setValue V key v s)"
proof -
  obtain v' s' where s': "SecureQSettings_setValue V key v s =
      s'\<lparr>m_settings := qmap_insert key v' (m_settings s), m_cache := qmap_insert key v (m_cache s)\<rparr>"
    "chain s' = chain s" "decode V (chain s) v' = v"
    "marked v' \<longrightarrow> keys_present V (chain s)"
  proof (cases "SecureQSettings_encryptionRequired V \<and> key \<in> set encryptedKeys")
    case True
    moreover have "keys_present V (chain s)" using assms(1) True by (auto simp: secure_ok_def)
    ultimately show ?thesis using setValue_encrypted [OF assms(1), of key v] that by fastforce
  next
    case False
    then have eq: "SecureQSettings_setValue V key v s =
      s\<lparr>m_settings := qmap_insert key v (m_settings s), m_cache := qmap_insert key v (m_cache s)\<rparr>"
      by (auto simp: SecureQSettings_setValue_def)
    show ?thesis by (rule that [OF eq]) (use assms(2) in \<open>simp_all add: decode_def\<close>)
  qed
  show v: "view V (SecureQSettings_setValue V key v s) = (view V s)(key \<mapsto> v)"
    using s'(2,3) by (simp add: view_def s'(1) fun_eq_iff)
  show "secure_ok V (SecureQSettings_setValue V key v s)"
    using assms(1) s'(2,4) unfolding secure_ok_def v by (auto simp: s'(1))
qed

section \<open>The contract\<close>

text \<open>
  What the users of the settings rely on, whatever the platform: a read finds what was written last
  under its key.
\<close>

locale settings_store =
  fixes fetch :: "'s \<Rightarrow> string \<Rightarrow> qvariant \<Rightarrow> qvariant"
    and store :: "string \<Rightarrow> qvariant \<Rightarrow> 's \<Rightarrow> 's"
    and ok :: "'s \<Rightarrow> bool"
  assumes ok_store: "ok s \<Longrightarrow> \<not> marked v \<Longrightarrow> ok (store k v s)"
    and fetch_store: "ok s \<Longrightarrow> \<not> marked v \<Longrightarrow> fetch (store k v s) k' d = (if k' = k then v else fetch s k' d)"
begin

lemma ok_stores: "ok s \<Longrightarrow> list_all (\<lambda>e. \<not> marked (snd e)) kvs \<Longrightarrow> ok (fold (\<lambda>(k, v). store k v) kvs s)"
  by (induction kvs arbitrary: s) (auto simp: ok_store)

lemma fetch_stores:
  assumes "ok s" "list_all (\<lambda>e. \<not> marked (snd e)) kvs" "distinct (map fst kvs)"
  shows "fetch (fold (\<lambda>(k, v). store k v) kvs s) k d = (case map_of kvs k of None \<Rightarrow> fetch s k d | Some v \<Rightarrow> v)"
  using assms
proof (induction kvs arbitrary: s)
  case (Cons e kvs)
  obtain k' v where e: "e = (k', v)" by (cases e)
  with Cons have "fetch (fold (\<lambda>(k, v). store k v) kvs (store k' v s)) k d =
      (case map_of kvs k of None \<Rightarrow> fetch (store k' v s) k d | Some v \<Rightarrow> v)"
    by (simp add: ok_store)
  moreover have "map_of kvs k' = None" using Cons.prems(3) by (simp add: e map_of_eq_None_iff)
  ultimately show ?case using Cons.prems by (auto simp: e fetch_store split: option.split)
qed simp

lemma store_last: "ok s \<Longrightarrow> \<not> marked v \<Longrightarrow> \<not> marked w \<Longrightarrow> fetch (store k v (store k w s)) = fetch (store k v s)"
  by (simp add: fun_eq_iff fetch_store ok_store)

lemma store_commute:
  "ok s \<Longrightarrow> \<not> marked v \<Longrightarrow> \<not> marked w \<Longrightarrow> k \<noteq> k' \<Longrightarrow>
    fetch (store k v (store k' w s)) = fetch (store k' w (store k v s))"
  by (simp add: fun_eq_iff fetch_store ok_store)

end

interpretation secure: settings_store
  "\<lambda>s key d. fst (SecureQSettings_value V key d s)" "SecureQSettings_setValue V" "secure_ok V" for V
  by unfold_locales (simp_all add: setValue_view value_spec)

text \<open>A restart forgets the cache.\<close>

definition restart :: "'k SecureQSettings \<Rightarrow> 'k SecureQSettings" where
  "restart s = s\<lparr>m_cache := [], m_key := [], m_iv := []\<rparr>"

lemma restart_ok: "secure_ok V s \<Longrightarrow> secure_ok V (restart s) \<and> view V (restart s) = view V s"
  using view_cong [of "restart s" s V] by (auto simp: secure_ok_def restart_def)


text \<open>
  A key chain that holds both keys, a cipher that changes nothing and a stream that numbers the
  variants, for examples.
\<close>

instance qjson :: countable
  by countable_datatype

instance qvariant :: countable
  by countable_datatype

definition sample_vault :: "bool \<Rightarrow> unit vault" where
  "sample_vault linux =
     \<lparr>va_linux = linux, va_read = (\<lambda>_ _. ''k''), va_write = (\<lambda>_ _ k. k), va_salt = (\<lambda>_ k. (''s'', k)),
      va_encrypt = (\<lambda>x _ _. Some x), va_decrypt = (\<lambda>x _ _. Some x),
      va_pack = (\<lambda>v. replicate (to_nat v) CHR ''x''), va_unpack = (\<lambda>s. from_nat (length s)),
      va_fromVariant = (\<lambda>v. case v of VBool b \<Rightarrow> JBool b | VString s \<Rightarrow> JString s | _ \<Rightarrow> JNull),
      va_toVariant = (\<lambda>j. case j of JBool b \<Rightarrow> VBool b | JString s \<Rightarrow> VString s | _ \<Rightarrow> VInvalid),
      va_printObject = (\<lambda>ob. replicate (to_nat ob) CHR ''x''), va_parseObject = (\<lambda>s. from_nat (length s)),
      va_printArray = (\<lambda>ob. replicate (to_nat ob) CHR ''x''), va_parseArray = (\<lambda>s. from_nat (length s))\<rparr>"

definition fresh_settings :: "unit SecureQSettings" where
  "fresh_settings = \<lparr>m_settings = [], m_cache = [], m_key = [], m_iv = [], chain = ()\<rparr>"

lemma fresh_ok: "secure_ok (sample_vault linux) fresh_settings"
  by (simp add: secure_ok_def cipher_ok_def keys_present_def sample_vault_def fresh_settings_def)


section \<open>Backup and restore\<close>

definition stored :: "'k vault \<Rightarrow> 'k SecureQSettings \<Rightarrow> string \<Rightarrow> qvariant" where
  "stored V s k = (case view V s k of None \<Rightarrow> VInvalid | Some v \<Rightarrow> v)"

definition backup_of :: "'k vault \<Rightarrow> 'k SecureQSettings \<Rightarrow> string list \<Rightarrow> qjobject \<Rightarrow> qjobject" where
  "backup_of V s keys cfg =
     fold (\<lambda>k. json_put k (va_fromVariant V (stored V s k))) (filter needToBackup keys) cfg"

lemma backup_fold:
  assumes "secure_ok V s"
  shows "\<exists>s'. fold (backup_key V) keys (cfg, s) = (backup_of V s keys cfg, s') \<and> view V s' = view V s \<and> secure_ok V s'"
  using assms
proof (induction keys arbitrary: cfg s)
  case (Cons k keys)
  show ?case
  proof (cases "needToBackup k")
    case True
    obtain v s1 where v: "SecureQSettings_value V k VInvalid s = (v, s1)" by fastforce
    then have s1: "v = stored V s k" "view V s1 = view V s" "secure_ok V s1"
      using value_spec [OF Cons.prems, of k VInvalid] by (simp_all add: stored_def)
    then have "stored V s1 = stored V s" by (simp add: stored_def fun_eq_iff)
    with Cons.IH [OF s1(3), of "json_put k (va_fromVariant V v) cfg"] True v s1 show ?thesis
      by (auto simp: backup_key_def backup_of_def)
  next
    case False
    with Cons show ?thesis by (simp add: backup_key_def backup_of_def)
  qed
qed (simp add: backup_of_def)

lemma backup_entries:
  assumes "\<And>k. va_fromVariant V (stored V s k) \<noteq> JUndefined"
  shows "map_of (backup_of V s keys cfg) k =
    (if k \<in> set keys \<and> needToBackup k then Some (va_fromVariant V (stored V s k)) else map_of cfg k)"
    and "qmap_ok cfg \<Longrightarrow> qmap_ok (backup_of V s keys cfg)"
  using assms by (induction keys arbitrary: cfg) (auto simp: backup_of_def json_put_def qmap_ok_insert)

lemma restore_fold:
  assumes "secure_ok V s" "list_all (\<lambda>e. \<not> marked (va_toVariant V (snd e))) cfg" "distinct (map fst cfg)"
  shows "view V (fold (restore_key V) cfg s) k =
      (if k = ''Conf/installationUuid'' then view V s k
       else case map_of cfg k of None \<Rightarrow> view V s k | Some j \<Rightarrow> Some (va_toVariant V j)) \<and>
    secure_ok V (fold (restore_key V) cfg s)"
  using assms
proof (induction cfg arbitrary: s)
  case (Cons e cfg)
  obtain k' j where e: "e = (k', j)" by (cases e)
  define s1 where "s1 = restore_key V e s"
  have s1: "secure_ok V s1" "view V s1 = (if k' = ''Conf/installationUuid'' then view V s else (view V s)(k' \<mapsto> va_toVariant V j))"
    using Cons.prems setValue_view [OF Cons.prems(1), of "va_toVariant V j" k']
    by (simp_all add: s1_def e restore_key_def)
  have "map_of cfg k' = None" using Cons.prems(3) by (simp add: e map_of_eq_None_iff)
  with Cons.IH [OF s1(1)] Cons.prems(2,3) s1(2) show ?case
    by (auto simp: e s1_def split: option.split)
qed simp

lemma qmap_ok_distinct: "qmap_ok m \<Longrightarrow> distinct (map fst m)"
  by (simp add: qmap_ok_def strict_sorted_iff)

text \<open>
  C19: Restoring a backup brings back every value below \<open>Conf/\<close> and \<open>Servers/\<close>, as it survives the
  trip through JSON, and changes nothing else: the identifier of the installation and all keys that
  the backup does not have keep their values.
\<close>

theorem backup_restored:
  assumes "secure_ok V s" "secure_ok V t"
    and "SecureQSettings_backupAppConfig V s = (json, s')"
    and "\<And>ob. qmap_ok ob \<Longrightarrow> va_parseObject V (va_printObject V ob) = ob"
    and "\<And>k. va_fromVariant V (stored V s k) \<noteq> JUndefined"
    and "\<And>k. \<not> marked (va_toVariant V (va_fromVariant V (stored V s k)))"
    and "\<exists>k v. view V s k = Some v \<and> needToBackup k"
  shows "\<exists>t'. SecureQSettings_restoreAppConfig V json t = (True, t') \<and> secure_ok V t' \<and>
    view V t' = (\<lambda>k. case view V s k of
        Some v \<Rightarrow> if needToBackup k then Some (va_toVariant V (va_fromVariant V v)) else view V t k
      | None \<Rightarrow> view V t k)"
proof -
  let ?cfg = "backup_of V s (map fst (m_settings s)) []"
  have dom: "k \<in> set (map fst (m_settings s)) \<longleftrightarrow> view V s k \<noteq> None" for k
    by (simp add: view_def map_of_eq_None_iff)
  have entries: "map_of ?cfg k =
      (if view V s k \<noteq> None \<and> needToBackup k then Some (va_fromVariant V (stored V s k)) else None)" for k
    using backup_entries(1) [of V s, OF assms(5)] by (simp only: dom) simp
  have ok: "qmap_ok ?cfg" by (rule backup_entries(2) [OF assms(5)]) (simp add: qmap_ok_def)
  have json: "json = va_printObject V ?cfg"
    using assms(3) backup_fold [OF assms(1), of "map fst (m_settings s)" "[]"]
    by (auto simp: SecureQSettings_backupAppConfig_def)
  have ne: "?cfg \<noteq> []" using assms(7) entries by (metis map_of.simps(1) option.simps(3))
  have "list_all (\<lambda>e. \<not> marked (va_toVariant V (snd e))) ?cfg"
    unfolding list_all_iff
  proof
    fix e assume "e \<in> set ?cfg"
    then have "map_of ?cfg (fst e) = Some (snd e)" using ok by (simp add: qmap_ok_distinct)
    with entries [of "fst e"] assms(6) show "\<not> marked (va_toVariant V (snd e))" by (auto split: if_split_asm)
  qed
  from restore_fold [OF assms(2) this qmap_ok_distinct [OF ok]] ne
  show ?thesis
    by (auto simp: SecureQSettings_restoreAppConfig_def json assms(4) [OF ok] entries fun_eq_iff
        needToBackup_def stored_def split: option.split)
qed

definition saved_settings :: "unit SecureQSettings" where
  "saved_settings = fresh_settings\<lparr>m_settings := [(''Conf/autoConnect'', VBool True)]\<rparr>"

lemma saved_view:
  "view (sample_vault True) saved_settings k = (if k = ''Conf/autoConnect'' then Some (VBool True) else None)"
  by (simp add: view_def saved_settings_def decode_def marked_def)

lemma saved_ok: "secure_ok (sample_vault True) saved_settings"
  by (simp add: secure_ok_def saved_settings_def fresh_settings_def cipher_ok_def keys_present_def sample_vault_def)

lemma sample_json:
  "va_fromVariant (sample_vault l) VInvalid = JNull" "va_fromVariant (sample_vault l) (VBool b) = JBool b"
  "va_toVariant (sample_vault l) JNull = VInvalid" "va_toVariant (sample_vault l) (JBool b) = VBool b"
  "va_parseObject (sample_vault l) (va_printObject (sample_vault l) ob) = ob"
  by (simp_all add: sample_vault_def)

theorem backup_restored_witness:
  "\<exists>t'. SecureQSettings_restoreAppConfig (sample_vault True)
      (fst (SecureQSettings_backupAppConfig (sample_vault True) saved_settings)) fresh_settings = (True, t') \<and>
    view (sample_vault True) t' ''Conf/autoConnect'' = Some (VBool True)"
proof -
  have "starts_with ''Conf/'' ''Conf/autoConnect''" by simp
  then have "\<exists>t'. SecureQSettings_restoreAppConfig (sample_vault True)
      (fst (SecureQSettings_backupAppConfig (sample_vault True) saved_settings)) fresh_settings = (True, t') \<and>
    secure_ok (sample_vault True) t' \<and> view (sample_vault True) t' = (\<lambda>k.
      case view (sample_vault True) saved_settings k of
        Some v \<Rightarrow> if needToBackup k then Some (va_toVariant (sample_vault True) (va_fromVariant (sample_vault True) v))
                  else view (sample_vault True) fresh_settings k
      | None \<Rightarrow> view (sample_vault True) fresh_settings k)"
    by (intro backup_restored [OF saved_ok fresh_ok prod.collapse [symmetric]])
      (auto simp: sample_json stored_def saved_view marked_def needToBackup_def fieldsToBackup_def)
  then show ?thesis
    by (auto simp: saved_view needToBackup_def fieldsToBackup_def sample_json)
qed

end
