(* ===== verification/Settings_Store.thy ===== *)
theory Settings_Store
  imports Vpn_Connection Secure_Settings
begin

text \<open>
  \<open>client/settings.{h,cpp}\<close>: the typed settings of the client on top of \<open>SecureQSettings\<close>: servers,
  containers and protocols of a server, split tunneling and the options of the application.

  A method that only reads returns its value; that a read may also fill the cache of the store is
  not repeated here, since by \<open>Secure_Settings\<close> it does not change what is read.  The signals and
  the calls of the logger are listed in \<open>st_signals\<close>.  \<open>QJsonArray::replace\<close> out of range is the
  fault \<open>OutOfRange\<close>.  \<open>tr\<close> is the translation.
\<close>

section \<open>Variants as values\<close>

definition toInt :: "Qt \<Rightarrow> qvariant \<Rightarrow> int" where
  "toInt Q v =
     (case v of
        VInt i \<Rightarrow> i
      | VBool b \<Rightarrow> (if b then 1 else 0)
      | VString t \<Rightarrow> (case qt_toInt Q t of None \<Rightarrow> 0 | Some i \<Rightarrow> i)
      | VBytes t \<Rightarrow> (case qt_toInt Q t of None \<Rightarrow> 0 | Some i \<Rightarrow> i)
      | _ \<Rightarrow> 0)"

definition toStr :: "qvariant \<Rightarrow> string" where
  "toStr v =
     (case v of
        VString t \<Rightarrow> t
      | VBytes t \<Rightarrow> t
      | VInt i \<Rightarrow> number i
      | VBool b \<Rightarrow> (if b then ''true'' else ''false'')
      | VDateTime t \<Rightarrow> t
      | _ \<Rightarrow> [])"

definition toByteArray :: "qvariant \<Rightarrow> string" where
  "toByteArray v = toStr v"

definition toMap :: "qvariant \<Rightarrow> (string \<times> qvariant) list" where
  "toMap v = (case v of VMap m \<Rightarrow> m | _ \<Rightarrow> [])"

definition toJsonArray :: "qvariant \<Rightarrow> qjson list" where
  "toJsonArray v = (case v of VJsonArray a \<Rightarrow> a | _ \<Rightarrow> [])"

section \<open>State\<close>

datatype settings_signal =
    SaveLogsChanged bool
  | ScreenshotsEnabledChanged bool
  | ServerRemoved int
  | SettingsCleared
  | LoggerDeInit
  | LoggerInit bool
  | LoggerServiceLogs bool

record 'k AppSettings =
  secure :: "'k SecureQSettings"
  m_gatewayEndpoint :: string
  m_isDevGatewayEnv :: bool
  st_signals :: "settings_signal list"

record ServerCredentials =
  sc_hostName :: string
  sc_userName :: string
  sc_secretData :: string
  sc_port :: int

record InstalledAppInfo =
  appName :: string
  packageName :: string
  appPath :: string

definition Settings_value :: "'k vault \<Rightarrow> string \<Rightarrow> qvariant \<Rightarrow> 'k AppSettings \<Rightarrow> qvariant" where
  "Settings_value V key defaultValue st = fst (SecureQSettings_value V key defaultValue (secure st))"

definition Settings_setValue :: "'k vault \<Rightarrow> string \<Rightarrow> qvariant \<Rightarrow> 'k AppSettings \<Rightarrow> 'k AppSettings" where
  "Settings_setValue V key v st = st\<lparr>secure := SecureQSettings_setValue V key v (secure st)\<rparr>"

definition st_emit :: "settings_signal \<Rightarrow> 'k AppSettings \<Rightarrow> 'k AppSettings" where
  "st_emit x st = st\<lparr>st_signals := st_signals st @ [x]\<rparr>"

section \<open>Servers\<close>

definition Settings_serversArray :: "'k vault \<Rightarrow> 'k AppSettings \<Rightarrow> qjson list" where
  "Settings_serversArray V st =
     va_parseArray V (toByteArray (Settings_value V ''Servers/serversList'' VInvalid st))"

definition Settings_setServersArray :: "'k vault \<Rightarrow> qjson list \<Rightarrow> 'k AppSettings \<Rightarrow> 'k AppSettings" where
  "Settings_setServersArray V servers st =
     Settings_setValue V ''Servers/serversList'' (VBytes (va_printArray V servers)) st"

definition Settings_serversCount :: "'k vault \<Rightarrow> 'k AppSettings \<Rightarrow> int" where
  "Settings_serversCount V st = int (length (Settings_serversArray V st))"

text \<open>\<open>QJsonArray::at\<close> is undefined as a value outside the array, and no object.\<close>

definition array_at :: "qjson list \<Rightarrow> int \<Rightarrow> qjson" where
  "array_at a i = (if 0 \<le> i \<and> i < int (length a) then a ! nat i else JUndefined)"

definition Settings_server :: "'k vault \<Rightarrow> int \<Rightarrow> 'k AppSettings \<Rightarrow> qjobject" where
  "Settings_server V index st =
     (let servers = Settings_serversArray V st
      in if index \<ge> int (length servers) then [] else json_toObject (array_at servers index))"

definition Settings_addServer :: "'k vault \<Rightarrow> qjobject \<Rightarrow> 'k AppSettings \<Rightarrow> 'k AppSettings" where
  "Settings_addServer V server st =
     Settings_setServersArray V (Settings_serversArray V st @ [JObject server]) st"

text \<open>\<open>QJsonArray::removeAt\<close> ignores an index outside the array.\<close>

definition array_removeAt :: "int \<Rightarrow> qjson list \<Rightarrow> qjson list" where
  "array_removeAt i a =
     (if 0 \<le> i \<and> i < int (length a) then take (nat i) a @ drop (nat i + 1) a else a)"

definition Settings_removeServer :: "'k vault \<Rightarrow> int \<Rightarrow> 'k AppSettings \<Rightarrow> 'k AppSettings" where
  "Settings_removeServer V index st =
     (let servers = Settings_serversArray V st
      in if index \<ge> int (length servers) then st
         else st_emit (ServerRemoved index)
                (Settings_setServersArray V (array_removeAt index servers) st))"

definition Settings_removeAllServers :: "'k vault \<Rightarrow> 'k AppSettings \<Rightarrow> 'k AppSettings" where
  "Settings_removeAllServers V st =
     (let size = length (Settings_serversArray V st)
      in (st_emit (ServerRemoved 0) ^^ size) (Settings_setServersArray V [] st))"

definition Settings_editServer ::
  "'k vault \<Rightarrow> int \<Rightarrow> qjobject \<Rightarrow> 'k AppSettings \<Rightarrow> list_fault + (bool \<times> 'k AppSettings)"
where
  "Settings_editServer V index server st =
     (let servers = Settings_serversArray V st
      in if index \<ge> int (length servers) then Inr (False, st)
         else if index < 0 then Inl OutOfRange
         else Inr (True, Settings_setServersArray V (servers[nat index := JObject server]) st))"

definition Settings_defaultServerIndex :: "Qt \<Rightarrow> 'k vault \<Rightarrow> 'k AppSettings \<Rightarrow> int" where
  "Settings_defaultServerIndex Q V st = toInt Q (Settings_value V ''Servers/defaultServerIndex'' (VInt 0) st)"

definition Settings_setDefaultServer :: "'k vault \<Rightarrow> int \<Rightarrow> 'k AppSettings \<Rightarrow> 'k AppSettings" where
  "Settings_setDefaultServer V index st = Settings_setValue V ''Servers/defaultServerIndex'' (VInt index) st"

definition Settings_defaultServer :: "Qt \<Rightarrow> 'k vault \<Rightarrow> 'k AppSettings \<Rightarrow> qjobject" where
  "Settings_defaultServer Q V st = Settings_server V (Settings_defaultServerIndex Q V st) st"

definition Settings_setDefaultContainer ::
  "'k vault \<Rightarrow> int \<Rightarrow> DockerContainer \<Rightarrow> 'k AppSettings \<Rightarrow> list_fault + 'k AppSettings"
where
  "Settings_setDefaultContainer V serverIndex container st =
     (let s = json_insert ''defaultContainer'' (JString (ContainerProps_containerToString container))
            (Settings_server V serverIndex st)
      in sbind (Settings_editServer V serverIndex s st) (\<lambda>(_, st). Inr st))"

definition Settings_defaultContainerName :: "'k vault \<Rightarrow> int \<Rightarrow> 'k AppSettings \<Rightarrow> string" where
  "Settings_defaultContainerName V serverIndex st =
     (let name = json_toString (json_value (Settings_server V serverIndex st) ''defaultContainer'')
      in if isEmpty name then ContainerProps_containerToString DockerNone else qs name)"

definition Settings_defaultContainer :: "'k vault \<Rightarrow> int \<Rightarrow> 'k AppSettings \<Rightarrow> DockerContainer" where
  "Settings_defaultContainer V serverIndex st =
     ContainerProps_containerFromString (Settings_defaultContainerName V serverIndex st)"

section \<open>Containers and protocols of a server\<close>

text \<open>The enumerators in the order of their values, the order of the keys of a \<open>QMap\<close>.\<close>

definition container_index :: "DockerContainer \<Rightarrow> nat" where
  "container_index c = length (takeWhile (\<lambda>d. d \<noteq> c) ContainerProps_allContainers)"

lemma container_index_nth: "ContainerProps_allContainers ! container_index c = c"
  by (cases c) (simp_all add: container_index_def ContainerProps_allContainers_def)

instantiation DockerContainer :: linorder
begin

definition less_eq_DockerContainer :: "DockerContainer \<Rightarrow> DockerContainer \<Rightarrow> bool" where
  "less_eq_DockerContainer c d \<longleftrightarrow> container_index c \<le> container_index d"

definition less_DockerContainer :: "DockerContainer \<Rightarrow> DockerContainer \<Rightarrow> bool" where
  "less_DockerContainer c d \<longleftrightarrow> container_index c < container_index d"

instance
proof
  fix c d :: DockerContainer
  assume "c \<le> d" "d \<le> c"
  then show "c = d"
    unfolding less_eq_DockerContainer_def by (metis container_index_nth le_antisym)
qed (auto simp: less_eq_DockerContainer_def less_DockerContainer_def)

end

definition container_key :: "qjson \<Rightarrow> DockerContainer" where
  "container_key v =
     ContainerProps_containerFromString (qs (json_toString (json_value (json_toObject v) ''container'')))"

definition containers_of :: "qjson list \<Rightarrow> (DockerContainer \<times> qjobject) list" where
  "containers_of a = fold (\<lambda>v. qmap_insert (container_key v) (json_toObject v)) a []"

definition Settings_containers :: "'k vault \<Rightarrow> int \<Rightarrow> 'k AppSettings \<Rightarrow> (DockerContainer \<times> qjobject) list" where
  "Settings_containers V serverIndex st =
     containers_of (json_toArray (json_value (Settings_server V serverIndex st) ''containers''))"

definition Settings_setContainers ::
  "'k vault \<Rightarrow> int \<Rightarrow> (DockerContainer \<times> qjobject) list \<Rightarrow> 'k AppSettings \<Rightarrow> list_fault + 'k AppSettings"
where
  "Settings_setContainers V serverIndex containers st =
     (let s = json_insert ''containers'' (JArray (map (\<lambda>e. JObject (snd e)) containers))
            (Settings_server V serverIndex st)
      in sbind (Settings_editServer V serverIndex s st) (\<lambda>(_, st). Inr st))"

definition qmap_value :: "('k \<times> qjobject) list \<Rightarrow> 'k \<Rightarrow> qjobject" where
  "qmap_value m k = (case map_of m k of None \<Rightarrow> [] | Some v \<Rightarrow> v)"

definition Settings_containerConfig :: "'k vault \<Rightarrow> int \<Rightarrow> DockerContainer \<Rightarrow> 'k AppSettings \<Rightarrow> qjobject" where
  "Settings_containerConfig V serverIndex container st =
     (if container = DockerNone then []
      else qmap_value (Settings_containers V serverIndex st) container)"

definition Settings_setContainerConfig ::
  "'k vault \<Rightarrow> int \<Rightarrow> DockerContainer \<Rightarrow> qjobject \<Rightarrow> 'k AppSettings \<Rightarrow> list_fault + 'k AppSettings"
where
  "Settings_setContainerConfig V serverIndex container config st =
     (if container = DockerNone then Inr st
      else
        (let config = json_insert ''container'' (JString (ContainerProps_containerToString container)) config
         in Settings_setContainers V serverIndex
              (qmap_insert container config (Settings_containers V serverIndex st)) st))"

definition Settings_removeContainerConfig ::
  "'k vault \<Rightarrow> int \<Rightarrow> DockerContainer \<Rightarrow> 'k AppSettings \<Rightarrow> list_fault + 'k AppSettings"
where
  "Settings_removeContainerConfig V serverIndex container st =
     (if container = DockerNone then Inr st
      else Settings_setContainers V serverIndex
             (qmap_remove container (Settings_containers V serverIndex st)) st)"

definition Settings_protocolConfig ::
  "'k vault \<Rightarrow> int \<Rightarrow> DockerContainer \<Rightarrow> Proto \<Rightarrow> 'k AppSettings \<Rightarrow> qjobject"
where
  "Settings_protocolConfig V serverIndex container proto st =
     json_toObject (json_value (Settings_containerConfig V serverIndex container st) (ProtocolProps_protoToString proto))"

definition Settings_setProtocolConfig ::
  "'k vault \<Rightarrow> int \<Rightarrow> DockerContainer \<Rightarrow> Proto \<Rightarrow> qjobject \<Rightarrow> 'k AppSettings \<Rightarrow> list_fault + 'k AppSettings"
where
  "Settings_setProtocolConfig V serverIndex container proto config st =
     Settings_setContainerConfig V serverIndex container
       (json_insert (ProtocolProps_protoToString proto) (JObject config)
         (Settings_containerConfig V serverIndex container st)) st"

lemma protocols_not_Any: "p \<in> set (ContainerProps_protocolsForContainer c) \<Longrightarrow> p \<noteq> ProtoAny"
  by (cases c) auto

text \<open>
  The recursion over the protocols of a container ends because no container lists \<open>Any\<close>.
  The \<open>for\<close> loop is the second function.
\<close>

definition clear_weight :: "DockerContainer \<Rightarrow> Proto \<Rightarrow> nat" where
  "clear_weight c p = (if p = ProtoAny then 1 + length (ContainerProps_protocolsForContainer c) else 0)"

lemma clear_weight_protocols:
  "sum_list (map (\<lambda>p. Suc (clear_weight c p)) (ContainerProps_protocolsForContainer c)) =
    length (ContainerProps_protocolsForContainer c)"
proof -
  have ones: "map (\<lambda>p. Suc (clear_weight c p)) (ContainerProps_protocolsForContainer c) =
      map (\<lambda>p. 1) (ContainerProps_protocolsForContainer c)"
    using protocols_not_Any by (auto simp: clear_weight_def)
  show ?thesis unfolding ones by (simp add: sum_list_triv)
qed

function (sequential) Settings_clearLastConnectionConfig ::
    "'k vault \<Rightarrow> int \<Rightarrow> DockerContainer \<Rightarrow> Proto \<Rightarrow> 'k AppSettings \<Rightarrow> list_fault + 'k AppSettings"
  and clear_protocols ::
    "'k vault \<Rightarrow> int \<Rightarrow> DockerContainer \<Rightarrow> Proto list \<Rightarrow> 'k AppSettings \<Rightarrow> list_fault + 'k AppSettings"
where
  "Settings_clearLastConnectionConfig V serverIndex container proto st =
     (if proto = ProtoAny
      then clear_protocols V serverIndex container (ContainerProps_protocolsForContainer container) st
      else
        (let c = qmap_remove ''last_config'' (Settings_protocolConfig V serverIndex container proto st)
         in Settings_setProtocolConfig V serverIndex container proto c st))"
| "clear_protocols V serverIndex container [] st = Inr st"
| "clear_protocols V serverIndex container (p # ps) st =
     (case Settings_clearLastConnectionConfig V serverIndex container p st of
        Inl e \<Rightarrow> Inl e
      | Inr st' \<Rightarrow> clear_protocols V serverIndex container ps st')"
  by pat_completeness auto
termination
  by (relation "measure (\<lambda>x. case x of
      Inl (V, i, c, p, st) \<Rightarrow> clear_weight c p
    | Inr (V, i, c, ps, st) \<Rightarrow> sum_list (map (\<lambda>p. Suc (clear_weight c p)) ps))")
    (simp_all add: clear_weight_protocols, simp add: clear_weight_def)

definition Settings_serverCredentials :: "'k vault \<Rightarrow> int \<Rightarrow> 'k AppSettings \<Rightarrow> ServerCredentials" where
  "Settings_serverCredentials V index st =
     (let s = Settings_server V index st
      in \<lparr>sc_hostName = qs (json_toString (json_value s ''hostName'')),
          sc_userName = qs (json_toString (json_value s ''userName'')),
          sc_secretData = qs (json_toString (json_value s ''password'')),
          sc_port = json_toInt (json_value s ''port'')\<rparr>)"

definition Settings_defaultServerCredentials :: "Qt \<Rightarrow> 'k vault \<Rightarrow> 'k AppSettings \<Rightarrow> ServerCredentials" where
  "Settings_defaultServerCredentials Q V st =
     Settings_serverCredentials V (Settings_defaultServerIndex Q V st) st"

definition Settings_haveAuthData :: "'k vault \<Rightarrow> int \<Rightarrow> 'k AppSettings \<Rightarrow> bool" where
  "Settings_haveAuthData V serverIndex st \<longleftrightarrow>
     (if serverIndex < 0 then False
      else (let cred = Settings_serverCredentials V serverIndex st
            in sc_hostName cred \<noteq> [] \<and> sc_userName cred \<noteq> [] \<and> sc_secretData cred \<noteq> []))"

text \<open>
  The loop of \<open>nextAvailableServerName\<close> ends because a server uses up one name only.
\<close>

definition server_name :: "(string \<Rightarrow> string) \<Rightarrow> int \<Rightarrow> string" where
  "server_name tr i = tr ''Server'' @ '' '' @ number i"

definition nameExist :: "(string \<Rightarrow> string) \<Rightarrow> qjson list \<Rightarrow> int \<Rightarrow> bool" where
  "nameExist tr servers i \<longleftrightarrow>
     list_ex (\<lambda>server. qs (json_toString (json_value (json_toObject server) ''description'')) = server_name tr i) servers"

lemma digit_inj: "i < 10 \<Longrightarrow> j < 10 \<Longrightarrow> ''0123456789'' ! i = ''0123456789'' ! j \<Longrightarrow> i = j"
  using nth_eq_iff_index_eq [of "''0123456789''" i j] by simp

lemma digits_inj: "digits m = digits n \<Longrightarrow> m = n"
proof (induction m arbitrary: n rule: digits.induct)
  case (1 m)
  have eq: "(if m < 10 then [''0123456789'' ! m] else digits (m div 10) @ [''0123456789'' ! (m mod 10)]) =
      (if n < 10 then [''0123456789'' ! n] else digits (n div 10) @ [''0123456789'' ! (n mod 10)])"
    using 1(2) unfolding digits.simps [of m] digits.simps [of n] .
  show ?case
  proof (cases "m < 10")
    case True
    with eq show ?thesis using digit_inj by (auto simp: not_sym [OF digits_nonempty] split: if_split_asm)
  next
    case False
    with eq have "\<not> n < 10" by (auto simp: not_sym [OF digits_nonempty] split: if_split_asm)
    with False eq have "digits (m div 10) = digits (n div 10)" "''0123456789'' ! (m mod 10) = ''0123456789'' ! (n mod 10)"
      by simp_all
    with 1(1) [OF False] digit_inj [of "m mod 10" "n mod 10"] have "m div 10 = n div 10" "m mod 10 = n mod 10" by simp_all
    then show ?thesis by (metis div_mult_mod_eq)
  qed
qed

lemma server_name_inj: "0 \<le> i \<Longrightarrow> 0 \<le> j \<Longrightarrow> server_name tr i = server_name tr j \<Longrightarrow> i = j"
  by (auto simp: server_name_def number_def dest: digits_inj)

text \<open>At most as many numbers are taken as there are servers.\<close>

lemma taken_names:
  "finite {i. 0 \<le> i \<and> nameExist tr servers i} \<and> card {i. 0 \<le> i \<and> nameExist tr servers i} \<le> length servers"
proof -
  let ?names = "(\<lambda>server. qs (json_toString (json_value (json_toObject server) ''description''))) ` set servers"
  have inj: "inj_on (server_name tr) {i. 0 \<le> i \<and> nameExist tr servers i}"
    by (rule inj_onI) (use server_name_inj in auto)
  have sub: "server_name tr ` {i. 0 \<le> i \<and> nameExist tr servers i} \<subseteq> ?names"
    by (auto simp: nameExist_def list_ex_iff intro: rev_image_eqI)
  have "card {i. 0 \<le> i \<and> nameExist tr servers i} \<le> card ?names"
    using inj sub by (rule card_inj_on_le) simp
  also have "\<dots> \<le> card (set servers)" by (rule card_image_le) simp
  also have "\<dots> \<le> length servers" by (rule card_length)
  finally show ?thesis using finite_imageD [OF finite_subset [OF sub] inj] by simp
qed

text \<open>The loop with the number of the round before; it starts with 0 and never meets a negative number.\<close>

function next_name :: "(string \<Rightarrow> string) \<Rightarrow> qjson list \<Rightarrow> int \<Rightarrow> int" where
  "next_name tr servers i =
     (if 0 \<le> i \<and> nameExist tr servers (i + 1) then next_name tr servers (i + 1) else i + 1)"
  by pat_completeness auto
termination
proof (relation "measure (\<lambda>(tr, servers, i). card {j. 0 \<le> j \<and> nameExist tr servers j \<and> i < j})")
  fix tr servers and i :: int
  assume i: "0 \<le> i \<and> nameExist tr servers (i + 1)"
  let ?left = "\<lambda>i. {j. 0 \<le> j \<and> nameExist tr servers j \<and> i < j}"
  have fin: "finite (?left i)"
    by (rule finite_subset [OF _ conjunct1 [OF taken_names [of tr servers]]]) auto
  have "?left (i + 1) \<subseteq> ?left i" by auto
  moreover have "i + 1 \<in> ?left i - ?left (i + 1)" using i by simp
  ultimately have "?left (i + 1) \<subset> ?left i" by blast
  from psubset_card_mono [OF fin this] show "((tr, servers, i + 1), (tr, servers, i)) \<in>
      measure (\<lambda>(tr, servers, i). card {j. 0 \<le> j \<and> nameExist tr servers j \<and> i < j})"
    by simp
qed simp

declare next_name.simps [simp del]

definition Settings_nextAvailableServerName :: "(string \<Rightarrow> string) \<Rightarrow> 'k vault \<Rightarrow> 'k AppSettings \<Rightarrow> string" where
  "Settings_nextAvailableServerName tr V st = server_name tr (next_name tr (Settings_serversArray V st) 0)"

lemma next_name_spec:
  assumes "0 \<le> i"
  shows "i < next_name tr servers i \<and> \<not> nameExist tr servers (next_name tr servers i) \<and>
    (\<forall>j. i < j \<and> j < next_name tr servers i \<longrightarrow> nameExist tr servers j)"
  using assms
proof (induction tr servers i rule: next_name.induct)
  case (1 tr servers i)
  show ?case
  proof (cases "nameExist tr servers (i + 1)")
    case True
    with 1 have "i + 1 < next_name tr servers (i + 1) \<and> \<not> nameExist tr servers (next_name tr servers (i + 1)) \<and>
      (\<forall>j. i + 1 < j \<and> j < next_name tr servers (i + 1) \<longrightarrow> nameExist tr servers j)" by simp
    moreover have "next_name tr servers i = next_name tr servers (i + 1)"
      using True 1(2) by (simp add: next_name.simps [of tr servers i])
    ultimately show ?thesis using True by (smt (verit))
  next
    case False
    then show ?thesis by (auto simp: next_name.simps [of tr servers i])
  qed
qed

section \<open>Options of the application\<close>

definition Settings_isAutoConnect :: "'k vault \<Rightarrow> 'k AppSettings \<Rightarrow> bool" where
  "Settings_isAutoConnect V st \<longleftrightarrow> toBool (Settings_value V ''Conf/autoConnect'' (VBool False) st)"

definition Settings_setAutoConnect :: "'k vault \<Rightarrow> bool \<Rightarrow> 'k AppSettings \<Rightarrow> 'k AppSettings" where
  "Settings_setAutoConnect V enabled st = Settings_setValue V ''Conf/autoConnect'' (VBool enabled) st"

definition Settings_isStartMinimized :: "'k vault \<Rightarrow> 'k AppSettings \<Rightarrow> bool" where
  "Settings_isStartMinimized V st \<longleftrightarrow> toBool (Settings_value V ''Conf/startMinimized'' (VBool False) st)"

definition Settings_setStartMinimized :: "'k vault \<Rightarrow> bool \<Rightarrow> 'k AppSettings \<Rightarrow> 'k AppSettings" where
  "Settings_setStartMinimized V enabled st = Settings_setValue V ''Conf/startMinimized'' (VBool enabled) st"

definition Settings_isSaveLogs :: "'k vault \<Rightarrow> 'k AppSettings \<Rightarrow> bool" where
  "Settings_isSaveLogs V st \<longleftrightarrow> toBool (Settings_value V ''Conf/saveLogs'' (VBool False) st)"

definition Settings_setLogEnableDate :: "'k vault \<Rightarrow> string \<Rightarrow> 'k AppSettings \<Rightarrow> 'k AppSettings" where
  "Settings_setLogEnableDate V date st = Settings_setValue V ''Conf/logEnableDate'' (VDateTime date) st"

definition Settings_getLogEnableDate :: "'k vault \<Rightarrow> 'k AppSettings \<Rightarrow> string option" where
  "Settings_getLogEnableDate V st =
     (case Settings_value V ''Conf/logEnableDate'' VInvalid st of VDateTime t \<Rightarrow> Some t | _ \<Rightarrow> None)"

text \<open>\<open>now\<close> is the current date.\<close>

definition Settings_setSaveLogs :: "string \<Rightarrow> 'k vault \<Rightarrow> bool \<Rightarrow> 'k AppSettings \<Rightarrow> 'k AppSettings" where
  "Settings_setSaveLogs now V enabled st =
     (let st = Settings_setValue V ''Conf/saveLogs'' (VBool enabled) st;
          st = st_emit (if \<not> Settings_isSaveLogs V st then LoggerDeInit else LoggerInit False) st;
          st = st_emit (LoggerServiceLogs enabled) st;
          st = (if enabled then Settings_setLogEnableDate V now st else st)
      in st_emit (SaveLogsChanged enabled) st)"

definition Settings_useAmneziaDns :: "'k vault \<Rightarrow> 'k AppSettings \<Rightarrow> bool" where
  "Settings_useAmneziaDns V st \<longleftrightarrow> toBool (Settings_value V ''Conf/useAmneziaDns'' (VBool True) st)"

definition Settings_setUseAmneziaDns :: "'k vault \<Rightarrow> bool \<Rightarrow> 'k AppSettings \<Rightarrow> 'k AppSettings" where
  "Settings_setUseAmneziaDns V enabled st = Settings_setValue V ''Conf/useAmneziaDns'' (VBool enabled) st"

definition Settings_primaryDns :: "'k vault \<Rightarrow> 'k AppSettings \<Rightarrow> string" where
  "Settings_primaryDns V st = toStr (Settings_value V ''Conf/primaryDns'' (VString ''1.1.1.1'') st)"

definition Settings_secondaryDns :: "'k vault \<Rightarrow> 'k AppSettings \<Rightarrow> string" where
  "Settings_secondaryDns V st = toStr (Settings_value V ''Conf/secondaryDns'' (VString ''1.0.0.1'') st)"

definition Settings_setPrimaryDns :: "'k vault \<Rightarrow> string \<Rightarrow> 'k AppSettings \<Rightarrow> 'k AppSettings" where
  "Settings_setPrimaryDns V dns st = Settings_setValue V ''Conf/primaryDns'' (VString dns) st"

definition Settings_setSecondaryDns :: "'k vault \<Rightarrow> string \<Rightarrow> 'k AppSettings \<Rightarrow> 'k AppSettings" where
  "Settings_setSecondaryDns V dns st = Settings_setValue V ''Conf/secondaryDns'' (VString dns) st"

definition Settings_isScreenshotsEnabled :: "'k vault \<Rightarrow> 'k AppSettings \<Rightarrow> bool" where
  "Settings_isScreenshotsEnabled V st \<longleftrightarrow> toBool (Settings_value V ''Conf/screenshotsEnabled'' (VBool True) st)"

definition Settings_setScreenshotsEnabled :: "'k vault \<Rightarrow> bool \<Rightarrow> 'k AppSettings \<Rightarrow> 'k AppSettings" where
  "Settings_setScreenshotsEnabled V enabled st =
     st_emit (ScreenshotsEnabledChanged enabled)
       (Settings_setValue V ''Conf/screenshotsEnabled'' (VBool enabled) st)"

definition Settings_getAppLanguage :: "string \<Rightarrow> 'k vault \<Rightarrow> 'k AppSettings \<Rightarrow> string" where
  "Settings_getAppLanguage system V st =
     (case Settings_value V ''Conf/appLanguage'' (VLocale system) st of VLocale l \<Rightarrow> l | _ \<Rightarrow> system)"

definition Settings_setAppLanguage :: "'k vault \<Rightarrow> string \<Rightarrow> 'k AppSettings \<Rightarrow> 'k AppSettings" where
  "Settings_setAppLanguage V locale st = Settings_setValue V ''Conf/appLanguage'' (VLocale locale) st"

definition Settings_isKillSwitchEnabled :: "'k vault \<Rightarrow> 'k AppSettings \<Rightarrow> bool" where
  "Settings_isKillSwitchEnabled V st \<longleftrightarrow> toBool (Settings_value V ''Conf/killSwitchEnabled'' (VBool True) st)"

definition Settings_setKillSwitchEnabled :: "'k vault \<Rightarrow> bool \<Rightarrow> 'k AppSettings \<Rightarrow> 'k AppSettings" where
  "Settings_setKillSwitchEnabled V enabled st = Settings_setValue V ''Conf/killSwitchEnabled'' (VBool enabled) st"

definition Settings_getUserToken :: "'k vault \<Rightarrow> 'k AppSettings \<Rightarrow> string" where
  "Settings_getUserToken V st = toStr (Settings_value V ''User/token'' (VString []) st)"

definition Settings_setUserToken :: "'k vault \<Rightarrow> string \<Rightarrow> 'k AppSettings \<Rightarrow> 'k AppSettings" where
  "Settings_setUserToken V token st = Settings_setValue V ''User/token'' (VString token) st"

definition Settings_getSelectedRegionId :: "'k vault \<Rightarrow> 'k AppSettings \<Rightarrow> string" where
  "Settings_getSelectedRegionId V st = toStr (Settings_value V ''User/selectedRegion'' (VString []) st)"

definition Settings_setSelectedRegionId :: "'k vault \<Rightarrow> string \<Rightarrow> 'k AppSettings \<Rightarrow> 'k AppSettings" where
  "Settings_setSelectedRegionId V rid st = Settings_setValue V ''User/selectedRegion'' (VString rid) st"

section \<open>Split tunneling\<close>

primrec Settings_routeModeString :: "RouteMode \<Rightarrow> string" where
  "Settings_routeModeString VpnAllSites = ''AllSites''"
| "Settings_routeModeString VpnOnlyForwardSites = ''ForwardSites''"
| "Settings_routeModeString VpnAllExceptSites = ''ExceptSites''"

text \<open>A stored number that is no enumerator gives none.\<close>

definition RouteMode_of :: "int \<Rightarrow> RouteMode option" where
  "RouteMode_of n =
     (if n = 0 then Some VpnAllSites else if n = 1 then Some VpnOnlyForwardSites
      else if n = 2 then Some VpnAllExceptSites else None)"

definition Settings_routeMode :: "Qt \<Rightarrow> 'k vault \<Rightarrow> 'k AppSettings \<Rightarrow> RouteMode option" where
  "Settings_routeMode Q V st = RouteMode_of (toInt Q (Settings_value V ''Conf/routeMode'' (VInt 0) st))"

definition Settings_setRouteMode :: "'k vault \<Rightarrow> RouteMode \<Rightarrow> 'k AppSettings \<Rightarrow> 'k AppSettings" where
  "Settings_setRouteMode V mode st = Settings_setValue V ''Conf/routeMode'' (VInt (RouteMode_value mode)) st"

definition Settings_isSitesSplitTunnelingEnabled :: "'k vault \<Rightarrow> 'k AppSettings \<Rightarrow> bool" where
  "Settings_isSitesSplitTunnelingEnabled V st \<longleftrightarrow>
     toBool (Settings_value V ''Conf/sitesSplitTunnelingEnabled'' (VBool False) st)"

definition Settings_setSitesSplitTunnelingEnabled :: "'k vault \<Rightarrow> bool \<Rightarrow> 'k AppSettings \<Rightarrow> 'k AppSettings" where
  "Settings_setSitesSplitTunnelingEnabled V enabled st =
     Settings_setValue V ''Conf/sitesSplitTunnelingEnabled'' (VBool enabled) st"

definition Settings_vpnSites :: "'k vault \<Rightarrow> RouteMode \<Rightarrow> 'k AppSettings \<Rightarrow> (string \<times> qvariant) list" where
  "Settings_vpnSites V mode st = toMap (Settings_value V (''Conf/'' @ Settings_routeModeString mode) VInvalid st)"

definition Settings_setVpnSites ::
  "'k vault \<Rightarrow> RouteMode \<Rightarrow> (string \<times> qvariant) list \<Rightarrow> 'k AppSettings \<Rightarrow> 'k AppSettings"
where
  "Settings_setVpnSites V mode sites st =
     Settings_setValue V (''Conf/'' @ Settings_routeModeString mode) (VMap sites) st"

definition Settings_addVpnSite ::
  "'k vault \<Rightarrow> RouteMode \<Rightarrow> string \<Rightarrow> string \<Rightarrow> 'k AppSettings \<Rightarrow> bool \<times> 'k AppSettings"
where
  "Settings_addVpnSite V mode site ip st =
     (let sites = Settings_vpnSites V mode st
      in if qmap_contains sites site \<and> ip = [] then (False, st)
         else (True, Settings_setVpnSites V mode (qmap_insert site (VString ip) sites) st))"

definition Settings_addVpnSites ::
  "'k vault \<Rightarrow> RouteMode \<Rightarrow> (string \<times> string) list \<Rightarrow> 'k AppSettings \<Rightarrow> 'k AppSettings"
where
  "Settings_addVpnSites V mode sites st =
     Settings_setVpnSites V mode
       (fold (\<lambda>(site, ip) allSites.
          if map_of allSites site = Some (VString ip) then allSites else qmap_insert site (VString ip) allSites)
        sites (Settings_vpnSites V mode st)) st"

definition Settings_getVpnIps :: "Qt \<Rightarrow> 'k vault \<Rightarrow> RouteMode \<Rightarrow> 'k AppSettings \<Rightarrow> string list" where
  "Settings_getVpnIps Q V mode st =
     removeDuplicates (concat (map (\<lambda>(key, v).
       if NetworkUtilities_checkIpSubnetFormat Q key then [key]
       else if NetworkUtilities_checkIpSubnetFormat Q (toStr v) then [toStr v] else [])
       (Settings_vpnSites V mode st)))"

definition Settings_removeVpnSite :: "'k vault \<Rightarrow> RouteMode \<Rightarrow> string \<Rightarrow> 'k AppSettings \<Rightarrow> 'k AppSettings" where
  "Settings_removeVpnSite V mode site st =
     (let sites = Settings_vpnSites V mode st
      in if \<not> qmap_contains sites site then st
         else Settings_setVpnSites V mode (qmap_remove site sites) st)"

definition Settings_addVpnIps :: "'k vault \<Rightarrow> RouteMode \<Rightarrow> string list \<Rightarrow> 'k AppSettings \<Rightarrow> 'k AppSettings" where
  "Settings_addVpnIps V mode ips st =
     Settings_setVpnSites V mode
       (fold (\<lambda>ip sites. if ip = [] then sites else qmap_insert ip (VString []) sites)
         ips (Settings_vpnSites V mode st)) st"

definition Settings_removeVpnSites :: "'k vault \<Rightarrow> RouteMode \<Rightarrow> string list \<Rightarrow> 'k AppSettings \<Rightarrow> 'k AppSettings" where
  "Settings_removeVpnSites V mode sites st =
     Settings_setVpnSites V mode
       (fold (\<lambda>site m. if site = [] then m else qmap_remove site m) sites (Settings_vpnSites V mode st)) st"

definition Settings_removeAllVpnSites :: "'k vault \<Rightarrow> RouteMode \<Rightarrow> 'k AppSettings \<Rightarrow> 'k AppSettings" where
  "Settings_removeAllVpnSites V mode st = Settings_setVpnSites V mode [] st"

primrec Settings_appsRouteModeString :: "AppsRouteMode \<Rightarrow> string" where
  "Settings_appsRouteModeString VpnAllApps = ''AllApps''"
| "Settings_appsRouteModeString VpnOnlyForwardApps = ''ForwardApps''"
| "Settings_appsRouteModeString VpnAllExceptApps = ''ExceptApps''"

definition AppsRouteMode_of :: "int \<Rightarrow> AppsRouteMode option" where
  "AppsRouteMode_of n =
     (if n = 0 then Some VpnAllApps else if n = 1 then Some VpnOnlyForwardApps
      else if n = 2 then Some VpnAllExceptApps else None)"

definition Settings_getAppsRouteMode :: "Qt \<Rightarrow> 'k vault \<Rightarrow> 'k AppSettings \<Rightarrow> AppsRouteMode option" where
  "Settings_getAppsRouteMode Q V st = AppsRouteMode_of (toInt Q (Settings_value V ''Conf/appsRouteMode'' (VInt 0) st))"

definition Settings_setAppsRouteMode :: "'k vault \<Rightarrow> AppsRouteMode \<Rightarrow> 'k AppSettings \<Rightarrow> 'k AppSettings" where
  "Settings_setAppsRouteMode V mode st =
     Settings_setValue V ''Conf/appsRouteMode'' (VInt (AppsRouteMode_value mode)) st"

definition app_ofJson :: "qjson \<Rightarrow> InstalledAppInfo" where
  "app_ofJson app =
     (let field = \<lambda>k. qs (json_toString (json_value (json_toObject app) k))
      in \<lparr>appName = field ''appName'', packageName = field ''packageName'', appPath = field ''appPath''\<rparr>)"

definition app_toJson :: "InstalledAppInfo \<Rightarrow> qjson" where
  "app_toJson app =
     JObject (json_insert ''appPath'' (JString (appPath app))
       (json_insert ''packageName'' (JString (packageName app))
         (json_insert ''appName'' (JString (appName app)) [])))"

definition Settings_getVpnApps :: "'k vault \<Rightarrow> AppsRouteMode \<Rightarrow> 'k AppSettings \<Rightarrow> InstalledAppInfo list" where
  "Settings_getVpnApps V mode st =
     map app_ofJson (toJsonArray (Settings_value V (''Conf/'' @ Settings_appsRouteModeString mode) VInvalid st))"

definition Settings_setVpnApps ::
  "'k vault \<Rightarrow> AppsRouteMode \<Rightarrow> InstalledAppInfo list \<Rightarrow> 'k AppSettings \<Rightarrow> 'k AppSettings"
where
  "Settings_setVpnApps V mode apps st =
     Settings_setValue V (''Conf/'' @ Settings_appsRouteModeString mode) (VJsonArray (map app_toJson apps)) st"

definition Settings_isAppsSplitTunnelingEnabled :: "'k vault \<Rightarrow> 'k AppSettings \<Rightarrow> bool" where
  "Settings_isAppsSplitTunnelingEnabled V st \<longleftrightarrow>
     toBool (Settings_value V ''Conf/appsSplitTunnelingEnabled'' (VBool False) st)"

definition Settings_setAppsSplitTunnelingEnabled :: "'k vault \<Rightarrow> bool \<Rightarrow> 'k AppSettings \<Rightarrow> 'k AppSettings" where
  "Settings_setAppsSplitTunnelingEnabled V enabled st =
     Settings_setValue V ''Conf/appsSplitTunnelingEnabled'' (VBool enabled) st"

section \<open>Installation, gateway, construction\<close>

definition Settings_setInstallationUuid :: "'k vault \<Rightarrow> string \<Rightarrow> 'k AppSettings \<Rightarrow> 'k AppSettings" where
  "Settings_setInstallationUuid V uuid st = Settings_setValue V ''Conf/installationUuid'' (VString uuid) st"

text \<open>\<open>remove(0, 1)\<close> and \<open>chop(1)\<close>.\<close>

definition strip_braces :: "string \<Rightarrow> string" where
  "strip_braces s = butlast (tl s)"

text \<open>\<open>fresh\<close> is the text of a new identifier, in braces.\<close>

definition Settings_getInstallationUuid ::
  "string \<Rightarrow> 'k vault \<Rightarrow> bool \<Rightarrow> 'k AppSettings \<Rightarrow> string \<times> 'k AppSettings"
where
  "Settings_getInstallationUuid fresh V needCreate st =
     (let uuid = toStr (Settings_value V ''Conf/installationUuid'' (VString []) st)
      in if needCreate \<and> uuid = [] then
           (let uuid = strip_braces fresh in (uuid, Settings_setInstallationUuid V uuid st))
         else if CHR 0x7B \<in> set uuid \<and> CHR 0x7D \<in> set uuid then
           (let uuid = strip_braces uuid in (uuid, Settings_setInstallationUuid V uuid st))
         else (uuid, st))"

definition Settings_clearSettings :: "'k vault \<Rightarrow> 'k AppSettings \<Rightarrow> 'k AppSettings" where
  "Settings_clearSettings V st =
     (let (uuid, st) = Settings_getInstallationUuid [] V False st;
          st = st\<lparr>secure := SecureQSettings_clearSettings (secure st)\<rparr>
      in st_emit SettingsCleared (Settings_setInstallationUuid V uuid st))"

definition Settings_backupAppConfig :: "'k vault \<Rightarrow> 'k AppSettings \<Rightarrow> string" where
  "Settings_backupAppConfig V st = fst (SecureQSettings_backupAppConfig V (secure st))"

definition Settings_restoreAppConfig :: "'k vault \<Rightarrow> string \<Rightarrow> 'k AppSettings \<Rightarrow> bool \<times> 'k AppSettings" where
  "Settings_restoreAppConfig V cfg st =
     (let (ok, s) = SecureQSettings_restoreAppConfig V cfg (secure st) in (ok, st\<lparr>secure := s\<rparr>))"

definition gatewayEndpoint :: string where "gatewayEndpoint = ''http://gw.amnezia.org:80/''"

definition Settings_resetGatewayEndpoint :: "'k AppSettings \<Rightarrow> 'k AppSettings" where
  "Settings_resetGatewayEndpoint st = st\<lparr>m_gatewayEndpoint := gatewayEndpoint\<rparr>"

definition Settings_setGatewayEndpoint :: "string \<Rightarrow> 'k AppSettings \<Rightarrow> 'k AppSettings" where
  "Settings_setGatewayEndpoint endpoint st = st\<lparr>m_gatewayEndpoint := endpoint\<rparr>"

text \<open>\<open>dev\<close> is the endpoint the build sets.\<close>

definition Settings_setDevGatewayEndpoint :: "string \<Rightarrow> 'k AppSettings \<Rightarrow> 'k AppSettings" where
  "Settings_setDevGatewayEndpoint dev st = st\<lparr>m_gatewayEndpoint := dev\<rparr>"

definition Settings_toggleDevGatewayEnv :: "bool \<Rightarrow> 'k AppSettings \<Rightarrow> 'k AppSettings" where
  "Settings_toggleDevGatewayEnv enabled st = st\<lparr>m_isDevGatewayEnv := enabled\<rparr>"

definition secure_remove :: "string \<Rightarrow> 'k AppSettings \<Rightarrow> 'k AppSettings" where
  "secure_remove key st = st\<lparr>secure := SecureQSettings_remove key (secure st)\<rparr>"

definition Settings_new :: "(string \<Rightarrow> string) \<Rightarrow> Qt \<Rightarrow> 'k vault \<Rightarrow> 'k SecureQSettings \<Rightarrow> 'k AppSettings" where
  "Settings_new tr Q V s =
     (let st = \<lparr>secure = s, m_gatewayEndpoint = [], m_isDevGatewayEnv = False, st_signals = []\<rparr>;
          user = toStr (Settings_value V ''Server/userName'' VInvalid st);
          password = toStr (Settings_value V ''Server/password'' VInvalid st);
          serverName = toStr (Settings_value V ''Server/serverName'' VInvalid st);
          port = toInt Q (Settings_value V ''Server/serverPort'' VInvalid st);
          st = (if Settings_serversCount V st = 0 \<and> user \<noteq> [] \<and> password \<noteq> [] \<and> serverName \<noteq> [] then
                  (let server = json_insert ''description'' (JString (tr ''Server #1''))
                         (json_insert ''port'' (JDouble (of_int port))
                           (json_insert ''hostName'' (JString serverName)
                             (json_insert ''password'' (JString password)
                               (json_insert ''userName'' (JString user) []))));
                       st = Settings_addServer V server st
                   in fold secure_remove [''Server/userName'', ''Server/password'', ''Server/serverName'',
                        ''Server/serverPort''] st)
                else st)
      in Settings_resetGatewayEndpoint st)"

end
