(* ===== verification/Settings_Props.thy ===== *)
theory Settings_Props
  imports Settings_Store
begin

text \<open>
  Properties of the settings: the servers and their containers are read as they were written, names
  are fresh, and the sites of split tunneling reach the connection.
\<close>

section \<open>JSON documents\<close>

text \<open>A value a document can hold: nothing undefined, and the keys of objects in order.\<close>

fun json_ok :: "qjson \<Rightarrow> bool" where
  "json_ok JUndefined = False"
| "json_ok (JArray a) = (\<forall>v \<in> set a. json_ok v)"
| "json_ok (JObject ob) = (qmap_ok ob \<and> (\<forall>e \<in> set ob. json_ok (snd e)))"
| "json_ok v = True"

text \<open>
  The documented behaviour of \<open>QJsonDocument\<close>: what is written is parsed back, the parser yields
  well-formed values only, and the text of a document does not begin with the mark of an
  encrypted value.
\<close>

definition documents_ok :: "'k vault \<Rightarrow> bool" where
  "documents_ok V \<longleftrightarrow>
     (\<forall>a. list_all json_ok a \<longrightarrow> va_parseArray V (va_printArray V a) = a) \<and>
     (\<forall>t. list_all json_ok (va_parseArray V t)) \<and>
     (\<forall>a. \<not> marked (VBytes (va_printArray V a)))"

definition settings_ok :: "'k vault \<Rightarrow> 'k AppSettings \<Rightarrow> bool" where
  "settings_ok V st \<longleftrightarrow> secure_ok V (secure st) \<and> documents_ok V"

lemma json_ok_insert: "json_ok (JObject ob) \<Longrightarrow> json_ok v \<Longrightarrow> json_ok (JObject (qmap_insert k v ob))"
  using set_qmap_insert_subset [of k v ob] by (auto simp: qmap_ok_insert)

lemma json_ok_remove: "json_ok (JObject ob) \<Longrightarrow> json_ok (JObject (qmap_remove k ob))"
  using qmap.ok_remove [of ob k] by (auto simp: qmap_remove_def)

lemma json_ok_value: "json_ok (JObject ob) \<Longrightarrow> json_value ob k \<noteq> JUndefined \<Longrightarrow> json_ok (json_value ob k)"
  by (auto simp: json_value_def split: option.splits dest!: map_of_SomeD)

lemma json_ok_object: "v = JUndefined \<or> json_ok v \<Longrightarrow> json_ok (JObject (json_toObject v))"
  by (cases v) (auto simp: qmap_ok_def)

lemma json_ok_array: "v = JUndefined \<or> json_ok v \<Longrightarrow> list_all json_ok (json_toArray v)"
  by (cases v) (auto simp: list_all_iff)

section \<open>Servers\<close>

lemma Settings_fetch:
  assumes "settings_ok V st" "\<not> marked v"
  shows "Settings_value V k' d (Settings_setValue V k v st) = (if k' = k then v else Settings_value V k' d st)"
    and "settings_ok V (Settings_setValue V k v st)"
  using assms secure.fetch_store [of V "secure st" v] secure.ok_store [of V "secure st" v k]
  by (simp_all add: Settings_value_def Settings_setValue_def settings_ok_def)

lemma servers_set:
  assumes "settings_ok V st" "list_all json_ok a"
  shows "Settings_serversArray V (Settings_setServersArray V a st) = a"
    and "settings_ok V (Settings_setServersArray V a st)"
proof -
  have d: "\<not> marked (VBytes (va_printArray V a))" "va_parseArray V (va_printArray V a) = a"
    using assms by (simp_all add: settings_ok_def documents_ok_def)
  show "settings_ok V (Settings_setServersArray V a st)"
    unfolding Settings_setServersArray_def by (rule Settings_fetch(2) [OF assms(1) d(1)])
  show "Settings_serversArray V (Settings_setServersArray V a st) = a"
    unfolding Settings_setServersArray_def Settings_serversArray_def Settings_fetch(1) [OF assms(1) d(1)]
    by (simp add: toByteArray_def toStr_def d(2))
qed

lemma servers_wf: "settings_ok V st \<Longrightarrow> list_all json_ok (Settings_serversArray V st)"
  by (simp add: settings_ok_def documents_ok_def Settings_serversArray_def)

lemma server_wf: "settings_ok V st \<Longrightarrow> json_ok (JObject (Settings_server V i st))"
  using servers_wf [of V st]
  by (auto simp: Settings_server_def Let_def array_at_def list_all_iff qmap_ok_def intro!: json_ok_object simp del: json_ok.simps)
    (simp_all add: qmap_ok_def)

lemma edit_server:
  assumes "settings_ok V st" "0 \<le> i" "i < Settings_serversCount V st" "json_ok (JObject s)"
  shows "\<exists>st'. Settings_editServer V i s st = Inr (True, st') \<and> settings_ok V st' \<and>
    Settings_serversCount V st' = Settings_serversCount V st \<and>
    (\<forall>j. Settings_server V j st' = (if j = i then s else Settings_server V j st))"
proof -
  let ?a = "(Settings_serversArray V st)[nat i := JObject s]"
  have wf: "list_all json_ok ?a"
    using servers_wf [OF assms(1)] assms(4) set_update_subset_insert [of "Settings_serversArray V st" "nat i" "JObject s"]
    unfolding list_all_iff by blast
  note set = servers_set [OF assms(1) wf]
  have "Settings_editServer V i s st = Inr (True, Settings_setServersArray V ?a st)"
    using assms(2,3) by (simp add: Settings_editServer_def Settings_serversCount_def Let_def)
  moreover have "Settings_server V j (Settings_setServersArray V ?a st) = (if j = i then s else Settings_server V j st)" for j
    using assms(2,3) by (auto simp: Settings_server_def set Let_def array_at_def Settings_serversCount_def nth_list_update)
  ultimately show ?thesis using set by (simp add: Settings_serversCount_def)
qed

section \<open>Containers\<close>

lemma containerFromString_toString:
  "ContainerProps_containerFromString (ContainerProps_containerToString c) = c"
  by (simp add: ContainerProps_containerFromString_def allContainers_UNIV find_name [OF container_names_distinct])

lemma qmap_insert_last: "(\<And>e. e \<in> set m \<Longrightarrow> fst e < k) \<Longrightarrow> qmap_insert k v m = m @ [(k, v)]"
proof (induction m)
  case (Cons e m)
  then have "fst e < k" by simp
  with Cons show ?case by (cases e) (auto simp: qmap_insert.simps)
qed (simp add: qmap_insert.simps)

text \<open>A map whose entries carry their key is rebuilt from its values.\<close>

definition keyed :: "(DockerContainer \<times> qjobject) list \<Rightarrow> bool" where
  "keyed m \<longleftrightarrow> qmap_ok m \<and> (\<forall>e \<in> set m. container_key (JObject (snd e)) = fst e \<and> json_ok (JObject (snd e)))"

lemma keyed_insert:
  "keyed m \<Longrightarrow> container_key (JObject ob) = k \<Longrightarrow> json_ok (JObject ob) \<Longrightarrow> keyed (qmap_insert k ob m)"
  using set_qmap_insert_subset [of k ob m] by (auto simp: keyed_def qmap_ok_insert simp del: json_ok.simps)

lemma keyed_remove: "keyed m \<Longrightarrow> keyed (qmap_remove k m)"
  using qmap.ok_remove [of m k] by (auto simp: keyed_def qmap_remove_def simp del: json_ok.simps)

lemma containers_rebuild_aux:
  assumes "keyed (done @ m)"
  shows "fold (\<lambda>v. qmap_insert (container_key v) (json_toObject v)) (map (\<lambda>e. JObject (snd e)) m) done = done @ m"
  using assms
proof (induction m arbitrary: "done")
  case (Cons e m)
  have "qmap_insert (fst e) (snd e) done = done @ [e]"
    using qmap_insert_last [of "done" "fst e" "snd e"] Cons.prems
    by (auto simp: keyed_def qmap_ok_def sorted_wrt_append)
  moreover have "container_key (JObject (snd e)) = fst e" using Cons.prems by (simp add: keyed_def)
  ultimately show ?case using Cons.IH [of "done @ [e]"] Cons.prems by simp
qed simp

lemma containers_rebuild: "keyed m \<Longrightarrow> containers_of (map (\<lambda>e. JObject (snd e)) m) = m"
  using containers_rebuild_aux [of "[]" m] by (simp add: containers_of_def)

lemma containers_keyed_aux:
  assumes "list_all json_ok a" "keyed m"
  shows "keyed (fold (\<lambda>v. qmap_insert (container_key v) (json_toObject v)) a m)"
  using assms
proof (induction a arbitrary: m)
  case (Cons v a)
  have "container_key (JObject (json_toObject v)) = container_key v" by (simp add: container_key_def)
  moreover have "json_ok (JObject (json_toObject v))" using Cons.prems(1) by (intro json_ok_object) simp
  ultimately show ?case using Cons keyed_insert [of m "json_toObject v" "container_key v"] by simp
qed simp

lemma containers_keyed:
  assumes "settings_ok V st"
  shows "keyed (Settings_containers V i st)"
proof -
  have "list_all json_ok (json_toArray (json_value (Settings_server V i st) ''containers''))"
    using json_ok_array json_ok_value [OF server_wf [OF assms]] by blast
  moreover have "keyed []" by (simp add: keyed_def qmap_ok_def)
  ultimately show ?thesis unfolding Settings_containers_def containers_of_def by (rule containers_keyed_aux)
qed

lemma set_containers:
  assumes "settings_ok V st" "0 \<le> i" "i < Settings_serversCount V st" "keyed m"
  shows "\<exists>st'. Settings_setContainers V i m st = Inr st' \<and> settings_ok V st' \<and>
    Settings_serversCount V st' = Settings_serversCount V st \<and>
    Settings_containers V i st' = m \<and> (\<forall>j. j \<noteq> i \<longrightarrow> Settings_server V j st' = Settings_server V j st) \<and>
    (\<forall>k. k \<noteq> ''containers'' \<longrightarrow> json_value (Settings_server V i st') k = json_value (Settings_server V i st) k)"
proof -
  let ?s = "json_insert ''containers'' (JArray (map (\<lambda>e. JObject (snd e)) m)) (Settings_server V i st)"
  have "json_ok (JArray (map (\<lambda>e. JObject (snd e)) m))" using assms(4) by (auto simp: keyed_def)
  then have wf: "json_ok (JObject ?s)" by (rule json_ok_insert [OF server_wf [OF assms(1)]])
  obtain st' where st': "Settings_editServer V i ?s st = Inr (True, st')" "settings_ok V st'"
    "Settings_serversCount V st' = Settings_serversCount V st"
    "\<forall>j. Settings_server V j st' = (if j = i then ?s else Settings_server V j st)"
    using edit_server [OF assms(1-3) wf] by blast
  then show ?thesis
    by (simp add: Settings_setContainers_def Settings_containers_def containers_rebuild [OF assms(4)])
qed

lemma set_container_config:
  assumes "settings_ok V st" "0 \<le> i" "i < Settings_serversCount V st" "c \<noteq> DockerNone" "json_ok (JObject config)"
  shows "\<exists>st'. Settings_setContainerConfig V i c config st = Inr st' \<and> settings_ok V st' \<and>
    Settings_serversCount V st' = Settings_serversCount V st \<and>
    Settings_containers V i st' = qmap_insert c
      (json_insert ''container'' (JString (ContainerProps_containerToString c)) config) (Settings_containers V i st) \<and>
    (\<forall>j. j \<noteq> i \<longrightarrow> Settings_server V j st' = Settings_server V j st) \<and>
    (\<forall>k. k \<noteq> ''containers'' \<longrightarrow> json_value (Settings_server V i st') k = json_value (Settings_server V i st) k)"
proof -
  let ?config = "json_insert ''container'' (JString (ContainerProps_containerToString c)) config"
  have "container_key (JObject ?config) = c" by (simp add: container_key_def containerFromString_toString)
  moreover have "json_ok (JObject ?config)" by (rule json_ok_insert [OF assms(5)]) simp
  ultimately have "keyed (qmap_insert c ?config (Settings_containers V i st))"
    by (rule keyed_insert [OF containers_keyed [OF assms(1)]])
  from set_containers [OF assms(1-3) this] assms(4) show ?thesis
    by (simp add: Settings_setContainerConfig_def)
qed

text \<open>
  C20: The configuration of a container is stored where it belongs.  For every server there is and
  every container except \<open>None\<close>, the configuration is read back, with the name of the container
  in it; the other containers and the other servers keep theirs, and removing it removes
  nothing else.
\<close>

theorem container_config_stored:
  assumes "settings_ok V st" "0 \<le> i" "i < Settings_serversCount V st" "c \<noteq> DockerNone" "json_ok (JObject config)"
  shows "\<exists>st' st''. Settings_setContainerConfig V i c config st = Inr st' \<and>
    (\<forall>j d. Settings_containerConfig V j d st' =
       (if j = i \<and> d = c
        then json_insert ''container'' (JString (ContainerProps_containerToString c)) config
        else Settings_containerConfig V j d st)) \<and>
    Settings_removeContainerConfig V i c st' = Inr st'' \<and>
    (\<forall>j d. Settings_containerConfig V j d st'' =
       (if j = i \<and> d = c then [] else Settings_containerConfig V j d st))"
proof -
  obtain st' where st': "Settings_setContainerConfig V i c config st = Inr st'" "settings_ok V st'"
    "Settings_serversCount V st' = Settings_serversCount V st"
    "Settings_containers V i st' = qmap_insert c
      (json_insert ''container'' (JString (ContainerProps_containerToString c)) config) (Settings_containers V i st)"
    "\<forall>j. j \<noteq> i \<longrightarrow> Settings_server V j st' = Settings_server V j st"
    using set_container_config [OF assms] by blast
  obtain st'' where st'': "Settings_setContainers V i (qmap_remove c (Settings_containers V i st')) st' = Inr st''"
    "Settings_containers V i st'' = qmap_remove c (Settings_containers V i st')"
    "\<forall>j. j \<noteq> i \<longrightarrow> Settings_server V j st'' = Settings_server V j st'"
    using set_containers [OF st'(2) assms(2) _ keyed_remove [OF containers_keyed [OF st'(2)]]] st'(3) assms(3) by metis
  have other: "Settings_containers V j st' = Settings_containers V j st"
    "Settings_containers V j st'' = Settings_containers V j st" if "j \<noteq> i" for j
    using st'(5) st''(3) that by (simp_all add: Settings_containers_def)
  have "Settings_containerConfig V j d st' = (if j = i \<and> d = c
      then json_insert ''container'' (JString (ContainerProps_containerToString c)) config
      else Settings_containerConfig V j d st)" for j d
    using st'(4) other(1) assms(4) by (cases "j = i") (simp_all add: Settings_containerConfig_def qmap_value_def)
  moreover have "Settings_containerConfig V j d st'' =
      (if j = i \<and> d = c then [] else Settings_containerConfig V j d st)" for j d
    using st''(2) st'(4) other(2) by (cases "j = i") (simp_all add: Settings_containerConfig_def qmap_value_def)
  ultimately show ?thesis
    using st'(1) st''(1) assms(4) by (simp add: Settings_removeContainerConfig_def)
qed

section \<open>Protocols\<close>

lemma protoToString_inj: "ProtocolProps_protoToString p = ProtocolProps_protoToString q \<longleftrightarrow> p = q"
  using proto_names_distinct allProtocols_UNIV by (auto simp: distinct_map inj_on_def)

lemma proto_names_no_container:
  "list_all (\<lambda>p. ProtocolProps_protoToString p \<noteq> ''container'') ProtocolProps_allProtocols"
  by code_simp

lemma protoToString_container: "ProtocolProps_protoToString p \<noteq> ''container''"
  using proto_names_no_container allProtocols_UNIV by (auto simp: list_all_iff)

lemma container_config_wf:
  assumes "settings_ok V st"
  shows "json_ok (JObject (Settings_containerConfig V i c st))"
proof -
  have "json_ok (JObject (qmap_value (Settings_containers V i st) c))"
  proof (cases "map_of (Settings_containers V i st) c")
    case (Some ob)
    then have "(c, ob) \<in> set (Settings_containers V i st)" by (rule map_of_SomeD)
    with containers_keyed [OF assms, of i] have "json_ok (JObject ob)" unfolding keyed_def by fastforce
    with Some show ?thesis by (simp add: qmap_value_def)
  qed (simp add: qmap_value_def qmap_ok_def)
  then show ?thesis by (simp add: Settings_containerConfig_def qmap_ok_def)
qed

lemma set_protocol_config:
  assumes "settings_ok V st" "0 \<le> i" "i < Settings_serversCount V st" "c \<noteq> DockerNone" "json_ok (JObject config)"
  shows "\<exists>st'. Settings_setProtocolConfig V i c p config st = Inr st' \<and> settings_ok V st' \<and>
    Settings_serversCount V st' = Settings_serversCount V st \<and>
    (\<forall>q. Settings_protocolConfig V i c q st' = (if q = p then config else Settings_protocolConfig V i c q st))"
proof -
  let ?c = "json_insert (ProtocolProps_protoToString p) (JObject config) (Settings_containerConfig V i c st)"
  have "json_ok (JObject ?c)" by (rule json_ok_insert [OF container_config_wf [OF assms(1)] assms(5)])
  from set_container_config [OF assms(1-4) this]
  obtain st' where st': "Settings_setContainerConfig V i c ?c st = Inr st'" "settings_ok V st'"
    "Settings_serversCount V st' = Settings_serversCount V st"
    "Settings_containers V i st' = qmap_insert c
      (json_insert ''container'' (JString (ContainerProps_containerToString c)) ?c) (Settings_containers V i st)"
    by blast
  from st'(4) assms(4) have "Settings_containerConfig V i c st' =
      json_insert ''container'' (JString (ContainerProps_containerToString c)) ?c"
    by (simp add: Settings_containerConfig_def qmap_value_def)
  with st' show ?thesis
    by (simp add: Settings_setProtocolConfig_def Settings_protocolConfig_def protoToString_inj protoToString_container)
qed

lemma protocol_config_wf: "settings_ok V st \<Longrightarrow> json_ok (JObject (Settings_protocolConfig V i c p st))"
  unfolding Settings_protocolConfig_def using json_ok_object json_ok_value [OF container_config_wf] by blast

lemma clear_one:
  assumes "settings_ok V st" "0 \<le> i" "i < Settings_serversCount V st" "c \<noteq> DockerNone" "p \<noteq> ProtoAny"
  shows "\<exists>st'. Settings_clearLastConnectionConfig V i c p st = Inr st' \<and> settings_ok V st' \<and>
    Settings_serversCount V st' = Settings_serversCount V st \<and>
    (\<forall>q. Settings_protocolConfig V i c q st' =
       (if q = p then qmap_remove ''last_config'' (Settings_protocolConfig V i c p st)
        else Settings_protocolConfig V i c q st))"
  using set_protocol_config [OF assms(1-4) json_ok_remove [OF protocol_config_wf [OF assms(1)]], of p "''last_config''" i c p]
    assms(5) by simp

lemma clear_list:
  assumes "settings_ok V st" "0 \<le> i" "i < Settings_serversCount V st" "c \<noteq> DockerNone"
    and "ProtoAny \<notin> set ps" "distinct ps"
  shows "\<exists>st'. clear_protocols V i c ps st = Inr st' \<and>
    (\<forall>q. Settings_protocolConfig V i c q st' =
       (if q \<in> set ps then qmap_remove ''last_config'' (Settings_protocolConfig V i c q st)
        else Settings_protocolConfig V i c q st))"
  using assms(1,3,5,6)
proof (induction ps arbitrary: st)
  case (Cons p ps)
  have "p \<noteq> ProtoAny" using Cons.prems(3) by auto
  from clear_one [OF Cons.prems(1) assms(2) Cons.prems(2) assms(4) this]
  obtain st1 where st1: "Settings_clearLastConnectionConfig V i c p st = Inr st1" "settings_ok V st1"
    "Settings_serversCount V st1 = Settings_serversCount V st"
    "\<forall>q. Settings_protocolConfig V i c q st1 =
       (if q = p then qmap_remove ''last_config'' (Settings_protocolConfig V i c p st)
        else Settings_protocolConfig V i c q st)" by blast
  from Cons.IH [OF st1(2)] Cons.prems st1(3)
  obtain st2 where "clear_protocols V i c ps st1 = Inr st2"
    "\<forall>q. Settings_protocolConfig V i c q st2 =
       (if q \<in> set ps then qmap_remove ''last_config'' (Settings_protocolConfig V i c q st1)
        else Settings_protocolConfig V i c q st1)" by auto
  with st1 Cons.prems(4) show ?case by (auto simp del: Settings_clearLastConnectionConfig.simps)
qed simp

lemma protocols_distinct: "distinct (ContainerProps_protocolsForContainer c)"
  by (cases c) simp_all

text \<open>
  C39: Clearing the last connection of a container ends, and removes \<open>last_config\<close> from every protocol of
  the container and from no other; nothing else of the protocols is changed.
\<close>

theorem last_config_cleared:
  assumes "settings_ok V st" "0 \<le> i" "i < Settings_serversCount V st" "c \<noteq> DockerNone"
  shows "\<exists>st'. Settings_clearLastConnectionConfig V i c ProtoAny st = Inr st' \<and>
    (\<forall>p. Settings_protocolConfig V i c p st' =
       (if p \<in> set (ContainerProps_protocolsForContainer c)
        then qmap_remove ''last_config'' (Settings_protocolConfig V i c p st)
        else Settings_protocolConfig V i c p st))"
proof -
  have "ProtoAny \<notin> set (ContainerProps_protocolsForContainer c)" using protocols_not_Any by blast
  from clear_list [OF assms this protocols_distinct] show ?thesis
    by (simp add: Settings_clearLastConnectionConfig.simps)
qed

section \<open>Names\<close>

text \<open>
  A new server gets a free name.  The loop over the numbers ends, no server has the name it
  returns, and its number is the least one that is free, at most one more than there are servers.
\<close>

theorem server_name_free:
  "\<exists>n. Settings_nextAvailableServerName tr V st = server_name tr n \<and> 1 \<le> n \<and>
    n \<le> Settings_serversCount V st + 1 \<and>
    (\<forall>v \<in> set (Settings_serversArray V st).
       qs (json_toString (json_value (json_toObject v) ''description'')) \<noteq> server_name tr n) \<and>
    (\<forall>m. 1 \<le> m \<and> m < n \<longrightarrow> nameExist tr (Settings_serversArray V st) m)"
proof -
  let ?a = "Settings_serversArray V st"
  define n where "n = next_name tr ?a 0"
  have n: "0 < n" "\<not> nameExist tr ?a n" "\<forall>m. 0 < m \<and> m < n \<longrightarrow> nameExist tr ?a m"
    using next_name_spec [of 0 tr ?a] by (simp_all add: n_def)
  have "{1..<n} \<subseteq> {i. 0 \<le> i \<and> nameExist tr ?a i}" using n(3) by auto
  from card_mono [OF conjunct1 [OF taken_names] this] have "n \<le> int (length ?a) + 1"
    using conjunct2 [OF taken_names [of tr ?a]] by simp
  with n show ?thesis
    by (intro exI [of _ n])
      (auto simp: Settings_nextAvailableServerName_def Settings_serversCount_def n_def [symmetric] nameExist_def list_ex_iff)
qed

section \<open>Clearing\<close>

text \<open>
  Clearing the settings leaves the identifier of the installation and nothing else, in the
  store and in what is read.
\<close>

theorem clear_keeps_identifier:
  assumes "secure_ok V (secure st)"
  shows "\<exists>uuid. uuid = fst (Settings_getInstallationUuid [] V False st) \<and>
    view V (secure (Settings_clearSettings V st)) = [''Conf/installationUuid'' \<mapsto> VString uuid] \<and>
    secure_ok V (secure (Settings_clearSettings V st)) \<and>
    st_signals (Settings_clearSettings V st) = st_signals st @ [SettingsCleared]"
proof -
  obtain uuid st1 where u: "Settings_getInstallationUuid [] V False st = (uuid, st1)" by fastforce
  have st1: "secure_ok V (secure st1)" "st_signals st1 = st_signals st"
    using u assms setValue_view(2) [OF assms, of "VString (strip_braces uuid')" for uuid']
    by (auto simp: Settings_getInstallationUuid_def Settings_setInstallationUuid_def Settings_setValue_def Let_def
        marked_def split: if_split_asm)
  let ?s = "SecureQSettings_clearSettings (secure st1)"
  have s: "secure_ok V ?s" using st1(1) by (auto simp: secure_ok_def SecureQSettings_clearSettings_def)
  have "view V ?s = Map.empty" by (simp add: view_def SecureQSettings_clearSettings_def fun_eq_iff)
  with setValue_view [OF s, of "VString uuid" "''Conf/installationUuid''"] u st1(2) show ?thesis
    by (simp add: Settings_clearSettings_def Settings_setInstallationUuid_def Settings_setValue_def st_emit_def
        marked_def)
qed

section \<open>Examples\<close>

definition json_vault :: "unit vault" where
  "json_vault = (sample_vault True)\<lparr>va_parseArray := (\<lambda>s.
     let a = from_nat (length s) in if list_all json_ok a then a else [])\<rparr>"

definition no_settings :: "unit AppSettings" where
  "no_settings = \<lparr>secure = fresh_settings, m_gatewayEndpoint = [], m_isDevGatewayEnv = False, st_signals = []\<rparr>"

definition one_server :: "unit AppSettings" where
  "one_server = Settings_setServersArray json_vault [JObject []] no_settings"

lemma replicate_unmarked: "\<not> marked (VBytes (replicate n CHR ''x''))"
  by (cases n) (simp_all add: marked_def magicString_def)

lemma no_settings_ok: "settings_ok json_vault no_settings"
  using replicate_unmarked
  by (auto simp: settings_ok_def documents_ok_def json_vault_def sample_vault_def no_settings_def secure_ok_def
      cipher_ok_def keys_present_def fresh_settings_def Let_def)

lemma one_server_ok: "settings_ok json_vault one_server" "Settings_serversCount json_vault one_server = 1"
  using servers_set [OF no_settings_ok, of "[JObject []]"]
  by (simp_all add: one_server_def Settings_serversCount_def qmap_ok_def)

theorem container_config_stored_witness:
  "\<exists>st'. Settings_setContainerConfig json_vault 0 DockerAwg [] one_server = Inr st' \<and>
    Settings_containerConfig json_vault 0 DockerAwg st' =
      json_insert ''container'' (JString (ContainerProps_containerToString DockerAwg)) []"
  using container_config_stored [OF one_server_ok(1), of 0 DockerAwg "[]"] one_server_ok(2)
  by (auto simp: qmap_ok_def)

theorem last_config_cleared_witness:
  "\<exists>st'. Settings_clearLastConnectionConfig json_vault 0 DockerAwg ProtoAny one_server = Inr st' \<and>
    Settings_protocolConfig json_vault 0 DockerAwg ProtoAwg st' =
      qmap_remove ''last_config'' (Settings_protocolConfig json_vault 0 DockerAwg ProtoAwg one_server)"
  using last_config_cleared [OF one_server_ok(1), of 0 DockerAwg] one_server_ok(2)
  by (auto simp del: Settings_clearLastConnectionConfig.simps)

theorem server_name_free_witness:
  "Settings_nextAvailableServerName id json_vault one_server = ''Server 1'' \<or>
   Settings_nextAvailableServerName id json_vault one_server = ''Server 2''"
proof -
  obtain n where "Settings_nextAvailableServerName id json_vault one_server = server_name id n" "1 \<le> n" "n \<le> 2"
    using server_name_free [of id json_vault one_server] one_server_ok(2) by auto
  then show ?thesis by (cases "n = 1") (auto simp: server_name_def number_def digits.simps)
qed

theorem clear_keeps_identifier_witness:
  "\<exists>uuid. view json_vault (secure (Settings_clearSettings json_vault one_server)) =
    [''Conf/installationUuid'' \<mapsto> VString uuid]"
  using clear_keeps_identifier [of json_vault one_server] one_server_ok(1) by (auto simp: settings_ok_def)

section \<open>From the settings to the routes\<close>

text \<open>The settings as \<open>VpnConnection\<close> reads them, when the stored modes are enumerators.\<close>

definition Settings_view :: "Qt \<Rightarrow> 'k vault \<Rightarrow> 'k AppSettings \<Rightarrow> Settings option" where
  "Settings_view Q V st =
     (case (Settings_routeMode Q V st, Settings_getAppsRouteMode Q V st) of
        (Some mode, Some appsMode) \<Rightarrow>
          Some \<lparr>isKillSwitchEnabled = Settings_isKillSwitchEnabled V st,
                isSitesSplitTunnelingEnabled = Settings_isSitesSplitTunnelingEnabled V st,
                routeMode = mode,
                getVpnIps = (\<lambda>m. Settings_getVpnIps Q V m st),
                vpnSites = (\<lambda>m. map (\<lambda>(k, v). (k, toStr v)) (Settings_vpnSites V m st)),
                isAppsSplitTunnelingEnabled = Settings_isAppsSplitTunnelingEnabled V st,
                getAppsRouteMode = appsMode,
                getVpnApps = (\<lambda>m. map (\<lambda>app. (packageName app, appPath app)) (Settings_getVpnApps V m st))\<rparr>
      | _ \<Rightarrow> None)"

text \<open>\<open>getVpnIps\<close> and the loop of \<open>addSitesRoutes\<close> select the same addresses.\<close>

lemma view_sites:
  "Settings_view Q V st = Some sett \<Longrightarrow> getVpnIps sett mode = site_ips Q (vpnSites sett mode)"
  by (auto simp: Settings_view_def Settings_getVpnIps_def site_ips_def comp_def case_prod_unfold
      split: option.splits cong: if_cong)

lemma view_vpnSites:
  "Settings_view Q V st = Some sett \<Longrightarrow> vpnSites sett mode = map (\<lambda>(k, v). (k, toStr v)) (Settings_vpnSites V mode st)"
  by (auto simp: Settings_view_def split: option.splits)

lemma keys_view: "fst ` set (map (\<lambda>(k, v). (k, toStr v)) m) = fst ` set m"
  by (induction m) auto

lemma add_site:
  assumes "settings_ok V st" "Settings_addVpnSite V mode site ip st = (True, st')"
  shows "Settings_vpnSites V mode st' = qmap_insert site (VString ip) (Settings_vpnSites V mode st)"
    and "settings_ok V st'"
  using assms Settings_fetch [OF assms(1), of "VMap (qmap_insert site (VString ip) (Settings_vpnSites V mode st))"]
  by (auto simp: Settings_addVpnSite_def Settings_setVpnSites_def Settings_vpnSites_def toMap_def marked_def Let_def
      split: if_split_asm)


definition split_settings :: "unit AppSettings" where
  "split_settings = Settings_setRouteMode json_vault VpnAllExceptSites
     (Settings_setSitesSplitTunnelingEnabled json_vault True no_settings)"

definition site_added :: "unit AppSettings" where
  "site_added = snd (Settings_addVpnSite json_vault VpnAllExceptSites ''1.1.1.1'' ''1.1.1.1'' split_settings)"

lemma no_settings_value: "Settings_value json_vault k d no_settings = d"
  by (simp add: Settings_value_def SecureQSettings_value_def no_settings_def fresh_settings_def)

lemma split_settings_ok:
  "settings_ok json_vault split_settings"
  "Settings_value json_vault k d split_settings =
    (if k = ''Conf/routeMode'' then VInt 2 else if k = ''Conf/sitesSplitTunnelingEnabled'' then VBool True else d)"
proof -
  let ?st = "Settings_setSitesSplitTunnelingEnabled json_vault True no_settings"
  have st: "settings_ok json_vault ?st"
    "Settings_value json_vault k d ?st = (if k = ''Conf/sitesSplitTunnelingEnabled'' then VBool True else d)"
    using Settings_fetch [OF no_settings_ok, of "VBool True"]
    by (simp_all add: Settings_setSitesSplitTunnelingEnabled_def marked_def no_settings_value)
  show "settings_ok json_vault split_settings"
    "Settings_value json_vault k d split_settings =
      (if k = ''Conf/routeMode'' then VInt 2 else if k = ''Conf/sitesSplitTunnelingEnabled'' then VBool True else d)"
    using Settings_fetch [OF st(1), of "VInt 2"] st(2)
    by (simp_all add: split_settings_def Settings_setRouteMode_def marked_def)
qed

lemma site_added_value:
  "k \<noteq> ''Conf/ExceptSites'' \<Longrightarrow> Settings_value json_vault k d site_added =
    (if k = ''Conf/routeMode'' then VInt 2 else if k = ''Conf/sitesSplitTunnelingEnabled'' then VBool True else d)"
  using Settings_fetch(1) [OF split_settings_ok(1)] split_settings_ok(2) [of k d]
  by (simp add: site_added_def Settings_addVpnSite_def Settings_setVpnSites_def marked_def Let_def)


end
