(* ===== verification/Servers_Model.thy ===== *)
theory Servers_Model
  imports Settings_Props
begin

text \<open>
  \<open>client/ui/models/servers_model.cpp\<close>: the list of servers the user interface works with, a copy of the
  list in the settings with a default and a processed server.

  The signals are listed in \<open>sm_signals\<close>.  \<open>QJsonArray::replace\<close> outside the array is the fault
  \<open>OutOfRange\<close>.  A container that the interface names by its number is the enumerator here.  The
  server controller is represented by the error code it returns.
\<close>

section \<open>State\<close>

datatype Role =
    NameRole | ServerDescriptionRole | CollapsedServerDescriptionRole | ExpandedServerDescriptionRole
  | HostNameRole | CredentialsRole | CredentialsLoginRole | IsDefaultRole | IsCurrentlyProcessedRole
  | HasWriteAccessRole | ContainsAmneziaDnsRole | DefaultContainerRole | HasInstalledContainers
  | IsServerFromTelegramApiRole | IsServerFromGatewayApiRole | ApiConfigRole
  | IsCountrySelectionAvailableRole | ApiAvailableCountriesRole | ApiServerCountryCodeRole | HasAmneziaDns

datatype role_value =
    RInvalid
  | RString string
  | RBool bool
  | RCredentials ServerCredentials
  | RContainer DockerContainer
  | RObject qjobject
  | RArray "qjson list"

datatype servers_signal =
    DataChanged int
  | DefaultServerIndexChanged int
  | DefaultServerNameChanged
  | DefaultServerDescriptionChanged
  | DefaultServerDefaultContainerChanged DockerContainer
  | DefaultServerContainersUpdated "qjson list"
  | ContainersUpdated "qjson list"
  | ProcessedServerIndexChanged int
  | UpdateApiLanguageModel
  | UpdateApiServicesModel

record 'k ServersModel =
  sm_settings :: "'k AppSettings"
  m_servers :: "qjson list"
  m_defaultServerIndex :: int
  m_processedServerIndex :: int
  m_isAmneziaDnsEnabled :: bool
  sm_signals :: "servers_signal list"

definition sm_emit :: "servers_signal \<Rightarrow> 'k ServersModel \<Rightarrow> 'k ServersModel" where
  "sm_emit x m = m\<lparr>sm_signals := sm_signals m @ [x]\<rparr>"

definition server_at :: "'k ServersModel \<Rightarrow> int \<Rightarrow> qjobject" where
  "server_at m i = json_toObject (array_at (m_servers m) i)"

definition field :: "qjobject \<Rightarrow> string \<Rightarrow> string" where
  "field ob k = qs (json_toString (json_value ob k))"

definition object_field :: "qjobject \<Rightarrow> string \<Rightarrow> qjobject" where
  "object_field ob k = json_toObject (json_value ob k)"

definition array_field :: "qjobject \<Rightarrow> string \<Rightarrow> qjson list" where
  "array_field ob k = json_toArray (json_value ob k)"

definition amneziaDnsIp :: string where "amneziaDnsIp = ''172.29.172.254''"

section \<open>What the model shows\<close>

definition ServersModel_serverCredentials :: "'k ServersModel \<Rightarrow> int \<Rightarrow> ServerCredentials" where
  "ServersModel_serverCredentials m index =
     (let s = server_at m index
      in \<lparr>sc_hostName = field s ''hostName'', sc_userName = field s ''userName'',
          sc_secretData = field s ''password'', sc_port = json_toInt (json_value s ''port'')\<rparr>)"

definition ServersModel_serverHasInstalledContainers :: "'k ServersModel \<Rightarrow> int \<Rightarrow> bool" where
  "ServersModel_serverHasInstalledContainers m serverIndex \<longleftrightarrow>
     list_ex (\<lambda>it. let container = container_key it
                   in ContainerProps_containerService container = ServiceVpn \<or> container = DockerSSXray)
       (array_field (server_at m serverIndex) ''containers'')"

definition ServersModel_isAmneziaDnsContainerInstalled :: "'k ServersModel \<Rightarrow> int \<Rightarrow> bool" where
  "ServersModel_isAmneziaDnsContainerInstalled m serverIndex \<longleftrightarrow>
     list_ex (\<lambda>it. field (json_toObject it) ''container'' = ContainerProps_containerToString DockerDns)
       (array_field (server_at m serverIndex) ''containers'')"

definition valid_row :: "'k ServersModel \<Rightarrow> int \<Rightarrow> bool" where
  "valid_row m i \<longleftrightarrow> 0 \<le> i \<and> i < int (length (m_servers m))"

text \<open>\<open>data\<close> and \<open>getServerDescription\<close> call each other on the roles below only.\<close>

definition has_write_access :: "'k ServersModel \<Rightarrow> int \<Rightarrow> bool" where
  "has_write_access m index \<longleftrightarrow>
     (let credentials = ServersModel_serverCredentials m index
      in sc_userName credentials \<noteq> [] \<and> sc_secretData credentials \<noteq> [])"

definition has_amnezia_dns :: "'k ServersModel \<Rightarrow> int \<Rightarrow> bool" where
  "has_amnezia_dns m index \<longleftrightarrow> field (server_at m index) ''dns1'' = amneziaDnsIp"

definition ServersModel_getServerDescription :: "'k ServersModel \<Rightarrow> qjobject \<Rightarrow> int \<Rightarrow> string" where
  "ServersModel_getServerDescription m server index =
     (let configVersion = json_toInt (json_value server ''config_version'');
          apiConfig = object_field server ''api_config''
      in if configVersion \<noteq> 0 \<and> field apiConfig ''server_country_code'' \<noteq> [] then
           field apiConfig ''server_country_name''
         else if configVersion \<noteq> 0 then field server ''description''
         else if valid_row m index \<and> has_write_access m index then
           (if m_isAmneziaDnsEnabled m \<and> ServersModel_isAmneziaDnsContainerInstalled m index
            then ''Amnezia DNS | '' else [])
         else (if valid_row m index \<and> has_amnezia_dns m index then ''Amnezia DNS | '' else []))"

definition ServersModel_data :: "'k ServersModel \<Rightarrow> int \<Rightarrow> Role \<Rightarrow> role_value" where
  "ServersModel_data m index role =
     (if \<not> valid_row m index then RInvalid
      else
        (let server = server_at m index; apiConfig = object_field server ''api_config'';
             configVersion = json_toInt (json_value server ''config_version'')
         in case role of
              NameRole \<Rightarrow>
                if configVersion \<noteq> 0 then RString (field server ''name'')
                else RString (if field server ''description'' = [] then field server ''hostName''
                              else field server ''description'')
            | ServerDescriptionRole \<Rightarrow>
                (let description = ServersModel_getServerDescription m server index
                 in RString (if configVersion \<noteq> 0 then description else description @ field server ''hostName''))
            | HostNameRole \<Rightarrow> RString (field server ''hostName'')
            | CredentialsRole \<Rightarrow> RCredentials (ServersModel_serverCredentials m index)
            | CredentialsLoginRole \<Rightarrow> RString (sc_userName (ServersModel_serverCredentials m index))
            | IsDefaultRole \<Rightarrow> RBool (index = m_defaultServerIndex m)
            | IsCurrentlyProcessedRole \<Rightarrow> RBool (index = m_processedServerIndex m)
            | HasWriteAccessRole \<Rightarrow> RBool (has_write_access m index)
            | ContainsAmneziaDnsRole \<Rightarrow> RBool (has_amnezia_dns m index)
            | DefaultContainerRole \<Rightarrow>
                RContainer (ContainerProps_containerFromString (field server ''defaultContainer''))
            | HasInstalledContainers \<Rightarrow> RBool (ServersModel_serverHasInstalledContainers m index)
            | IsServerFromTelegramApiRole \<Rightarrow> RBool (configVersion = 1)
            | IsServerFromGatewayApiRole \<Rightarrow> RBool (configVersion = 2)
            | ApiConfigRole \<Rightarrow> RObject apiConfig
            | IsCountrySelectionAvailableRole \<Rightarrow> RBool (array_field apiConfig ''available_countries'' \<noteq> [])
            | ApiAvailableCountriesRole \<Rightarrow> RArray (array_field apiConfig ''available_countries'')
            | ApiServerCountryCodeRole \<Rightarrow> RString (field apiConfig ''server_country_code'')
            | HasAmneziaDns \<Rightarrow> RBool (has_amnezia_dns m index)
            | _ \<Rightarrow> RInvalid))"

definition role_bool :: "role_value \<Rightarrow> bool" where
  "role_bool v \<longleftrightarrow> v = RBool True"

definition role_string :: "role_value \<Rightarrow> string" where
  "role_string v = (case v of RString s \<Rightarrow> s | _ \<Rightarrow> [])"

definition role_container :: "role_value \<Rightarrow> DockerContainer" where
  "role_container v = (case v of RContainer c \<Rightarrow> c | _ \<Rightarrow> DockerNone)"

text \<open>The second assignment to \<open>NameRole\<close> replaces the first.\<close>

definition ServersModel_roleNames :: "(Role \<times> string) list" where
  "ServersModel_roleNames =
     [(NameRole, ''name''), (ServerDescriptionRole, ''serverDescription''),
      (CollapsedServerDescriptionRole, ''collapsedServerDescription''),
      (ExpandedServerDescriptionRole, ''expandedServerDescription''), (HostNameRole, ''hostName''),
      (CredentialsRole, ''credentials''), (CredentialsLoginRole, ''credentialsLogin''),
      (IsDefaultRole, ''isDefault''), (IsCurrentlyProcessedRole, ''isCurrentlyProcessed''),
      (HasWriteAccessRole, ''hasWriteAccess''), (ContainsAmneziaDnsRole, ''containsAmneziaDns''),
      (DefaultContainerRole, ''defaultContainer''), (HasInstalledContainers, ''hasInstalledContainers''),
      (IsServerFromTelegramApiRole, ''isServerFromTelegramApi''),
      (IsServerFromGatewayApiRole, ''isServerFromGatewayApi''), (ApiConfigRole, ''apiConfig''),
      (IsCountrySelectionAvailableRole, ''isCountrySelectionAvailable''),
      (ApiAvailableCountriesRole, ''apiAvailableCountries''), (ApiServerCountryCodeRole, ''apiServerCountryCode'')]"

definition role_data :: "'k ServersModel \<Rightarrow> int \<Rightarrow> string \<Rightarrow> role_value" where
  "role_data m index roleString =
     (case find (\<lambda>e. snd e = roleString) ServersModel_roleNames of
        None \<Rightarrow> RInvalid | Some e \<Rightarrow> ServersModel_data m index (fst e))"

definition ServersModel_getDefaultServerData :: "'k ServersModel \<Rightarrow> string \<Rightarrow> role_value" where
  "ServersModel_getDefaultServerData m roleString = role_data m (m_defaultServerIndex m) roleString"

definition ServersModel_getProcessedServerData :: "'k ServersModel \<Rightarrow> string \<Rightarrow> role_value" where
  "ServersModel_getProcessedServerData m roleString = role_data m (m_processedServerIndex m) roleString"

definition ServersModel_getDefaultServerName :: "'k ServersModel \<Rightarrow> string" where
  "ServersModel_getDefaultServerName m = role_string (ServersModel_data m (m_defaultServerIndex m) NameRole)"

definition human_name :: "DockerContainer \<Rightarrow> string" where
  "human_name c = (case map_of ContainerProps_containerHumanNames c of None \<Rightarrow> [] | Some s \<Rightarrow> s)"

definition ServersModel_getDefaultServerDescriptionCollapsed :: "'k ServersModel \<Rightarrow> string" where
  "ServersModel_getDefaultServerDescriptionCollapsed m =
     (let server = server_at m (m_defaultServerIndex m);
          description = ServersModel_getServerDescription m server (m_defaultServerIndex m)
      in if json_toInt (json_value server ''config_version'') \<noteq> 0 then description
         else description @ human_name (ContainerProps_containerFromString (field server ''defaultContainer'')) @
              '' | '' @ field server ''hostName'')"

definition ServersModel_getDefaultServerDescriptionExpanded :: "'k ServersModel \<Rightarrow> string" where
  "ServersModel_getDefaultServerDescriptionExpanded m =
     (let server = server_at m (m_defaultServerIndex m);
          description = ServersModel_getServerDescription m server (m_defaultServerIndex m)
      in if json_toInt (json_value server ''config_version'') \<noteq> 0 then description
         else description @ field server ''hostName'')"

definition ServersModel_getServersCount :: "'k ServersModel \<Rightarrow> int" where
  "ServersModel_getServersCount m = int (length (m_servers m))"

definition ServersModel_hasServerWithWriteAccess :: "'k ServersModel \<Rightarrow> bool" where
  "ServersModel_hasServerWithWriteAccess m \<longleftrightarrow>
     list_ex (\<lambda>i. role_bool (ServersModel_data m (int i) HasWriteAccessRole)) [0..<length (m_servers m)]"

definition ServersModel_isDefaultServerFromApi :: "'k ServersModel \<Rightarrow> bool" where
  "ServersModel_isDefaultServerFromApi m \<longleftrightarrow>
     role_bool (ServersModel_data m (m_defaultServerIndex m) IsServerFromTelegramApiRole) \<or>
     role_bool (ServersModel_data m (m_defaultServerIndex m) IsServerFromGatewayApiRole)"

definition ServersModel_isServerFromApi :: "'k ServersModel \<Rightarrow> int \<Rightarrow> bool" where
  "ServersModel_isServerFromApi m serverIndex \<longleftrightarrow>
     role_bool (ServersModel_data m serverIndex IsServerFromTelegramApiRole) \<or>
     role_bool (ServersModel_data m serverIndex IsServerFromGatewayApiRole)"

definition ServersModel_getDefaultServerDefaultContainerName :: "'k ServersModel \<Rightarrow> string" where
  "ServersModel_getDefaultServerDefaultContainerName m =
     human_name (role_container (ServersModel_getDefaultServerData m ''defaultContainer''))"

definition ServersModel_getDefaultServerImagePathCollapsed :: "'k ServersModel \<Rightarrow> string" where
  "ServersModel_getDefaultServerImagePathCollapsed m =
     (let countryCode = field (object_field (server_at m (m_defaultServerIndex m)) ''api_config'')
            ''server_country_code''
      in if countryCode = [] then []
         else ''qrc:/countriesFlags/images/flagKit/'' @ countryCode @ ''.svg'')"

definition ServersModel_crcAlreadyExists :: "'k ServersModel \<Rightarrow> 16 word \<Rightarrow> bool" where
  "ServersModel_crcAlreadyExists m crc \<longleftrightarrow>
     list_ex (\<lambda>server. (word_of_int (json_toInt (json_value (json_toObject server) ''crc'')) :: 16 word) = crc)
       (m_servers m)"

definition ServersModel_isServerFromApiAlreadyExists ::
  "'k ServersModel \<Rightarrow> string \<Rightarrow> string \<Rightarrow> string \<Rightarrow> bool"
where
  "ServersModel_isServerFromApiAlreadyExists m userCountryCode serviceType serviceProtocol \<longleftrightarrow>
     list_ex (\<lambda>server. let apiConfig = object_field (json_toObject server) ''api_config''
                       in field apiConfig ''user_country_code'' = userCountryCode \<and>
                          field apiConfig ''service_type'' = serviceType \<and>
                          field apiConfig ''service_protocol'' = serviceProtocol)
       (m_servers m)"

definition ServersModel_getAllInstalledServicesName :: "'k ServersModel \<Rightarrow> int \<Rightarrow> string list" where
  "ServersModel_getAllInstalledServicesName m serverIndex =
     sort (concat (map (\<lambda>it.
       (let container = container_key it
        in if ContainerProps_containerService container = ServiceOther then
             (if container = DockerDns then [''DNS'']
              else if container = DockerSftp then [''SFTP'']
              else if container = DockerTorWebSite then [''TOR'']
              else if container = DockerSocks5Proxy then [''SOCKS5''] else [])
           else [])) (array_field (server_at m serverIndex) ''containers'')))"

text \<open>The argument is not used: the processed server decides.\<close>

definition ServersModel_getDnsPair :: "Qt \<Rightarrow> 'k vault \<Rightarrow> 'k ServersModel \<Rightarrow> int \<Rightarrow> string \<times> string" where
  "ServersModel_getDnsPair Q V m serverIndex =
     (let server = server_at m (m_processedServerIndex m);
          isDnsContainerInstalled =
            list_ex (\<lambda>c. container_key c = DockerDns) (array_field server ''containers'');
          dns1 = field server ''dns1''; dns2 = field server ''dns2''
      in (if dns1 = [] \<or> \<not> NetworkUtilities_checkIPv4Format Q dns1 then
            (if m_isAmneziaDnsEnabled m \<and> isDnsContainerInstalled then amneziaDnsIp
             else Settings_primaryDns V (sm_settings m))
          else dns1,
          if dns2 = [] \<or> \<not> NetworkUtilities_checkIPv4Format Q dns2
          then Settings_secondaryDns V (sm_settings m) else dns2))"

text \<open>\<open>parse\<close> is the JSON parser on an object.\<close>

definition ServersModel_hasSplitTunneling :: "(string \<Rightarrow> qjobject) \<Rightarrow> 'k ServersModel \<Rightarrow> bool" where
  "ServersModel_hasSplitTunneling parse m =
     (let server = server_at m (m_defaultServerIndex m);
          defaultContainer = ContainerProps_containerFromString (field server ''defaultContainer'')
      in case find (\<lambda>c. field (json_toObject c) ''container'' = ContainerProps_containerToString defaultContainer \<and>
                        defaultContainer \<in> {DockerAwg, DockerWireGuard, DockerCloak, DockerOpenVpn, DockerShadowSocks})
                (array_field server ''containers'') of
           None \<Rightarrow> False
         | Some c \<Rightarrow>
             if defaultContainer = DockerAwg \<or> defaultContainer = DockerWireGuard then
               (let serverProtocolConfig = object_field (json_toObject c) (ContainerProps_containerTypeToString defaultContainer);
                    text = field serverProtocolConfig ''last_config'';
                    allowed = array_field (parse text) ''allowed_ips''
                in contains_str ''AllowedIPs'' text \<and> \<not> contains_str ''AllowedIPs = 0.0.0.0/0, ::/0'' text \<or>
                   allowed \<noteq> [] \<and> JString ''0.0.0.0/0'' \<notin> set allowed)
             else
               (let serverProtocolConfig = object_field (json_toObject c) (ContainerProps_containerTypeToString DockerOpenVpn);
                    text = field serverProtocolConfig ''last_config''
                in text \<noteq> [] \<and> \<not> contains_str ''redirect-gateway'' text))"

section \<open>What changes the model\<close>

definition ServersModel_updateContainersModel :: "'k ServersModel \<Rightarrow> 'k ServersModel" where
  "ServersModel_updateContainersModel m =
     sm_emit (ContainersUpdated (array_field (server_at m (m_processedServerIndex m)) ''containers'')) m"

definition ServersModel_updateDefaultServerContainersModel :: "'k ServersModel \<Rightarrow> 'k ServersModel" where
  "ServersModel_updateDefaultServerContainersModel m =
     sm_emit (DefaultServerContainersUpdated (array_field (server_at m (m_defaultServerIndex m)) ''containers'')) m"

text \<open>\<open>defaultServerIndexChanged\<close> and the two slots the constructor connects to it.\<close>

definition emit_defaultServerIndexChanged :: "'k ServersModel \<Rightarrow> 'k ServersModel" where
  "emit_defaultServerIndexChanged m =
     (let m = sm_emit (DefaultServerIndexChanged (m_defaultServerIndex m)) m;
          m = sm_emit DefaultServerNameChanged m;
          defaultContainer = ContainerProps_containerFromString
            (field (server_at m (m_defaultServerIndex m)) ''defaultContainer'');
          m = sm_emit (DefaultServerDefaultContainerChanged defaultContainer) m;
          m = sm_emit DefaultServerNameChanged m
      in ServersModel_updateDefaultServerContainersModel m)"

definition ServersModel_resetModel :: "Qt \<Rightarrow> 'k vault \<Rightarrow> 'k ServersModel \<Rightarrow> 'k ServersModel" where
  "ServersModel_resetModel Q V m =
     (let m = m\<lparr>m_servers := Settings_serversArray V (sm_settings m),
                m_defaultServerIndex := Settings_defaultServerIndex Q V (sm_settings m),
                m_processedServerIndex := Settings_defaultServerIndex Q V (sm_settings m)\<rparr>
      in emit_defaultServerIndexChanged m)"

definition ServersModel_setDefaultServerIndex :: "Qt \<Rightarrow> 'k vault \<Rightarrow> int \<Rightarrow> 'k ServersModel \<Rightarrow> 'k ServersModel" where
  "ServersModel_setDefaultServerIndex Q V index m =
     (let m = m\<lparr>sm_settings := Settings_setDefaultServer V index (sm_settings m)\<rparr>
      in emit_defaultServerIndexChanged
           (m\<lparr>m_defaultServerIndex := Settings_defaultServerIndex Q V (sm_settings m)\<rparr>))"

definition ServersModel_setProcessedServerIndex :: "int \<Rightarrow> 'k ServersModel \<Rightarrow> 'k ServersModel" where
  "ServersModel_setProcessedServerIndex index m =
     (let m = ServersModel_updateContainersModel (m\<lparr>m_processedServerIndex := index\<rparr>);
          m = (if role_bool (ServersModel_data m index IsServerFromGatewayApiRole) then
                 (let m = (if role_bool (ServersModel_data m index IsCountrySelectionAvailableRole)
                           then sm_emit UpdateApiLanguageModel m else m)
                  in sm_emit UpdateApiServicesModel m)
               else m)
      in sm_emit (ProcessedServerIndexChanged (m_processedServerIndex m)) m)"

definition ServersModel_addServer :: "'k vault \<Rightarrow> qjobject \<Rightarrow> 'k ServersModel \<Rightarrow> 'k ServersModel" where
  "ServersModel_addServer V server m =
     (let st = Settings_addServer V server (sm_settings m)
      in m\<lparr>sm_settings := st, m_servers := Settings_serversArray V st\<rparr>)"

text \<open>\<open>QJsonArray::replace\<close> on the copy.\<close>

definition replace_server ::
  "int \<Rightarrow> qjson \<Rightarrow> 'k ServersModel \<Rightarrow> list_fault + 'k ServersModel"
where
  "replace_server i v m =
     (if valid_row m i then Inr (m\<lparr>m_servers := (m_servers m)[nat i := json_item v]\<rparr>) else Inl OutOfRange)"

definition ServersModel_editServer ::
  "'k vault \<Rightarrow> qjobject \<Rightarrow> int \<Rightarrow> 'k ServersModel \<Rightarrow> list_fault + 'k ServersModel"
where
  "ServersModel_editServer V server serverIndex m =
     sbind (Settings_editServer V serverIndex server (sm_settings m)) (\<lambda>(_, st).
     sbind (replace_server serverIndex (array_at (Settings_serversArray V st) serverIndex) (m\<lparr>sm_settings := st\<rparr>)) (\<lambda>m.
       (let m = sm_emit (DataChanged serverIndex) m;
            m = (if serverIndex = m_defaultServerIndex m
                 then ServersModel_updateDefaultServerContainersModel m else m);
            m = ServersModel_updateContainersModel m
        in Inr (if serverIndex = m_defaultServerIndex m
                then sm_emit (DefaultServerDefaultContainerChanged
                       (role_container (ServersModel_getDefaultServerData m ''defaultContainer''))) m
                else m))))"

definition ServersModel_setName ::
  "'k vault \<Rightarrow> int \<Rightarrow> string \<Rightarrow> 'k ServersModel \<Rightarrow> list_fault + (bool \<times> 'k ServersModel)"
where
  "ServersModel_setName V index name m =
     (if \<not> valid_row m index then Inr (False, m)
      else
        (let server = server_at m index;
             server = json_insert (if json_toInt (json_value server ''config_version'') \<noteq> 0 then ''name''
                                   else ''description'') (JString name) server
         in sbind (Settings_editServer V index server (sm_settings m)) (\<lambda>(_, st).
            sbind (replace_server index (JObject server) (m\<lparr>sm_settings := st\<rparr>)) (\<lambda>m.
              (let m = (if index = m_defaultServerIndex m then sm_emit DefaultServerNameChanged m else m)
               in Inr (True, sm_emit (DataChanged index) m))))))"

definition ServersModel_removeServer :: "Qt \<Rightarrow> 'k vault \<Rightarrow> 'k ServersModel \<Rightarrow> 'k ServersModel" where
  "ServersModel_removeServer Q V m =
     (let st = Settings_removeServer V (m_processedServerIndex m) (sm_settings m);
          m = m\<lparr>sm_settings := st, m_servers := Settings_serversArray V st\<rparr>;
          m = (if Settings_defaultServerIndex Q V (sm_settings m) = m_processedServerIndex m
               then ServersModel_setDefaultServerIndex Q V 0 m
               else if Settings_defaultServerIndex Q V (sm_settings m) > m_processedServerIndex m
               then ServersModel_setDefaultServerIndex Q V (Settings_defaultServerIndex Q V (sm_settings m) - 1) m
               else m);
          m = (if Settings_serversCount V (sm_settings m) = 0
               then ServersModel_setDefaultServerIndex Q V (-1) m else m)
      in ServersModel_setProcessedServerIndex (m_defaultServerIndex m) m)"

definition ServersModel_clearServers :: "Qt \<Rightarrow> 'k vault \<Rightarrow> 'k ServersModel \<Rightarrow> 'k ServersModel" where
  "ServersModel_clearServers Q V m =
     (let st = Settings_removeAllServers V (sm_settings m);
          m = m\<lparr>sm_settings := st, m_servers := Settings_serversArray V st\<rparr>;
          m = ServersModel_setDefaultServerIndex Q V (-1) m
      in ServersModel_setProcessedServerIndex (m_defaultServerIndex m) m)"

text \<open>The loop that replaces the first entry of a container.\<close>

fun replace_container :: "DockerContainer \<Rightarrow> qjobject \<Rightarrow> qjson list \<Rightarrow> qjson list" where
  "replace_container container config [] = []"
| "replace_container container config (c # cs) =
     (if container_key c = container then JObject config # cs
      else c # replace_container container config cs)"

definition ServersModel_reloadDefaultServerContainerConfig ::
  "'k vault \<Rightarrow> 'k ServersModel \<Rightarrow> list_fault + 'k ServersModel"
where
  "ServersModel_reloadDefaultServerContainerConfig V m =
     (let server = server_at m (m_defaultServerIndex m);
          container = ContainerProps_containerFromString (field server ''defaultContainer'');
          config = Settings_containerConfig V (m_defaultServerIndex m) container (sm_settings m);
          containers = replace_container container config (array_field server ''containers'')
      in ServersModel_editServer V (json_insert ''containers'' (JArray containers) server) (m_defaultServerIndex m) m)"

definition ServersModel_updateContainerConfig ::
  "'k vault \<Rightarrow> DockerContainer \<Rightarrow> qjobject \<Rightarrow> 'k ServersModel \<Rightarrow> list_fault + 'k ServersModel"
where
  "ServersModel_updateContainerConfig V container config m =
     (let server = server_at m (m_processedServerIndex m);
          containers = replace_container container config (array_field server ''containers'')
      in ServersModel_editServer V (json_insert ''containers'' (JArray containers) server) (m_processedServerIndex m) m)"

definition ServersModel_addContainerConfig ::
  "Platform \<Rightarrow> 'k vault \<Rightarrow> DockerContainer \<Rightarrow> qjobject \<Rightarrow> 'k ServersModel \<Rightarrow> list_fault + 'k ServersModel"
where
  "ServersModel_addContainerConfig target V container config m =
     (let server = server_at m (m_processedServerIndex m);
          server = json_insert ''containers'' (JArray (array_field server ''containers'' @ [JObject config])) server;
          server = (if ContainerProps_containerFromString (field server ''defaultContainer'') = DockerNone \<and>
                       ContainerProps_containerService container \<noteq> ServiceOther \<and>
                       ContainerProps_isSupportedByCurrentPlatform target container
                    then json_insert ''defaultContainer'' (JString (ContainerProps_containerToString container)) server
                    else server)
      in ServersModel_editServer V server (m_processedServerIndex m) m)"

definition ServersModel_setDefaultContainer ::
  "'k vault \<Rightarrow> int \<Rightarrow> DockerContainer \<Rightarrow> 'k ServersModel \<Rightarrow> list_fault + 'k ServersModel"
where
  "ServersModel_setDefaultContainer V serverIndex container m =
     ServersModel_editServer V
       (json_insert ''defaultContainer'' (JString (ContainerProps_containerToString container)) (server_at m serverIndex))
       serverIndex m"

definition ServersModel_removeAllContainers ::
  "'k vault \<Rightarrow> int \<Rightarrow> 'k ServersModel \<Rightarrow> list_fault + (int \<times> 'k ServersModel)"
where
  "ServersModel_removeAllContainers V errorCode m =
     (if errorCode \<noteq> 0 then Inr (errorCode, m)
      else
        (let s = json_insert ''containers'' JNull (server_at m (m_processedServerIndex m));
             s = json_insert ''defaultContainer'' (JString (ContainerProps_containerToString DockerNone)) s
         in sbind (ServersModel_editServer V s (m_processedServerIndex m) m) (\<lambda>m. Inr (errorCode, m))))"

fun erase_container :: "DockerContainer \<Rightarrow> qjson list \<Rightarrow> qjson list" where
  "erase_container container [] = []"
| "erase_container container (c # cs) =
     (if field (json_toObject c) ''container'' = ContainerProps_containerToString container then cs
      else c # erase_container container cs)"

definition ServersModel_removeContainer ::
  "'k vault \<Rightarrow> int \<Rightarrow> DockerContainer \<Rightarrow> 'k ServersModel \<Rightarrow> list_fault + (int \<times> 'k ServersModel)"
where
  "ServersModel_removeContainer V errorCode dockerContainer m =
     (if errorCode \<noteq> 0 then Inr (errorCode, m)
      else
        (let server = server_at m (m_processedServerIndex m);
             containers = erase_container dockerContainer (array_field server ''containers'');
             server = json_insert ''containers'' (JArray containers) server;
             server =
               (if ContainerProps_containerFromString (field server ''defaultContainer'') = dockerContainer
                then json_insert ''defaultContainer'' (JString (ContainerProps_containerToString
                       (case containers of [] \<Rightarrow> DockerNone | c # _ \<Rightarrow> container_key c))) server
                else server)
         in sbind (ServersModel_editServer V server (m_processedServerIndex m) m) (\<lambda>m. Inr (errorCode, m))))"

definition ServersModel_clearCachedProfile ::
  "'k vault \<Rightarrow> DockerContainer \<Rightarrow> 'k ServersModel \<Rightarrow> list_fault + 'k ServersModel"
where
  "ServersModel_clearCachedProfile V container m =
     sbind (Settings_clearLastConnectionConfig V (m_processedServerIndex m) container ProtoAny (sm_settings m)) (\<lambda>st.
     sbind (replace_server (m_processedServerIndex m) (JObject (Settings_server V (m_processedServerIndex m) st))
              (m\<lparr>sm_settings := st\<rparr>)) (\<lambda>m.
       (let m = (if m_processedServerIndex m = m_defaultServerIndex m
                 then ServersModel_updateDefaultServerContainersModel m else m)
        in Inr (ServersModel_updateContainersModel m))))"

definition ServersModel_toggleAmneziaDns :: "bool \<Rightarrow> 'k ServersModel \<Rightarrow> 'k ServersModel" where
  "ServersModel_toggleAmneziaDns enabled m =
     sm_emit DefaultServerDescriptionChanged (m\<lparr>m_isAmneziaDnsEnabled := enabled\<rparr>)"

text \<open>\<open>tomorrow\<close> is the text of a date one day ahead and \<open>past\<close> tells the dates before now.\<close>

definition ServersModel_isApiKeyExpired ::
  "string \<Rightarrow> (string \<Rightarrow> bool) \<Rightarrow> 'k vault \<Rightarrow> int \<Rightarrow> 'k ServersModel \<Rightarrow> list_fault + (bool \<times> 'k ServersModel)"
where
  "ServersModel_isApiKeyExpired tomorrow past V serverIndex m =
     (let serverConfig = server_at m serverIndex;
          apiConfig = object_field serverConfig ''api_config'';
          publicKeyInfo = object_field apiConfig ''public_key'';
          endDate = field publicKeyInfo ''end_date''
      in if endDate = [] then
           (let publicKeyInfo = json_insert ''end_date'' (JString tomorrow) publicKeyInfo;
                apiConfig = json_insert ''public_key'' (JObject publicKeyInfo) apiConfig;
                serverConfig = json_insert ''api_config'' (JObject apiConfig) serverConfig
            in sbind (ServersModel_editServer V serverConfig serverIndex m) (\<lambda>m. Inr (False, m)))
         else Inr (past endDate, m))"

definition ServersModel_removeApiConfig ::
  "'k vault \<Rightarrow> int \<Rightarrow> 'k ServersModel \<Rightarrow> list_fault + 'k ServersModel"
where
  "ServersModel_removeApiConfig V serverIndex m =
     (let serverConfig = fold qmap_remove [''dns1'', ''dns2'', ''containers'', ''hostName''] (server_at m serverIndex);
          apiConfig = qmap_remove ''public_key'' (object_field serverConfig ''api_config'');
          serverConfig = json_insert ''api_config'' (JObject apiConfig) serverConfig;
          serverConfig = json_insert ''defaultContainer''
            (JString (ContainerProps_containerToString DockerNone)) serverConfig
      in ServersModel_editServer V serverConfig serverIndex m)"

section \<open>The copy agrees with the settings\<close>

definition mirror :: "Qt \<Rightarrow> 'k vault \<Rightarrow> 'k ServersModel \<Rightarrow> bool" where
  "mirror Q V m \<longleftrightarrow>
     settings_ok V (sm_settings m) \<and> m_servers m = Settings_serversArray V (sm_settings m) \<and>
     m_defaultServerIndex m = Settings_defaultServerIndex Q V (sm_settings m)"

text \<open>The part of the model the invariant is about is not touched by signals.\<close>

lemma signals_simps [simp]:
  "sm_settings (sm_emit x m) = sm_settings m" "m_servers (sm_emit x m) = m_servers m"
  "m_defaultServerIndex (sm_emit x m) = m_defaultServerIndex m"
  "m_processedServerIndex (sm_emit x m) = m_processedServerIndex m"
  "sm_settings (ServersModel_updateContainersModel m) = sm_settings m"
  "m_servers (ServersModel_updateContainersModel m) = m_servers m"
  "m_defaultServerIndex (ServersModel_updateContainersModel m) = m_defaultServerIndex m"
  "m_processedServerIndex (ServersModel_updateContainersModel m) = m_processedServerIndex m"
  "sm_settings (ServersModel_updateDefaultServerContainersModel m) = sm_settings m"
  "m_servers (ServersModel_updateDefaultServerContainersModel m) = m_servers m"
  "m_defaultServerIndex (ServersModel_updateDefaultServerContainersModel m) = m_defaultServerIndex m"
  "m_processedServerIndex (ServersModel_updateDefaultServerContainersModel m) = m_processedServerIndex m"
  "sm_settings (emit_defaultServerIndexChanged m) = sm_settings m"
  "m_servers (emit_defaultServerIndexChanged m) = m_servers m"
  "m_defaultServerIndex (emit_defaultServerIndexChanged m) = m_defaultServerIndex m"
  "m_processedServerIndex (emit_defaultServerIndexChanged m) = m_processedServerIndex m"
  by (simp_all add: sm_emit_def ServersModel_updateContainersModel_def
      ServersModel_updateDefaultServerContainersModel_def emit_defaultServerIndexChanged_def Let_def)

lemma processed_simps [simp]:
  "sm_settings (ServersModel_setProcessedServerIndex i m) = sm_settings m"
  "m_servers (ServersModel_setProcessedServerIndex i m) = m_servers m"
  "m_defaultServerIndex (ServersModel_setProcessedServerIndex i m) = m_defaultServerIndex m"
  "m_processedServerIndex (ServersModel_setProcessedServerIndex i m) = i"
  by (simp_all add: ServersModel_setProcessedServerIndex_def Let_def)

lemma default_index_set:
  assumes "settings_ok V st"
  shows "Settings_defaultServerIndex Q V (Settings_setDefaultServer V i st) = i"
    and "Settings_serversArray V (Settings_setDefaultServer V i st) = Settings_serversArray V st"
    and "settings_ok V (Settings_setDefaultServer V i st)"
  using Settings_fetch [OF assms, of "VInt i"]
  by (simp_all add: Settings_defaultServerIndex_def Settings_setDefaultServer_def Settings_serversArray_def
      toInt_def marked_def)

lemma default_index_servers:
  assumes "settings_ok V st"
  shows "Settings_defaultServerIndex Q V (Settings_setServersArray V a st) = Settings_defaultServerIndex Q V st"
proof -
  have "\<not> marked (VBytes (va_printArray V a))" using assms by (simp add: settings_ok_def documents_ok_def)
  from Settings_fetch(1) [OF assms this] show ?thesis
    by (simp add: Settings_defaultServerIndex_def Settings_setServersArray_def)
qed

lemma signal_settings [simp]:
  "Settings_serversArray V (st_emit x st) = Settings_serversArray V st"
  "Settings_defaultServerIndex Q V (st_emit x st) = Settings_defaultServerIndex Q V st"
  "settings_ok V (st_emit x st) = settings_ok V st"
  by (simp_all add: st_emit_def Settings_serversArray_def Settings_defaultServerIndex_def Settings_value_def
      settings_ok_def)

lemma mirror_default: "mirror Q V m \<Longrightarrow> mirror Q V (ServersModel_setDefaultServerIndex Q V i m)"
  by (simp add: mirror_def ServersModel_setDefaultServerIndex_def default_index_set Let_def)

lemma set_default_simps:
  assumes "settings_ok V (sm_settings m)"
  shows "m_defaultServerIndex (ServersModel_setDefaultServerIndex Q V i m) = i"
    and "m_servers (ServersModel_setDefaultServerIndex Q V i m) = m_servers m"
    and "Settings_serversArray V (sm_settings (ServersModel_setDefaultServerIndex Q V i m)) =
      Settings_serversArray V (sm_settings m)"
  using default_index_set [OF assms] by (simp_all add: ServersModel_setDefaultServerIndex_def Let_def)

lemma edit_inr:
  assumes "mirror Q V m" "json_ok (JObject server)" "ServersModel_editServer V server i m = Inr m'"
  shows "mirror Q V m' \<and> valid_row m i \<and> m_servers m' = (m_servers m)[nat i := JObject server] \<and>
    m_processedServerIndex m' = m_processedServerIndex m"
proof -
  have ok: "settings_ok V (sm_settings m)" and eq: "m_servers m = Settings_serversArray V (sm_settings m)"
    using assms(1) by (simp_all add: mirror_def)
  obtain b st where e: "Settings_editServer V i server (sm_settings m) = Inr (b, st)" "valid_row m i"
    using assms(3) by (auto simp: ServersModel_editServer_def sbind_Inr_iff replace_server_def valid_row_def split: if_split_asm)
  let ?a = "(m_servers m)[nat i := JObject server]"
  have wf: "list_all json_ok ?a"
    using servers_wf [OF ok] assms(2) set_update_subset_insert [of "m_servers m" "nat i" "JObject server"]
    unfolding list_all_iff eq by blast
  have st: "st = Settings_setServersArray V ?a (sm_settings m)"
    using e eq by (auto simp: Settings_editServer_def valid_row_def Let_def split: if_split_asm)
  note set = servers_set [OF ok wf]
  have "nat i < length (m_servers m)" using e(2) by (auto simp: valid_row_def nat_less_iff)
  then have "array_at (Settings_serversArray V st) i = JObject server"
    using e(2) by (simp add: st set array_at_def valid_row_def)
  with assms(3) e st set show ?thesis
    using assms(1) default_index_servers [OF ok, of Q ?a]
    by (auto simp: ServersModel_editServer_def replace_server_def valid_row_def mirror_def json_item_def Let_def)
qed

lemma server_at_wf: "mirror Q V m \<Longrightarrow> json_ok (JObject (server_at m i))"
  using servers_wf [of V "sm_settings m"]
  by (auto simp: mirror_def server_at_def array_at_def list_all_iff intro!: json_ok_object simp del: json_ok.simps)
    (simp_all add: qmap_ok_def)

lemma object_field_wf: "json_ok (JObject ob) \<Longrightarrow> json_ok (JObject (object_field ob k))"
  unfolding object_field_def using json_ok_object json_ok_value by blast

lemma array_field_wf: "json_ok (JObject ob) \<Longrightarrow> list_all json_ok (array_field ob k)"
  unfolding array_field_def using json_ok_array json_ok_value by blast

lemma replace_container_wf:
  "list_all json_ok cs \<Longrightarrow> json_ok (JObject config) \<Longrightarrow> list_all json_ok (replace_container c config cs)"
  by (induction cs) auto

lemma erase_container_wf: "list_all json_ok cs \<Longrightarrow> list_all json_ok (erase_container c cs)"
  by (induction cs) auto

lemmas wf_intros = json_ok_insert json_ok_remove server_at_wf object_field_wf array_field_wf
  replace_container_wf erase_container_wf

text \<open>Every change of the model, with any arguments; a change that faults is no step.\<close>

inductive servers_step :: "Qt \<Rightarrow> 'k vault \<Rightarrow> 'k ServersModel \<Rightarrow> 'k ServersModel \<Rightarrow> bool" for Q V where
  reset: "servers_step Q V m (ServersModel_resetModel Q V m)"
| set_default: "servers_step Q V m (ServersModel_setDefaultServerIndex Q V i m)"
| set_processed: "servers_step Q V m (ServersModel_setProcessedServerIndex i m)"
| add: "json_ok (JObject server) \<Longrightarrow> servers_step Q V m (ServersModel_addServer V server m)"
| edit: "json_ok (JObject server) \<Longrightarrow> ServersModel_editServer V server i m = Inr m' \<Longrightarrow> servers_step Q V m m'"
| set_name: "ServersModel_setName V i name m = Inr (ok, m') \<Longrightarrow> servers_step Q V m m'"
| remove: "servers_step Q V m (ServersModel_removeServer Q V m)"
| clear: "servers_step Q V m (ServersModel_clearServers Q V m)"
| reload: "ServersModel_reloadDefaultServerContainerConfig V m = Inr m' \<Longrightarrow> servers_step Q V m m'"
| update: "json_ok (JObject config) \<Longrightarrow> ServersModel_updateContainerConfig V c config m = Inr m' \<Longrightarrow>
    servers_step Q V m m'"
| add_container: "json_ok (JObject config) \<Longrightarrow> ServersModel_addContainerConfig target V c config m = Inr m' \<Longrightarrow>
    servers_step Q V m m'"
| set_container: "ServersModel_setDefaultContainer V i c m = Inr m' \<Longrightarrow> servers_step Q V m m'"
| remove_all: "ServersModel_removeAllContainers V e m = Inr (e', m') \<Longrightarrow> servers_step Q V m m'"
| remove_container: "ServersModel_removeContainer V e c m = Inr (e', m') \<Longrightarrow> servers_step Q V m m'"
| clear_profile: "c \<noteq> DockerNone \<Longrightarrow> ServersModel_clearCachedProfile V c m = Inr m' \<Longrightarrow> servers_step Q V m m'"
| toggle: "servers_step Q V m (ServersModel_toggleAmneziaDns b m)"
| expired: "ServersModel_isApiKeyExpired tomorrow past V i m = Inr (b, m') \<Longrightarrow> servers_step Q V m m'"
| remove_api: "ServersModel_removeApiConfig V i m = Inr m' \<Longrightarrow> servers_step Q V m m'"

lemma mirror_add:
  assumes "mirror Q V m" "json_ok (JObject server)"
  shows "mirror Q V (ServersModel_addServer V server m)"
proof -
  have ok: "settings_ok V (sm_settings m)" using assms(1) by (simp add: mirror_def)
  have "list_all json_ok (Settings_serversArray V (sm_settings m) @ [JObject server])"
    using servers_wf [OF ok] assms(2) by simp
  from servers_set [OF ok this] assms(1) default_index_servers [OF ok] show ?thesis
    by (simp add: mirror_def ServersModel_addServer_def Settings_addServer_def Let_def)
qed

lemma removed_settings:
  assumes "settings_ok V st"
  shows "Settings_serversArray V (Settings_removeServer V i st) =
      (if i \<ge> int (length (Settings_serversArray V st)) then Settings_serversArray V st
       else array_removeAt i (Settings_serversArray V st))"
    and "settings_ok V (Settings_removeServer V i st)"
    and "Settings_defaultServerIndex Q V (Settings_removeServer V i st) = Settings_defaultServerIndex Q V st"
proof -
  have "list_all json_ok (array_removeAt i (Settings_serversArray V st))"
    using servers_wf [OF assms] by (auto simp: array_removeAt_def list_all_iff dest: in_set_takeD in_set_dropD)
  from servers_set [OF assms this] default_index_servers [OF assms] assms
  show "Settings_serversArray V (Settings_removeServer V i st) =
      (if i \<ge> int (length (Settings_serversArray V st)) then Settings_serversArray V st
       else array_removeAt i (Settings_serversArray V st))"
    "settings_ok V (Settings_removeServer V i st)"
    "Settings_defaultServerIndex Q V (Settings_removeServer V i st) = Settings_defaultServerIndex Q V st"
    by (simp_all add: Settings_removeServer_def Let_def)
qed

lemma mirror_settings:
  "settings_ok V st \<Longrightarrow> Settings_defaultServerIndex Q V st = m_defaultServerIndex m \<Longrightarrow>
    mirror Q V (m\<lparr>sm_settings := st, m_servers := Settings_serversArray V st\<rparr>)"
  by (simp add: mirror_def)

lemma mirror_processed [simp]: "mirror Q V (ServersModel_setProcessedServerIndex i m) = mirror Q V m"
  by (simp add: mirror_def)

lemma remove_spec:
  assumes "mirror Q V m"
  shows "\<exists>m'. mirror Q V m' \<and>
    ServersModel_removeServer Q V m = ServersModel_setProcessedServerIndex (m_defaultServerIndex m') m' \<and>
    m_servers m' = Settings_serversArray V (Settings_removeServer V (m_processedServerIndex m) (sm_settings m)) \<and>
    m_defaultServerIndex m' =
      (if m_servers m' = [] then - 1
       else if m_defaultServerIndex m = m_processedServerIndex m then 0
       else if m_defaultServerIndex m > m_processedServerIndex m then m_defaultServerIndex m - 1
       else m_defaultServerIndex m)"
proof -
  have ok: "settings_ok V (sm_settings m)" and d: "m_defaultServerIndex m = Settings_defaultServerIndex Q V (sm_settings m)"
    using assms by (simp_all add: mirror_def)
  define st where "st = Settings_removeServer V (m_processedServerIndex m) (sm_settings m)"
  note removed = removed_settings [OF ok, where i = "m_processedServerIndex m", folded st_def]
  define m1 where "m1 = m\<lparr>sm_settings := st, m_servers := Settings_serversArray V st\<rparr>"
  have m1: "mirror Q V m1" unfolding m1_def
    by (rule mirror_settings) (simp_all add: removed d)
  then have ok1: "settings_ok V (sm_settings m1)" by (simp add: mirror_def)
  have sel: "sm_settings m1 = st" "m_processedServerIndex m1 = m_processedServerIndex m"
    "m_defaultServerIndex m1 = m_defaultServerIndex m" by (simp_all add: m1_def)
  define m2 where "m2 = (if Settings_defaultServerIndex Q V (sm_settings m1) = m_processedServerIndex m1
      then ServersModel_setDefaultServerIndex Q V 0 m1
      else if Settings_defaultServerIndex Q V (sm_settings m1) > m_processedServerIndex m1
      then ServersModel_setDefaultServerIndex Q V (Settings_defaultServerIndex Q V (sm_settings m1) - 1) m1 else m1)"
  have m2: "mirror Q V m2" "m_servers m2 = Settings_serversArray V st"
    using m1 by (auto simp: m2_def mirror_default set_default_simps [OF ok1]) (simp_all add: m1_def)
  then have ok2: "settings_ok V (sm_settings m2)" "Settings_serversArray V (sm_settings m2) = Settings_serversArray V st"
    by (simp_all add: mirror_def)
  have d2: "m_defaultServerIndex m2 = (if m_defaultServerIndex m = m_processedServerIndex m then 0
       else if m_defaultServerIndex m > m_processedServerIndex m then m_defaultServerIndex m - 1
       else m_defaultServerIndex m)"
    by (simp add: m2_def set_default_simps(1) [OF ok1] sel removed(3) d [symmetric])
  define m3 where "m3 = (if Settings_serversCount V (sm_settings m2) = 0
      then ServersModel_setDefaultServerIndex Q V (-1) m2 else m2)"
  have "mirror Q V m3" "m_servers m3 = Settings_serversArray V st"
    using m2 by (auto simp: m3_def mirror_default set_default_simps [OF ok2(1)])
  moreover have "ServersModel_removeServer Q V m = ServersModel_setProcessedServerIndex (m_defaultServerIndex m3) m3"
    by (simp only: ServersModel_removeServer_def Let_def m1_def m2_def m3_def st_def)
  moreover have "m_defaultServerIndex m3 = (if Settings_serversArray V st = [] then - 1
       else if m_defaultServerIndex m = m_processedServerIndex m then 0
       else if m_defaultServerIndex m > m_processedServerIndex m then m_defaultServerIndex m - 1
       else m_defaultServerIndex m)"
    by (simp add: m3_def set_default_simps(1) [OF ok2(1)] Settings_serversCount_def ok2(2) d2)
  ultimately show ?thesis by (intro exI [of _ m3]) (simp add: st_def)
qed

lemma mirror_clear:
  assumes "mirror Q V m"
  shows "mirror Q V (ServersModel_clearServers Q V m)"
proof -
  have ok: "settings_ok V (sm_settings m)" and d: "m_defaultServerIndex m = Settings_defaultServerIndex Q V (sm_settings m)"
    using assms by (simp_all add: mirror_def)
  have signals: "settings_ok V ((st_emit x ^^ n) st) = settings_ok V st"
    "Settings_defaultServerIndex Q V ((st_emit x ^^ n) st) = Settings_defaultServerIndex Q V st" for x n st
    by (induction n) simp_all
  have "settings_ok V (Settings_removeAllServers V (sm_settings m))"
    "Settings_defaultServerIndex Q V (Settings_removeAllServers V (sm_settings m)) = m_defaultServerIndex m"
    using servers_set(2) [OF ok, of "[]"] default_index_servers [OF ok, of Q "[]"] d
    by (simp_all add: Settings_removeAllServers_def signals Let_def)
  from mirror_default [OF mirror_settings [OF this]] show ?thesis
    by (simp add: ServersModel_clearServers_def Let_def)
qed

lemma mirror_set_name:
  assumes "mirror Q V m" "ServersModel_setName V i name m = Inr (ok, m')"
  shows "mirror Q V m'"
proof (cases "valid_row m i")
  case True
  define server where "server = json_insert (if json_toInt (json_value (server_at m i) ''config_version'') \<noteq> 0
    then ''name'' else ''description'') (JString name) (server_at m i)"
  have ok: "settings_ok V (sm_settings m)" and eq: "m_servers m = Settings_serversArray V (sm_settings m)"
    using assms(1) by (simp_all add: mirror_def)
  have "json_ok (JObject server)" unfolding server_def by (rule json_ok_insert [OF server_at_wf [OF assms(1)]]) simp
  then have wf: "list_all json_ok ((m_servers m)[nat i := JObject server])"
    using servers_wf [OF ok] set_update_subset_insert [of "m_servers m" "nat i" "JObject server"]
    unfolding list_all_iff eq by blast
  let ?st = "Settings_setServersArray V ((m_servers m)[nat i := JObject server]) (sm_settings m)"
  let ?m = "m\<lparr>sm_settings := ?st, m_servers := (m_servers m)[nat i := JObject server]\<rparr>"
  from True eq have edit: "Settings_editServer V i server (sm_settings m) = Inr (True, ?st)"
    by (simp add: Settings_editServer_def valid_row_def)
  have row: "replace_server i (JObject server) (m\<lparr>sm_settings := ?st\<rparr>) = Inr ?m"
    using True by (simp add: replace_server_def valid_row_def json_item_def)
  have "ServersModel_setName V i name m = Inr (True, sm_emit (DataChanged i)
      (if i = m_defaultServerIndex ?m then sm_emit DefaultServerNameChanged ?m else ?m))"
    unfolding ServersModel_setName_def Let_def server_def [symmetric] edit by (simp add: row True)
  moreover have "mirror Q V ?m"
    using servers_set [OF ok wf] default_index_servers [OF ok, of Q] assms(1) by (simp add: mirror_def)
  ultimately show ?thesis using assms(2) by (auto simp: mirror_def)
next
  case False
  with assms show ?thesis by (simp add: ServersModel_setName_def)
qed

text \<open>Writing the configuration of a protocol replaces the entry of its server and no other.\<close>

definition entry_replaced :: "Qt \<Rightarrow> 'k vault \<Rightarrow> int \<Rightarrow> 'k AppSettings \<Rightarrow> 'k AppSettings \<Rightarrow> bool" where
  "entry_replaced Q V i st st' \<longleftrightarrow>
     settings_ok V st' \<and> Settings_defaultServerIndex Q V st' = Settings_defaultServerIndex Q V st \<and>
     (\<exists>s. Settings_serversArray V st' = (Settings_serversArray V st)[nat i := JObject s])"

lemma edit_replaces:
  assumes "settings_ok V st" "0 \<le> i" "i < Settings_serversCount V st" "json_ok (JObject s)"
  shows "\<exists>st'. Settings_editServer V i s st = Inr (True, st') \<and> entry_replaced Q V i st st'"
proof -
  have wf: "list_all json_ok ((Settings_serversArray V st)[nat i := JObject s])"
    using servers_wf [OF assms(1)] assms(4)
      set_update_subset_insert [of "Settings_serversArray V st" "nat i" "JObject s"]
    unfolding list_all_iff by blast
  from servers_set [OF assms(1) wf] default_index_servers [OF assms(1), of Q] assms(2,3) show ?thesis
    by (auto simp: Settings_editServer_def Settings_serversCount_def entry_replaced_def Let_def)
qed

lemma protocol_replaces:
  assumes "settings_ok V st" "0 \<le> i" "i < Settings_serversCount V st" "c \<noteq> DockerNone" "json_ok (JObject config)"
  shows "\<exists>st'. Settings_setProtocolConfig V i c p config st = Inr st' \<and> entry_replaced Q V i st st'"
proof -
  let ?c = "json_insert ''container'' (JString (ContainerProps_containerToString c))
    (json_insert (ProtocolProps_protoToString p) (JObject config) (Settings_containerConfig V i c st))"
  let ?m = "qmap_insert c ?c (Settings_containers V i st)"
  have "json_ok (JObject ?c)"
    by (intro json_ok_insert container_config_wf [OF assms(1)] assms(5)) simp
  moreover have "container_key (JObject ?c) = c" by (simp add: container_key_def containerFromString_toString)
  ultimately have "keyed ?m" by (intro keyed_insert containers_keyed [OF assms(1)])
  then have arr: "json_ok (JArray (map (\<lambda>e. JObject (snd e)) ?m))" by (auto simp: keyed_def)
  have "json_ok (JObject (json_insert ''containers'' (JArray (map (\<lambda>e. JObject (snd e)) ?m)) (Settings_server V i st)))"
    by (rule json_ok_insert [OF server_wf [OF assms(1)] arr])
  from edit_replaces [OF assms(1-3) this, where Q = Q] assms(4)
  show ?thesis
    by (auto simp: Settings_setProtocolConfig_def Settings_setContainerConfig_def Settings_setContainers_def)
qed

lemma clear_replaces:
  assumes "settings_ok V st" "0 \<le> i" "i < Settings_serversCount V st" "c \<noteq> DockerNone"
    and "ProtoAny \<notin> set ps" "ps \<noteq> []"
  shows "\<exists>st'. clear_protocols V i c ps st = Inr st' \<and> entry_replaced Q V i st st'"
  using assms(1,3,5,6)
proof (induction ps arbitrary: st)
  case (Cons p ps)
  have p: "p \<noteq> ProtoAny" using Cons.prems(3) by auto
  have wf: "json_ok (JObject (qmap_remove ''last_config'' (Settings_protocolConfig V i c p st)))"
    by (rule json_ok_remove [OF protocol_config_wf [OF Cons.prems(1)]])
  obtain st1 where st1: "Settings_clearLastConnectionConfig V i c p st = Inr st1" "entry_replaced Q V i st st1"
    using protocol_replaces [OF Cons.prems(1) assms(2) Cons.prems(2) assms(4) wf, where p = p and Q = Q] p by auto
  then have ok1: "settings_ok V st1" "i < Settings_serversCount V st1"
    using Cons.prems(2) by (auto simp: entry_replaced_def Settings_serversCount_def)
  show ?case
  proof (cases "ps = []")
    case True
    with st1 show ?thesis by simp
  next
    case False
    with Cons.IH [OF ok1] Cons.prems(3)
    obtain st2 where "clear_protocols V i c ps st1 = Inr st2" "entry_replaced Q V i st1 st2" by auto
    with st1 show ?thesis by (auto simp: entry_replaced_def simp del: Settings_clearLastConnectionConfig.simps)
  qed
qed simp

lemma mirror_clear_profile:
  assumes "mirror Q V m" "c \<noteq> DockerNone" "ServersModel_clearCachedProfile V c m = Inr m'"
  shows "mirror Q V m'"
proof -
  let ?i = "m_processedServerIndex m"
  have ok: "settings_ok V (sm_settings m)" and eq: "m_servers m = Settings_serversArray V (sm_settings m)"
    using assms(1) by (simp_all add: mirror_def)
  have row: "valid_row m ?i"
    using assms(3) by (auto simp: ServersModel_clearCachedProfile_def sbind_Inr_iff replace_server_def valid_row_def
        split: if_split_asm)
  have "ContainerProps_protocolsForContainer c \<noteq> []" using assms(2) by (cases c) simp_all
  moreover have "ProtoAny \<notin> set (ContainerProps_protocolsForContainer c)" using protocols_not_Any by blast
  ultimately obtain st where st: "clear_protocols V ?i c (ContainerProps_protocolsForContainer c) (sm_settings m) = Inr st"
    "entry_replaced Q V ?i (sm_settings m) st"
    using clear_replaces [OF ok _ _ assms(2), of ?i "ContainerProps_protocolsForContainer c" Q] row eq
    by (auto simp: valid_row_def Settings_serversCount_def)
  then obtain s where s: "Settings_serversArray V st = (m_servers m)[nat ?i := JObject s]"
    by (auto simp: entry_replaced_def eq)
  then have "Settings_server V ?i st = s"
    using row by (auto simp: Settings_server_def array_at_def valid_row_def nat_less_iff)
  with assms(3) st s row have m': "m_servers m' = Settings_serversArray V st" "sm_settings m' = st"
    "m_defaultServerIndex m' = m_defaultServerIndex m"
    by (auto simp: ServersModel_clearCachedProfile_def Settings_clearLastConnectionConfig.simps replace_server_def
        valid_row_def json_item_def Let_def)
  with st(2) assms(1) show ?thesis by (simp add: mirror_def entry_replaced_def)
qed

lemma edited_mirror:
  "mirror Q V m \<Longrightarrow> ServersModel_editServer V server i m = Inr m' \<Longrightarrow> json_ok (JObject server) \<Longrightarrow> mirror Q V m'"
  using edit_inr by blast

lemma json_ok_array_insert:
  "json_ok (JObject ob) \<Longrightarrow> list_all json_ok cs \<Longrightarrow> json_ok (JObject (json_insert k (JArray cs) ob))"
  by (rule json_ok_insert) (simp_all add: list_all_iff)

lemma json_ok_string_insert: "json_ok (JObject ob) \<Longrightarrow> json_ok (JObject (json_insert k (JString t) ob))"
  by (rule json_ok_insert) simp_all

lemma json_ok_removes: "json_ok (JObject ob) \<Longrightarrow> json_ok (JObject (fold qmap_remove ks ob))"
  by (induction ks arbitrary: ob) (simp_all add: json_ok_remove del: json_ok.simps)

lemma containers_wf: "mirror Q V m \<Longrightarrow> list_all json_ok (array_field (server_at m i) ''containers'')"
  by (rule array_field_wf [OF server_at_wf])

lemma reload_mirror:
  assumes "mirror Q V m" "ServersModel_reloadDefaultServerContainerConfig V m = Inr m'"
  shows "mirror Q V m'"
proof -
  have "settings_ok V (sm_settings m)" using assms(1) by (simp add: mirror_def)
  note wf = json_ok_array_insert [OF server_at_wf [OF assms(1)]
      replace_container_wf [OF containers_wf [OF assms(1)] container_config_wf [OF this]]]
  show ?thesis
    using assms(2) unfolding ServersModel_reloadDefaultServerContainerConfig_def Let_def
    by (rule edited_mirror [OF assms(1) _ wf])
qed

lemma update_mirror:
  assumes "mirror Q V m" "json_ok (JObject config)" "ServersModel_updateContainerConfig V c config m = Inr m'"
  shows "mirror Q V m'"
  using assms(3) unfolding ServersModel_updateContainerConfig_def Let_def
  by (rule edited_mirror [OF assms(1) _ json_ok_array_insert [OF server_at_wf [OF assms(1)]
          replace_container_wf [OF containers_wf [OF assms(1)] assms(2)]]])

lemma add_container_mirror:
  assumes "mirror Q V m" "json_ok (JObject config)" "ServersModel_addContainerConfig target V c config m = Inr m'"
  shows "mirror Q V m'"
proof -
  have "list_all json_ok (array_field (server_at m (m_processedServerIndex m)) ''containers'' @ [JObject config])"
    using containers_wf [OF assms(1)] assms(2) by (simp del: json_ok.simps)
  note wf = json_ok_array_insert [OF server_at_wf [OF assms(1)] this]
  show ?thesis
    using assms(3) unfolding ServersModel_addContainerConfig_def Let_def
    by (rule edited_mirror [OF assms(1)]) (use wf json_ok_string_insert [OF wf] in \<open>simp del: json_ok.simps\<close>)
qed

lemma set_container_mirror:
  assumes "mirror Q V m" "ServersModel_setDefaultContainer V i c m = Inr m'"
  shows "mirror Q V m'"
  using assms(2) unfolding ServersModel_setDefaultContainer_def
  by (rule edited_mirror [OF assms(1) _ json_ok_string_insert [OF server_at_wf [OF assms(1)]]])

lemma remove_all_mirror:
  assumes "mirror Q V m" "ServersModel_removeAllContainers V e m = Inr (e', m')"
  shows "mirror Q V m'"
proof -
  let ?s = "json_insert ''defaultContainer'' (JString (ContainerProps_containerToString DockerNone))
    (json_insert ''containers'' JNull (server_at m (m_processedServerIndex m)))"
  have "json_ok (JObject ?s)"
    by (intro json_ok_string_insert json_ok_insert server_at_wf [OF assms(1)]) simp
  with assms edited_mirror [OF assms(1), of ?s "m_processedServerIndex m"] show ?thesis
    unfolding ServersModel_removeAllContainers_def Let_def
    by (simp add: sbind_Inr_iff del: json_ok.simps split: if_split_asm)
qed

lemma remove_container_mirror:
  assumes "mirror Q V m" "ServersModel_removeContainer V e c m = Inr (e', m')"
  shows "mirror Q V m'"
proof (cases "e = 0")
  case True
  note wf = json_ok_array_insert [OF server_at_wf [OF assms(1)] erase_container_wf [OF containers_wf [OF assms(1)]]]
  from True assms(2) obtain server where "ServersModel_editServer V server (m_processedServerIndex m) m = Inr m'"
    "json_ok (JObject server)"
    unfolding ServersModel_removeContainer_def Let_def
    using wf json_ok_string_insert [OF wf] by (auto simp: sbind_Inr_iff simp del: json_ok.simps)
  with edited_mirror [OF assms(1)] show ?thesis by blast
next
  case False
  with assms show ?thesis by (simp add: ServersModel_removeContainer_def)
qed

lemma expired_mirror:
  assumes "mirror Q V m" "ServersModel_isApiKeyExpired tomorrow past V i m = Inr (b, m')"
  shows "mirror Q V m'"
proof (cases "field (object_field (object_field (server_at m i) ''api_config'') ''public_key'') ''end_date'' = []")
  case True
  note sv = server_at_wf [OF assms(1), of i]
  note wf = json_ok_insert [OF sv json_ok_insert [OF object_field_wf [OF sv]
        json_ok_string_insert [OF object_field_wf [OF object_field_wf [OF sv]]]]]
  from True assms(2) obtain server where "ServersModel_editServer V server i m = Inr m'" "json_ok (JObject server)"
    unfolding ServersModel_isApiKeyExpired_def Let_def
    using wf by (auto simp: sbind_Inr_iff simp del: json_ok.simps)
  with edited_mirror [OF assms(1)] show ?thesis by blast
next
  case False
  with assms show ?thesis by (simp add: ServersModel_isApiKeyExpired_def Let_def)
qed

lemma remove_api_mirror:
  assumes "mirror Q V m" "ServersModel_removeApiConfig V i m = Inr m'"
  shows "mirror Q V m'"
proof -
  note sv = json_ok_removes [OF server_at_wf [OF assms(1)]]
  note wf = json_ok_string_insert [OF json_ok_insert [OF sv json_ok_remove [OF object_field_wf [OF sv]]]]
  show ?thesis
    using assms(2) unfolding ServersModel_removeApiConfig_def Let_def by (rule edited_mirror [OF assms(1) _ wf])
qed

lemmas step_mirrors = edited_mirror mirror_set_name reload_mirror update_mirror add_container_mirror
  set_container_mirror remove_all_mirror remove_container_mirror mirror_clear_profile expired_mirror remove_api_mirror

lemma step_mirror:
  assumes "servers_step Q V m m'" "mirror Q V m"
  shows "mirror Q V m'"
  using assms
proof (cases rule: servers_step.cases)
  case reset
  with assms(2) show ?thesis by (simp add: mirror_def ServersModel_resetModel_def Let_def)
next
  case remove
  with remove_spec [OF assms(2)] show ?thesis by auto
next
  case (toggle b)
  with assms(2) show ?thesis by (simp add: mirror_def ServersModel_toggleAmneziaDns_def)
qed (use assms(2) step_mirrors [OF assms(2)] in \<open>simp_all add: mirror_default mirror_add mirror_clear del: json_ok.simps\<close>)

section \<open>Properties\<close>

lemma steps_mirror: "(servers_step Q V)\<^sup>*\<^sup>* m m' \<Longrightarrow> mirror Q V m \<Longrightarrow> mirror Q V m'"
  by (induction rule: rtranclp_induct) (auto dest: step_mirror)

text \<open>
  C8: The list the user sees is the list that is stored.  After the model has been loaded, every
  sequence of its operations leaves the copy and the default index equal to those in the settings,
  also when the settings are read anew.
\<close>

theorem model_mirrors_settings:
  assumes "settings_ok V (sm_settings m)" "(servers_step Q V)\<^sup>*\<^sup>* (ServersModel_resetModel Q V m) m'"
  shows "m_servers m' = Settings_serversArray V (sm_settings m') \<and>
    m_defaultServerIndex m' = Settings_defaultServerIndex Q V (sm_settings m') \<and> settings_ok V (sm_settings m')"
proof -
  have "mirror Q V (ServersModel_resetModel Q V m)"
    using assms(1) by (simp add: mirror_def ServersModel_resetModel_def Let_def)
  from steps_mirror [OF assms(2) this] show ?thesis by (simp add: mirror_def)
qed

definition sample_model :: "unit ServersModel" where
  "sample_model =
     \<lparr>sm_settings = one_server, m_servers = [], m_defaultServerIndex = 0, m_processedServerIndex = 0,
      m_isAmneziaDnsEnabled = True, sm_signals = []\<rparr>"

theorem model_mirrors_settings_witness:
  "m_servers (ServersModel_addServer json_vault [] (ServersModel_resetModel sample_qt json_vault sample_model)) =
    Settings_serversArray json_vault (sm_settings (ServersModel_addServer json_vault []
      (ServersModel_resetModel sample_qt json_vault sample_model)))"
proof -
  have "servers_step sample_qt json_vault (ServersModel_resetModel sample_qt json_vault sample_model)
      (ServersModel_addServer json_vault [] (ServersModel_resetModel sample_qt json_vault sample_model))"
    by (rule servers_step.add) (simp add: qmap_ok_def)
  from model_mirrors_settings [OF _ r_into_rtranclp [of "servers_step sample_qt json_vault", OF this]] one_server_ok(1)
  show ?thesis by (simp add: sample_model_def)
qed

text \<open>
  C29: Removing a server keeps the default server.  The other servers stay in their order, and
  the default index follows the server it stood for; when that one is removed the first takes its
  place, and without servers there is no default.
\<close>

theorem remove_keeps_default:
  assumes "mirror Q V m" "valid_row m (m_processedServerIndex m)" "valid_row m (m_defaultServerIndex m)"
  shows "let p = m_processedServerIndex m; d = m_defaultServerIndex m; m' = ServersModel_removeServer Q V m
    in m_servers m' = take (nat p) (m_servers m) @ drop (nat p + 1) (m_servers m) \<and>
       m_processedServerIndex m' = m_defaultServerIndex m' \<and>
       (if length (m_servers m) = 1 then m_defaultServerIndex m' = - 1
        else valid_row m' (m_defaultServerIndex m') \<and>
          (if d = p then m_defaultServerIndex m' = 0
           else server_at m' (m_defaultServerIndex m') = server_at m d))"
proof -
  let ?p = "m_processedServerIndex m" and ?d = "m_defaultServerIndex m"
  obtain m1 where m1: "ServersModel_removeServer Q V m = ServersModel_setProcessedServerIndex (m_defaultServerIndex m1) m1"
    "m_servers m1 = Settings_serversArray V (Settings_removeServer V ?p (sm_settings m))"
    "m_defaultServerIndex m1 = (if m_servers m1 = [] then - 1 else if ?d = ?p then 0
       else if ?d > ?p then ?d - 1 else ?d)"
    using remove_spec [OF assms(1)] by blast
  have ok: "settings_ok V (sm_settings m)" and eq: "m_servers m = Settings_serversArray V (sm_settings m)"
    using assms(1) by (simp_all add: mirror_def)
  have servers: "m_servers m1 = take (nat ?p) (m_servers m) @ drop (nat ?p + 1) (m_servers m)"
    using assms(2) by (simp add: m1(2) removed_settings(1) [OF ok] eq [symmetric] array_removeAt_def valid_row_def)
  have len: "nat ?p < length (m_servers m)" "nat ?d < length (m_servers m)" "0 \<le> ?p" "0 \<le> ?d"
    using assms(2,3) by (auto simp: valid_row_def nat_less_iff)
  have n: "length (m_servers m1) = length (m_servers m) - 1" using len(1) by (simp add: servers)
  have "m_servers m1 = [] \<longleftrightarrow> length (m_servers m1) = 0" by simp
  with n len(1) have empty: "m_servers m1 = [] \<longleftrightarrow> length (m_servers m) = 1" by linarith
  show ?thesis
  proof (cases "length (m_servers m) = 1")
    case True
    with m1 servers empty show ?thesis by (simp add: Let_def)
  next
    case False
    have idx: "valid_row m1 (m_defaultServerIndex m1)"
      using False len n empty assms(2,3) by (auto simp: valid_row_def m1(3))
    have "m_servers m1 ! nat (m_defaultServerIndex m1) = m_servers m ! nat ?d" if "?d \<noteq> ?p"
      using that False empty len by (auto simp: m1(3) servers nth_append nat_diff_distrib min_def)
    then have same: "server_at m1 (m_defaultServerIndex m1) = server_at m ?d" if "?d \<noteq> ?p"
      using that idx assms(3) by (simp add: server_at_def array_at_def valid_row_def)
    have zero: "m_defaultServerIndex m1 = 0" if "?d = ?p" using that False empty by (simp add: m1(3))
    have view: "server_at (ServersModel_setProcessedServerIndex i m1) = server_at m1"
      "valid_row (ServersModel_setProcessedServerIndex i m1) = valid_row m1" for i
      by (simp_all add: server_at_def valid_row_def fun_eq_iff)
    from False servers idx same zero show ?thesis by (simp add: Let_def m1(1) view)
  qed
qed

definition two_servers :: "unit ServersModel" where
  "two_servers = ServersModel_addServer json_vault [(''description'', JString ''second'')]
     (ServersModel_resetModel sample_qt json_vault sample_model)"

lemma two_servers_ok:
  "mirror sample_qt json_vault two_servers" "length (m_servers two_servers) = 2"
  "m_processedServerIndex two_servers = 0" "m_defaultServerIndex two_servers = 0"
proof -
  let ?m = "ServersModel_resetModel sample_qt json_vault sample_model"
  have ok: "settings_ok json_vault (sm_settings ?m)" "m_servers ?m = Settings_serversArray json_vault one_server"
    using one_server_ok(1) by (simp_all add: ServersModel_resetModel_def sample_model_def Let_def)
  have m: "mirror sample_qt json_vault ?m"
    using one_server_ok(1) by (simp add: mirror_def ServersModel_resetModel_def sample_model_def Let_def)
  have wf: "json_ok (JObject [(''description'', JString ''second'')])" by (simp add: qmap_ok_def)
  show "mirror sample_qt json_vault two_servers" unfolding two_servers_def by (rule mirror_add [OF m wf])
  have one: "sm_settings ?m = one_server" by (simp add: ServersModel_resetModel_def sample_model_def Let_def)
  have d: "Settings_defaultServerIndex sample_qt json_vault one_server = 0"
    using default_index_servers [OF no_settings_ok, of sample_qt "[JObject []]"]
    by (simp add: one_server_def Settings_defaultServerIndex_def no_settings_value toInt_def)
  then show "m_processedServerIndex two_servers = 0" "m_defaultServerIndex two_servers = 0"
    by (simp_all add: two_servers_def ServersModel_addServer_def ServersModel_resetModel_def sample_model_def Let_def)
  have "list_all json_ok (Settings_serversArray json_vault one_server @ [JObject [(''description'', JString ''second'')]])"
    using servers_wf [OF one_server_ok(1)] wf by simp
  from servers_set(1) [OF one_server_ok(1) this] show "length (m_servers two_servers) = 2"
    using one_server_ok(2)
    by (simp add: two_servers_def ServersModel_addServer_def Settings_addServer_def one Settings_serversCount_def Let_def)
qed

theorem remove_keeps_default_witness:
  "m_defaultServerIndex (ServersModel_removeServer sample_qt json_vault two_servers) = 0 \<and>
   length (m_servers (ServersModel_removeServer sample_qt json_vault two_servers)) = 1"
  using remove_keeps_default [OF two_servers_ok(1)] two_servers_ok(2-4) by (simp add: valid_row_def Let_def)

text \<open>
  The DNS servers of a connection are always usable when those of the settings are: both are the
  server's own, if they are IPv4 addresses, or else those of the Amnezia container or of the
  settings.  They are taken from the processed server, whatever server is asked for.
\<close>

theorem dns_pair_usable:
  assumes "NetworkUtilities_checkIPv4Format Q (Settings_primaryDns V (sm_settings m))"
    and "NetworkUtilities_checkIPv4Format Q (Settings_secondaryDns V (sm_settings m))"
    and "NetworkUtilities_checkIPv4Format Q amneziaDnsIp"
  shows "NetworkUtilities_checkIPv4Format Q (fst (ServersModel_getDnsPair Q V m i)) \<and>
    NetworkUtilities_checkIPv4Format Q (snd (ServersModel_getDnsPair Q V m i)) \<and>
    (NetworkUtilities_checkIPv4Format Q (field (server_at m (m_processedServerIndex m)) ''dns1'') \<longrightarrow>
       fst (ServersModel_getDnsPair Q V m i) = field (server_at m (m_processedServerIndex m)) ''dns1'')"
  using assms
  by (auto simp: ServersModel_getDnsPair_def Let_def NetworkUtilities_checkIPv4Format_def split: if_split_asm)

end
