(* ===== verification/Connection_Control.thy ===== *)
theory Connection_Control
  imports Servers_Model
begin

text \<open>
  From the button to the tunnel: \<open>client/ui/controllers/connectionController.cpp\<close>, the list of containers it
  consults (\<open>client/ui/models/containers_model.cpp\<close>), the import of a server
  (\<open>ImportController::importConfig\<close>) and the construction of the configuration of a connection
  (\<open>client/core/controllers/vpnConfigurationController.cpp\<close> and the local processing of
  \<open>client/configurators/configurator_base.cpp\<close> and \<open>openvpn_configurator.cpp\<close>), for Linux.

  Signals between objects of the same thread are calls; the signals that leave the controller are
  listed in \<open>cc_signals\<close>.  What a remote server answers is an argument: the field \<open>co_createConfig\<close>
  stands for the configurators that talk to it, an error code of 0 being success.
\<close>

section \<open>Containers of the processed server\<close>

record ContainersModel =
  m_containers :: "(DockerContainer \<times> qjobject) list"
  m_processedContainerIndex :: int

datatype container_role =
    ContainerNameRole | ContainerDescriptionRole | DetailedDescriptionRole | ServiceTypeRole | ConfigRole
  | DockerContainerRole | IsEasySetupContainerRole | EasySetupHeaderRole | EasySetupDescriptionRole
  | EasySetupOrderRole | IsInstalledRole | IsProcessedContainerRole | IsDefaultContainerRole
  | IsSupportedRole | IsShareableRole | InstallPageOrderRole

datatype container_value =
    CInvalid
  | CText string
  | CConfig qjobject
  | CService ServiceType
  | CContainer DockerContainer
  | CFlag bool
  | CNumber int

text \<open>The two description texts are arguments.\<close>

definition ContainersModel_data ::
  "(DockerContainer \<Rightarrow> string) \<Rightarrow> (DockerContainer \<Rightarrow> string) \<Rightarrow> Platform \<Rightarrow> ContainersModel \<Rightarrow> int \<Rightarrow>
    container_role \<Rightarrow> container_value"
where
  "ContainersModel_data descriptions detailed target m row role =
     (if row < 0 \<or> row \<ge> int (length ContainerProps_allContainers) then CInvalid
      else
        (let container = ContainerProps_allContainers ! nat row
         in case role of
              ContainerNameRole \<Rightarrow> CText (human_name container)
            | ContainerDescriptionRole \<Rightarrow> CText (descriptions container)
            | DetailedDescriptionRole \<Rightarrow> CText (detailed container)
            | ConfigRole \<Rightarrow>
                CConfig (if container = DockerNone then [] else qmap_value (m_containers m) container)
            | ServiceTypeRole \<Rightarrow> CService (ContainerProps_containerService container)
            | DockerContainerRole \<Rightarrow> CContainer container
            | IsEasySetupContainerRole \<Rightarrow> CFlag (ContainerProps_isEasySetupContainer container)
            | EasySetupHeaderRole \<Rightarrow> CText (ContainerProps_easySetupHeader container)
            | EasySetupDescriptionRole \<Rightarrow> CText (ContainerProps_easySetupDescription container)
            | EasySetupOrderRole \<Rightarrow> CNumber (ContainerProps_easySetupOrder container)
            | IsInstalledRole \<Rightarrow> CFlag (qmap_contains (m_containers m) container)
            | IsProcessedContainerRole \<Rightarrow> CFlag (int (container_index container) = m_processedContainerIndex m)
            | IsSupportedRole \<Rightarrow> CFlag (ContainerProps_isSupportedByCurrentPlatform target container)
            | IsShareableRole \<Rightarrow> CFlag (ContainerProps_isShareable container)
            | InstallPageOrderRole \<Rightarrow> CNumber (ContainerProps_installPageOrder container)
            | IsDefaultContainerRole \<Rightarrow> CInvalid))"

definition ContainersModel_updateModel :: "qjson list \<Rightarrow> ContainersModel \<Rightarrow> ContainersModel" where
  "ContainersModel_updateModel containers m = m\<lparr>m_containers := containers_of containers\<rparr>"

definition ContainersModel_setProcessedContainerIndex :: "int \<Rightarrow> ContainersModel \<Rightarrow> ContainersModel" where
  "ContainersModel_setProcessedContainerIndex index m = m\<lparr>m_processedContainerIndex := index\<rparr>"

definition ContainersModel_getProcessedContainerName :: "ContainersModel \<Rightarrow> string" where
  "ContainersModel_getProcessedContainerName m =
     (let i = m_processedContainerIndex m
      in if 0 \<le> i \<and> i < int (length ContainerProps_allContainers)
         then human_name (ContainerProps_allContainers ! nat i) else [])"

definition ContainersModel_getContainerConfig :: "Platform \<Rightarrow> int \<Rightarrow> ContainersModel \<Rightarrow> qjobject" where
  "ContainersModel_getContainerConfig target containerIndex m =
     (case ContainersModel_data (\<lambda>_. []) (\<lambda>_. []) target m containerIndex ConfigRole of
        CConfig ob \<Rightarrow> ob | _ \<Rightarrow> [])"

definition ContainersModel_isSupportedByCurrentPlatform :: "Platform \<Rightarrow> int \<Rightarrow> ContainersModel \<Rightarrow> bool" where
  "ContainersModel_isSupportedByCurrentPlatform target containerIndex m \<longleftrightarrow>
     ContainersModel_data (\<lambda>_. []) (\<lambda>_. []) target m containerIndex IsSupportedRole = CFlag True"

definition ContainersModel_hasInstalledServices :: "ContainersModel \<Rightarrow> bool" where
  "ContainersModel_hasInstalledServices m \<longleftrightarrow>
     list_ex (\<lambda>container. ContainerProps_containerService container = ServiceOther) (map fst (m_containers m))"

definition ContainersModel_hasInstalledProtocols :: "ContainersModel \<Rightarrow> bool" where
  "ContainersModel_hasInstalledProtocols m \<longleftrightarrow>
     list_ex (\<lambda>container. ContainerProps_containerService container = ServiceVpn) (map fst (m_containers m))"

section \<open>Local processing of a configuration\<close>

text \<open>\<open>QString::replace\<close> of a text that is not empty.\<close>

function replace_str :: "string \<Rightarrow> string \<Rightarrow> string \<Rightarrow> string" where
  "replace_str before after [] = []"
| "replace_str before after (c # s) =
     (if before \<noteq> [] \<and> starts_with before (c # s)
      then after @ replace_str before after (drop (length before) (c # s))
      else c # replace_str before after s)"
  by pat_completeness auto
termination by (relation "measure (\<lambda>(_, _, s). length s)") (auto simp: neq_Nil_conv)

definition ConfiguratorBase_processConfigWithDnsSettings :: "string \<times> string \<Rightarrow> string \<Rightarrow> string" where
  "ConfiguratorBase_processConfigWithDnsSettings dns protocolConfigString =
     replace_str ''$SECONDARY_DNS'' (snd dns) (replace_str ''$PRIMARY_DNS'' (fst dns) protocolConfigString)"

definition ConfiguratorBase_processConfigWithLocalSettings :: "string \<times> string \<Rightarrow> string \<Rightarrow> string" where
  "ConfiguratorBase_processConfigWithLocalSettings dns protocolConfigString =
     ConfiguratorBase_processConfigWithDnsSettings dns protocolConfigString"

text \<open>The regular expression \<open>redirect-gateway.*\<close> ends at the end of the line.\<close>

function strip_redirect :: "string \<Rightarrow> string" where
  "strip_redirect [] = []"
| "strip_redirect (c # s) =
     (if starts_with ''redirect-gateway'' (c # s) then strip_redirect (dropWhile (\<lambda>x. x \<noteq> newline) s)
      else c # strip_redirect s)"
  by pat_completeness auto
termination by (relation "measure length") (auto simp: le_imp_less_Suc length_dropWhile_le)

definition ipv6_leak :: string where
  "ipv6_leak = ''ifconfig-ipv6 fd15:53b6:dead::2/64  fd15:53b6:dead::1'' @ [newline]"

definition openvpn_gateway :: "Qt \<Rightarrow> 'k vault \<Rightarrow> 'k AppSettings \<Rightarrow> string \<Rightarrow> string" where
  "openvpn_gateway Q V st config =
     (let config = strip_redirect config
      in if \<not> Settings_isSitesSplitTunnelingEnabled V st then
           config @ newline # ''redirect-gateway def1 ipv6 bypass-dhcp'' @ newline # ipv6_leak @
             ''block-ipv6'' @ [newline]
         else if Settings_routeMode Q V st = Some VpnOnlyForwardSites then config
         else if Settings_routeMode Q V st = Some VpnAllExceptSites then
           config @ newline # ''redirect-gateway ipv6 !ipv4 bypass-dhcp'' @ newline # ipv6_leak @
             ''block-ipv6'' @ [newline]
         else config)"

definition OpenVpnConfigurator_processConfigWithLocalSettings ::
  "Qt \<Rightarrow> 'k vault \<Rightarrow> string \<Rightarrow> string \<times> string \<Rightarrow> bool \<Rightarrow> 'k AppSettings \<Rightarrow> string \<Rightarrow> string"
where
  "OpenVpnConfigurator_processConfigWithLocalSettings Q V resourcesDirPath dns isApiConfig st protocolConfigString =
     (let json = va_parseObject V (ConfiguratorBase_processConfigWithDnsSettings dns protocolConfigString);
          config = field json ''config'';
          config = (if \<not> isApiConfig then openvpn_gateway Q V st config else config);
          config = replace_str ''block-outside-dns'' [] config;
          config = config @ newline # ''script-security 2'' @ newline #
            ''up '' @ resourcesDirPath @ ''/update-resolv-conf.sh'' @ newline #
            ''down '' @ resourcesDirPath @ ''/update-resolv-conf.sh'' @ [newline]
      in va_printObject V (json_insert ''config'' (JString config) json))"

definition OpenVpnConfigurator_processConfigWithExportSettings ::
  "'k vault \<Rightarrow> string \<times> string \<Rightarrow> string \<Rightarrow> string"
where
  "OpenVpnConfigurator_processConfigWithExportSettings V dns protocolConfigString =
     (let json = va_parseObject V (ConfiguratorBase_processConfigWithDnsSettings dns protocolConfigString);
          config = strip_redirect (field json ''config'');
          config = config @ newline # ''redirect-gateway def1 ipv6 bypass-dhcp'' @ newline # ipv6_leak @
            ''block-ipv6'' @ [newline];
          config = replace_str ''block-outside-dns'' [] config
      in va_printObject V (json_insert ''config'' (JString config) json))"


section \<open>The configuration of a connection\<close>

record configurators =
  co_createConfig :: "Proto \<Rightarrow> ServerCredentials \<Rightarrow> DockerContainer \<Rightarrow> qjobject \<Rightarrow> int \<times> string"
  co_resourcesDirPath :: string

text \<open>The classes of configurators; there is none for the other protocols.\<close>

datatype configurator =
    OpenVpnConfigurator | ShadowSocksConfigurator | CloakConfigurator | WireguardConfigurator
  | AwgConfigurator | Ikev2Configurator | XrayConfigurator

fun VpnConfigurationsController_createConfigurator :: "Proto \<Rightarrow> configurator option" where
  "VpnConfigurationsController_createConfigurator ProtoOpenVpn = Some OpenVpnConfigurator"
| "VpnConfigurationsController_createConfigurator ProtoShadowSocks = Some ShadowSocksConfigurator"
| "VpnConfigurationsController_createConfigurator ProtoCloak = Some CloakConfigurator"
| "VpnConfigurationsController_createConfigurator ProtoWireGuard = Some WireguardConfigurator"
| "VpnConfigurationsController_createConfigurator ProtoAwg = Some AwgConfigurator"
| "VpnConfigurationsController_createConfigurator ProtoIkev2 = Some Ikev2Configurator"
| "VpnConfigurationsController_createConfigurator ProtoXray = Some XrayConfigurator"
| "VpnConfigurationsController_createConfigurator ProtoSSXray = Some XrayConfigurator"
| "VpnConfigurationsController_createConfigurator _ = None"

text \<open>A call on the configurator that does not exist.\<close>

datatype missing_configurator = NullConfigurator Proto

fun create_protocol_configs ::
  "configurators \<Rightarrow> ServerCredentials \<Rightarrow> DockerContainer \<Rightarrow> Proto list \<Rightarrow> qjobject \<Rightarrow>
    missing_configurator + int \<times> qjobject"
where
  "create_protocol_configs C credentials container [] containerConfig = Inr (0, containerConfig)"
| "create_protocol_configs C credentials container (p # ps) containerConfig =
     (let protocolConfig = object_field containerConfig (ProtocolProps_protoToString p)
      in case VpnConfigurationsController_createConfigurator p of
           None \<Rightarrow> Inl (NullConfigurator p)
         | Some _ \<Rightarrow>
             (let (errorCode, protocolConfigString) = co_createConfig C p credentials container containerConfig
              in if errorCode \<noteq> 0 then Inr (errorCode, containerConfig)
                 else create_protocol_configs C credentials container ps
                   (json_insert (ProtocolProps_protoToString p)
                      (JObject (json_insert ''last_config'' (JString protocolConfigString) protocolConfig))
                      containerConfig)))"

definition VpnConfigurationsController_createProtocolConfigForContainer ::
  "configurators \<Rightarrow> ServerCredentials \<Rightarrow> DockerContainer \<Rightarrow> qjobject \<Rightarrow> missing_configurator + int \<times> qjobject"
where
  "VpnConfigurationsController_createProtocolConfigForContainer C credentials container containerConfig =
     (if ContainerProps_containerService container = ServiceOther then Inr (0, containerConfig)
      else create_protocol_configs C credentials container
             (ContainerProps_protocolsForContainer container) containerConfig)"

definition process_local ::
  "configurators \<Rightarrow> Qt \<Rightarrow> 'k vault \<Rightarrow> 'k AppSettings \<Rightarrow> configurator \<Rightarrow> string \<times> string \<Rightarrow> bool \<Rightarrow> string \<Rightarrow> string"
where
  "process_local C Q V st configurator dns isApiConfig protocolConfigString =
     (if configurator = OpenVpnConfigurator
      then OpenVpnConfigurator_processConfigWithLocalSettings Q V (co_resourcesDirPath C) dns isApiConfig st
        protocolConfigString
      else ConfiguratorBase_processConfigWithLocalSettings dns protocolConfigString)"

definition awg_defaultMtu :: string where "awg_defaultMtu = ''1376''"

definition wireguard_defaultMtu :: string where "wireguard_defaultMtu = ''1376''"

definition add_mtu :: "DockerContainer \<Rightarrow> qjobject \<Rightarrow> qjobject" where
  "add_mtu container vpnConfigData =
     (if container = DockerAwg \<or> container = DockerWireGuard then
        (if field vpnConfigData ''mtu'' = []
         then json_insert ''mtu''
           (JString (if container = DockerAwg then awg_defaultMtu else wireguard_defaultMtu)) vpnConfigData
         else vpnConfigData)
      else vpnConfigData)"

fun protocol_data ::
  "configurators \<Rightarrow> Qt \<Rightarrow> 'k vault \<Rightarrow> 'k AppSettings \<Rightarrow> string \<times> string \<Rightarrow> bool \<Rightarrow> qjobject \<Rightarrow> DockerContainer \<Rightarrow>
    Proto list \<Rightarrow> qjobject \<Rightarrow> missing_configurator + qjobject"
where
  "protocol_data C Q V st dns isApiConfig containerConfig container [] vpnConfiguration = Inr vpnConfiguration"
| "protocol_data C Q V st dns isApiConfig containerConfig container (p # ps) vpnConfiguration =
     (if isApiConfig \<and> container = DockerCloak \<and> p = ProtoShadowSocks
      then protocol_data C Q V st dns isApiConfig containerConfig container ps vpnConfiguration
      else
        (case VpnConfigurationsController_createConfigurator p of
           None \<Rightarrow> Inl (NullConfigurator p)
         | Some configurator \<Rightarrow>
             (let protocolConfigString = field (object_field containerConfig (ProtocolProps_protoToString p)) ''last_config'';
                  vpnConfigData = va_parseObject V
                    (process_local C Q V st configurator dns isApiConfig protocolConfigString)
              in protocol_data C Q V st dns isApiConfig containerConfig container ps
                   (json_insert (ProtocolProps_key_proto_config_data p)
                      (JObject (add_mtu container vpnConfigData)) vpnConfiguration))))"

definition VpnConfigurationsController_createVpnConfiguration ::
  "configurators \<Rightarrow> Qt \<Rightarrow> 'k vault \<Rightarrow> 'k AppSettings \<Rightarrow> string \<times> string \<Rightarrow> qjobject \<Rightarrow> qjobject \<Rightarrow> DockerContainer \<Rightarrow>
    missing_configurator + qjobject"
where
  "VpnConfigurationsController_createVpnConfiguration C Q V st dns serverConfig containerConfig container =
     (if ContainerProps_containerService container = ServiceOther then Inr []
      else
        sbind (protocol_data C Q V st dns (json_toInt (json_value serverConfig ''config_version'') \<noteq> 0)
                 containerConfig container (ContainerProps_protocolsForContainer container) [])
          (\<lambda>cfg. Inr
             (json_insert ''config_version''
                (JDouble (of_int (json_toInt (json_value serverConfig ''config_version''))))
             (json_insert ''description'' (JString (field serverConfig ''description''))
             (json_insert ''hostName'' (JString (field serverConfig ''hostName''))
             (json_insert ''dns2'' (JString (snd dns))
             (json_insert ''dns1'' (JString (fst dns))
             (json_insert ''protocol''
                (JString (ProtocolProps_protoToString (ContainerProps_defaultProtocol container))) cfg))))))))"

definition VpnConfigurationsController_updateContainerConfigAfterInstallation ::
  "DockerContainer \<Rightarrow> qjobject \<Rightarrow> string \<Rightarrow> qjobject"
where
  "VpnConfigurationsController_updateContainerConfigAfterInstallation container containerConfig stdOut =
     (let mainProto = ProtocolProps_protoToString (ContainerProps_defaultProtocol container)
      in if container = DockerTorWebSite
         then json_insert mainProto
           (JObject (json_insert ''site'' (JString (replace_str [newline] [] stdOut))
              (object_field containerConfig mainProto))) containerConfig
         else containerConfig)"


section \<open>Import of a server\<close>

datatype import_result = ImportFinished | ImportErrorOccurred int

definition ServerCredentials_isValid :: "ServerCredentials \<Rightarrow> bool" where
  "ServerCredentials_isValid c \<longleftrightarrow>
     sc_hostName c \<noteq> [] \<and> sc_userName c \<noteq> [] \<and> sc_secretData c \<noteq> [] \<and> sc_port c > 0"

definition ImportController_importConfig ::
  "(string \<Rightarrow> 16 word) \<Rightarrow> 'k vault \<Rightarrow> qjobject \<Rightarrow> 'k ServersModel \<Rightarrow> import_result \<times> 'k ServersModel"
where
  "ImportController_importConfig qChecksum V config m =
     (let credentials = \<lparr>sc_hostName = field config ''hostName'', sc_userName = field config ''userName'',
            sc_secretData = field config ''password'', sc_port = json_toInt (json_value config ''port'')\<rparr>
      in if ServerCredentials_isValid credentials \<or> qmap_contains config ''containers'' then
           (ImportFinished, ServersModel_addServer V config m)
         else if qmap_contains config ''config_version'' then
           (let crc = qChecksum (va_printObject V config)
            in if ServersModel_crcAlreadyExists m crc then (ImportErrorOccurred 1101, m)
               else (ImportFinished,
                     ServersModel_addServer V (json_insert ''crc'' (JDouble (of_int (uint crc))) config) m))
         else (ImportErrorOccurred 900, m))"

section \<open>The controller\<close>

datatype connection_signal =
    ConnectionStateChanged
  | ConnectionErrorText string
  | ConnectionErrorCode int
  | ConnectToVpn int ServerCredentials DockerContainer qjobject
  | DisconnectFromVpn
  | ReconnectWithUpdatedContainer string
  | NoInstalledContainers
  | PreparingConfig
  | GetServerConnectionString string

datatype connection_fault = ServerFault list_fault | ConfiguratorFault missing_configurator

record 'k ConnectionController =
  cc_servers :: "'k ServersModel"
  cc_containers :: ContainersModel
  cc_vpn :: VpnConnection
  m_isConnected :: bool
  m_isConnectionInProgress :: bool
  m_connectionStateText :: string
  m_state :: ConnState
  cc_signals :: "connection_signal list"

definition cc_emit :: "connection_signal \<Rightarrow> 'k ConnectionController \<Rightarrow> 'k ConnectionController" where
  "cc_emit x c = c\<lparr>cc_signals := cc_signals c @ [x]\<rparr>"

definition ConnectionController_new ::
  "(string \<Rightarrow> string) \<Rightarrow> 'k ServersModel \<Rightarrow> ContainersModel \<Rightarrow> VpnConnection \<Rightarrow> 'k ConnectionController"
where
  "ConnectionController_new tr servers containers vpn =
     \<lparr>cc_servers = servers, cc_containers = containers, cc_vpn = vpn, m_isConnected = False,
      m_isConnectionInProgress = False, m_connectionStateText = tr ''Connect'', m_state = StateDisconnected,
      cc_signals = []\<rparr>"

definition ConnectionController_onConnectionStateChanged ::
  "(string \<Rightarrow> string) \<Rightarrow> ConnState \<Rightarrow> bool \<Rightarrow> 'k ConnectionController \<Rightarrow> 'k ConnectionController"
where
  "ConnectionController_onConnectionStateChanged tr state getLastError c =
     (let c = c\<lparr>m_state := state, m_isConnected := False, m_connectionStateText := tr ''Connecting...''\<rparr>;
          failed = (\<lambda>c. let c = c\<lparr>m_isConnectionInProgress := False, m_connectionStateText := tr ''Connect''\<rparr>
                        in if getLastError then cc_emit (ConnectionErrorCode (VpnConnection_lastError (cc_vpn c))) c
                           else c);
          c = (case state of
                 StateConnected \<Rightarrow>
                   c\<lparr>m_isConnectionInProgress := False, m_isConnected := True, m_connectionStateText := tr ''Connected''\<rparr>
               | StateConnecting \<Rightarrow> c\<lparr>m_isConnectionInProgress := True\<rparr>
               | StateReconnecting \<Rightarrow>
                   c\<lparr>m_isConnectionInProgress := True, m_connectionStateText := tr ''Reconnecting...''\<rparr>
               | StateDisconnected \<Rightarrow>
                   c\<lparr>m_isConnectionInProgress := False, m_connectionStateText := tr ''Connect''\<rparr>
               | StateDisconnecting \<Rightarrow>
                   c\<lparr>m_isConnectionInProgress := True, m_connectionStateText := tr ''Disconnecting...''\<rparr>
               | StatePreparing \<Rightarrow>
                   c\<lparr>m_isConnectionInProgress := True, m_connectionStateText := tr ''Preparing...''\<rparr>
               | StateError \<Rightarrow> failed c
               | StateUnknown \<Rightarrow> failed c)
      in cc_emit ConnectionStateChanged c)"

text \<open>The controller is a listener of the signal of the connection it emits here.\<close>

definition emit_vpn_state ::
  "(string \<Rightarrow> string) \<Rightarrow> ConnState \<Rightarrow> bool \<Rightarrow> 'k ConnectionController \<Rightarrow> 'k ConnectionController"
where
  "emit_vpn_state tr state getLastError c =
     ConnectionController_onConnectionStateChanged tr state getLastError (c\<lparr>cc_vpn := v_emit state (cc_vpn c)\<rparr>)"

text \<open>The model of the containers listens to the list of servers (\<open>amnezia_application.cpp\<close>).\<close>

fun on_servers_signal :: "servers_signal \<Rightarrow> ContainersModel \<Rightarrow> ContainersModel" where
  "on_servers_signal (ContainersUpdated containers) m = ContainersModel_updateModel containers m"
| "on_servers_signal _ m = m"

definition set_servers :: "'k ServersModel \<Rightarrow> 'k ConnectionController \<Rightarrow> 'k ConnectionController" where
  "set_servers m c =
     c\<lparr>cc_servers := m,
       cc_containers := fold on_servers_signal (drop (length (sm_signals (cc_servers c))) (sm_signals m))
         (cc_containers c)\<rparr>"

definition ConnectionController_openConnection ::
  "(string \<Rightarrow> string) \<Rightarrow> Qt \<Rightarrow> 'k vault \<Rightarrow> string \<Rightarrow> 'k ConnectionController \<Rightarrow> 'k ConnectionController"
where
  "ConnectionController_openConnection tr Q V selectedRegionId c =
     (let c = emit_vpn_state tr StatePreparing True c;
          c = set_servers (ServersModel_clearServers Q V (cc_servers c)) c
      in if selectedRegionId = [] then
           emit_vpn_state tr StateDisconnected True (cc_emit (ConnectionErrorText ''Region not selected'') c)
         else cc_emit (GetServerConnectionString selectedRegionId) c)"

definition ConnectionController_requestError ::
  "(string \<Rightarrow> string) \<Rightarrow> string \<Rightarrow> 'k ConnectionController \<Rightarrow> 'k ConnectionController"
where
  "ConnectionController_requestError tr errorMessage c =
     emit_vpn_state tr StateError False (cc_emit (ConnectionErrorText errorMessage) c)"

definition ConnectionController_importError ::
  "(string \<Rightarrow> string) \<Rightarrow> int \<Rightarrow> 'k ConnectionController \<Rightarrow> 'k ConnectionController"
where
  "ConnectionController_importError tr errorCode c =
     (if VpnConnection_connectionState (cc_vpn c) \<noteq> StatePreparing then c
      else emit_vpn_state tr StateError False (cc_emit (ConnectionErrorCode errorCode) c))"

definition ConnectionController_closeConnection :: "'k ConnectionController \<Rightarrow> 'k ConnectionController" where
  "ConnectionController_closeConnection c = cc_emit DisconnectFromVpn c"

definition ConnectionController_onCurrentContainerUpdated ::
  "(string \<Rightarrow> string) \<Rightarrow> Qt \<Rightarrow> 'k vault \<Rightarrow> string \<Rightarrow> 'k ConnectionController \<Rightarrow> 'k ConnectionController"
where
  "ConnectionController_onCurrentContainerUpdated tr Q V selectedRegionId c =
     (if m_isConnected c \<or> m_isConnectionInProgress c then
        ConnectionController_openConnection tr Q V selectedRegionId
          (cc_emit (ReconnectWithUpdatedContainer (tr ''Settings updated successfully, reconnnection...'')) c)
      else cc_emit (ReconnectWithUpdatedContainer (tr ''Settings updated successfully'')) c)"

definition ConnectionController_onTranslationsUpdated ::
  "(string \<Rightarrow> string) \<Rightarrow> 'k ConnectionController \<Rightarrow> 'k ConnectionController"
where
  "ConnectionController_onTranslationsUpdated tr c =
     ConnectionController_onConnectionStateChanged tr (m_state c) True c"

definition ConnectionController_toggleConnection ::
  "(string \<Rightarrow> string) \<Rightarrow> Qt \<Rightarrow> 'k vault \<Rightarrow> string \<Rightarrow> 'k ConnectionController \<Rightarrow> 'k ConnectionController"
where
  "ConnectionController_toggleConnection tr Q V selectedRegionId c =
     (if m_state c = StatePreparing then cc_emit PreparingConfig c
      else if m_isConnectionInProgress c then ConnectionController_closeConnection c
      else if m_isConnected c then ConnectionController_closeConnection c
      else ConnectionController_openConnection tr Q V selectedRegionId c)"

definition ConnectionController_isProtocolConfigExists :: "qjobject \<Rightarrow> DockerContainer \<Rightarrow> bool" where
  "ConnectionController_isProtocolConfigExists containerConfig container \<longleftrightarrow>
     list_all (\<lambda>p. field (object_field containerConfig (ProtocolProps_protoToString p)) ''last_config'' \<noteq> [])
       (ContainerProps_protocolsForContainer container)"

text \<open>\<open>appendClient\<close> is the error code of registering the client at the server.\<close>

definition ConnectionController_updateProtocolConfig ::
  "configurators \<Rightarrow> 'k vault \<Rightarrow> int \<Rightarrow> DockerContainer \<Rightarrow> ServerCredentials \<Rightarrow> qjobject \<Rightarrow> 'k ConnectionController \<Rightarrow>
    connection_fault + int \<times> qjobject \<times> 'k ConnectionController"
where
  "ConnectionController_updateProtocolConfig C V appendClient container credentials containerConfig c =
     (if ConnectionController_isProtocolConfigExists containerConfig container then Inr (0, containerConfig, c)
      else
        (case VpnConfigurationsController_createProtocolConfigForContainer C credentials container containerConfig of
           Inl e \<Rightarrow> Inl (ConfiguratorFault e)
         | Inr (errorCode, containerConfig) \<Rightarrow>
             if errorCode \<noteq> 0 then Inr (errorCode, containerConfig, c)
             else
               (case ServersModel_updateContainerConfig V container containerConfig (cc_servers c) of
                  Inl e \<Rightarrow> Inl (ServerFault e)
                | Inr m \<Rightarrow> Inr (appendClient, containerConfig, set_servers m c))))"

definition ConnectionController_continueConnection ::
  "(string \<Rightarrow> string) \<Rightarrow> Platform \<Rightarrow> configurators \<Rightarrow> Qt \<Rightarrow> 'k vault \<Rightarrow> int \<Rightarrow> 'k ConnectionController \<Rightarrow>
    connection_fault + 'k ConnectionController"
where
  "ConnectionController_continueConnection tr target C Q V appendClient c =
     (let serverIndex = m_defaultServerIndex (cc_servers c);
          serverConfig = server_at (cc_servers c) serverIndex
      in if \<not> role_bool (ServersModel_data (cc_servers c) serverIndex HasInstalledContainers) then
           Inr (emit_vpn_state tr StateDisconnected True (cc_emit NoInstalledContainers c))
         else
           (let container = role_container (ServersModel_data (cc_servers c) serverIndex DefaultContainerRole)
            in if \<not> ContainersModel_isSupportedByCurrentPlatform target (int (container_index container)) (cc_containers c)
               then Inr (cc_emit (ConnectionErrorText
                 (tr ''The selected protocol is not supported on the current platform'')) c)
               else if container = DockerNone then
                 Inr (cc_emit (ConnectionErrorText (tr (''VPN Protocols is not installed.'' @ newline #
                   '' Please install VPN container at first''))) c)
               else
                 (let containerConfig =
                        ContainersModel_getContainerConfig target (int (container_index container)) (cc_containers c);
                      credentials = ServersModel_serverCredentials (cc_servers c) serverIndex
                  in case ConnectionController_updateProtocolConfig C V appendClient container credentials containerConfig c of
                       Inl e \<Rightarrow> Inl e
                     | Inr (errorCode, containerConfig, c) \<Rightarrow>
                         if errorCode \<noteq> 0 then Inr (cc_emit (ConnectionErrorCode errorCode) c)
                         else
                           (case VpnConfigurationsController_createVpnConfiguration C Q V (sm_settings (cc_servers c))
                                   (ServersModel_getDnsPair Q V (cc_servers c) serverIndex) serverConfig containerConfig
                                   container of
                              Inl e \<Rightarrow> Inl (ConfiguratorFault e)
                            | Inr vpnConfiguration \<Rightarrow>
                                Inr (cc_emit (ConnectToVpn serverIndex credentials container vpnConfiguration) c)))))"

definition ConnectionController_importFinished ::
  "(string \<Rightarrow> string) \<Rightarrow> Platform \<Rightarrow> configurators \<Rightarrow> Qt \<Rightarrow> 'k vault \<Rightarrow> int \<Rightarrow> 'k ConnectionController \<Rightarrow>
    connection_fault + 'k ConnectionController"
where
  "ConnectionController_importFinished tr target C Q V appendClient c =
     (let c = set_servers (ServersModel_setDefaultServerIndex Q V 0 (cc_servers c)) c;
          c = set_servers (ServersModel_setProcessedServerIndex 0 (cc_servers c)) c
      in ConnectionController_continueConnection tr target C Q V appendClient c)"

text \<open>The server string has arrived; \<open>extracted\<close> is what \<open>extractConfigFromData\<close> made of it.\<close>

definition ConnectionController_stringArrived ::
  "(string \<Rightarrow> string) \<Rightarrow> Platform \<Rightarrow> configurators \<Rightarrow> Qt \<Rightarrow> 'k vault \<Rightarrow> int \<Rightarrow> (string \<Rightarrow> 16 word) \<Rightarrow> qjobject option \<Rightarrow>
    'k ConnectionController \<Rightarrow> connection_fault + 'k ConnectionController"
where
  "ConnectionController_stringArrived tr target C Q V appendClient qChecksum extracted c =
     (case extracted of
        None \<Rightarrow> Inr (emit_vpn_state tr StateError False (cc_emit (ConnectionErrorText ''Failed to import config'') c))
      | Some config \<Rightarrow>
          (case ImportController_importConfig qChecksum V config (cc_servers c) of
             (ImportFinished, m) \<Rightarrow>
               ConnectionController_importFinished tr target C Q V appendClient (set_servers m c)
           | (ImportErrorOccurred e, m) \<Rightarrow> Inr (ConnectionController_importError tr e (set_servers m c))))"


section \<open>What a configuration holds\<close>

lemma configurators_exist:
  "ContainerProps_containerService c \<noteq> ServiceOther \<Longrightarrow> p \<in> set (ContainerProps_protocolsForContainer c) \<Longrightarrow>
    VpnConfigurationsController_createConfigurator p \<noteq> None"
  by (cases c) (auto simp: ContainerProps_containerService_def)

definition protocol_object ::
  "configurators \<Rightarrow> Qt \<Rightarrow> 'k vault \<Rightarrow> 'k AppSettings \<Rightarrow> string \<times> string \<Rightarrow> bool \<Rightarrow> qjobject \<Rightarrow> DockerContainer \<Rightarrow>
    Proto \<Rightarrow> qjobject"
where
  "protocol_object C Q V st dns isApiConfig containerConfig container p =
     add_mtu container (va_parseObject V (process_local C Q V st
       (the (VpnConfigurationsController_createConfigurator p)) dns isApiConfig
       (field (object_field containerConfig (ProtocolProps_protoToString p)) ''last_config'')))"

lemma key_inj: "ProtocolProps_key_proto_config_data p = ProtocolProps_key_proto_config_data q \<longleftrightarrow> p = q"
  by (simp add: ProtocolProps_key_proto_config_data_def protoToString_inj)

lemma protocol_data_spec:
  assumes "\<forall>p \<in> set ps. VpnConfigurationsController_createConfigurator p \<noteq> None" "distinct ps"
  shows "\<exists>cfg'. protocol_data C Q V st dns api cc container ps cfg = Inr cfg' \<and>
    (\<forall>p \<in> set ps. \<not> (api \<and> container = DockerCloak \<and> p = ProtoShadowSocks) \<longrightarrow>
       json_value cfg' (ProtocolProps_key_proto_config_data p) =
         JObject (protocol_object C Q V st dns api cc container p)) \<and>
    (\<forall>k. (\<forall>p \<in> set ps. k \<noteq> ProtocolProps_key_proto_config_data p) \<longrightarrow> json_value cfg' k = json_value cfg k)"
  using assms
proof (induction ps arbitrary: cfg)
  case (Cons p ps)
  then obtain co where co: "VpnConfigurationsController_createConfigurator p = Some co" by auto
  show ?case
  proof (cases "api \<and> container = DockerCloak \<and> p = ProtoShadowSocks")
    case True
    from Cons.IH [of cfg] Cons.prems obtain cfg' where "protocol_data C Q V st dns api cc container ps cfg = Inr cfg'"
      "\<forall>q \<in> set ps. \<not> (api \<and> container = DockerCloak \<and> q = ProtoShadowSocks) \<longrightarrow>
         json_value cfg' (ProtocolProps_key_proto_config_data q) =
           JObject (protocol_object C Q V st dns api cc container q)"
      "\<forall>k. (\<forall>q \<in> set ps. k \<noteq> ProtocolProps_key_proto_config_data q) \<longrightarrow> json_value cfg' k = json_value cfg k"
      by auto
    with True show ?thesis by auto
  next
    case False
    let ?cfg = "json_insert (ProtocolProps_key_proto_config_data p)
      (JObject (protocol_object C Q V st dns api cc container p)) cfg"
    from Cons.IH [of ?cfg] Cons.prems obtain cfg' where
      "protocol_data C Q V st dns api cc container ps ?cfg = Inr cfg'"
      and data: "\<forall>q \<in> set ps. \<not> (api \<and> container = DockerCloak \<and> q = ProtoShadowSocks) \<longrightarrow>
         json_value cfg' (ProtocolProps_key_proto_config_data q) =
           JObject (protocol_object C Q V st dns api cc container q)"
      and other: "\<forall>k. (\<forall>q \<in> set ps. k \<noteq> ProtocolProps_key_proto_config_data q) \<longrightarrow>
        json_value cfg' k = json_value ?cfg k"
      by auto
    moreover have "json_value cfg' (ProtocolProps_key_proto_config_data p) =
        JObject (protocol_object C Q V st dns api cc container p)"
      using spec [OF other, of "ProtocolProps_key_proto_config_data p"] Cons.prems(2)
      by (auto simp: key_inj json_value_insert)
    ultimately show ?thesis
      using False by (intro exI [of _ cfg']) (auto simp: co protocol_object_def json_value_insert Let_def)
  qed
qed simp

lemma keys_apart:
  "list_all (\<lambda>p. ProtocolProps_key_proto_config_data p \<notin>
     {''config_version'', ''description'', ''hostName'', ''dns2'', ''dns1'', ''protocol''}) ProtocolProps_allProtocols"
  by code_simp

lemma key_apart:
  "k \<in> {''config_version'', ''description'', ''hostName'', ''dns2'', ''dns1'', ''protocol''} \<Longrightarrow>
    ProtocolProps_key_proto_config_data p \<noteq> k"
  using keys_apart allProtocols_UNIV by (auto simp: list_all_iff)

lemma add_mtu_set: "c = DockerAwg \<or> c = DockerWireGuard \<Longrightarrow> field (add_mtu c ob) ''mtu'' \<noteq> []"
  by (auto simp: add_mtu_def field_def json_value_insert awg_defaultMtu_def wireguard_defaultMtu_def)

lemma vpn_configuration:
  assumes "ContainerProps_containerService container \<noteq> ServiceOther"
  shows "\<exists>cfg. VpnConfigurationsController_createVpnConfiguration C Q V st dns serverConfig containerConfig container =
      Inr cfg \<and>
    (\<forall>p \<in> set (ContainerProps_protocolsForContainer container).
       \<not> (json_toInt (json_value serverConfig ''config_version'') \<noteq> 0 \<and> container = DockerCloak \<and> p = ProtoShadowSocks) \<longrightarrow>
       json_value cfg (ProtocolProps_key_proto_config_data p) =
         JObject (protocol_object C Q V st dns (json_toInt (json_value serverConfig ''config_version'') \<noteq> 0)
           containerConfig container p)) \<and>
    json_value cfg ''protocol'' = JString (ProtocolProps_protoToString (ContainerProps_defaultProtocol container)) \<and>
    json_value cfg ''dns1'' = JString (fst dns) \<and> json_value cfg ''dns2'' = JString (snd dns) \<and>
    json_value cfg ''hostName'' = JString (field serverConfig ''hostName'')"
proof -
  let ?api = "json_toInt (json_value serverConfig ''config_version'') \<noteq> 0"
  have "\<forall>p \<in> set (ContainerProps_protocolsForContainer container).
      VpnConfigurationsController_createConfigurator p \<noteq> None"
    using configurators_exist [OF assms] by blast
  from protocol_data_spec [OF this protocols_distinct, where cfg = "[]"]
  obtain cfg where cfg: "protocol_data C Q V st dns ?api containerConfig container
      (ContainerProps_protocolsForContainer container) [] = Inr cfg"
    "\<forall>p \<in> set (ContainerProps_protocolsForContainer container).
       \<not> (?api \<and> container = DockerCloak \<and> p = ProtoShadowSocks) \<longrightarrow>
       json_value cfg (ProtocolProps_key_proto_config_data p) =
         JObject (protocol_object C Q V st dns ?api containerConfig container p)" by blast
  show ?thesis
    unfolding VpnConfigurationsController_createVpnConfiguration_def
    using cfg assms by (simp add: json_value_insert key_apart)
qed

text \<open>
  C27: The configuration of a connection is complete.  For every container that is no plain service it is
  built without a missing configurator; it holds the processed configuration of each protocol of the
  container (except the Shadowsocks part of a Cloak container from the interface of the provider), the
  name of the main protocol, the two DNS servers and the host; and a WireGuard tunnel always has an MTU.
\<close>

theorem vpn_configuration_complete:
  assumes "ContainerProps_containerService container \<noteq> ServiceOther"
  shows "\<exists>cfg. VpnConfigurationsController_createVpnConfiguration C Q V st dns serverConfig containerConfig container =
      Inr cfg \<and>
    (\<forall>p \<in> set (ContainerProps_protocolsForContainer container).
       \<not> (json_toInt (json_value serverConfig ''config_version'') \<noteq> 0 \<and> container = DockerCloak \<and> p = ProtoShadowSocks) \<longrightarrow>
       json_value cfg (ProtocolProps_key_proto_config_data p) =
         JObject (protocol_object C Q V st dns (json_toInt (json_value serverConfig ''config_version'') \<noteq> 0)
           containerConfig container p) \<and>
       (container = DockerAwg \<or> container = DockerWireGuard \<longrightarrow>
          field (json_toObject (json_value cfg (ProtocolProps_key_proto_config_data p))) ''mtu'' \<noteq> [])) \<and>
    json_value cfg ''protocol'' = JString (ProtocolProps_protoToString (ContainerProps_defaultProtocol container)) \<and>
    json_value cfg ''dns1'' = JString (fst dns) \<and> json_value cfg ''dns2'' = JString (snd dns) \<and>
    json_value cfg ''hostName'' = JString (field serverConfig ''hostName'')"
proof -
  from vpn_configuration [OF assms] obtain cfg where cfg:
    "VpnConfigurationsController_createVpnConfiguration C Q V st dns serverConfig containerConfig container = Inr cfg"
    "\<forall>p \<in> set (ContainerProps_protocolsForContainer container).
       \<not> (json_toInt (json_value serverConfig ''config_version'') \<noteq> 0 \<and> container = DockerCloak \<and> p = ProtoShadowSocks) \<longrightarrow>
       json_value cfg (ProtocolProps_key_proto_config_data p) =
         JObject (protocol_object C Q V st dns (json_toInt (json_value serverConfig ''config_version'') \<noteq> 0)
           containerConfig container p)"
    "json_value cfg ''protocol'' = JString (ProtocolProps_protoToString (ContainerProps_defaultProtocol container))"
    "json_value cfg ''dns1'' = JString (fst dns)" "json_value cfg ''dns2'' = JString (snd dns)"
    "json_value cfg ''hostName'' = JString (field serverConfig ''hostName'')" by blast
  then show ?thesis
    by (intro exI [of _ cfg]) (simp add: protocol_object_def add_mtu_set)
qed

section \<open>Progress of a connection\<close>

lemma toggle_preparing:
  "m_state c = StatePreparing \<Longrightarrow>
    (ConnectionController_toggleConnection tr Q V region ^^ n) c =
      c\<lparr>cc_signals := cc_signals c @ replicate n PreparingConfig\<rparr>"
  by (induction n)
    (simp_all add: ConnectionController_toggleConnection_def cc_emit_def replicate_append_same)

lemma set_servers_simps [simp]:
  "cc_servers (set_servers m c) = m" "m_state (set_servers m c) = m_state c"
  "cc_signals (set_servers m c) = cc_signals c" "cc_vpn (set_servers m c) = cc_vpn c"
  by (simp_all add: set_servers_def)

lemma emit_simps [simp]:
  "m_state (cc_emit x c) = m_state c" "cc_signals (cc_emit x c) = cc_signals c @ [x]"
  "cc_servers (cc_emit x c) = cc_servers c" "cc_containers (cc_emit x c) = cc_containers c"
  "cc_vpn (cc_emit x c) = cc_vpn c"
  by (simp_all add: cc_emit_def)

lemma update_state:
  "ConnectionController_updateProtocolConfig C V a container credentials cfg c = Inr (e, cfg', c') \<Longrightarrow>
    m_state c' = m_state c \<and> cc_signals c' = cc_signals c"
  by (auto simp: ConnectionController_updateProtocolConfig_def split: if_split_asm sum.split_asm)



section \<open>From the imported server to the tunnel\<close>

lemma takeWhile_before: "x \<in> set xs \<Longrightarrow> length (takeWhile (\<lambda>y. y \<noteq> x) xs) < length xs"
  by (induction xs) auto

lemma container_row: "container_index c < length ContainerProps_allContainers"
  unfolding container_index_def by (rule takeWhile_before) (simp add: allContainers_UNIV)

lemma getContainerConfig_eq:
  "ContainersModel_getContainerConfig target (int (container_index c)) m =
    (if c = DockerNone then [] else qmap_value (m_containers m) c)"
  using container_row [of c]
  by (simp add: ContainersModel_getContainerConfig_def ContainersModel_data_def container_index_nth Let_def)

lemma isSupported_eq:
  "ContainersModel_isSupportedByCurrentPlatform target (int (container_index c)) m =
    ContainerProps_isSupportedByCurrentPlatform target c"
  using container_row [of c]
  by (simp add: ContainersModel_isSupportedByCurrentPlatform_def ContainersModel_data_def container_index_nth Let_def)

lemma processed_signals:
  "\<exists>rest. sm_signals (ServersModel_setProcessedServerIndex i m) =
      sm_signals m @ ContainersUpdated (array_field (server_at m i) ''containers'') # rest \<and>
    (\<forall>x \<in> set rest. \<forall>a. x \<noteq> ContainersUpdated a)"
  by (simp add: ServersModel_setProcessedServerIndex_def ServersModel_updateContainersModel_def sm_emit_def
      server_at_def Let_def)

lemma deliver_rest: "(\<forall>x \<in> set xs. \<forall>a. x \<noteq> ContainersUpdated a) \<Longrightarrow> fold on_servers_signal xs cm = cm"
proof (induction xs arbitrary: cm)
  case (Cons x xs)
  then show ?case by (cases x) auto
qed simp

lemma processed_containers:
  "m_containers (cc_containers (set_servers (ServersModel_setProcessedServerIndex i (cc_servers c)) c)) =
    containers_of (array_field (server_at (cc_servers c) i) ''containers'')"
proof -
  obtain rest where "sm_signals (ServersModel_setProcessedServerIndex i (cc_servers c)) =
      sm_signals (cc_servers c) @ ContainersUpdated (array_field (server_at (cc_servers c) i) ''containers'') # rest"
    "\<forall>x \<in> set rest. \<forall>a. x \<noteq> ContainersUpdated a"
    using processed_signals [of i "cc_servers c"] by blast
  then show ?thesis by (simp add: set_servers_def deliver_rest ContainersModel_updateModel_def)
qed

lemma cleared_servers: "mirror Q V m \<Longrightarrow> m_servers (ServersModel_clearServers Q V m) = []"
proof -
  assume "mirror Q V m"
  then have ok: "settings_ok V (sm_settings m)" by (simp add: mirror_def)
  have signals: "settings_ok V ((st_emit x ^^ n) st) = settings_ok V st"
    "Settings_serversArray V ((st_emit x ^^ n) st) = Settings_serversArray V st" for x n st
    by (induction n) simp_all
  show ?thesis
    using servers_set [OF ok, of "[]"]
    by (simp add: ServersModel_clearServers_def Settings_removeAllServers_def signals set_default_simps Let_def)
qed

lemma added_server:
  "mirror Q V m \<Longrightarrow> m_servers m = [] \<Longrightarrow> json_ok (JObject config) \<Longrightarrow>
    m_servers (ServersModel_addServer V config m) = [JObject config]"
  using servers_set(1) [of V "sm_settings m" "[JObject config]"]
  by (simp add: mirror_def ServersModel_addServer_def Settings_addServer_def Let_def del: json_ok.simps)

lemma open_connection:
  "region \<noteq> [] \<Longrightarrow>
    cc_servers (ConnectionController_openConnection tr Q V region c) = ServersModel_clearServers Q V (cc_servers c) \<and>
    m_state (ConnectionController_openConnection tr Q V region c) = StatePreparing"
  by (simp add: ConnectionController_openConnection_def emit_vpn_state_def
      ConnectionController_onConnectionStateChanged_def Let_def)

lemma continue_connection:
  assumes "m_defaultServerIndex (cc_servers c) = 0" "valid_row (cc_servers c) 0" "server_at (cc_servers c) 0 = config"
    and "m_containers (cc_containers c) = containers_of (array_field config ''containers'')"
    and "container = ContainerProps_containerFromString (field config ''defaultContainer'')"
    and "ContainerProps_containerService container = ServiceVpn" "container \<in> container_key ` set (array_field config ''containers'')"
    and "ContainerProps_isSupportedByCurrentPlatform target container"
    and "containerConfig = qmap_value (containers_of (array_field config ''containers'')) container"
    and "ConnectionController_isProtocolConfigExists containerConfig container"
  shows "\<exists>cfg. VpnConfigurationsController_createVpnConfiguration C Q V (sm_settings (cc_servers c))
      (ServersModel_getDnsPair Q V (cc_servers c) 0) config containerConfig container = Inr cfg \<and>
    ConnectionController_continueConnection tr target C Q V a c = Inr (cc_emit (ConnectToVpn 0
      \<lparr>sc_hostName = field config ''hostName'', sc_userName = field config ''userName'',
       sc_secretData = field config ''password'', sc_port = json_toInt (json_value config ''port'')\<rparr> container cfg) c)"
proof -
  have "ServersModel_serverHasInstalledContainers (cc_servers c) 0"
    using assms(6,7) by (auto simp: ServersModel_serverHasInstalledContainers_def assms(3) list_ex_iff Let_def)
  then have data: "ServersModel_data (cc_servers c) 0 HasInstalledContainers = RBool True"
    "ServersModel_data (cc_servers c) 0 DefaultContainerRole = RContainer container"
    using assms(2,3,5) by (simp_all add: ServersModel_data_def Let_def)
  have vpn: "container \<noteq> DockerNone" using assms(6) by (auto simp: ContainerProps_containerService_def)
  have update: "ConnectionController_updateProtocolConfig C V a container credentials containerConfig c =
      Inr (0, containerConfig, c)" for credentials
    using assms(10) by (simp add: ConnectionController_updateProtocolConfig_def)
  have service: "ContainerProps_containerService container \<noteq> ServiceOther" using assms(6) by simp
  from vpn_configuration [OF service] obtain cfg where
    "VpnConfigurationsController_createVpnConfiguration C Q V (sm_settings (cc_servers c))
      (ServersModel_getDnsPair Q V (cc_servers c) 0) config containerConfig container = Inr cfg" by blast
  moreover from this have "ConnectionController_continueConnection tr target C Q V a c = Inr (cc_emit (ConnectToVpn 0
      \<lparr>sc_hostName = field config ''hostName'', sc_userName = field config ''userName'',
       sc_secretData = field config ''password'', sc_port = json_toInt (json_value config ''port'')\<rparr> container cfg) c)"
    unfolding ConnectionController_continueConnection_def Let_def assms(1) data role_bool_def role_container_def
    by (simp add: isSupported_eq assms(8) getContainerConfig_eq vpn assms(4) assms(9) [symmetric] update assms(3)
        ServersModel_serverCredentials_def)
  ultimately show ?thesis by blast
qed

text \<open>The handler of a finished import, on a list with the imported server only.\<close>

lemma import_finished:
  assumes "mirror Q V (cc_servers c)" "m_servers (cc_servers c) = [JObject config]"
  shows "\<exists>c'. ConnectionController_importFinished tr target C Q V a c =
      ConnectionController_continueConnection tr target C Q V a c' \<and>
    m_defaultServerIndex (cc_servers c') = 0 \<and> valid_row (cc_servers c') 0 \<and> server_at (cc_servers c') 0 = config \<and>
    m_containers (cc_containers c') = containers_of (array_field config ''containers'') \<and> cc_signals c' = cc_signals c"
proof -
  have ok: "settings_ok V (sm_settings (cc_servers c))" using assms(1) by (simp add: mirror_def)
  define c1 where "c1 = set_servers (ServersModel_setDefaultServerIndex Q V 0 (cc_servers c)) c"
  define c2 where "c2 = set_servers (ServersModel_setProcessedServerIndex 0 (cc_servers c1)) c1"
  have c1: "m_servers (cc_servers c1) = [JObject config]" "m_defaultServerIndex (cc_servers c1) = 0"
    "cc_signals c1 = cc_signals c"
    using assms(2) by (simp_all add: c1_def set_default_simps [OF ok])
  then have at: "server_at (cc_servers c1) 0 = config" by (simp add: server_at_def array_at_def)
  have "m_containers (cc_containers c2) = containers_of (array_field config ''containers'')"
    unfolding c2_def processed_containers at ..
  moreover have "m_defaultServerIndex (cc_servers c2) = 0" "valid_row (cc_servers c2) 0"
    "server_at (cc_servers c2) 0 = config" "cc_signals c2 = cc_signals c"
    using c1 by (simp_all add: c2_def valid_row_def server_at_def array_at_def)
  moreover have "ConnectionController_importFinished tr target C Q V a c =
      ConnectionController_continueConnection tr target C Q V a c2"
    by (simp only: ConnectionController_importFinished_def Let_def c1_def c2_def)
  ultimately show ?thesis by blast
qed

text \<open>
  What was bought is what is connected.  Pressing the button empties the list of servers; when the
  server string arrives, the tunnel is asked to connect with the credentials of the imported server
  and the configuration made from its own default container, without a second look at the
  remote server, provided that container is there, is supported and is configured.
\<close>

theorem imported_server_connected:
  assumes "mirror Q V (cc_servers c)" "region \<noteq> []" "json_ok (JObject config)" "qmap_contains config ''containers''"
    and "container = ContainerProps_containerFromString (field config ''defaultContainer'')"
    and "ContainerProps_containerService container = ServiceVpn" "container \<in> container_key ` set (array_field config ''containers'')"
    and "ContainerProps_isSupportedByCurrentPlatform target container"
    and "containerConfig = qmap_value (containers_of (array_field config ''containers'')) container"
    and "ConnectionController_isProtocolConfigExists containerConfig container"
  shows "\<exists>c' cfg. ConnectionController_stringArrived tr target C Q V a chk (Some config)
      (ConnectionController_openConnection tr Q V region c) = Inr c' \<and>
    VpnConfigurationsController_createVpnConfiguration C Q V (sm_settings (cc_servers c'))
      (ServersModel_getDnsPair Q V (cc_servers c') 0) config containerConfig container = Inr cfg \<and>
    cc_signals c' = cc_signals (ConnectionController_openConnection tr Q V region c) @ [ConnectToVpn 0
      \<lparr>sc_hostName = field config ''hostName'', sc_userName = field config ''userName'',
       sc_secretData = field config ''password'', sc_port = json_toInt (json_value config ''port'')\<rparr> container cfg]"
proof -
  let ?c = "ConnectionController_openConnection tr Q V region c"
  let ?m = "ServersModel_addServer V config (cc_servers ?c)"
  have m: "mirror Q V (cc_servers ?c)" "m_servers (cc_servers ?c) = []"
    using open_connection [OF assms(2), of tr Q V c] mirror_clear [OF assms(1)] cleared_servers [OF assms(1)] by simp_all
  have "mirror Q V (cc_servers (set_servers ?m ?c))" "m_servers (cc_servers (set_servers ?m ?c)) = [JObject config]"
    using mirror_add [OF m(1) assms(3)] added_server [OF m assms(3)] by simp_all
  from import_finished [OF this, of tr target C a] obtain c2 where c2:
    "ConnectionController_importFinished tr target C Q V a (set_servers ?m ?c) =
      ConnectionController_continueConnection tr target C Q V a c2"
    "m_defaultServerIndex (cc_servers c2) = 0" "valid_row (cc_servers c2) 0" "server_at (cc_servers c2) 0 = config"
    "m_containers (cc_containers c2) = containers_of (array_field config ''containers'')"
    "cc_signals c2 = cc_signals (set_servers ?m ?c)" by blast
  have "ConnectionController_stringArrived tr target C Q V a chk (Some config) ?c =
      ConnectionController_continueConnection tr target C Q V a c2"
    using assms(4) c2(1) by (simp add: ConnectionController_stringArrived_def ImportController_importConfig_def Let_def)
  with continue_connection [OF c2(2-5) assms(5-10), of C Q V tr a] c2(6) show ?thesis by auto
qed

section \<open>Witnesses\<close>

definition sample_configurators :: configurators where
  "sample_configurators = \<lparr>co_createConfig = (\<lambda>_ _ _ _. (0, [])), co_resourcesDirPath = ''/opt''\<rparr>"

theorem vpn_configuration_complete_witness:
  "\<exists>cfg. VpnConfigurationsController_createVpnConfiguration sample_configurators sample_qt json_vault one_server
      (''1.1.1.1'', ''1.0.0.1'') [] [] DockerAwg = Inr cfg \<and> json_value cfg ''dns1'' = JString ''1.1.1.1''"
  using vpn_configuration_complete [of DockerAwg sample_configurators sample_qt json_vault one_server
      "(''1.1.1.1'', ''1.0.0.1'')" "[]" "[]"]
  by (auto simp: ContainerProps_containerService_def)

text \<open>An imported server with one container.\<close>

definition imported :: "DockerContainer \<Rightarrow> qjobject" where
  "imported container =
     [(''containers'', JArray [JObject
        [(''awg'', JObject [(''last_config'', JString ''{}'')]),
         (''container'', JString (ContainerProps_containerToString container))]]),
      (''defaultContainer'', JString (ContainerProps_containerToString container))]"

definition sample_controller :: "unit ServersModel \<Rightarrow> unit ConnectionController" where
  "sample_controller m = ConnectionController_new id m \<lparr>m_containers = [], m_processedContainerIndex = 0\<rparr>
     (site_connection\<lparr>m_vpnProtocol := None\<rparr>)"

lemma imported_ok: "json_ok (JObject (imported container))"
  by (simp add: imported_def qmap_ok_def)

lemma imported_fields:
  "field (imported container) ''defaultContainer'' = ContainerProps_containerToString container"
  "container_key ` set (array_field (imported container) ''containers'') = {container}"
  "qmap_contains (imported container) ''containers''"
  by (simp_all add: imported_def field_def array_field_def json_value_def container_key_def qmap_contains_def
      containerFromString_toString)

lemma imported_config:
  "ConnectionController_isProtocolConfigExists
    (qmap_value (containers_of (array_field (imported DockerAwg) ''containers'')) DockerAwg) DockerAwg"
proof -
  have "ProtocolProps_protoToString ProtoAwg = ''awg''" by code_simp
  then show ?thesis
    by (simp add: ConnectionController_isProtocolConfigExists_def imported_def array_field_def json_value_def
        containers_of_def qmap_insert.simps container_key_def containerFromString_toString qmap_value_def
        field_def object_field_def)
qed

theorem imported_server_connected_witness:
  "\<exists>c' credentials cfg. ConnectionController_stringArrived id OsLinux sample_configurators sample_qt json_vault 0 (\<lambda>_. 0)
      (Some (imported DockerAwg))
      (ConnectionController_openConnection id sample_qt json_vault ''de'' (sample_controller two_servers)) = Inr c' \<and>
    last (cc_signals c') = ConnectToVpn 0 credentials DockerAwg cfg"
  using imported_server_connected [where c = "sample_controller two_servers" and Q = sample_qt and V = json_vault
      and region = "''de''" and config = "imported DockerAwg" and container = DockerAwg and target = OsLinux
      and containerConfig = "qmap_value (containers_of (array_field (imported DockerAwg) ''containers'')) DockerAwg"
      and tr = id and C = sample_configurators and a = 0 and chk = "\<lambda>_. 0"]
    two_servers_ok(1) imported_ok [of DockerAwg] imported_config
  by (auto simp: sample_controller_def ConnectionController_new_def imported_fields containerFromString_toString
      ContainerProps_containerService_def)

definition unsupported_server :: "unit ConnectionController" where
  "unsupported_server = (sample_controller (sample_model\<lparr>m_servers := [JObject (imported DockerIpsec)]\<rparr>))
     \<lparr>m_state := StatePreparing\<rparr>"


end
