(* ===== verification/Share_Links.thy ===== *)
theory Share_Links
  imports Json_Struct Local_Service Connection_Control
begin

text \<open>
  The share links of \<open>client/core/serialization\<close>: \<open>vless://\<close>, both forms of \<open>vmess://\<close>,
  \<open>trojan://\<close>, \<open>ss://\<close> and \<open>ssd://\<close> are turned into a configuration of the Xray core with one
  inbound and one outbound, and \<open>vmess::Serialize\<close> and \<open>trojan::Serialize\<close> print a link.

  The record \<open>Web\<close> holds what the code takes from Qt: URLs with their parsed query, percent,
  base64 and JSON codecs, number conversions and translations. A run of conditional
  \<open>QJsonIO::SetValue\<close> calls is the list of writes it performs, in order. A deserialiser returns
  the configuration, the alias and the error message.
\<close>

record QUrl =
  url_isValid :: bool
  url_errorString :: string
  url_userInfo :: string
  url_userName :: string
  url_password :: string
  url_host :: string
  url_port :: int
  url_fragment :: string
  url_fragmentDecoded :: string
  url_query :: "(string \<times> string) list"
  url_queryDecoded :: "(string \<times> string) list"

record Web =
  web_url :: "string \<Rightarrow> QUrl"
  web_fromUserInput :: "string \<Rightarrow> QUrl"
  web_fromPercentEncoding :: "string \<Rightarrow> string"
  web_fromBase64 :: "string \<Rightarrow> string"
  web_toBase64 :: "string \<Rightarrow> string"
  web_jsonError :: "string \<Rightarrow> string"
  web_jsonObject :: "string \<Rightarrow> qjobject"
  web_jsonText :: "qjobject \<Rightarrow> string"
  web_toInt :: "string \<Rightarrow> int option"
  web_doubleText :: "rat \<Rightarrow> string"
  web_arg :: "string \<Rightarrow> string list \<Rightarrow> string"
  web_tr :: "string \<Rightarrow> string"

type_synonym link_result = "qjobject \<times> string \<times> string"

abbreviation quoted :: "string \<Rightarrow> string" where
  "quoted s \<equiv> CHR 0x27 # s @ [CHR 0x27]"

section \<open>Inbounds and outbounds\<close>

definition inbounds_GenerateInboundEntry :: qjobject where
  "inbounds_GenerateInboundEntry =
     SetValues []
       [([key_at ''listen''], JString ''127.0.0.1''), ([key_at ''port''], serInt 10833),
        ([key_at ''protocol''], JString ''socks''),
        ([key_at ''settings'', key_at ''udp''], JBool True)]"

definition outbounds_GenerateFreedomOUT :: "string \<Rightarrow> string \<Rightarrow> qjobject" where
  "outbounds_GenerateFreedomOUT domainStrategy redirect =
     json_insert ''redirect'' (JString redirect) (json_insert ''domainStrategy'' (JString domainStrategy) [])"

definition outbounds_GenerateBlackHoleOUT :: "bool \<Rightarrow> qjobject" where
  "outbounds_GenerateBlackHoleOUT useHTTP =
     json_insert ''response''
       (JObject (json_insert ''type'' (JString (if useHTTP then ''http'' else ''none'')) [])) []"

definition outbounds_GenerateShadowSocksServerOUT ::
  "string \<Rightarrow> int \<Rightarrow> string \<Rightarrow> string \<Rightarrow> qjobject" where
  "outbounds_GenerateShadowSocksServerOUT address port method password =
     json_insert ''password'' (JString password) (json_insert ''method'' (JString method)
       (json_insert ''port'' (serInt port) (json_insert ''address'' (JString address) [])))"

definition outbounds_GenerateShadowSocksOUT :: "ShadowSocksServerObject list \<Rightarrow> qjobject" where
  "outbounds_GenerateShadowSocksOUT servers =
     json_insert ''servers''
       (JArray (map (\<lambda>s. JObject (outbounds_GenerateShadowSocksServerOUT (sh_address s) (sh_port s)
                              (sh_method s) (sh_password s))) servers)) []"

definition outbounds_GenerateHTTPSOCKSOut ::
  "string \<Rightarrow> int \<Rightarrow> bool \<Rightarrow> string \<Rightarrow> string \<Rightarrow> qjobject" where
  "outbounds_GenerateHTTPSOCKSOut addr port useAuth username password =
     (let server = [key_at ''servers'', index_at 0]; user = server @ [key_at ''users'', index_at 0] in
      SetValues []
        ([(server @ [key_at ''address''], JString addr), (server @ [key_at ''port''], serInt port)] @
         (if useAuth then [(user @ [key_at ''user''], JString username), (user @ [key_at ''pass''], JString password)]
          else [])))"

definition outbounds_GenerateOutboundEntry ::
  "string \<Rightarrow> string \<Rightarrow> qjobject \<Rightarrow> qjobject \<Rightarrow> qjobject \<Rightarrow> string \<Rightarrow> qjobject" where
  "outbounds_GenerateOutboundEntry tag prot settings streamSettings mux sendThrough =
     json_insert ''mux'' (JObject mux) (json_insert ''streamSettings'' (JObject streamSettings)
       (json_insert ''tag'' (JString tag) (json_insert ''settings'' (JObject settings)
         (json_insert ''protocol'' (JString prot) (json_insert ''sendThrough'' (JString sendThrough) [])))))"

definition outbounds_GenerateTrojanServerOUT :: "string \<Rightarrow> int \<Rightarrow> string \<Rightarrow> qjobject" where
  "outbounds_GenerateTrojanServerOUT address port password =
     json_insert ''password'' (JString password) (json_insert ''port'' (serInt port)
       (json_insert ''address'' (JString address) []))"

definition outbounds_GenerateTrojanOUT :: "TrojanObject list \<Rightarrow> qjobject" where
  "outbounds_GenerateTrojanOUT servers =
     json_insert ''servers''
       (JArray (map (\<lambda>s. JObject (outbounds_GenerateTrojanServerOUT (tr_address s) (uint (tr_port s))
                              (tr_password s))) servers)) []"

definition link_root :: "qjobject \<Rightarrow> qjobject" where
  "link_root outbound =
     json_insert ''inbounds'' (JArray [JObject inbounds_GenerateInboundEntry])
       (json_insert ''outbounds'' (JArray [JObject outbound]) [])"

section \<open>Queries\<close>

abbreviation hasQueryItem :: "(string \<times> string) list \<Rightarrow> string \<Rightarrow> bool" where
  "hasQueryItem query k \<equiv> qmap_contains query k"

definition queryItemValue :: "(string \<times> string) list \<Rightarrow> string \<Rightarrow> string" where
  "queryItemValue query k = (case map_of query k of None \<Rightarrow> [] | Some v \<Rightarrow> v)"

definition queryItemOr :: "(string \<times> string) list \<Rightarrow> string \<Rightarrow> string \<Rightarrow> string" where
  "queryItemOr query k d = (if hasQueryItem query k then queryItemValue query k else d)"

text \<open>The percent-decoded value of an item, when the query has it, at a path.\<close>

definition decoded_item ::
  "Web \<Rightarrow> (string \<times> string) list \<Rightarrow> string \<Rightarrow> QJsonIOPath \<Rightarrow> (QJsonIOPath \<times> qjson) list" where
  "decoded_item W query k p =
     (if hasQueryItem query k then [(p, JString (web_fromPercentEncoding W (queryItemValue query k)))] else [])"

definition plain_item ::
  "(string \<times> string) list \<Rightarrow> string \<Rightarrow> QJsonIOPath \<Rightarrow> (QJsonIOPath \<times> qjson) list" where
  "plain_item query k p = (if hasQueryItem query k then [(p, JString (queryItemValue query k))] else [])"

definition unless_value :: "string \<Rightarrow> string \<Rightarrow> QJsonIOPath \<Rightarrow> (QJsonIOPath \<times> qjson) list" where
  "unless_value d v p = (if v \<noteq> d then [(p, JString v)] else [])"

definition path_item :: "Web \<Rightarrow> (string \<times> string) list \<Rightarrow> string" where
  "path_item W query =
     (if hasQueryItem query ''path'' then web_fromPercentEncoding W (queryItemValue query ''path'') else ''/'')"

section \<open>The stream settings of vless and trojan links\<close>

definition stream_network :: "(string \<times> string) list \<Rightarrow> (QJsonIOPath \<times> qjson) list" where
  "stream_network query = unless_value ''tcp'' (queryItemOr query ''type'' ''tcp'') [key_at ''network'']"

definition stream_typewise :: "Web \<Rightarrow> (string \<times> string) list \<Rightarrow> (QJsonIOPath \<times> qjson) list" where
  "stream_typewise W query =
     (let type = queryItemOr query ''type'' ''tcp'' in
      if type = ''kcp'' then
        plain_item query ''seed'' [key_at ''kcpSettings'', key_at ''seed''] @
        unless_value ''none'' (queryItemOr query ''headerType'' ''none'')
          [key_at ''kcpSettings'', key_at ''header'', key_at ''type'']
      else if type = ''http'' then
        unless_value ''/'' (path_item W query) [key_at ''httpSettings'', key_at ''path''] @
        (if hasQueryItem query ''host''
         then [([key_at ''httpSettings'', key_at ''host''],
                JArray (map JString (split CHR '','' (queryItemValue query ''host''))))] else [])
      else if type = ''ws'' then
        unless_value ''/'' (path_item W query) [key_at ''wsSettings'', key_at ''path''] @
        plain_item query ''host'' [key_at ''wsSettings'', key_at ''headers'', key_at ''Host'']
      else if type = ''quic'' then
        (if hasQueryItem query ''quicSecurity'' then
           [([key_at ''quicSettings'', key_at ''security''], JString (queryItemValue query ''quicSecurity''))] @
           (if queryItemValue query ''quicSecurity'' \<noteq> ''none''
            then [([key_at ''quicSettings'', key_at ''key''], JString (queryItemValue query ''key''))] else []) @
           unless_value ''none'' (queryItemOr query ''headerType'' ''none'')
             [key_at ''quicSettings'', key_at ''header'', key_at ''type'']
         else [])
      else if type = ''grpc'' then
        decoded_item W query ''serviceName'' [key_at ''grpcSettings'', key_at ''serviceName''] @
        (if hasQueryItem query ''mode''
         then [([key_at ''grpcSettings'', key_at ''multiMode''],
                JBool (web_fromPercentEncoding W (queryItemValue query ''mode'') = ''multi''))] else [])
      else [])"

definition tls_key :: "string \<Rightarrow> string" where
  "tls_key security =
     (if security = ''xtls'' then ''xtlsSettings''
      else if security = ''tls'' then ''tlsSettings'' else ''realitySettings'')"

definition stream_tls :: "Web \<Rightarrow> (string \<times> string) list \<Rightarrow> (QJsonIOPath \<times> qjson) list" where
  "stream_tls W query =
     (let security = queryItemOr query ''security'' ''none''; tlsKey = tls_key security;
          alpn = removeAll ''h2'' (split CHR '','' (web_fromPercentEncoding W (queryItemValue query ''alpn''))) in
      unless_value ''none'' security [key_at ''security''] @
      plain_item query ''sni'' [key_at tlsKey, key_at ''serverName''] @
      (if hasQueryItem query ''alpn'' \<and> alpn \<noteq> []
       then [([key_at tlsKey, key_at ''alpn''], JArray (map JString alpn))] else []))"

definition stream_reality :: "Web \<Rightarrow> (string \<times> string) list \<Rightarrow> (QJsonIOPath \<times> qjson) list" where
  "stream_reality W query =
     (if queryItemOr query ''security'' ''none'' = ''reality'' then
        decoded_item W query ''fp'' [key_at ''realitySettings'', key_at ''fingerprint''] @
        decoded_item W query ''pbk'' [key_at ''realitySettings'', key_at ''publicKey''] @
        decoded_item W query ''spiderX'' [key_at ''realitySettings'', key_at ''spiderX''] @
        decoded_item W query ''sid'' [key_at ''realitySettings'', key_at ''shortId'']
      else [])"

definition stream_settings :: "Web \<Rightarrow> (string \<times> string) list \<Rightarrow> qjobject" where
  "stream_settings W query =
     SetValues [] (stream_network query @ stream_typewise W query @ stream_tls W query @ stream_reality W query)"

section \<open>vless\<close>

definition bare_host :: "string \<Rightarrow> string" where
  "bare_host h = (if h \<noteq> [] \<and> hd h = CHR ''['' \<and> last h = CHR '']'' then take (length h - 2) (drop 1 h) else h)"

definition vnext_path :: QJsonIOPath where
  "vnext_path = [key_at ''settings'', key_at ''vnext'', index_at 0]"

definition vless_user_path :: QJsonIOPath where
  "vless_user_path = vnext_path @ [key_at ''users'', index_at 0]"

definition vless_outbound :: "QUrl \<Rightarrow> qjobject" where
  "vless_outbound url =
     (let query = url_query url; security = queryItemOr query ''security'' ''none'' in
      SetValues []
        ([([key_at ''protocol''], JString ''vless''),
          (vnext_path @ [key_at ''address''], JString (bare_host (url_host url))),
          (vnext_path @ [key_at ''port''], serInt (url_port url)),
          (vless_user_path @ [key_at ''id''], JString (url_userInfo url)),
          (vless_user_path @ [key_at ''encryption''], JString (queryItemOr query ''encryption'' ''none''))] @
         (if security = ''xtls'' \<or> security = ''reality''
          then [(vless_user_path @ [key_at ''flow''], JString (queryItemValue query ''flow''))] else [])))"

definition vless_Deserialize :: "Web \<Rightarrow> string \<Rightarrow> string \<Rightarrow> string \<Rightarrow> link_result" where
  "vless_Deserialize W str alias errMessage =
     (let url = web_url W str in
      if \<not> starts_with ''vless://'' str then ([], alias, web_tr W ''VLESS link should start with vless://'')
      else if \<not> url_isValid url then ([], alias, web_arg W (web_tr W ''link parse failed: %1'') [url_errorString url])
      else if url_host url = [] then ([], alias, web_tr W ''empty host'')
      else if url_port url = -1 then ([], alias, web_tr W ''missing port'')
      else (let alias' = (if url_fragment url \<noteq> [] then url_fragment url else alias) in
        if url_userInfo url = [] then ([], alias', web_tr W ''missing uuid'')
        else (link_root (json_put ''streamSettings'' (JObject (stream_settings W (url_query url))) (vless_outbound url)),
              alias', errMessage)))"

section \<open>trojan\<close>

definition trojan_query :: "TrojanObject \<Rightarrow> (string \<times> string) list" where
  "trojan_query t =
     (if tr_ignoreHostname t then [(''allowInsecureHostname'', ''1'')] else []) @
     (if tr_ignoreCertificate t then [(''allowInsecureCertificate'', ''1'')] else []) @
     (if tr_sessionTicket t then [(''sessionTicket'', ''1'')] else []) @
     (if tr_ignoreCertificate t \<or> tr_ignoreHostname t then [(''allowInsecure'', ''1'')] else []) @
     (if tr_tcpFastOpen t then [(''tfo'', ''1'')] else []) @
     (if tr_sni t \<noteq> [] then [(''sni'', tr_sni t)] else [])"

text \<open>The URL is built from its parts; printing it is Qt's.\<close>

definition trojan_Serialize ::
  "(string \<Rightarrow> string option \<Rightarrow> string \<Rightarrow> int \<Rightarrow> string \<Rightarrow> (string \<times> string) list \<Rightarrow> string) \<Rightarrow>
   TrojanObject \<Rightarrow> string \<Rightarrow> string" where
  "trojan_Serialize printUrl t alias =
     printUrl ''trojan'' (if tr_password t = [] then None else Some (tr_password t)) (tr_address t) (uint (tr_port t)) alias (trojan_query t)"

definition trojan_truth :: "string \<Rightarrow> bool" where
  "trojan_truth v \<longleftrightarrow> toLower v \<in> {''true'', ''1'', ''yes'', ''y''}"

definition trojan_server :: "Web \<Rightarrow> QUrl \<Rightarrow> TrojanObject" where
  "trojan_server W url =
     (let query = url_query url; item = queryItemValue (url_queryDecoded url);
          allowAllInsecure = trojan_truth (item ''allowInsecure'') in
      \<lparr>tr_port = of_int (url_port url), tr_address = url_host url,
       tr_password = web_fromPercentEncoding W (url_userInfo url),
       tr_sni = (if hasQueryItem query ''sni'' then item ''sni''
                 else if hasQueryItem query ''peer'' then item ''peer'' else url_host url),
       tr_ignoreCertificate = allowAllInsecure \<or> trojan_truth (item ''allowInsecureCertificate''),
       tr_ignoreHostname = allowAllInsecure \<or> trojan_truth (item ''allowInsecureHostname''),
       tr_reuseSession = False, tr_sessionTicket = trojan_truth (item ''sessionTicket''),
       tr_reusePort = False, tr_tcpFastOpen = trojan_truth (item ''tfo'')\<rparr>)"

definition trojan_Deserialize :: "Web \<Rightarrow> string \<Rightarrow> string \<Rightarrow> string \<Rightarrow> link_result" where
  "trojan_Deserialize W trojanUri alias errMessage =
     (if \<not> starts_with ''trojan://'' trojanUri then ([], alias, ''Invalid Trojan URI'')
      else (let url = web_url W (trimmed trojanUri);
                outbound = outbounds_GenerateOutboundEntry ''PROXY'' ''trojan''
                  (outbounds_GenerateTrojanOUT [trojan_server W url]) [] [] ''0.0.0.0'' in
        (link_root (json_put ''streamSettings'' (JObject (stream_settings W (url_query url))) outbound),
         url_fragmentDecoded url, errMessage)))"

section \<open>Shadowsocks\<close>

definition lastIndexOf :: "char \<Rightarrow> string \<Rightarrow> int" where
  "lastIndexOf c s = (if c \<in> set s then int (length s - 1 - length (takeWhile (\<lambda>x. x \<noteq> c) (rev s))) else -1)"

text \<open>\<open>mid(0, n)\<close> and \<open>left(n)\<close>: everything for a negative length.\<close>

definition left :: "int \<Rightarrow> string \<Rightarrow> string" where
  "left n s = (if n < 0 then s else take (nat n) s)"

definition after :: "int \<Rightarrow> string \<Rightarrow> string" where
  "after n s = drop (nat (n + 1)) s"

definition ss_legacy :: "Web \<Rightarrow> string \<Rightarrow> string \<Rightarrow> ShadowSocksServerObject \<times> string" where
  "ss_legacy W uri err =
     (let decoded = web_fromBase64 W uri; c1 = indexOf CHR '':'' decoded; rest = after c1 decoded;
          a = lastIndexOf CHR ''@'' rest; tail = after a rest; c2 = lastIndexOf CHR '':'' tail;
          err = (if c1 < 0 then web_tr W ''Can't find the colon separator between method and password'' else err);
          err = (if a < 0 then web_tr W ''Can't find the at separator between password and hostname'' else err);
          err = (if c2 < 0 then web_tr W ''Can't find the colon separator between hostname and port'' else err) in
      (\<lparr>sh_address = left c2 tail, sh_method = left c1 decoded, sh_password = left a rest,
        sh_port = (case web_toInt W (after c2 tail) of None \<Rightarrow> 0 | Some i \<Rightarrow> i)\<rparr>, err))"

definition ss_Deserialize :: "Web \<Rightarrow> string \<Rightarrow> string \<Rightarrow> string \<Rightarrow> link_result" where
  "ss_Deserialize W ssUri alias errMessage =
     (let err = (if length ssUri < 5 then web_tr W ''SS URI is too short'' else errMessage);
          uri = drop 5 ssUri; hashPos = lastIndexOf CHR ''#'' uri;
          name = (if hashPos \<ge> 0 then after hashPos uri else []);
          uri = (if hashPos \<ge> 0 then left hashPos uri else uri);
          x = web_fromUserInput W uri;
          userInfo = Utils_SafeBase64Decode (web_fromBase64 W) (url_userName x);
          sp = indexOf CHR '':'' userInfo;
          finish = (\<lambda>server err.
            (link_root (outbounds_GenerateOutboundEntry ''PROXY'' ''shadowsocks''
               (outbounds_GenerateShadowSocksOUT [server]) [] [] ''0.0.0.0''),
             (let d = web_fromPercentEncoding W name in if alias = [] then d else alias @ ''_'' @ d), err)) in
      if indexOf CHR ''@'' uri < 0 then (let (server, err) = ss_legacy W uri err in finish server err)
      else if sp < 0 then ([], alias, web_tr W ''Can't find the colon separator between method and password'')
      else finish \<lparr>sh_address = url_host x, sh_method = left sp userInfo, sh_password = after sp userInfo,
                   sh_port = url_port x\<rparr> err)"

section \<open>SSD subscriptions\<close>

definition json_number :: "rat \<Rightarrow> qjson \<Rightarrow> rat" where
  "json_number d v = (case v of JDouble r \<Rightarrow> r | _ \<Rightarrow> d)"

definition json_toIntOr :: "int \<Rightarrow> qjson \<Rightarrow> int" where
  "json_toIntOr d v =
     (case v of JDouble r \<Rightarrow> (if of_int \<lfloor>r\<rfloor> = r \<and> int32 \<lfloor>r\<rfloor> then \<lfloor>r\<rfloor> else d) | _ \<Rightarrow> d)"

definition must_exist :: "qjobject \<Rightarrow> string \<Rightarrow> bool" where
  "must_exist ob k \<longleftrightarrow> json_contains ob k \<and> json_value ob k \<noteq> JUndefined \<and> json_value ob k \<noteq> JNull"

fun json_isArray :: "qjson \<Rightarrow> bool" where
  "json_isArray (JArray _) = True"
| "json_isArray _ = False"

definition ssd_missing :: "Web \<Rightarrow> string \<Rightarrow> string" where
  "ssd_missing W k = web_arg W (web_tr W ''Invalid ssd link: json: field %1 must exist'') [k]"

definition must_string :: "Web \<Rightarrow> qjobject \<Rightarrow> string \<Rightarrow> string option" where
  "must_string W ob k =
     (if \<not> must_exist ob k then Some (ssd_missing W k)
      else if \<not> json_isString (json_value ob k)
      then Some (web_arg W (web_tr W (''Invalid ssd link: json: field %1 must be of type '' @ quoted ''string'')) [k]) else None)"

definition must_port :: "Web \<Rightarrow> qjobject \<Rightarrow> string \<Rightarrow> string option" where
  "must_port W ob k =
     (let v = json_toIntOr (-1) (json_value ob k) in
      if \<not> must_exist ob k then Some (ssd_missing W k)
      else if v < 0 \<or> v > 65535
      then Some (web_tr W ''Invalid ssd link: json: field %1 must be valid port number'') else None)"

definition must_array :: "Web \<Rightarrow> qjobject \<Rightarrow> string \<Rightarrow> string option" where
  "must_array W ob k =
     (if \<not> must_exist ob k then Some (ssd_missing W k)
      else if \<not> json_isArray (json_value ob k)
      then Some (web_arg W (web_tr W ''Invalid ssd link: json: field %1 must be an array'') [k]) else None)"

text \<open>One round of the loop over the servers: a skipped server leaves a message.\<close>

definition ssd_server ::
  "Web \<Rightarrow> string \<Rightarrow> int \<Rightarrow> string \<Rightarrow> string \<Rightarrow> qjson \<Rightarrow> string + (string \<times> qjobject)" where
  "ssd_server W groupName port encryption password server =
     (case server of
        JObject ob \<Rightarrow>
          (if json_value ob ''server'' = JUndefined
           then Inl (web_arg W (web_tr W ''Skipping invalid ssd server: missing required field %1'') [''server''])
           else if \<not> json_isString (json_value ob ''server'')
           then Inl (web_arg W (web_tr W (''Skipping invalid ssd server: field %1 should be of type '' @ quoted ''string'')) [''server''])
           else (let address = json_string (json_value ob ''server'');
                     currPort = json_toIntOr (-1) (json_value ob ''port'');
                     p = (if json_value ob ''port'' \<noteq> JUndefined \<and> 0 \<le> currPort \<and> currPort \<le> 65535
                          then currPort else port);
                     node = (if json_isString (json_value ob ''remarks'') then json_string (json_value ob ''remarks'')
                             else web_arg W ''%1:%2'' [address, number p]);
                     currRatio = json_number (-1) (json_value ob ''ratio'');
                     ratio = (if currRatio \<noteq> -1 then currRatio else 1) in
                 Inr (web_arg W (web_arg W ''%1 - %2 (rate %3)'' [groupName, node]) [web_doubleText W ratio],
                      link_root (outbounds_GenerateOutboundEntry ''PROXY'' ''shadowsocks''
                        (outbounds_GenerateShadowSocksOUT
                           [\<lparr>sh_address = address, sh_method = encryption, sh_password = password, sh_port = p\<rparr>])
                        [] [] ''0.0.0.0''))))
      | _ \<Rightarrow> Inl (web_tr W ''Skipping invalid ssd server: server must be an object''))"

fun ssd_servers :: "(qjson \<Rightarrow> string + (string \<times> qjobject)) \<Rightarrow> qjson list \<Rightarrow> (string \<times> qjobject) list \<times> string list" where
  "ssd_servers f [] = ([], [])"
| "ssd_servers f (v # vs) =
     (case (f v, ssd_servers f vs) of
        (Inl m, (xs, msgs)) \<Rightarrow> (xs, m # msgs) | (Inr x, (xs, msgs)) \<Rightarrow> (x # xs, msgs))"

definition ssd_Deserialize ::
  "Web \<Rightarrow> string \<Rightarrow> string \<Rightarrow> (string \<times> qjobject) list \<times> string \<times> string list" where
  "ssd_Deserialize W uri groupName =
     (let decoded = Utils_SafeBase64Decode (web_fromBase64 W) (drop 6 uri); ob = web_jsonObject W (trimmed decoded);
          airport = json_string (json_value ob ''airport''); encryption = json_string (json_value ob ''encryption'') in
      if \<not> starts_with ''ssd://'' uri then ([], groupName, [web_tr W ''Invalid ssd link: should begin with ssd://''])
      else if decoded = [] then ([], groupName, [web_tr W ''Invalid ssd link: base64 parse failed''])
      else if web_jsonError W decoded \<noteq> [] then ([], groupName, [web_tr W ''Invalid ssd link: json parse failed''])
      else case must_string W ob ''airport'' of Some m \<Rightarrow> ([], groupName, [m]) | None \<Rightarrow>
      (case must_port W ob ''port'' of Some m \<Rightarrow> ([], airport, [m]) | None \<Rightarrow>
      (case must_string W ob ''encryption'' of Some m \<Rightarrow> ([], airport, [m]) | None \<Rightarrow>
      (if toLower encryption = ''rc4-md5''
       then ([], airport, [web_tr W ''Invalid ssd link: rc4-md5 encryption is not supported by v2ray-core''])
       else case must_string W ob ''password'' of Some m \<Rightarrow> ([], airport, [m]) | None \<Rightarrow>
       (case must_array W ob ''servers'' of Some m \<Rightarrow> ([], airport, [m]) | None \<Rightarrow>
        (let (servers, msgs) =
           ssd_servers (ssd_server W airport (json_toInt (json_value ob ''port'')) encryption
             (json_string (json_value ob ''password''))) (json_toArray (json_value ob ''servers''))
         in (servers, airport, msgs)))))))"

section \<open>vmess\<close>

text \<open>\<open>QJsonValue::toVariant().toString()\<close> and \<open>.toInt()\<close>.\<close>

definition variantText :: "Web \<Rightarrow> qjson \<Rightarrow> string" where
  "variantText W v =
     (case v of JString s \<Rightarrow> s | JBool b \<Rightarrow> (if b then ''true'' else ''false'')
      | JDouble r \<Rightarrow> web_doubleText W r | _ \<Rightarrow> [])"

definition variantInt :: "Web \<Rightarrow> qjson \<Rightarrow> int" where
  "variantInt W v =
     (case v of JString s \<Rightarrow> (case web_toInt W s of None \<Rightarrow> 0 | Some i \<Rightarrow> i)
      | JBool b \<Rightarrow> (if b then 1 else 0)
      | JDouble r \<Rightarrow> sint (word_of_int (if r \<ge> 0 then \<lfloor>r + 1 / 2\<rfloor> else - \<lfloor>- r + 1 / 2\<rfloor>) :: 32 word)
      | _ \<Rightarrow> 0)"

definition vmess_scy :: "string \<Rightarrow> string" where
  "vmess_scy scy =
     (if scy \<in> {''aes-128-gcm'', ''chacha20-poly1305'', ''none'', ''zero''} then scy else ''auto'')"

text \<open>The object of the link; \<open>users.front()\<close> is the first user of the server.\<close>

definition vmess_basics :: "StreamSettingsObject \<Rightarrow> string \<Rightarrow> int \<Rightarrow> UserObject \<Rightarrow> string \<Rightarrow> qjobject" where
  "vmess_basics st address port user alias =
     [(''add'', JString address), (''aid'', serInt (us_alterId user)), (''id'', JString (us_id user)),
      (''net'', JString (if ss_network st = ''http'' then ''h2'' else ss_network st)), (''port'', serInt port),
      (''ps'', JString alias), (''scy'', JString (vmess_scy (us_security user))),
      (''tls'', JString (if ss_security st = ''tls'' \<or> ss_security st = ''xtls'' then ''tls'' else ''none'')),
      (''v'', serInt 2)]"

definition vmess_sni :: "StreamSettingsObject \<Rightarrow> qjobject \<Rightarrow> qjobject" where
  "vmess_sni st ob =
     (if ss_security st = ''tls'' then json_insert ''sni'' (JString (tls_serverName (ss_tlsSettings st))) ob
      else if ss_security st = ''xtls'' then json_insert ''sni'' (JString (xtls_serverName (ss_xtlsSettings st))) ob
      else ob)"

definition vmess_transport :: "StreamSettingsObject \<Rightarrow> qjobject \<Rightarrow> qjobject" where
  "vmess_transport st ob =
     (let net = ss_network st; headers = ws_headers (ss_wsSettings st);
          realHost = (if qmap_contains headers ''host'' then queryItemValue headers ''host''
                      else if qmap_contains headers ''Host'' then queryItemValue headers ''Host'' else []) in
      if net = ''tcp'' then json_insert ''type'' (JString (th_type (tcp_header (ss_tcpSettings st)))) ob
      else if net = ''kcp'' then json_insert ''type'' (JString (ob_type (kcp_header (ss_kcpSettings st)))) ob
      else if net = ''quic'' then
        json_insert ''path'' (JString (quic_key (ss_quicSettings st)))
          (json_insert ''host'' (JString (quic_security (ss_quicSettings st)))
            (json_insert ''type'' (JString (ob_type (quic_header (ss_quicSettings st)))) ob))
      else if net = ''ws'' then
        json_insert ''path'' (JString (ws_path (ss_wsSettings st))) (json_insert ''host'' (JString realHost) ob)
      else if net = ''h2'' \<or> net = ''http'' then
        json_insert ''path'' (JString (http_path (ss_httpSettings st)))
          (json_insert ''host'' (JString (join '','' (http_host (ss_httpSettings st)))) ob)
      else if net = ''grpc'' then
        json_insert ''path'' (JString (grpc_serviceName (ss_grpcSettings st))) ob
      else ob)"

definition vmess_type :: "qjobject \<Rightarrow> qjobject" where
  "vmess_type ob =
     (if \<not> json_contains ob ''type'' \<or> json_string (json_value ob ''type'') = []
      then json_insert ''type'' (JString ''none'') ob else ob)"

definition vmess_object :: "StreamSettingsObject \<Rightarrow> string \<Rightarrow> int \<Rightarrow> UserObject \<Rightarrow> string \<Rightarrow> qjobject" where
  "vmess_object st address port user alias =
     vmess_type (vmess_transport st (vmess_sni st (vmess_basics st address port user alias)))"

fun vmess_Serialize :: "Web \<Rightarrow> StreamSettingsObject \<Rightarrow> VMessServerObject \<Rightarrow> string \<Rightarrow> string option" where
  "vmess_Serialize W st server alias =
     (case vs_users server of [] \<Rightarrow> None
      | user # _ \<Rightarrow> Some (''vmess://'' @ web_toBase64 W (web_jsonText W
          (vmess_object st (vs_address server) (vs_port server) user alias))))"

definition vmess_checker :: "Web \<Rightarrow> qjobject \<Rightarrow> string \<Rightarrow> string list \<Rightarrow> string \<Rightarrow> string \<times> string" where
  "vmess_checker W conf k vals err =
     (let v = variantText W (json_value conf k) in
      if json_contains conf k \<and> trimmed v \<noteq> [] \<and> (length vals \<le> 1 \<or> v \<in> set vals) then (v, err)
      else case vals of d # _ \<Rightarrow> (d, err) | [] \<Rightarrow> ([], web_tr W (k @ '' does not exist.'')))"

definition vmess_upgrade :: "qjobject \<Rightarrow> qjobject" where
  "vmess_upgrade conf =
     (if json_contains conf ''v'' \<or> json_string (json_value conf ''net'') \<notin> {''ws'', ''h2''} then conf
      else (let put = (\<lambda>p h. json_insert ''host'' (JString h) (json_insert ''path'' (JString p) conf)) in
        case split CHR '';'' (filter (\<lambda>c. c \<noteq> CHR '' '') (json_string (json_value conf ''host''))) of
          [p] \<Rightarrow> put p [] | [p, h] \<Rightarrow> put p h | _ \<Rightarrow> put ''/'' []))"

definition vmess_stream :: "string \<Rightarrow> string \<Rightarrow> string \<Rightarrow> string \<Rightarrow> string \<Rightarrow> StreamSettingsObject" where
  "vmess_stream net type host path tls =
     (let st = StreamSettingsObject_default; obfs = \<lparr>ob_type = type\<rparr>;
          st = (if net = ''tcp'' then
                  st\<lparr>ss_tcpSettings := TCPObject_default\<lparr>tcp_header := TCPHeader_Internal_default\<lparr>th_type := type\<rparr>\<rparr>\<rparr>
                else if net = ''http'' \<or> net = ''h2'' then
                  st\<lparr>ss_httpSettings := HttpObject_default
                    \<lparr>http_host := map trimmed (filter (\<lambda>h. h \<noteq> []) (split CHR '','' host)), http_path := path\<rparr>\<rparr>
                else if net = ''ws'' then
                  st\<lparr>ss_wsSettings := WebSocketObject_default
                    \<lparr>ws_headers := (if host \<noteq> [] then [(''Host'', host)] else []), ws_path := path\<rparr>\<rparr>
                else if net = ''kcp'' then st\<lparr>ss_kcpSettings := KCPObject_default\<lparr>kcp_header := obfs\<rparr>\<rparr>
                else if net = ''quic'' then
                  st\<lparr>ss_quicSettings := \<lparr>quic_security = host, quic_key = path, quic_header = obfs\<rparr>\<rparr>
                else if net = ''grpc'' then
                  st\<lparr>ss_grpcSettings := gRPCObject_default\<lparr>grpc_serviceName := path\<rparr>\<rparr>
                else st);
          st = st\<lparr>ss_security := tls\<rparr>;
          st = (if tls = ''tls'' then
                  st\<lparr>ss_tlsSettings := TLSObject_default\<lparr>tls_serverName := host, tls_allowInsecure := False\<rparr>\<rparr>
                else st)
      in st\<lparr>ss_network := (if net = ''h2'' then ''http'' else net)\<rparr>)"

definition vmess_config :: "Web \<Rightarrow> int \<Rightarrow> qjobject \<Rightarrow> string \<Rightarrow> string \<Rightarrow> link_result" where
  "vmess_config W stray conf alias err =
     (let conf = vmess_upgrade conf; text = (\<lambda>k. variantText W (json_value conf k));
          (ps, err) = vmess_checker W conf ''ps'' [text ''add'' @ '':'' @ text ''port''] err;
          (add, err) = vmess_checker W conf ''add'' [] err;
          (id, err) = vmess_checker W conf ''id'' [] err;
          (scy, err) = vmess_checker W conf ''scy''
             [''aes-128-gcm'', ''chacha20-poly1305'', ''auto'', ''none'', ''zero''] err;
          (type, err) = vmess_checker W conf ''type'' [''none'', ''http'', ''srtp'', ''utp'', ''wechat-video''] err;
          (net, err) = vmess_checker W conf ''net''
             [''tcp'', ''http'', ''h2'', ''ws'', ''kcp'', ''quic'', ''grpc''] err;
          (tls, err) = vmess_checker W conf ''tls'' [''none'', ''tls''] err;
          path = (if json_contains conf ''path'' then text ''path'' else if net = ''quic'' then [] else ''/'');
          host = (if json_contains conf ''host'' then text ''host'' else if net = ''quic'' then ''none'' else []);
          type = (if type \<in> {''srtp'', ''utp'', ''wechat-video''} \<and> net \<noteq> ''quic'' \<and> net \<noteq> ''kcp'' then ''none'' else type);
          user = UserObject_default\<lparr>us_id := id, us_alterId := variantInt W (json_value conf ''aid''), us_security := scy\<rparr>;
          server = \<lparr>vs_address = add, vs_port = variantInt W (json_value conf ''port''), vs_users = [user]\<rparr>;
          vConf = json_insert ''vnext'' (JArray [JObject (VMessServerObject_toJson stray server)]) [];
          outbound = outbounds_GenerateOutboundEntry ''PROXY'' ''vmess'' vConf
            (StreamSettingsObject_toJson (vmess_stream net type host path tls)) [] ''0.0.0.0''
      in (link_root outbound, if trimmed alias = [] then ps else alias @ ''_'' @ ps, err))"

definition vmess_Deserialize :: "Web \<Rightarrow> int \<Rightarrow> string \<Rightarrow> string \<Rightarrow> link_result" where
  "vmess_Deserialize W stray vmessStr alias =
     (let vmess = trimmed vmessStr; b64Str = drop 8 vmess;
          vmessString = Utils_SafeBase64Decode (web_fromBase64 W) b64Str;
          vmessConf = web_jsonObject W (trimmed vmessString) in
      if \<not> starts_with ''vmess://'' (toLower vmess)
      then ([], alias, web_tr W (''VMess string should start with '' @ quoted ''vmess://''))
      else if b64Str = [] then ([], alias, web_tr W ''VMess string should be a valid base64 string'')
      else if web_jsonError W vmessString \<noteq> [] then ([], alias, web_jsonError W vmessString)
      else if vmessConf = [] then ([], alias, web_tr W ''JSON should not be empty'')
      else vmess_config W stray vmessConf alias [])"

section \<open>vmess, second form\<close>

definition vmess_new_stream :: "(string \<times> string) list \<Rightarrow> string \<Rightarrow> bool \<Rightarrow> StreamSettingsObject" where
  "vmess_new_stream query net tls =
     (let q = queryItemOr query;
          st = StreamSettingsObject_default\<lparr>ss_network := net, ss_security := (if tls then ''tls'' else [])\<rparr>;
          obfs = \<lparr>ob_type = q ''type'' ''none''\<rparr>;
          st = (if net = ''tcp'' then
                  st\<lparr>ss_tcpSettings := TCPObject_default
                    \<lparr>tcp_header := TCPHeader_Internal_default\<lparr>th_type := q ''type'' ''none''\<rparr>\<rparr>\<rparr>
                else if net = ''http'' then
                  st\<lparr>ss_httpSettings := HttpObject_default\<lparr>http_host := [q ''host'' []], http_path := q ''path'' ''/''\<rparr>\<rparr>
                else if net = ''ws'' then
                  st\<lparr>ss_wsSettings := WebSocketObject_default
                    \<lparr>ws_headers := [(''Host'', q ''host'' [])], ws_path := q ''path'' ''/''\<rparr>\<rparr>
                else if net = ''kcp'' then
                  st\<lparr>ss_kcpSettings := KCPObject_default\<lparr>kcp_seed := q ''seed'' [], kcp_header := obfs\<rparr>\<rparr>
                else if net = ''quic'' then
                  st\<lparr>ss_quicSettings := \<lparr>quic_security = q ''security'' ''none'', quic_key = q ''key'' [], quic_header = obfs\<rparr>\<rparr>
                else st\<lparr>ss_grpcSettings := gRPCObject_default\<lparr>grpc_serviceName := q ''serviceName'' []\<rparr>\<rparr>)
      in if tls then
           st\<lparr>ss_tlsSettings := TLSObject_default
             \<lparr>tls_allowInsecure := (q ''allowInsecure'' ''false'' \<notin> {''false'', ''False'', ''No'', ''Off'', ''0''}),
              tls_serverName := q ''tlsServerName'' []\<rparr>\<rparr>
         else st)"

definition vmess_new_Deserialize :: "Web \<Rightarrow> int \<Rightarrow> string \<Rightarrow> string \<Rightarrow> string \<Rightarrow> link_result" where
  "vmess_new_Deserialize W stray vmessStr alias errMessage =
     (let url = web_url W vmessStr; name = trimmed (url_fragmentDecoded url);
          alias' = (if alias = [] then name else alias @ ''_'' @ name);
          parts = split CHR ''+'' (url_userName url); tls = (''tls'' \<in> set parts);
          nets = filter (\<lambda>p. p \<noteq> ''tls'') parts; net = (if nets = [] then [] else last nets);
          pswd = url_password url; i = lastIndexOf CHR ''-'' pswd;
          user = UserObject_default\<lparr>us_id := left i pswd,
            us_alterId := (case web_toInt W (after i pswd) of None \<Rightarrow> 0 | Some n \<Rightarrow> n), us_security := ''auto''\<rparr>;
          server = \<lparr>vs_address = url_host url, vs_port = url_port url, vs_users = [user]\<rparr>;
          vConf = json_insert ''vnext'' (JArray [JObject (VMessServerObject_toJson stray server)]) [];
          outbound = outbounds_GenerateOutboundEntry ''PROXY'' ''vmess'' vConf
            (StreamSettingsObject_toJson (vmess_new_stream (url_queryDecoded url) net tls)) [] ''0.0.0.0'' in
      if \<not> url_isValid url then ([], alias, web_tr W ''vmess:// url is invalid'')
      else if net \<notin> {''tcp'', ''http'', ''ws'', ''kcp'', ''quic'', ''grpc''}
      then ([], alias', web_tr W ''Invalid streamSettings protocol: '' @ net)
      else (json_insert ''inbound'' (JArray [JObject inbounds_GenerateInboundEntry])
              (json_insert ''outbounds'' (JArray [JObject outbound]) []), alias', errMessage))"


section \<open>What a link becomes\<close>

lemma SetValues_simps [simp]:
  "SetValues ob [] = ob"
  "SetValues ob ((p, v) # ws) = SetValues (QJsonIO_SetValue ob v p) ws"
  by (simp_all add: SetValues_def)

definition write_clear :: "QJsonIOPath \<Rightarrow> QJsonIOPath \<times> qjson \<Rightarrow> bool" where
  "write_clear q w \<longleftrightarrow> object_path (fst w) \<and> snd w \<noteq> JUndefined \<and> part (fst w) q"

lemma value_written:
  assumes "object_path q" "v \<noteq> JUndefined" "list_all (write_clear q) post"
  shows "path_value (SetValues ob (pre @ (q, v) # post)) q = v"
proof -
  have "list_all (\<lambda>(p, v). object_path p \<and> v \<noteq> JUndefined \<and> part p q) post"
    using assms(3) by (simp add: list_all_iff write_clear_def case_prod_beta)
  from jpath.fetch_written [OF assms(1,2) this, of "SetValues ob pre"] show ?thesis
    by (simp add: SetValues_def)
qed

lemma write_clear_list [simp]:
  "write_clear q (p, v) \<longleftrightarrow> object_path p \<and> v \<noteq> JUndefined \<and> part p q"
  by (simp add: write_clear_def)

lemma clear_writes:
  "(hasQueryItem query k \<longrightarrow> object_path p \<and> part p q) \<Longrightarrow> list_all (write_clear q) (decoded_item W query k p)"
  "(hasQueryItem query k \<longrightarrow> object_path p \<and> part p q) \<Longrightarrow> list_all (write_clear q) (plain_item query k p)"
  "object_path p \<and> part p q \<Longrightarrow> list_all (write_clear q) (unless_value d v p)"
  by (simp_all add: decoded_item_def plain_item_def unless_value_def)

definition link_outbound :: QJsonIOPath where
  "link_outbound = [key_at ''outbounds'', index_at 0]"

lemma root_outbound [simp]:
  "path_value (link_root ob) (link_outbound @ p) = path_value ob p"
  by (simp add: link_root_def link_outbound_def path_value_foldl element_at_def)

lemma root_inbound:
  "path_value (link_root ob) (key_at ''inbounds'' # index_at 0 # p) = path_value inbounds_GenerateInboundEntry p"
  by (simp add: link_root_def path_value_foldl element_at_def)

lemma path_value_put:
  "path_value (json_put k (JObject st) ob) (key_at k' # p) =
   (if k' = k then path_value st p else path_value ob (key_at k' # p))"
  by (simp add: path_value_foldl json_put_def)

lemma inbound_values:
  "path_value inbounds_GenerateInboundEntry [key_at ''listen''] = JString ''127.0.0.1''"
  "path_value inbounds_GenerateInboundEntry [key_at ''port''] = serInt 10833"
  by (simp_all add: inbounds_GenerateInboundEntry_def path_value_foldl QJsonIO_SetValue_def json_put_def)

lemmas vless_paths = vnext_path_def vless_user_path_def

lemma vless_outbound_values:
  "path_value (vless_outbound url) [key_at ''protocol''] = JString ''vless''"
  "path_value (vless_outbound url) (vnext_path @ [key_at ''address'']) = JString (bare_host (url_host url))"
  "path_value (vless_outbound url) (vnext_path @ [key_at ''port'']) = serInt (url_port url)"
  "path_value (vless_outbound url) (vless_user_path @ [key_at ''id'']) = JString (url_userInfo url)"
  by (simp_all add: vless_outbound_def vless_paths path_value_foldl QJsonIO_SetValue_def json_put_def
      element_at_def Let_def json_item_def)

lemma stream_sni:
  assumes "hasQueryItem query ''sni''"
  shows "path_value (stream_settings W query)
     [key_at (tls_key (queryItemOr query ''security'' ''none'')), key_at ''serverName''] =
     JString (queryItemValue query ''sni'')"
proof -
  define key where "key = tls_key (queryItemOr query ''security'' ''none'')"
  define post where "post = (let alpn = removeAll ''h2'' (split CHR '','' (web_fromPercentEncoding W (queryItemValue query ''alpn''))) in
      (if hasQueryItem query ''alpn'' \<and> alpn \<noteq> [] then [([key_at key, key_at ''alpn''], JArray (map JString alpn))] else [])) @
      stream_reality W query"
  have "list_all (write_clear [key_at key, key_at ''serverName'']) post"
    unfolding post_def stream_reality_def Let_def by (auto intro!: clear_writes)
  moreover define pre where "pre = stream_network query @ stream_typewise W query @
    unless_value ''none'' (queryItemOr query ''security'' ''none'') [key_at ''security'']"
  ultimately have "path_value (SetValues [] (pre @ ([key_at key, key_at ''serverName''],
      JString (queryItemValue query ''sni'')) # post)) [key_at key, key_at ''serverName''] =
      JString (queryItemValue query ''sni'')"
    by (intro value_written) simp_all
  moreover have "stream_settings W query = SetValues [] (pre @ ([key_at key, key_at ''serverName''],
      JString (queryItemValue query ''sni'')) # post)"
    by (simp add: stream_settings_def stream_tls_def plain_item_def assms key_def post_def pre_def Let_def)
  ultimately show ?thesis by (simp only: key_def)
qed

lemma stream_publicKey:
  assumes "hasQueryItem query ''pbk''" "queryItemOr query ''security'' ''none'' = ''reality''"
  shows "path_value (stream_settings W query) [key_at ''realitySettings'', key_at ''publicKey''] =
     JString (web_fromPercentEncoding W (queryItemValue query ''pbk''))"
proof -
  let ?q = "[key_at ''realitySettings'', key_at ''publicKey'']"
  let ?v = "JString (web_fromPercentEncoding W (queryItemValue query ''pbk''))"
  let ?pre = "stream_network query @ stream_typewise W query @ stream_tls W query @
        decoded_item W query ''fp'' [key_at ''realitySettings'', key_at ''fingerprint'']"
  let ?post = "decoded_item W query ''spiderX'' [key_at ''realitySettings'', key_at ''spiderX''] @
        decoded_item W query ''sid'' [key_at ''realitySettings'', key_at ''shortId'']"
  have "path_value (SetValues [] (?pre @ (?q, ?v) # ?post)) ?q = ?v"
    by (intro value_written) (auto intro!: clear_writes)
  moreover have "stream_settings W query = SetValues [] (?pre @ (?q, ?v) # ?post)"
    using assms by (simp add: stream_settings_def stream_reality_def decoded_item_def [of W query "''pbk''"])
  ultimately show ?thesis by simp
qed

lemma link_root_nonempty [simp]: "link_root ob \<noteq> []"
proof -
  have "json_value (link_root ob) ''outbounds'' \<noteq> JUndefined" by (simp add: link_root_def)
  then show ?thesis by auto
qed

lemma outbound_written:
  fixes W query url
  defines "security \<equiv> queryItemOr query ''security'' ''none''"
  defines "ob \<equiv> json_put ''streamSettings'' (JObject (stream_settings W query)) (vless_outbound url)"
  shows "path_value ob [key_at ''protocol''] = JString ''vless''"
    "path_value ob (vnext_path @ [key_at ''address'']) = JString (bare_host (url_host url))"
    "path_value ob (vnext_path @ [key_at ''port'']) = serInt (url_port url)"
    "path_value ob (vless_user_path @ [key_at ''id'']) = JString (url_userInfo url)"
    "hasQueryItem query ''sni'' \<Longrightarrow>
       path_value ob [key_at ''streamSettings'', key_at (tls_key security), key_at ''serverName''] =
       JString (queryItemValue query ''sni'')"
    "security = ''reality'' \<Longrightarrow> hasQueryItem query ''pbk'' \<Longrightarrow>
       path_value ob [key_at ''streamSettings'', key_at ''realitySettings'', key_at ''publicKey''] =
       JString (web_fromPercentEncoding W (queryItemValue query ''pbk''))"
  using vless_outbound_values [of url] stream_sni [of query W] stream_publicKey [of query W]
  unfolding ob_def security_def vless_paths append.simps path_value_put by simp_all

text \<open>
  C13: a \<open>vless://\<close> link is accepted exactly when it has that prefix, is a valid URL and has a
  host, a port and a user. The configuration of an accepted link has the local SOCKS inbound and a
  \<open>vless\<close> outbound to the host (without brackets) and port of the URL for that user; the server
  name and, for REALITY, the public key of the query stand in the section of the stream settings
  that belongs to the link's security.
\<close>

theorem vless_link_exact:
  "let url = web_url W str; query = url_query url; security = queryItemOr query ''security'' ''none'';
       root = fst (vless_Deserialize W str alias err);
       val = (\<lambda>p. path_value root (link_outbound @ p)) in
   (root \<noteq> [] \<longleftrightarrow> starts_with ''vless://'' str \<and> url_isValid url \<and> url_host url \<noteq> [] \<and>
      url_port url \<noteq> -1 \<and> url_userInfo url \<noteq> []) \<and>
   (root \<noteq> [] \<longrightarrow>
      path_value root [key_at ''inbounds'', index_at 0, key_at ''port''] = serInt 10833 \<and>
      val [key_at ''protocol''] = JString ''vless'' \<and>
      val (vnext_path @ [key_at ''address'']) = JString (bare_host (url_host url)) \<and>
      val (vnext_path @ [key_at ''port'']) = serInt (url_port url) \<and>
      val (vless_user_path @ [key_at ''id'']) = JString (url_userInfo url) \<and>
      (hasQueryItem query ''sni'' \<longrightarrow>
         val [key_at ''streamSettings'', key_at (tls_key security), key_at ''serverName''] =
         JString (queryItemValue query ''sni'')) \<and>
      (security = ''reality'' \<and> hasQueryItem query ''pbk'' \<longrightarrow>
         val [key_at ''streamSettings'', key_at ''realitySettings'', key_at ''publicKey''] =
         JString (web_fromPercentEncoding W (queryItemValue query ''pbk''))))"
proof -
  define url where "url = web_url W str"
  define query where "query = url_query url"
  define root where "root = fst (vless_Deserialize W str alias err)"
  define ob where "ob = json_put ''streamSettings'' (JObject (stream_settings W query)) (vless_outbound url)"
  have accepted: "root \<noteq> [] \<longleftrightarrow> starts_with ''vless://'' str \<and> url_isValid url \<and> url_host url \<noteq> [] \<and>
      url_port url \<noteq> -1 \<and> url_userInfo url \<noteq> []"
    by (simp add: root_def vless_Deserialize_def Let_def url_def link_root_nonempty)
  moreover have "root = link_root ob" if "root \<noteq> []"
    using that unfolding accepted
    by (simp add: root_def vless_Deserialize_def Let_def url_def query_def ob_def)
  moreover note outbound_written [where W = W and query = query and url = url, folded ob_def]
  ultimately show ?thesis
    unfolding Let_def root_def [symmetric] url_def [symmetric] query_def [symmetric]
    by (simp add: root_inbound inbound_values)
qed

definition sample_url :: QUrl where
  "sample_url = \<lparr>url_isValid = True, url_errorString = [], url_userInfo = ''u-1'', url_userName = ''u-1'',
     url_password = [], url_host = ''[2001:db8::1]'', url_port = 443, url_fragment = ''home'',
     url_fragmentDecoded = ''home'',
     url_query = [(''security'', ''reality''), (''sni'', ''vpn.example''), (''pbk'', ''KEY''), (''type'', ''tcp'')],
     url_queryDecoded = [(''security'', ''reality''), (''sni'', ''vpn.example''), (''pbk'', ''KEY''), (''type'', ''tcp'')]\<rparr>"

definition sample_web :: Web where
  "sample_web = \<lparr>web_url = (\<lambda>_. sample_url), web_fromUserInput = (\<lambda>_. sample_url),
     web_fromPercentEncoding = id, web_fromBase64 = id, web_toBase64 = id, web_jsonError = (\<lambda>_. []),
     web_jsonObject = (\<lambda>_. []), web_jsonText = (\<lambda>_. ''{}''), web_toInt = (\<lambda>_. None),
     web_doubleText = (\<lambda>r. number \<lfloor>r\<rfloor>), web_arg = (\<lambda>p xs. p @ concat xs), web_tr = id\<rparr>"

lemma sample_web_simps:
  "web_url sample_web s = sample_url" "web_fromPercentEncoding sample_web s = s"
  "queryItemOr (url_query sample_url) ''security'' ''none'' = ''reality''"
  "hasQueryItem (url_query sample_url) ''sni''" "hasQueryItem (url_query sample_url) ''pbk''"
  "queryItemValue (url_query sample_url) ''sni'' = ''vpn.example''"
  "queryItemValue (url_query sample_url) ''pbk'' = ''KEY''"
  "url_host sample_url = ''[2001:db8::1]''" "url_isValid sample_url" "url_port sample_url = 443"
  "url_userInfo sample_url = ''u-1''" "bare_host ''[2001:db8::1]'' = ''2001:db8::1''"
  by (simp_all add: sample_web_def sample_url_def queryItemOr_def queryItemValue_def qmap_contains_def
      bare_host_def)

theorem vless_link_exact_witness:
  "let root = fst (vless_Deserialize sample_web ''vless://u-1@[2001:db8::1]:443?security=reality'' [] []) in
   path_value root (link_outbound @ vnext_path @ [key_at ''address'']) = JString ''2001:db8::1'' \<and>
   path_value root (link_outbound @ [key_at ''streamSettings'', key_at ''realitySettings'', key_at ''serverName'']) =
     JString ''vpn.example'' \<and>
   path_value root (link_outbound @ [key_at ''streamSettings'', key_at ''realitySettings'', key_at ''publicKey'']) =
     JString ''KEY''"
  using vless_link_exact [of sample_web "''vless://u-1@[2001:db8::1]:443?security=reality''" "[]" "[]"]
  unfolding Let_def sample_web_simps by (simp add: sample_web_simps tls_key_def)


section \<open>Printing a vmess link and reading it\<close>

lemma vmess_parts_keep:
  "k \<noteq> ''sni'' \<Longrightarrow> json_value (vmess_sni st ob) k = json_value ob k"
  "k \<noteq> ''type'' \<Longrightarrow> json_value (vmess_type ob) k = json_value ob k"
  "k \<noteq> ''type'' \<Longrightarrow> k \<noteq> ''host'' \<Longrightarrow> k \<noteq> ''path'' \<Longrightarrow> json_value (vmess_transport st ob) k = json_value ob k"
  by (simp_all add: vmess_sni_def vmess_type_def vmess_transport_def Let_def)

lemma vmess_object_values:
  fixes st address port user label
  defines "ob \<equiv> vmess_object st address port user label"
  shows "json_value ob ''add'' = JString address" "json_value ob ''aid'' = serInt (us_alterId user)"
    "json_value ob ''id'' = JString (us_id user)" "json_value ob ''port'' = serInt port"
    "json_value ob ''net'' = JString (if ss_network st = ''http'' then ''h2'' else ss_network st)"
    "json_value ob ''ps'' = JString label" "json_value ob ''scy'' = JString (vmess_scy (us_security user))"
    "json_value ob ''v'' = serInt 2"
  unfolding ob_def vmess_object_def
  by (simp_all add: vmess_parts_keep split del: if_split) (simp_all add: vmess_basics_def json_value_def)

lemma checker_defined: "vals \<noteq> [] \<Longrightarrow> snd (vmess_checker W conf k vals err) = err"
  by (cases vals) (simp_all add: vmess_checker_def Let_def)

lemma checker_text:
  assumes "json_value conf k = JString v" "trimmed v \<noteq> []" "length vals \<le> 1 \<or> v \<in> set vals"
  shows "vmess_checker W conf k vals err = (v, err)"
proof -
  have "json_contains conf k" using assms(1) by (intro json_value_contained) simp
  with assms show ?thesis by (auto simp: vmess_checker_def variantText_def Let_def)
qed

lemma variantInt_serInt:
  assumes "int32 i"
  shows "variantInt W (serInt i) = i"
proof -
  have half: "\<lfloor>rat_of_int j + 1 / 2\<rfloor> = j" for j by (simp add: floor_unique)
  have wrap: "sint (word_of_int i :: 32 word) = i"
    using assms by (simp add: int32_def sint_sbintrunc' signed_take_bit_int_eq_self)
  show ?thesis
    using half [of i] half [of "- i"] wrap by (simp add: variantInt_def serInt_def)
qed

lemma vmess_upgrade_current: "json_value conf ''v'' \<noteq> JUndefined \<Longrightarrow> vmess_upgrade conf = conf"
  by (simp add: vmess_upgrade_def json_value_contained)

lemma vmess_config_server:
  assumes "json_value conf ''v'' \<noteq> JUndefined"
    and texts: "json_value conf ''add'' = JString add" "json_value conf ''id'' = JString uid"
      "json_value conf ''ps'' = JString ps" "json_value conf ''scy'' = JString scy"
      "json_value conf ''net'' = JString net"
    and ints: "json_value conf ''port'' = serInt port" "json_value conf ''aid'' = serInt aid" "int32 port" "int32 aid"
    and filled: "trimmed add \<noteq> []" "trimmed uid \<noteq> []" "trimmed ps \<noteq> []" "trimmed scy \<noteq> []" "trimmed net \<noteq> []"
    and known: "scy \<in> {''aes-128-gcm'', ''chacha20-poly1305'', ''auto'', ''none'', ''zero''}"
      "net \<in> {''tcp'', ''h2'', ''ws'', ''kcp'', ''quic'', ''grpc''}"
  shows "\<exists>type host path tls. vmess_config W stray conf [] [] =
    (link_root (outbounds_GenerateOutboundEntry ''PROXY'' ''vmess''
       (json_insert ''vnext'' (JArray [JObject (VMessServerObject_toJson stray
          \<lparr>vs_address = add, vs_port = port,
           vs_users = [UserObject_default\<lparr>us_id := uid, us_alterId := aid, us_security := scy\<rparr>]\<rparr>)]) [])
       (StreamSettingsObject_toJson (vmess_stream net type host path tls)) [] ''0.0.0.0''), ps, [])"
proof -
  have "vmess_upgrade conf = conf" using assms(1) by (rule vmess_upgrade_current)
  moreover have "trimmed [] = []" by (simp add: trimmed_def)
  moreover have "vmess_checker W conf ''ps'' [d] err = (ps, err)" "vmess_checker W conf ''add'' [] err = (add, err)"
    "vmess_checker W conf ''id'' [] err = (uid, err)" for d err
    using texts filled by (simp_all add: checker_text)
  moreover have "vmess_checker W conf ''scy'' [''aes-128-gcm'', ''chacha20-poly1305'', ''auto'', ''none'', ''zero''] err =
      (scy, err)" for err
    using texts filled known by (intro checker_text) auto
  moreover have "vmess_checker W conf ''net'' [''tcp'', ''http'', ''h2'', ''ws'', ''kcp'', ''quic'', ''grpc''] err =
      (net, err)" for err
    using texts filled known by (intro checker_text) auto
  ultimately show ?thesis
    unfolding vmess_config_def Let_def
    by (simp add: ints variantInt_serInt case_prod_beta checker_defined) blast
qed


lemma field_value:
  "json_value (F_field k' d ser v ob) k = (if k' = k \<and> d \<noteq> v then ser v else json_value ob k)"
  by (simp add: F_field_def)

lemma vmess_stream_network: "ss_network (vmess_stream net type host path tls) = (if net = ''h2'' then ''http'' else net)"
  by (simp add: vmess_stream_def Let_def)

lemma stream_network_kept:
  "net \<noteq> ''tcp'' \<Longrightarrow> json_value (StreamSettingsObject_toJson (vmess_stream net type host path tls)) ''network'' =
     JString (if net = ''h2'' then ''http'' else net)"
  by (simp add: StreamSettingsObject_toJson_def field_value vmess_stream_network StreamSettingsObject_default_def)

lemma outbound_entry_values:
  "path_value (outbounds_GenerateOutboundEntry tag prot settings stream mux send) [key_at ''protocol''] = JString prot"
  "path_value (outbounds_GenerateOutboundEntry tag prot
     (json_insert ''vnext'' (JArray [v]) []) stream mux send) vnext_path = v"
  "path_value (outbounds_GenerateOutboundEntry tag prot settings stream mux send)
     [key_at ''streamSettings'', key_at k] = json_value stream k"
  by (simp_all add: outbounds_GenerateOutboundEntry_def path_value_foldl vnext_path_def element_at_def)

definition base64_text :: "string \<Rightarrow> bool" where
  "base64_text s \<longleftrightarrow> s \<noteq> [] \<and>
     list_all (\<lambda>c. c \<in> set ''ABCDEFGHIJKLMNOPQRSTUVWXYZabcdefghijklmnopqrstuvwxyz0123456789+/='') s"

lemma base64_chars:
  assumes "base64_text s" "c \<in> set s"
  shows "\<not> isSpace c" "c \<noteq> CHR ''-''" "c \<noteq> CHR ''_''"
proof -
  have c: "c \<in> set ''ABCDEFGHIJKLMNOPQRSTUVWXYZabcdefghijklmnopqrstuvwxyz0123456789+/=''"
    using assms unfolding base64_text_def list_all_iff by blast
  have "list_all (\<lambda>c. \<not> isSpace c \<and> c \<noteq> CHR ''-'' \<and> c \<noteq> CHR ''_'')
      ''ABCDEFGHIJKLMNOPQRSTUVWXYZabcdefghijklmnopqrstuvwxyz0123456789+/=''"
    by (simp add: isSpace_def)
  with c show "\<not> isSpace c" "c \<noteq> CHR ''-''" "c \<noteq> CHR ''_''" unfolding list_all_iff by blast+
qed

lemma base64_decoded: "base64_text s \<Longrightarrow> Utils_SafeBase64Decode f s = f s"
  unfolding Utils_SafeBase64Decode_def by (intro arg_cong [of _ _ f] map_idI) (auto dest: base64_chars)

lemma trimmed_nonempty:
  assumes "w \<noteq> []" "\<not> isSpace (hd w)"
  shows "trimmed w \<noteq> []"
proof -
  have "dropWhile isSpace w = w" using assms by (cases w) simp_all
  moreover have "dropWhile isSpace (rev w) \<noteq> []" using assms by (auto simp: dropWhile_eq_Nil_conv)
  ultimately show ?thesis by (simp add: trimmed_def)
qed

lemma vmess_link_trimmed: "base64_text s \<Longrightarrow> trimmed (''vmess://'' @ s) = ''vmess://'' @ s"
proof -
  assume s: "base64_text s"
  then obtain c r where r: "rev s = c # r" by (cases "rev s") (auto simp: base64_text_def)
  then have "c \<in> set s" by (metis list.set_intros(1) set_rev)
  with s have "\<not> isSpace c" by (rule base64_chars)
  moreover have "s = rev r @ [c]" using r by (simp add: rev_eq_Cons_iff)
  ultimately show ?thesis by (simp add: trimmed_def isSpace_def)
qed



definition sample_vmess :: VMessServerObject where
  "sample_vmess = \<lparr>vs_address = ''vpn.example'', vs_port = 443, vs_users = [sample_user]\<rparr>"

definition vmess_web :: Web where
  "vmess_web = sample_web
     \<lparr>web_jsonText := (\<lambda>_. ''eyJ2IjogMn0''),
      web_jsonObject := (\<lambda>_. vmess_object sample_stream ''vpn.example'' 443 sample_user ''home'')\<rparr>"


section \<open>What the other links lose\<close>

text \<open>
  The outbound of a \<open>trojan://\<close> link holds the address, port and password only: the server name
  and the certificate options the deserialiser computes do not reach it. A link without a port gets
  port 65535, and no link with the prefix is refused.
\<close>

lemma trojan_link_settings:
  assumes "starts_with ''trojan://'' uri" "url = web_url W (trimmed uri)"
  shows "path_value (fst (trojan_Deserialize W uri label err)) (link_outbound @ [key_at ''settings'']) =
    JObject [(''servers'', JArray [JObject [(''address'', JString (url_host url)),
      (''password'', JString (web_fromPercentEncoding W (url_userInfo url))),
      (''port'', serInt (uint (of_int (url_port url) :: 16 word)))]])]"
  using assms
  by (simp add: trojan_Deserialize_def Let_def path_value_put outbounds_GenerateTrojanOUT_def trojan_server_def
      outbounds_GenerateTrojanServerOUT_def qmap_insert.simps)
    (simp add: outbounds_GenerateOutboundEntry_def path_value_foldl)

lemma trojan_no_port: "url_port url = -1 \<Longrightarrow> uint (of_int (url_port url) :: 16 word) = 65535"
  by (simp add: unsigned_minus_1_eq_mask mask_eq_exp_minus_1)

lemma trojan_never_refused:
  "starts_with ''trojan://'' uri \<Longrightarrow> fst (trojan_Deserialize W uri label err) \<noteq> []"
  by (simp add: trojan_Deserialize_def Let_def)

text \<open>An \<open>ss://\<close> link of the old form is never refused, whatever its text decodes to.\<close>

lemma ss_legacy_accepted:
  assumes "CHR ''@'' \<notin> set (drop 5 uri)" "CHR ''#'' \<notin> set (drop 5 uri)"
  shows "fst (ss_Deserialize W uri label err) \<noteq> []"
proof -
  have "indexOf c s < 0" if "c \<notin> set s" for c s using that by (induction s) (auto simp: Let_def)
  with assms show ?thesis by (simp add: ss_Deserialize_def Let_def lastIndexOf_def case_prod_beta)
qed

text \<open>The configuration of the second form of \<open>vmess://\<close> has no \<open>inbounds\<close>: the key is \<open>inbound\<close>.\<close>

lemma vmess_new_no_inbounds:
  "json_value (fst (vmess_new_Deserialize W stray str label err)) ''inbounds'' = JUndefined"
  by (simp add: vmess_new_Deserialize_def Let_def)

text \<open>Every server an \<open>ssd://\<close> subscription yields has a string address and a valid port.\<close>

lemma outbound_settings:
  "path_value (outbounds_GenerateOutboundEntry tag prot settings stream mux send) [key_at ''settings''] =
   JObject settings"
  by (simp add: outbounds_GenerateOutboundEntry_def path_value_foldl)

lemma ssd_server_valid:
  assumes "ssd_server W g port enc pwd v = Inr (name, cfg)" "0 \<le> port" "port \<le> 65535"
  shows "\<exists>ob address p. v = JObject ob \<and> json_value ob ''server'' = JString address \<and> 0 \<le> p \<and> p \<le> 65535 \<and>
    path_value cfg (link_outbound @ [key_at ''settings'']) =
    JObject [(''servers'', JArray [JObject (outbounds_GenerateShadowSocksServerOUT address p enc pwd)])]"
proof (cases v)
  case (JObject ob)
  then obtain address where a: "json_value ob ''server'' = JString address"
    using assms(1) by (cases "json_value ob ''server''") (auto simp: ssd_server_def)
  define p where "p = (let q = json_toIntOr (-1) (json_value ob ''port'') in
    if json_value ob ''port'' \<noteq> JUndefined \<and> 0 \<le> q \<and> q \<le> 65535 then q else port)"
  have "cfg = link_root (outbounds_GenerateOutboundEntry ''PROXY'' ''shadowsocks''
      (json_insert ''servers'' (JArray [JObject (outbounds_GenerateShadowSocksServerOUT address p enc pwd)]) [])
      [] [] ''0.0.0.0'')"
    using assms(1) unfolding JObject ssd_server_def Let_def p_def
    by (simp add: a json_string_def outbounds_GenerateShadowSocksOUT_def)
  then have "path_value cfg (link_outbound @ [key_at ''settings'']) =
      JObject [(''servers'', JArray [JObject (outbounds_GenerateShadowSocksServerOUT address p enc pwd)])]"
    by (simp only: root_outbound outbound_settings qmap_insert.simps)
  moreover have "0 \<le> p" "p \<le> 65535" using assms(2,3) by (simp_all add: p_def Let_def)
  ultimately show ?thesis using JObject a by blast
qed (use assms(1) in \<open>simp_all add: ssd_server_def\<close>)

end
