(* ===== verification/Import_Text.thy ===== *)
theory Import_Text
  imports Share_Links
begin

text \<open>
  The import of a configuration text (\<open>client/ui/controllers/importController.cpp\<close>): its format is
  recognised, an OpenVPN, WireGuard or Xray configuration or a share link is turned into the JSON
  description of a server, an exported Amnezia configuration is adjusted, and an OpenVPN
  configuration is searched for dangerous options.

  The controller is a record with the emitted signals; \<open>import_env\<close> holds the JSON and compression
  functions of Qt, the name the settings propose for a new server and the number of servers. The
  regular expressions of the source are functions on strings that return what their groups capture.
\<close>

datatype ConfigTypes = Amnezia | OpenVpn | WireGuard | AwgConfig | XrayConfig | ShadowSocksConfig | Backup | Invalid

datatype import_signal = ImportErrorText string | ImportErrorCode int | RestoreAppConfig string

record ImportController =
  m_config :: qjobject
  m_configType :: ConfigTypes
  m_configFileName :: string
  m_maliciousWarningText :: string
  ic_signals :: "import_signal list"

record import_env =
  ie_web :: Web
  ie_stray :: int
  ie_name :: string
  ie_print :: "qjobject \<Rightarrow> string"
  ie_compact :: "qjobject \<Rightarrow> string"
  ie_parse :: "string \<Rightarrow> qjobject"
  ie_reprint :: "string \<Rightarrow> string"
  ie_uncompress :: "string \<Rightarrow> string"
  ie_fromBase64Url :: "string \<Rightarrow> string"
  ie_serversCount :: nat

definition ic_emit :: "import_signal \<Rightarrow> ImportController \<Rightarrow> ImportController" where
  "ic_emit g i = i\<lparr>ic_signals := ic_signals i @ [g]\<rparr>"

definition checkConfigFormat :: "string \<Rightarrow> ConfigTypes" where
  "checkConfigFormat config =
     (let has = (\<lambda>p. contains_str p config) in
      if has ''Servers/serversList'' then Backup
      else if has ''containers'' \<or> has ''api_key'' \<or> (has ''hostName'' \<and> has ''userName'' \<and> has ''password'')
      then Amnezia
      else if has ''client'' \<and> (has ''proto tcp'' \<or> has ''proto udp'') \<and> (has ''dev tun'' \<or> has ''dev tap'')
      then OpenVpn
      else if has ''[Interface]'' \<and> has ''[Peer]'' then WireGuard
      else if has ''inbounds'' \<and> has ''outbounds'' then XrayConfig
      else Invalid)"

section \<open>The regular expressions\<close>

definition isDigit :: "char \<Rightarrow> bool" where
  "isDigit c \<longleftrightarrow> CHR ''0'' \<le> c \<and> c \<le> CHR ''9''"

definition isWord :: "char \<Rightarrow> bool" where
  "isWord c \<longleftrightarrow> isDigit c \<or> CHR ''A'' \<le> c \<and> c \<le> CHR ''Z'' \<or> CHR ''a'' \<le> c \<and> c \<le> CHR ''z'' \<or> c = CHR ''_''"

text \<open>\<open>remote (.*) [0-9]*\<close>: the dot stops at the end of the line and the star is greedy.\<close>

fun match_remote :: "string \<Rightarrow> string option" where
  "match_remote [] = None"
| "match_remote (c # s) =
     (let line = takeWhile (\<lambda>x. x \<noteq> newline) (drop 6 s) in
      if starts_with ''remote '' (c # s) \<and> CHR '' '' \<in> set line then Some (left (lastIndexOf CHR '' '' line) line)
      else match_remote s)"

text \<open>
  Four groups of one to three digits between dots, the last not followed by a word character. The
  digits of a group are all taken, for a dot or a boundary has to follow them.
\<close>

fun match_octets :: "nat \<Rightarrow> string \<Rightarrow> string option" where
  "match_octets 0 s = None"
| "match_octets (Suc n) s =
     (let ds = takeWhile isDigit s; rest = dropWhile isDigit s in
      if ds = [] \<or> length ds > 3 then None
      else if n = 0 then (if rest \<noteq> [] \<and> isWord (hd rest) then None else Some ds)
      else (case rest of
              c # r \<Rightarrow> (if c = CHR ''.'' then map_option (\<lambda>t. ds @ c # t) (match_octets n r) else None)
            | [] \<Rightarrow> None))"

abbreviation match_ipv4 :: "string \<Rightarrow> string option" where
  "match_ipv4 \<equiv> match_octets 4"

text \<open>All matches of \<open>dhcp-option DNS (address)\<close>, one after the other.\<close>

function match_dns_options :: "string \<Rightarrow> string list" where
  "match_dns_options [] = []"
| "match_dns_options (c # s) =
     (case (if starts_with ''dhcp-option DNS '' (c # s) then match_ipv4 (drop 15 s) else None) of
        Some ip \<Rightarrow> ip # match_dns_options (drop (15 + length ip) s)
      | None \<Rightarrow> match_dns_options s)"
  by pat_completeness auto
termination by (relation "measure length") simp_all

text \<open>The last address in the rest of the line, at a word boundary.\<close>

fun last_ipv4 :: "char \<Rightarrow> string \<Rightarrow> string option" where
  "last_ipv4 p [] = None"
| "last_ipv4 p (c # s) =
     (case last_ipv4 c s of
        Some ip \<Rightarrow> Some ip
      | None \<Rightarrow> if isWord p then None else match_ipv4 (c # s))"

text \<open>\<open>DNS = (address).*(address)\<close>.\<close>

fun match_dns_pair :: "string \<Rightarrow> (string \<times> string) option" where
  "match_dns_pair [] = None"
| "match_dns_pair (c # s) =
     (case (if starts_with ''DNS = '' (c # s) then match_ipv4 (drop 5 s) else None) of
        None \<Rightarrow> match_dns_pair s
      | Some ip \<Rightarrow>
          (case last_ipv4 (last ip) (takeWhile (\<lambda>x. x \<noteq> newline) (drop (5 + length ip) s)) of
             None \<Rightarrow> match_dns_pair s
           | Some ip' \<Rightarrow> Some (ip, ip')))"

abbreviation dquote :: char where
  "dquote \<equiv> CHR 0x22"

text \<open>The first non-empty string after a quoted \<open>address\<close>, a colon and white space.\<close>

fun match_address :: "string \<Rightarrow> string option" where
  "match_address [] = None"
| "match_address (c # s) =
     (let rest = dropWhile isSpace (drop 9 s); host = takeWhile (\<lambda>x. x \<noteq> dquote) (tl rest) in
      if starts_with (dquote # ''address'' @ [dquote, CHR '':'']) (c # s) \<and> rest \<noteq> [] \<and> hd rest = dquote \<and> host \<noteq> []
      then Some host else match_address s)"

text \<open>\<open>(\w+-\w+|\w+)\<close>: the first word of a line, with at most one hyphen.\<close>

definition first_word :: "string \<Rightarrow> string" where
  "first_word l =
     (let s = dropWhile (\<lambda>c. \<not> isWord c) l; w = takeWhile isWord s; rest = dropWhile isWord s;
          v = takeWhile isWord (tl rest) in
      if rest \<noteq> [] \<and> hd rest = CHR ''-'' \<and> v \<noteq> [] then w @ CHR ''-'' # v else w)"

section \<open>OpenVPN, WireGuard and Xray configurations\<close>

definition ImportController_extractOpenVpnConfig :: "import_env \<Rightarrow> string \<Rightarrow> qjobject" where
  "ImportController_extractOpenVpnConfig E data =
     (let openVpnConfig = json_insert ''config'' (JString data) [];
          lastConfig = json_insert ''isThirdPartyConfig'' (JBool True)
            (json_insert ''last_config'' (JString (ie_print E openVpnConfig)) []);
          containers = json_insert ''openvpn'' (JObject lastConfig)
            (json_insert ''container'' (JString ''amnezia-openvpn'') []);
          config = json_insert ''description'' (JString (ie_name E))
            (json_insert ''defaultContainer'' (JString ''amnezia-openvpn'')
              (json_insert ''containers'' (JArray [JObject containers]) []));
          dns = match_dns_options data;
          config = (if dns \<noteq> [] then json_insert ''dns1'' (JString (dns ! 0)) config else config);
          config = (if length dns > 1 then json_insert ''dns2'' (JString (dns ! 1)) config else config)
      in json_insert ''hostName'' (JString (case match_remote data of None \<Rightarrow> [] | Some h \<Rightarrow> h)) config)"

definition wg_line :: "string \<Rightarrow> (string \<times> string) list \<Rightarrow> (string \<times> string) list" where
  "wg_line line m =
     (let t = trimmed line in
      if t \<noteq> [] \<and> hd t = CHR ''['' \<and> last t = CHR '']'' then m
      else case split_str '' = '' t of [k, v] \<Rightarrow> qmap_insert (trimmed k) (trimmed v) m | _ \<Rightarrow> m)"

definition wg_map :: "string \<Rightarrow> (string \<times> string) list" where
  "wg_map data = foldl (\<lambda>m l. wg_line l m) [] (split newline data)"

definition wg_obfuscation :: "string list" where
  "wg_obfuscation = [''Jc'', ''Jmin'', ''Jmax'', ''S1'', ''S2'', ''H1'', ''H2'', ''H3'', ''H4'']"

definition put_filled :: "string \<Rightarrow> string \<Rightarrow> qjobject \<Rightarrow> qjobject" where
  "put_filled k v ob = (if v \<noteq> [] then json_insert k (JString v) ob else ob)"

definition wg_last_config :: "string \<Rightarrow> (string \<Rightarrow> string) \<Rightarrow> string \<Rightarrow> int \<Rightarrow> bool \<Rightarrow> qjobject" where
  "wg_last_config data value hostName port awg =
     (let ob = json_insert ''config'' (JString data) [];
          ob = json_insert ''port'' (serInt port) (json_insert ''hostName'' (JString hostName) ob);
          ob = json_insert ''client_ip'' (JString (value ''Address''))
                 (json_insert ''client_priv_key'' (JString (value ''PrivateKey'')) ob);
          ob = (if value ''PresharedKey'' \<noteq> [] then json_insert ''psk_key'' (JString (value ''PresharedKey'')) ob
                else put_filled ''psk_key'' (value ''PreSharedKey'') ob);
          ob = json_insert ''server_pub_key'' (JString (value ''PublicKey'')) ob;
          ob = put_filled ''persistent_keep_alive'' (value ''PersistentKeepalive'') ob;
          ob = json_insert ''allowed_ips'' (JArray (map JString (split_str '', '' (value ''AllowedIPs'')))) ob;
          ob = (if awg then fold (\<lambda>k. json_insert k (JString (value k))) wg_obfuscation ob else ob)
      in json_insert ''mtu'' (JString (if value ''MTU'' \<noteq> [] then value ''MTU''
           else if awg then awg_defaultMtu else wireguard_defaultMtu)) ob)"

definition wg_server :: "import_env \<Rightarrow> string \<Rightarrow> string \<Rightarrow> string \<Rightarrow> string \<Rightarrow> qjobject \<Rightarrow> qjobject" where
  "wg_server E data hostName port protocolName last_config =
     (let wireguardConfig = json_insert ''transport_proto'' (JString ''udp'') (json_insert ''port'' (JString port)
            (json_insert ''isThirdPartyConfig'' (JBool True)
              (json_insert ''last_config'' (JString (ie_print E last_config)) [])));
          containers = json_insert protocolName (JObject wireguardConfig)
            (json_insert ''container'' (JString (''amnezia-'' @ protocolName)) []);
          config = json_insert ''description'' (JString (ie_name E))
            (json_insert ''defaultContainer'' (JString (''amnezia-'' @ protocolName))
              (json_insert ''containers'' (JArray [JObject containers]) []));
          config = (case match_dns_pair data of None \<Rightarrow> config
                    | Some (d1, d2) \<Rightarrow> json_insert ''dns2'' (JString d2) (json_insert ''dns1'' (JString d1) config))
      in json_insert ''hostName'' (JString hostName) config)"

definition wireguard_defaultPort :: string where
  "wireguard_defaultPort = ''51820''"

definition ImportController_extractWireGuardConfig ::
  "import_env \<Rightarrow> string \<Rightarrow> ImportController \<Rightarrow> qjobject \<times> ImportController" where
  "ImportController_extractWireGuardConfig E data i =
     (let value = queryItemValue (wg_map data); url = web_fromUserInput (ie_web E) (value ''Endpoint'');
          port = (if url_port url \<noteq> -1 then number (url_port url) else wireguard_defaultPort);
          portInt = (if url_port url \<noteq> -1 then url_port url else 51820);
          awg = list_all (\<lambda>k. value k \<noteq> []) wg_obfuscation in
      if url_host url = [] \<or> value ''PrivateKey'' = [] \<or> value ''Address'' = [] \<or> value ''PublicKey'' = []
      then ([], ic_emit (ImportErrorCode 900) i)
      else (wg_server E data (url_host url) port (if awg then ''awg'' else ''wireguard'')
              (wg_last_config data value (url_host url) portInt awg),
            if awg then i\<lparr>m_configType := AwgConfig\<rparr> else i))"

definition ImportController_extractXrayConfig ::
  "import_env \<Rightarrow> string \<Rightarrow> string \<Rightarrow> ConfigTypes \<Rightarrow> qjobject" where
  "ImportController_extractXrayConfig E data description type =
     (let lastConfig = json_insert ''isThirdPartyConfig'' (JBool True)
            (json_insert ''last_config'' (JString (ie_reprint E data)) []);
          name = (if type = ShadowSocksConfig then ''ssxray'' else ''xray'');
          containers = json_insert name (JObject lastConfig)
            (json_insert ''container'' (JString (''amnezia-'' @ name)) []);
          config = json_insert ''defaultContainer'' (JString (''amnezia-'' @ name))
            (json_insert ''containers'' (JArray [JObject containers]) []);
          config = json_insert ''description'' (JString (if description = [] then ie_name E else description)) config
      in json_insert ''hostName'' (JString (case match_address data of None \<Rightarrow> [] | Some h \<Rightarrow> h)) config)"

section \<open>Dangerous options\<close>

definition dangerousTags :: "string list" where
  "dangerousTags = [''up'', ''tls-verify'', ''ipchange'', ''client-connect'', ''route-up'', ''route-pre-down'',
     ''client-disconnect'', ''down'', ''learn-address'', ''auth-user-pass-verify'']"

definition malicious_lines :: "string \<Rightarrow> string list" where
  "malicious_lines text =
     filter (\<lambda>l. first_word l \<in> set dangerousTags) (split newline (filter (\<lambda>c. c \<noteq> CHR 13) text))"

definition malicious_warning :: "Web \<Rightarrow> string list \<Rightarrow> string" where
  "malicious_warning W ls =
     foldl (\<lambda>t l. t @ web_arg W ''<br><i>%1</i>'' [l])
       (web_tr W ''In the imported configuration, potentially dangerous lines were found:'') ls"

definition openvpn_text :: "import_env \<Rightarrow> qjobject \<Rightarrow> string" where
  "openvpn_text E containerConfig =
     field (ie_parse E (field (object_field containerConfig ''openvpn'') ''last_config'')) ''config''"

definition check_container :: "import_env \<Rightarrow> qjson \<Rightarrow> ImportController \<Rightarrow> ImportController" where
  "check_container E container i =
     (let containerConfig = json_toObject container; ls = malicious_lines (openvpn_text E containerConfig) in
      if field containerConfig ''container'' \<in>
           {ContainerProps_containerToString DockerOpenVpn, ContainerProps_containerToString DockerCloak,
            ContainerProps_containerToString DockerShadowSocks} \<and> length ls \<ge> 3
      then i\<lparr>m_maliciousWarningText := malicious_warning (ie_web E) ls\<rparr> else i)"

definition ImportController_checkForMaliciousStrings ::
  "import_env \<Rightarrow> qjobject \<Rightarrow> ImportController \<Rightarrow> ImportController" where
  "ImportController_checkForMaliciousStrings E serverConfig i =
     foldl (\<lambda>i c. check_container E c i) i (array_field serverConfig ''containers'')"

section \<open>Amnezia configurations\<close>

text \<open>The loop over the containers; it returns at a WireGuard container without a configuration.\<close>

fun process_containers :: "import_env \<Rightarrow> nat \<Rightarrow> qjson list \<Rightarrow> qjobject \<Rightarrow> qjobject" where
  "process_containers E n [] config = config"
| "process_containers E n (v # vs) config =
     (let container = json_toObject v;
          docker = ContainerProps_containerFromString (field container ''container'');
          type = ContainerProps_containerTypeToString docker;
          containerConfig = object_field container type; protocolConfig = field containerConfig ''last_config'';
          jsonConfig = json_insert ''mtu'' (JString (if docker = DockerAwg then awg_defaultMtu else wireguard_defaultMtu))
            (ie_parse E protocolConfig);
          container = json_insert type
            (JObject (json_insert ''last_config'' (JString (ie_print E jsonConfig)) containerConfig)) container in
      if docker = DockerAwg \<or> docker = DockerWireGuard then
        (if protocolConfig = [] then config
         else process_containers E (Suc n) vs
           (json_insert ''containers'' (JArray ((array_field config ''containers'')[n := JObject container])) config))
      else process_containers E (Suc n) vs config)"

definition ImportController_processAmneziaConfig :: "import_env \<Rightarrow> qjobject \<Rightarrow> qjobject" where
  "ImportController_processAmneziaConfig E config =
     process_containers E 0 (array_field config ''containers'') config"

definition ImportController_processNativeWireGuardConfig ::
  "import_env \<Rightarrow> int \<Rightarrow> ImportController \<Rightarrow> ImportController" where
  "ImportController_processNativeWireGuardConfig E random i =
     (case array_field (m_config i) ''containers'' of
        [] \<Rightarrow> i
      | v # vs \<Rightarrow>
          (let container = json_toObject v; server = object_field container ''wireguard'';
               put = (\<lambda>k x. json_insert k (JString x));
               client = put ''Jmax'' (number 50) (put ''Jmin'' (number 10) (put ''Jc'' (number random)
                 (ie_parse E (field server ''last_config''))));
               client = put ''S2'' ''0'' (put ''S1'' ''0'' client);
               client = put ''H4'' ''4'' (put ''H3'' ''3'' (put ''H2'' ''2'' (put ''H1'' ''1'' client)));
               client = json_insert ''isObfuscationEnabled'' (JBool True) client;
               server = json_insert ''last_config'' (JString (ie_print E client)) server
           in i\<lparr>m_config := json_insert ''containers''
                 (JArray (JObject (json_insert ''wireguard'' (JObject server) container) # vs)) (m_config i)\<rparr>))"

section \<open>The controller\<close>

definition import_link ::
  "import_env \<Rightarrow> ConfigTypes \<Rightarrow> link_result \<Rightarrow> ImportController \<Rightarrow> bool \<times> ImportController" where
  "import_link E type r i =
     (let config = ImportController_extractXrayConfig E (ie_compact E (fst r)) (fst (snd r)) type in
      (config \<noteq> [], i\<lparr>m_configType := type, m_config := config\<rparr>))"

definition import_text :: "import_env \<Rightarrow> string \<Rightarrow> ConfigTypes \<Rightarrow> ImportController \<Rightarrow> bool \<times> ImportController" where
  "import_text E config type i =
     (let i = i\<lparr>m_configType := type\<rparr>;
          accept = (\<lambda>ob i. (ob \<noteq> [], i\<lparr>m_config := ob\<rparr>));
          checked = (\<lambda>ob i. if ob \<noteq> []
             then (True, ImportController_checkForMaliciousStrings E ob (i\<lparr>m_config := ob\<rparr>))
             else (False, i\<lparr>m_config := ob\<rparr>));
          invalid = (False, ic_emit (ImportErrorText (web_tr (ie_web E) ''Invalid configuration file'')) i) in
      case type of
        OpenVpn \<Rightarrow> checked (ImportController_extractOpenVpnConfig E config) i
      | AwgConfig \<Rightarrow> (let (ob, i) = ImportController_extractWireGuardConfig E config i in accept ob i)
      | WireGuard \<Rightarrow> (let (ob, i) = ImportController_extractWireGuardConfig E config i in accept ob i)
      | XrayConfig \<Rightarrow> accept (ImportController_extractXrayConfig E config [] type) i
      | Amnezia \<Rightarrow> checked (ImportController_processAmneziaConfig E (ie_parse E config)) i
      | Backup \<Rightarrow> if ie_serversCount E = 0 then (False, ic_emit (RestoreAppConfig config) i) else invalid
      | Invalid \<Rightarrow> invalid
      | ShadowSocksConfig \<Rightarrow> (False, i))"

definition ImportController_extractConfigFromData ::
  "import_env \<Rightarrow> string \<Rightarrow> ImportController \<Rightarrow> bool \<times> ImportController" where
  "ImportController_extractConfigFromData E data i =
     (let W = ie_web E in
      if starts_with ''vless://'' data then import_link E XrayConfig (vless_Deserialize W data [] []) i
      else if starts_with ''vmess://'' data \<and> contains_str ''@'' data
      then import_link E XrayConfig (vmess_new_Deserialize W (ie_stray E) data [] []) i
      else if starts_with ''vmess://'' data then import_link E XrayConfig (vmess_Deserialize W (ie_stray E) data []) i
      else if starts_with ''trojan://'' data then import_link E XrayConfig (trojan_Deserialize W data [] []) i
      else if starts_with ''ss://'' data \<and> \<not> contains_str ''plugin='' data
      then import_link E ShadowSocksConfig (ss_Deserialize W data [] []) i
      else if starts_with ''ssd://'' data then
        (let i = i\<lparr>m_configType := ShadowSocksConfig\<rparr>;
             i = (case fst (ssd_Deserialize W data []) of [] \<Rightarrow> i
                  | server # _ \<Rightarrow> i\<lparr>m_config := ImportController_extractXrayConfig E (fst server) [] ShadowSocksConfig\<rparr>)
         in (m_config i \<noteq> [], i))
      else if checkConfigFormat data \<noteq> Invalid then import_text E data (checkConfigFormat data) i
      else (let ba = ie_fromBase64Url E (replace_str ''vpn://'' [] data); unc = ie_uncompress E ba;
                config = (if unc \<noteq> [] then unc else ba)
            in import_text E config (checkConfigFormat config) i))"

text \<open>The file is read when it can be opened.\<close>

definition ImportController_extractConfigFromFile ::
  "import_env \<Rightarrow> string \<Rightarrow> string option \<Rightarrow> ImportController \<Rightarrow> bool \<times> ImportController" where
  "ImportController_extractConfigFromFile E fileName contents i =
     (case contents of
        Some data \<Rightarrow> ImportController_extractConfigFromData E data (i\<lparr>m_configFileName := fileName\<rparr>)
      | None \<Rightarrow> (False, ic_emit (ImportErrorText (web_tr (ie_web E) ''Unable to open file'')) i))"

definition ImportController_extractConfigFromQr ::
  "import_env \<Rightarrow> string \<Rightarrow> ImportController \<Rightarrow> bool \<times> ImportController" where
  "ImportController_extractConfigFromQr E data i =
     (if ie_parse E data \<noteq> [] then (True, i\<lparr>m_config := ie_parse E data\<rparr>)
      else if ie_uncompress E data \<noteq> [] then (True, i\<lparr>m_config := ie_parse E (ie_uncompress E data)\<rparr>)
      else (False, i))"

definition ImportController_isNativeWireGuardConfig :: "ImportController \<Rightarrow> bool" where
  "ImportController_isNativeWireGuardConfig i \<longleftrightarrow> m_configType i = WireGuard"


section \<open>What a text becomes\<close>

text \<open>A server with one container, whose protocols all have a configuration.\<close>

definition one_container :: "DockerContainer \<Rightarrow> qjobject \<Rightarrow> bool" where
  "one_container docker config \<longleftrightarrow>
     json_ok (JObject config) \<and> qmap_contains config ''containers'' \<and>
     field config ''defaultContainer'' = ContainerProps_containerToString docker \<and>
     (case array_field config ''containers'' of
        [v] \<Rightarrow> field (json_toObject v) ''container'' = ContainerProps_containerToString docker \<and>
             list_all (\<lambda>p. field (object_field (json_toObject v) (ProtocolProps_protoToString p)) ''last_config'' \<noteq> [])
               (ContainerProps_protocolsForContainer docker)
      | _ \<Rightarrow> False)"

lemma import_names:
  "ContainerProps_containerToString DockerOpenVpn = ''amnezia-openvpn''"
  "ContainerProps_containerToString DockerWireGuard = ''amnezia-wireguard''"
  "ContainerProps_containerToString DockerAwg = ''amnezia-awg''"
  "ContainerProps_containerToString DockerXray = ''amnezia-xray''"
  "ContainerProps_containerToString DockerSSXray = ''amnezia-ssxray''"
  "ProtocolProps_protoToString ProtoOpenVpn = ''openvpn''" "ProtocolProps_protoToString ProtoWireGuard = ''wireguard''"
  "ProtocolProps_protoToString ProtoAwg = ''awg''" "ProtocolProps_protoToString ProtoXray = ''xray''"
  "ProtocolProps_protoToString ProtoSSXray = ''ssxray''"
  "ContainerProps_protocolsForContainer DockerWireGuard = [ProtoWireGuard]"
  "ContainerProps_protocolsForContainer DockerAwg = [ProtoAwg]"
  by code_simp+

lemma json_ok_leaf:
  "json_ok (JObject [])" "json_ok (JString s)" "json_ok (JBool b)" "json_ok v \<Longrightarrow> json_ok (JArray [v])"
  by (simp_all add: qmap_ok_def)

lemma json_ok_if:
  "json_ok (JObject ob) \<Longrightarrow> json_ok (JObject ob') \<Longrightarrow> json_ok (JObject (if b then ob else ob'))"
  by (simp only: split: if_split) simp

lemmas json_ok_build = json_ok_insert json_ok_leaf json_ok_if

lemma openvpn_container:
  assumes "\<And>ob. ie_print E ob \<noteq> []"
  shows "one_container DockerOpenVpn (ImportController_extractOpenVpnConfig E data)"
proof -
  have "json_ok (JObject (ImportController_extractOpenVpnConfig E data))"
    unfolding ImportController_extractOpenVpnConfig_def Let_def
    by (intro json_ok_build)
  then show ?thesis
    by (simp add: one_container_def ImportController_extractOpenVpnConfig_def Let_def field_def array_field_def
        object_field_def import_names assms del: json_ok.simps)
qed

lemma wireguard_container:
  assumes "\<And>ob. ie_print E ob \<noteq> []"
  shows "one_container (if awg then DockerAwg else DockerWireGuard)
    (wg_server E data host port (if awg then ''awg'' else ''wireguard'') last_config)"
proof -
  have "json_ok (JObject (wg_server E data host port name last_config))" for name
    unfolding wg_server_def Let_def
    by (cases "match_dns_pair data") (simp_all only: option.case prod.case case_prod_beta, (intro json_ok_build)+)
  then show ?thesis
    by (cases awg) (simp_all add: one_container_def wg_server_def Let_def field_def array_field_def
        object_field_def import_names assms del: json_ok.simps split: option.split)
qed

lemma one_container_connects:
  assumes "one_container docker config" "mirror Q V (cc_servers c)" "region \<noteq> []"
    and "ContainerProps_containerService docker = ServiceVpn" "ContainerProps_isSupportedByCurrentPlatform target docker"
  shows "\<exists>c' cfg. ConnectionController_stringArrived tr target C Q V a chk (Some config)
      (ConnectionController_openConnection tr Q V region c) = Inr c' \<and>
    cc_signals c' = cc_signals (ConnectionController_openConnection tr Q V region c) @ [ConnectToVpn 0
      \<lparr>sc_hostName = field config ''hostName'', sc_userName = field config ''userName'',
       sc_secretData = field config ''password'', sc_port = json_toInt (json_value config ''port'')\<rparr> docker cfg]"
proof -
  obtain v where v: "array_field config ''containers'' = [v]"
    "field (json_toObject v) ''container'' = ContainerProps_containerToString docker"
    "list_all (\<lambda>p. field (object_field (json_toObject v) (ProtocolProps_protoToString p)) ''last_config'' \<noteq> [])
       (ContainerProps_protocolsForContainer docker)"
    using assms(1) by (auto simp: one_container_def split: list.splits)
  have key: "container_key v = docker"
    using v(2) by (simp add: container_key_def field_def containerFromString_toString)
  have ok: "json_ok (JObject config)" "qmap_contains config ''containers''"
    "docker = ContainerProps_containerFromString (field config ''defaultContainer'')"
    using assms(1) by (auto simp: one_container_def containerFromString_toString simp del: json_ok.simps)
  have inst: "docker \<in> container_key ` set (array_field config ''containers'')" by (simp add: v(1) key)
  have "json_toObject v = qmap_value (containers_of (array_field config ''containers'')) docker"
    by (simp add: v(1) containers_of_def qmap_insert.simps key qmap_value_def)
  moreover have "ConnectionController_isProtocolConfigExists (json_toObject v) docker"
    using v(3) by (simp add: ConnectionController_isProtocolConfigExists_def)
  ultimately show ?thesis
    using imported_server_connected [OF assms(2,3) ok assms(4) inst assms(5), of "json_toObject v" tr C a chk] by blast
qed


lemma check_container_keeps:
  "m_config (check_container E v i) = m_config i" "m_configType (check_container E v i) = m_configType i"
  by (simp_all add: check_container_def Let_def)

lemma check_keeps:
  "m_config (ImportController_checkForMaliciousStrings E ob i) = m_config i \<and>
   m_configType (ImportController_checkForMaliciousStrings E ob i) = m_configType i"
proof -
  have "m_config (foldl (\<lambda>i c. check_container E c i) i vs) = m_config i \<and>
      m_configType (foldl (\<lambda>i c. check_container E c i) i vs) = m_configType i" for vs
    by (induction vs arbitrary: i) (simp_all add: check_container_keeps)
  then show ?thesis by (simp add: ImportController_checkForMaliciousStrings_def)
qed

lemma format_not_awg: "checkConfigFormat data \<noteq> AwgConfig" "checkConfigFormat data \<noteq> ShadowSocksConfig"
  by (simp_all add: checkConfigFormat_def Let_def)

lemma wireguard_cases:
  "ImportController_extractWireGuardConfig E data i = (ob, i') \<Longrightarrow> ob \<noteq> [] \<Longrightarrow>
   \<exists>host port awg lc. ob = wg_server E data host port (if awg then ''awg'' else ''wireguard'') lc \<and>
     i' = (if awg then i\<lparr>m_configType := AwgConfig\<rparr> else i)"
  by (auto simp: ImportController_extractWireGuardConfig_def Let_def split: if_splits)

definition import_container :: "ConfigTypes \<Rightarrow> DockerContainer" where
  "import_container type =
     (case type of OpenVpn \<Rightarrow> DockerOpenVpn | WireGuard \<Rightarrow> DockerWireGuard | AwgConfig \<Rightarrow> DockerAwg | _ \<Rightarrow> DockerNone)"

lemma import_text_container:
  assumes "import_text E config type i = (True, i')" "type \<noteq> AwgConfig" "type \<noteq> ShadowSocksConfig"
    and "m_configType i' \<in> {OpenVpn, WireGuard, AwgConfig}" "\<And>ob. ie_print E ob \<noteq> []"
  shows "one_container (import_container (m_configType i')) (m_config i')"
proof (cases type)
  case OpenVpn
  with assms(1) show ?thesis
    using openvpn_container [OF assms(5), of config] check_keeps
    by (auto simp: import_text_def Let_def import_container_def split: if_splits)
next
  case WireGuard
  then obtain ob j where ob: "ImportController_extractWireGuardConfig E config (i\<lparr>m_configType := WireGuard\<rparr>) = (ob, j)"
    "ob \<noteq> []" "i' = j\<lparr>m_config := ob\<rparr>"
    using assms(1) by (auto simp: import_text_def Let_def split: prod.splits)
  from wireguard_cases [OF ob(1,2)] obtain host port awg lc where
    "ob = wg_server E config host port (if awg then ''awg'' else ''wireguard'') lc"
    "j = (if awg then i\<lparr>m_configType := AwgConfig\<rparr> else i\<lparr>m_configType := WireGuard\<rparr>)" by auto
  then show ?thesis
    using wireguard_container [OF assms(5), of awg config host port lc] ob(3)
    by (cases awg) (simp_all add: import_container_def)
qed (use assms check_keeps in \<open>auto simp: import_text_def Let_def ic_emit_def split: if_splits\<close>)

lemma fold_insert_other:
  "k \<notin> set ks \<Longrightarrow> json_value (fold (\<lambda>k. json_insert k (f k)) ks ob) k = json_value ob k"
  by (induction ks arbitrary: ob) simp_all

lemma wg_last_config_values:
  fixes data val host port awg
  defines "lc \<equiv> wg_last_config data val host port awg"
  shows "json_value lc ''client_priv_key'' = JString (val ''PrivateKey'')"
    "json_value lc ''client_ip'' = JString (val ''Address'')"
    "json_value lc ''server_pub_key'' = JString (val ''PublicKey'')"
    "json_value lc ''hostName'' = JString host" "json_value lc ''port'' = serInt port"
  unfolding lc_def wg_last_config_def Let_def put_filled_def
  by (simp_all add: fold_insert_other wg_obfuscation_def)

lemma wg_server_values:
  fixes E data host port name lc
  defines "ob \<equiv> wg_server E data host port name lc"
  shows "field ob ''hostName'' = host" "field ob ''defaultContainer'' = ''amnezia-'' @ name" "ob \<noteq> []"
    "name \<noteq> ''container'' \<Longrightarrow> \<exists>container. array_field ob ''containers'' = [JObject container] \<and>
       field (object_field container name) ''last_config'' = ie_print E lc"
proof -
  have "json_value ob ''hostName'' \<noteq> JUndefined" by (simp add: ob_def wg_server_def Let_def)
  then show "ob \<noteq> []" by auto
qed (simp_all add: ob_def wg_server_def Let_def field_def array_field_def object_field_def split: option.split)

lemma wg_container_values:
  assumes "name \<noteq> ''container''"
  shows "\<exists>container lc.
    array_field (wg_server E data host port name (wg_last_config data val h n awg)) ''containers'' = [JObject container] \<and>
    field (object_field container name) ''last_config'' = ie_print E lc \<and>
    field lc ''client_priv_key'' = val ''PrivateKey'' \<and> field lc ''client_ip'' = val ''Address'' \<and>
    field lc ''server_pub_key'' = val ''PublicKey'' \<and> field lc ''hostName'' = h \<and> json_value lc ''port'' = serInt n"
proof -
  obtain container where
    "array_field (wg_server E data host port name (wg_last_config data val h n awg)) ''containers'' = [JObject container]"
    "field (object_field container name) ''last_config'' = ie_print E (wg_last_config data val h n awg)"
    using wg_server_values(4) [OF assms] by blast
  then show ?thesis
    by (intro exI [of _ container] exI [of _ "wg_last_config data val h n awg"])
      (simp add: field_def wg_last_config_values)
qed

text \<open>
  C6: from a configuration text to the tunnel. When the text of an OpenVPN, WireGuard or AmneziaWG
  configuration is accepted, plain or as a \<open>vpn://\<close> string, and the servers model mirrors the
  settings, the server it describes replaces the known ones and the controller asks for exactly one
  connection: to that server, with the container of the recognised protocol and the host named in
  the text, provided the printed JSON documents are not empty and the platform supports the
  container.
\<close>

theorem text_connected:
  assumes accepted: "ImportController_extractConfigFromData E data i = (True, i')"
      "m_configType i' \<in> {OpenVpn, WireGuard, AwgConfig}"
    and printed: "\<And>ob. ie_print E ob \<noteq> []"
    and client: "mirror Q V (cc_servers c)" "region \<noteq> []"
      "ContainerProps_isSupportedByCurrentPlatform target (import_container (m_configType i'))"
  shows "\<exists>c' cfg. ConnectionController_stringArrived tr target C Q V a chk (Some (m_config i'))
      (ConnectionController_openConnection tr Q V region c) = Inr c' \<and>
    cc_signals c' = cc_signals (ConnectionController_openConnection tr Q V region c) @ [ConnectToVpn 0
      \<lparr>sc_hostName = field (m_config i') ''hostName'', sc_userName = field (m_config i') ''userName'',
       sc_secretData = field (m_config i') ''password'', sc_port = json_toInt (json_value (m_config i') ''port'')\<rparr>
      (import_container (m_configType i')) cfg]"
proof -
  have "\<exists>config. import_text E config (checkConfigFormat config) i = (True, i')"
    using accepted unfolding ImportController_extractConfigFromData_def Let_def import_link_def
    by (auto split: if_splits list.splits)
  then obtain config where "import_text E config (checkConfigFormat config) i = (True, i')" by blast
  from import_text_container [OF this format_not_awg accepted(2) printed]
  have "one_container (import_container (m_configType i')) (m_config i')" .
  moreover have "ContainerProps_containerService (import_container (m_configType i')) = ServiceVpn"
    using accepted(2) by (auto simp: import_container_def ContainerProps_containerService_def)
  ultimately show ?thesis using client by (intro one_container_connects)
qed

text \<open>
  C14: a WireGuard text is accepted exactly when its endpoint names a host and its private key,
  address and public key are given; otherwise the import reports error 900 and nothing else changes.
  An accepted text becomes a container of AmneziaWG when all nine obfuscation values are given and of
  WireGuard otherwise, and the client configuration printed into it holds the keys, the address, the
  host and the port (51820 when the endpoint names none) of the text.
\<close>

theorem wireguard_text_exact:
  "let value = queryItemValue (wg_map data); url = web_fromUserInput (ie_web E) (value ''Endpoint'');
       (ob, i') = ImportController_extractWireGuardConfig E data i;
       awg = list_all (\<lambda>k. value k \<noteq> []) wg_obfuscation; name = (if awg then ''awg'' else ''wireguard'') in
   (ob \<noteq> [] \<longleftrightarrow> url_host url \<noteq> [] \<and> value ''PrivateKey'' \<noteq> [] \<and> value ''Address'' \<noteq> [] \<and> value ''PublicKey'' \<noteq> []) \<and>
   (ob = [] \<longrightarrow> i' = i\<lparr>ic_signals := ic_signals i @ [ImportErrorCode 900]\<rparr>) \<and>
   (ob \<noteq> [] \<longrightarrow> ic_signals i' = ic_signals i \<and> field ob ''hostName'' = url_host url \<and>
      field ob ''defaultContainer'' = ''amnezia-'' @ name \<and>
      (\<exists>container lc. array_field ob ''containers'' = [JObject container] \<and>
         field (object_field container name) ''last_config'' = ie_print E lc \<and>
         field lc ''client_priv_key'' = value ''PrivateKey'' \<and> field lc ''client_ip'' = value ''Address'' \<and>
         field lc ''server_pub_key'' = value ''PublicKey'' \<and> field lc ''hostName'' = url_host url \<and>
         json_value lc ''port'' = serInt (if url_port url = -1 then 51820 else url_port url)))"
proof -
  define val where "val = queryItemValue (wg_map data)"
  define url where "url = web_fromUserInput (ie_web E) (val ''Endpoint'')"
  define awg where "awg \<longleftrightarrow> list_all (\<lambda>k. val k \<noteq> []) wg_obfuscation"
  define bad where "bad \<longleftrightarrow> url_host url = [] \<or> val ''PrivateKey'' = [] \<or> val ''Address'' = [] \<or> val ''PublicKey'' = []"
  define port where "port = (if url_port url \<noteq> -1 then number (url_port url) else wireguard_defaultPort)"
  define n where "n = (if url_port url = -1 then 51820 else url_port url)"
  have eq: "ImportController_extractWireGuardConfig E data i =
      (if bad then ([], ic_emit (ImportErrorCode 900) i)
       else (wg_server E data (url_host url) port (if awg then ''awg'' else ''wireguard'')
               (wg_last_config data val (url_host url) n awg), if awg then i\<lparr>m_configType := AwgConfig\<rparr> else i))"
    by (simp add: ImportController_extractWireGuardConfig_def val_def url_def awg_def bad_def port_def n_def Let_def)
  note accepted = wg_container_values [of "if awg then ''awg'' else ''wireguard''" E data "url_host url" port val "url_host url" n awg]
  show ?thesis
  proof (cases bad)
    case True
    then show ?thesis
      unfolding eq Let_def val_def [symmetric] url_def [symmetric] awg_def [symmetric]
      by (simp add: ic_emit_def) (auto simp: bad_def)
  next
    case False
    with accepted show ?thesis
      unfolding eq Let_def val_def [symmetric] url_def [symmetric] awg_def [symmetric] n_def [symmetric]
      by (simp add: wg_server_values) (auto simp: bad_def)
  qed
qed


section \<open>What is not refused and not noticed\<close>

lemma xray_config_values:
  fixes E data descr type
  defines "ob \<equiv> ImportController_extractXrayConfig E data descr type"
    and "name \<equiv> if type = ShadowSocksConfig then ''ssxray'' else ''xray''"
  shows "ob \<noteq> []" "field ob ''defaultContainer'' = ''amnezia-'' @ name"
    "\<exists>container. array_field ob ''containers'' = [JObject container] \<and>
       field (object_field container name) ''last_config'' = ie_reprint E data"
proof -
  have "json_value ob ''hostName'' \<noteq> JUndefined" by (simp add: ob_def ImportController_extractXrayConfig_def Let_def)
  then show "ob \<noteq> []" by auto
qed (simp_all add: ob_def name_def ImportController_extractXrayConfig_def Let_def field_def array_field_def object_field_def)

lemma import_link_accepts:
  "\<exists>i' container. import_link E type r i = (True, i') \<and> ic_signals i' = ic_signals i \<and>
     array_field (m_config i') ''containers'' = [JObject container] \<and>
     field (object_field container (if type = ShadowSocksConfig then ''ssxray'' else ''xray'')) ''last_config'' =
       ie_reprint E (ie_compact E (fst r))"
  using xray_config_values [of E "ie_compact E (fst r)" "fst (snd r)" type] by (simp add: import_link_def Let_def)


lemma first_word_parts:
  "\<exists>w v. list_all isWord w \<and> list_all isWord v \<and> (first_word l = w \<or> first_word l = w @ CHR ''-'' # v)"
  unfolding first_word_def Let_def by (auto simp: list_all_iff dest: set_takeWhileD intro!: exI)

text \<open>
  C25: the search for dangerous options of an imported OpenVPN text. The warning is set when at least
  three lines of the text have a listed option as their first word, and left as it was otherwise; and
  since a first word has at most one hyphen, two of the ten options, \<open>route-pre-down\<close> and
  \<open>auth-user-pass-verify\<close>, are never found, wherever they stand.
\<close>

theorem malicious_lines_exact:
  assumes "import_text E data OpenVpn i = (True, i')"
    and "ie_parse E (ie_print E [(''config'', JString data)]) = [(''config'', JString data)]"
  defines "ls \<equiv> filter (\<lambda>l. first_word l \<in> set dangerousTags - {''route-pre-down'', ''auth-user-pass-verify''})
      (split newline (filter (\<lambda>c. c \<noteq> CHR 13) data))"
  shows "m_maliciousWarningText i' =
    (if length ls \<ge> 3 then malicious_warning (ie_web E) ls else m_maliciousWarningText i)"
proof -
  have hyphens: "count_list (first_word l) CHR ''-'' \<le> 1" for l
  proof -
    obtain w v where wv: "list_all isWord w" "list_all isWord v" "first_word l = w \<or> first_word l = w @ CHR ''-'' # v"
      using first_word_parts by blast
    have "\<not> isWord CHR ''-''" by (simp add: isWord_def isDigit_def)
    with wv(1,2) have "CHR ''-'' \<notin> set w" "CHR ''-'' \<notin> set v" by (auto simp: list_all_iff)
    then have "count_list w CHR ''-'' = 0" "count_list v CHR ''-'' = 0" by (simp_all add: count_notin)
    with wv(3) show ?thesis by auto
  qed
  have "first_word l \<noteq> ''route-pre-down''" "first_word l \<noteq> ''auth-user-pass-verify''" for l
    using hyphens [of l] by auto
  then have ls: "malicious_lines data = ls"
    unfolding malicious_lines_def ls_def by (intro filter_cong) simp_all
  let ?ob = "ImportController_extractOpenVpnConfig E data"
  define container where "container = json_insert ''openvpn'' (JObject (json_insert ''isThirdPartyConfig'' (JBool True)
      (json_insert ''last_config'' (JString (ie_print E [(''config'', JString data)])) [])))
      (json_insert ''container'' (JString ''amnezia-openvpn'') [])"
  have one: "json_insert ''config'' (JString data) [] = [(''config'', JString data)]" by (simp add: qmap_insert.simps)
  have v: "array_field ?ob ''containers'' = [JObject container]"
    by (simp add: ImportController_extractOpenVpnConfig_def Let_def array_field_def container_def one)
  have w: "field container ''container'' = ''amnezia-openvpn''" "openvpn_text E container = data"
    by (simp_all add: container_def field_def object_field_def openvpn_text_def assms(2))
      (simp add: json_value_def)
  have "i' = ImportController_checkForMaliciousStrings E ?ob (i\<lparr>m_configType := OpenVpn, m_config := ?ob\<rparr>)"
    using assms(1) by (simp add: import_text_def Let_def split: if_splits)
  then show ?thesis
    by (simp add: ImportController_checkForMaliciousStrings_def v w check_container_def ls import_names Let_def)
qed


section \<open>Witnesses\<close>

definition sample_env :: import_env where
  "sample_env = \<lparr>ie_web = sample_web, ie_stray = 0, ie_name = ''Server 1'', ie_print = (\<lambda>_. ''{}''),
     ie_compact = (\<lambda>_. ''{}''), ie_parse = (\<lambda>_. []), ie_reprint = id, ie_uncompress = (\<lambda>_. []),
     ie_fromBase64Url = id, ie_serversCount = 0\<rparr>"

definition sample_import :: ImportController where
  "sample_import = \<lparr>m_config = [], m_configType = Invalid, m_configFileName = [], m_maliciousWarningText = [],
     ic_signals = []\<rparr>"

definition wireguard_text :: string where
  "wireguard_text = join [newline] [''[Interface]'', ''PrivateKey = KEY'', ''Address = 10.8.0.2/32'',
     ''DNS = 1.1.1.1, 1.0.0.1'', ''[Peer]'', ''PublicKey = PUB'', ''Endpoint = vpn.example:443'']"

lemma wireguard_text_imported:
  "let (accepted, i) = ImportController_extractConfigFromData sample_env wireguard_text sample_import in
   accepted \<and> m_configType i = WireGuard"
  by code_simp

theorem text_connected_witness:
  "\<exists>c' credentials cfg. ConnectionController_stringArrived id OsLinux sample_configurators sample_qt json_vault 0 (\<lambda>_. 0)
      (Some (m_config (snd (ImportController_extractConfigFromData sample_env wireguard_text sample_import))))
      (ConnectionController_openConnection id sample_qt json_vault ''de'' (sample_controller two_servers)) = Inr c' \<and>
    last (cc_signals c') = ConnectToVpn 0 credentials DockerWireGuard cfg"
proof -
  define i where "i = snd (ImportController_extractConfigFromData sample_env wireguard_text sample_import)"
  have i: "ImportController_extractConfigFromData sample_env wireguard_text sample_import = (True, i)"
    "m_configType i = WireGuard"
    using wireguard_text_imported by (simp_all add: i_def prod_eq_iff case_prod_beta)
  have "mirror sample_qt json_vault (cc_servers (sample_controller two_servers))"
    using two_servers_ok(1) by (simp add: sample_controller_def ConnectionController_new_def)
  moreover have "ContainerProps_isSupportedByCurrentPlatform OsLinux DockerWireGuard" by code_simp
  ultimately show ?thesis
    using text_connected [OF i(1), of sample_qt json_vault "sample_controller two_servers" "''de''" OsLinux id
        sample_configurators 0 "\<lambda>_. 0"] i(2)
    unfolding i_def [symmetric] by (auto simp: sample_env_def import_container_def)
qed

lemma wireguard_sample_values:
  "queryItemValue (wg_map wireguard_text) ''PrivateKey'' = ''KEY''"
  "queryItemValue (wg_map wireguard_text) ''Address'' = ''10.8.0.2/32''"
  "queryItemValue (wg_map wireguard_text) ''PublicKey'' = ''PUB''"
  "queryItemValue (wg_map wireguard_text) ''Jc'' = []"
  by code_simp+

theorem wireguard_text_exact_witness:
  "\<exists>ob container lc. fst (ImportController_extractWireGuardConfig sample_env wireguard_text sample_import) = ob \<and>
     array_field ob ''containers'' = [JObject container] \<and>
     field (object_field container ''wireguard'') ''last_config'' = ie_print sample_env lc \<and>
     field lc ''client_priv_key'' = ''KEY'' \<and> field lc ''client_ip'' = ''10.8.0.2/32''"
proof -
  obtain ob j where ob: "ImportController_extractWireGuardConfig sample_env wireguard_text sample_import = (ob, j)"
    by (cases "ImportController_extractWireGuardConfig sample_env wireguard_text sample_import") simp
  have "url_host (web_fromUserInput (ie_web sample_env) s) \<noteq> []" for s
    by (simp add: sample_env_def sample_web_def sample_url_def)
  moreover have "\<not> list_all (\<lambda>k. queryItemValue (wg_map wireguard_text) k \<noteq> []) wg_obfuscation"
    by (simp add: wg_obfuscation_def wireguard_sample_values)
  ultimately show ?thesis
    using wireguard_text_exact [of wireguard_text sample_env sample_import]
    unfolding Let_def ob prod.case by (auto simp: wireguard_sample_values)
qed


definition openvpn_sample :: string where
  "openvpn_sample = join [newline] [''client'', ''up /tmp/a'', ''down /tmp/b'', ''auth-user-pass-verify /tmp/c via-env'']"

theorem malicious_lines_exact_witness:
  "let E = sample_env\<lparr>ie_parse := (\<lambda>_. [(''config'', JString openvpn_sample)])\<rparr> in
   \<exists>i'. import_text E openvpn_sample OpenVpn sample_import = (True, i') \<and> m_maliciousWarningText i' = []"
proof -
  let ?E = "sample_env\<lparr>ie_parse := (\<lambda>_. [(''config'', JString openvpn_sample)])\<rparr>"
  have "one_container DockerOpenVpn (ImportController_extractOpenVpnConfig ?E openvpn_sample)"
    by (rule openvpn_container) (simp add: sample_env_def)
  then have "ImportController_extractOpenVpnConfig ?E openvpn_sample \<noteq> []"
    by (auto simp: one_container_def)
  then obtain i' where i: "import_text ?E openvpn_sample OpenVpn sample_import = (True, i')"
    by (simp add: import_text_def Let_def)
  have "length (filter (\<lambda>l. first_word l \<in> set dangerousTags - {''route-pre-down'', ''auth-user-pass-verify''})
      (split newline (filter (\<lambda>c. c \<noteq> CHR 13) openvpn_sample))) = 2" by code_simp
  with malicious_lines_exact [OF i] i show ?thesis by (simp add: sample_import_def)
qed

end
