(* ===== verification/Sites_Control.thy ===== *)
theory Sites_Control
  imports Import_Text
begin

text \<open>
  The lists of sites and applications of split tunneling (\<open>client/ui/models/sites_model.cpp\<close>,
  \<open>client/ui/models/appSplitTunnelingModel.cpp\<close>) and their controllers
  (\<open>client/ui/controllers/sitesController.cpp\<close>,
  \<open>client/ui/controllers/appSplitTunnelingController.cpp\<close>).

  A model is a record with the settings it writes to, its rows and its signals; a controller holds a
  model and the calls and messages it emits. A stored number that is no route mode makes the
  construction of a model fail.
\<close>

section \<open>The list of sites\<close>

datatype sites_signal = SitesDataChanged nat | SitesRowInserted nat | SitesRowRemoved nat | SitesReset
  | SitesRouteModeChanged | SitesToggled

record 'k SitesModel =
  si_settings :: "'k AppSettings"
  si_enabled :: bool
  si_mode :: RouteMode
  m_sites :: "(string \<times> string) list"
  si_signals :: "sites_signal list"

definition si_emit :: "sites_signal \<Rightarrow> 'k SitesModel \<Rightarrow> 'k SitesModel" where
  "si_emit g m = m\<lparr>si_signals := si_signals m @ [g]\<rparr>"

definition stored_sites :: "'k vault \<Rightarrow> RouteMode \<Rightarrow> 'k AppSettings \<Rightarrow> (string \<times> string) list" where
  "stored_sites V mode st = map (\<lambda>(k, v). (k, toStr v)) (Settings_vpnSites V mode st)"

definition SitesModel_fillSites :: "'k vault \<Rightarrow> 'k SitesModel \<Rightarrow> 'k SitesModel" where
  "SitesModel_fillSites V m = m\<lparr>m_sites := stored_sites V (si_mode m) (si_settings m)\<rparr>"

definition SitesModel_new :: "Qt \<Rightarrow> 'k vault \<Rightarrow> 'k AppSettings \<Rightarrow> 'k SitesModel option" where
  "SitesModel_new Q V st =
     map_option (\<lambda>mode. SitesModel_fillSites V
       \<lparr>si_settings = (if mode = VpnAllSites then Settings_setRouteMode V VpnOnlyForwardSites st else st),
        si_enabled = Settings_isSitesSplitTunnelingEnabled V st,
        si_mode = (if mode = VpnAllSites then VpnOnlyForwardSites else mode), m_sites = [], si_signals = []\<rparr>)
       (Settings_routeMode Q V st)"

datatype site_role = UrlRole | IpRole | OtherSiteRole

definition SitesModel_data :: "'k SitesModel \<Rightarrow> int \<Rightarrow> site_role \<Rightarrow> qvariant" where
  "SitesModel_data m row role =
     (if row < 0 \<or> row \<ge> int (length (m_sites m)) then VInvalid
      else case role of UrlRole \<Rightarrow> VString (fst (m_sites m ! nat row))
         | IpRole \<Rightarrow> VString (snd (m_sites m ! nat row)) | OtherSiteRole \<Rightarrow> VBool True)"

datatype site_scan = Updated nat | Present | Absent

fun scan_sites :: "string \<Rightarrow> string \<Rightarrow> nat \<Rightarrow> (string \<times> string) list \<Rightarrow> site_scan" where
  "scan_sites hostname ip i [] = Absent"
| "scan_sites hostname ip i ((h, a) # rows) =
     (if h = hostname \<and> a = [] \<and> ip \<noteq> [] then Updated i
      else if h = hostname \<and> a = ip then Present else scan_sites hostname ip (Suc i) rows)"

definition SitesModel_addSite :: "'k vault \<Rightarrow> string \<Rightarrow> string \<Rightarrow> 'k SitesModel \<Rightarrow> bool \<times> 'k SitesModel" where
  "SitesModel_addSite V hostname ip m =
     (case Settings_addVpnSite V (si_mode m) hostname ip (si_settings m) of
        (False, st) \<Rightarrow> (False, m\<lparr>si_settings := st\<rparr>)
      | (True, st) \<Rightarrow>
          (let m = m\<lparr>si_settings := st\<rparr> in
           case scan_sites hostname ip 0 (m_sites m) of
             Updated i \<Rightarrow> (True, si_emit (SitesDataChanged i) (m\<lparr>m_sites := (m_sites m)[i := (hostname, ip)]\<rparr>))
           | Present \<Rightarrow> (False, m)
           | Absent \<Rightarrow> (True, si_emit (SitesRowInserted (length (m_sites m)))
                               (m\<lparr>m_sites := m_sites m @ [(hostname, ip)]\<rparr>))))"

definition SitesModel_addSites :: "'k vault \<Rightarrow> (string \<times> string) list \<Rightarrow> bool \<Rightarrow> 'k SitesModel \<Rightarrow> 'k SitesModel" where
  "SitesModel_addSites V sites replaceExisting m =
     (let st = (if replaceExisting then Settings_removeAllVpnSites V (si_mode m) (si_settings m) else si_settings m);
          st = Settings_addVpnSites V (si_mode m) sites st
      in si_emit SitesReset (SitesModel_fillSites V (m\<lparr>si_settings := st\<rparr>)))"

definition SitesModel_removeSite :: "'k vault \<Rightarrow> int \<Rightarrow> 'k SitesModel \<Rightarrow> list_fault + 'k SitesModel" where
  "SitesModel_removeSite V row m =
     (if row < 0 \<or> row \<ge> int (length (m_sites m)) then Inl OutOfRange
      else (let i = nat row; hostname = fst (m_sites m ! i) in
        Inr (si_emit (SitesRowRemoved i)
          (m\<lparr>si_settings := Settings_removeVpnSite V (si_mode m) hostname (si_settings m),
             m_sites := take i (m_sites m) @ drop (Suc i) (m_sites m)\<rparr>))))"

definition SitesModel_setRouteMode :: "Qt \<Rightarrow> 'k vault \<Rightarrow> RouteMode \<Rightarrow> 'k SitesModel \<Rightarrow> 'k SitesModel option" where
  "SitesModel_setRouteMode Q V mode m =
     (let st = Settings_setRouteMode V mode (si_settings m) in
      map_option (\<lambda>mode'. si_emit SitesRouteModeChanged (si_emit SitesReset
        (SitesModel_fillSites V (m\<lparr>si_settings := st, si_mode := mode'\<rparr>)))) (Settings_routeMode Q V st))"

definition SitesModel_toggleSplitTunneling :: "'k vault \<Rightarrow> bool \<Rightarrow> 'k SitesModel \<Rightarrow> 'k SitesModel" where
  "SitesModel_toggleSplitTunneling V enabled m =
     si_emit SitesToggled
       (m\<lparr>si_settings := Settings_setSitesSplitTunnelingEnabled V enabled (si_settings m), si_enabled := enabled\<rparr>)"

section \<open>The controller of the sites\<close>

datatype sites_call = AddRoutes "string list" | DeleteRoutes "string list" | FlushDns | LookupHost string
  | SitesFinished string | SitesError string | SaveFile string "qjson list"

record 'k SitesController =
  sc_model :: "'k SitesModel"
  sc_calls :: "sites_call list"

definition sc_call :: "sites_call list \<Rightarrow> 'k SitesController \<Rightarrow> 'k SitesController" where
  "sc_call xs c = c\<lparr>sc_calls := sc_calls c @ xs\<rparr>"

text \<open>\<open>ipAddressWithSubnetRegExp().exactMatch\<close>: four octets without leading zeros, and a prefix length of
  one or two digits.\<close>

definition octet_text :: "string \<Rightarrow> bool" where
  "octet_text s \<longleftrightarrow> s \<noteq> [] \<and> length s \<le> 3 \<and> list_all isDigit s \<and> (length s > 1 \<longrightarrow> hd s \<noteq> CHR ''0'') \<and>
     foldl (\<lambda>n c. 10 * n + (of_char c - 48)) 0 s \<le> (255 :: nat)"

definition NetworkUtilities_isIpWithSubnet :: "string \<Rightarrow> bool" where
  "NetworkUtilities_isIpWithSubnet s =
     (case split CHR ''/'' s of
        [ip] \<Rightarrow> length (split CHR ''.'' ip) = 4 \<and> list_all octet_text (split CHR ''.'' ip)
      | [ip, n] \<Rightarrow> length (split CHR ''.'' ip) = 4 \<and> list_all octet_text (split CHR ''.'' ip) \<and>
          list_all isDigit n \<and> (length n = 1 \<or> length n = 2)
      | _ \<Rightarrow> False)"

text \<open>\<open>QString::arg\<close> on a text whose only place marker is \<open>%1\<close>.\<close>

definition arg1 :: "string \<Rightarrow> string \<Rightarrow> string" where
  "arg1 s v = replace_str ''%1'' v s"

definition process_site :: "'k vault \<Rightarrow> string \<Rightarrow> string \<Rightarrow> 'k SitesController \<Rightarrow> 'k SitesController" where
  "process_site V hostname ip c =
     sc_call ((if ip \<noteq> [] then [AddRoutes [ip]]
               else if NetworkUtilities_isIpWithSubnet hostname then [AddRoutes [hostname]] else []) @ [FlushDns])
       (c\<lparr>sc_model := snd (SitesModel_addSite V hostname ip (sc_model c))\<rparr>)"

definition site_host :: "string \<Rightarrow> list_fault + string" where
  "site_host hostname =
     (if NetworkUtilities_isIpWithSubnet hostname then Inr hostname
      else case filter (\<lambda>p. p \<noteq> []) (split CHR ''/''
             (replace_str ''ftp://'' [] (replace_str ''http://'' [] (replace_str ''https://'' [] hostname)))) of
        [] \<Rightarrow> Inl OutOfRange | h # _ \<Rightarrow> Inr h)"

definition SitesController_addSite ::
  "(string \<Rightarrow> string) \<Rightarrow> 'k vault \<Rightarrow> string \<Rightarrow> 'k SitesController \<Rightarrow> list_fault + 'k SitesController" where
  "SitesController_addSite tr V hostname c =
     (if hostname = [] then Inr c
      else if CHR ''.'' \<notin> set hostname
      then Inr (sc_call [SitesError (tr ''Hostname not look like ip adress or domain name'')] c)
      else case site_host hostname of
        Inl e \<Rightarrow> Inl e
      | Inr h \<Rightarrow> Inr (sc_call ((if NetworkUtilities_isIpWithSubnet h then [] else [LookupHost h]) @
            [SitesFinished (arg1 (tr ''New site added: %1'') h)]) (process_site V h [] c)))"

text \<open>The answer of the resolver: the first IPv4 address is used.\<close>

definition SitesController_resolved ::
  "Qt \<Rightarrow> 'k vault \<Rightarrow> string \<Rightarrow> QHostAddress list \<Rightarrow> 'k SitesController \<Rightarrow> 'k SitesController" where
  "SitesController_resolved Q V hostName addresses c =
     (case filter (\<lambda>a. protocol a = IPv4Protocol) addresses of
        [] \<Rightarrow> c | a # _ \<Rightarrow> process_site V hostName (qt_hostToString Q a) c)"

definition SitesController_removeSite ::
  "(string \<Rightarrow> string) \<Rightarrow> 'k vault \<Rightarrow> int \<Rightarrow> 'k SitesController \<Rightarrow> list_fault + 'k SitesController" where
  "SitesController_removeSite tr V row c =
     (let hostname = toStr (SitesModel_data (sc_model c) row UrlRole) in
      case SitesModel_removeSite V row (sc_model c) of
        Inl e \<Rightarrow> Inl e
      | Inr m \<Rightarrow> Inr (sc_call [DeleteRoutes [hostname], FlushDns, SitesFinished (arg1 (tr ''Site removed: %1'') hostname)]
                       (c\<lparr>sc_model := m\<rparr>)))"

definition importable :: "qjson \<Rightarrow> bool" where
  "importable v \<longleftrightarrow>
     (let hostname = field (json_toObject v) ''hostname'' in
      CHR ''.'' \<in> set hostname \<or> NetworkUtilities_isIpWithSubnet hostname)"

definition imported_sites :: "qjson list \<Rightarrow> (string \<times> string) list" where
  "imported_sites xs =
     foldl (\<lambda>sites v. qmap_insert (field (json_toObject v) ''hostname'') (field (json_toObject v) ''ip'') sites) []
       (filter importable xs)"

definition imported_ips :: "qjson list \<Rightarrow> string list" where
  "imported_ips xs =
     map (\<lambda>v. if field (json_toObject v) ''ip'' = [] then field (json_toObject v) ''hostname''
              else field (json_toObject v) ''ip'') (filter importable xs)"

text \<open>The file as Qt reads it: it cannot be opened, is no JSON, no array, or an array.\<close>

datatype sites_file = Unreadable | NoJson | NoArray | SitesArray "qjson list"

definition SitesController_importSites ::
  "(string \<Rightarrow> string) \<Rightarrow> 'k vault \<Rightarrow> string \<Rightarrow> sites_file \<Rightarrow> bool \<Rightarrow> 'k SitesController \<Rightarrow> 'k SitesController" where
  "SitesController_importSites tr V fileName contents replaceExisting c =
     (case contents of
        Unreadable \<Rightarrow> sc_call [SitesError (arg1 (tr ''Can't open file: %1'') fileName)] c
      | NoJson \<Rightarrow> sc_call [SitesError (arg1 (tr ''Failed to parse JSON data from file: %1'') fileName)] c
      | NoArray \<Rightarrow> sc_call [SitesError (arg1 (tr ''The JSON data is not an array in file: %1'') fileName)] c
      | SitesArray xs \<Rightarrow>
          sc_call [AddRoutes (imported_ips xs), FlushDns, SitesFinished (tr ''Import completed'')]
            (c\<lparr>sc_model := SitesModel_addSites V (imported_sites xs) replaceExisting (sc_model c)\<rparr>))"

definition export_row :: "string \<times> string \<Rightarrow> qjson" where
  "export_row site = JObject [(''hostname'', JString (fst site)), (''ip'', JString (snd site))]"

definition SitesController_exportSites ::
  "(string \<Rightarrow> string) \<Rightarrow> string \<Rightarrow> 'k SitesController \<Rightarrow> 'k SitesController" where
  "SitesController_exportSites tr fileName c =
     sc_call [SaveFile fileName (map export_row (m_sites (sc_model c))), SitesFinished (tr ''Export completed'')] c"

section \<open>Applications\<close>

record 'k AppSplitTunnelingModel =
  ap_settings :: "'k AppSettings"
  ap_enabled :: bool
  ap_mode :: AppsRouteMode
  m_apps :: "InstalledAppInfo list"

definition AppSplitTunnelingModel_new :: "Qt \<Rightarrow> 'k vault \<Rightarrow> 'k AppSettings \<Rightarrow> 'k AppSplitTunnelingModel option" where
  "AppSplitTunnelingModel_new Q V st =
     map_option (\<lambda>mode.
       let mode' = (if mode = VpnAllApps then VpnAllExceptApps else mode);
           st' = (if mode = VpnAllApps then Settings_setAppsRouteMode V VpnAllExceptApps st else st)
       in \<lparr>ap_settings = st', ap_enabled = Settings_isAppsSplitTunnelingEnabled V st, ap_mode = mode',
           m_apps = Settings_getVpnApps V mode' st'\<rparr>)
       (Settings_getAppsRouteMode Q V st)"

text \<open>\<open>InstalledAppInfo::operator==\<close>; \<open>contains\<close> calls it on the rows.\<close>

definition InstalledAppInfo_eq :: "InstalledAppInfo \<Rightarrow> InstalledAppInfo \<Rightarrow> bool" where
  "InstalledAppInfo_eq a other \<longleftrightarrow>
     (if packageName a \<noteq> [] then packageName a = packageName other else appPath a = appPath other)"

definition AppSplitTunnelingModel_addApp ::
  "'k vault \<Rightarrow> InstalledAppInfo \<Rightarrow> 'k AppSplitTunnelingModel \<Rightarrow> bool \<times> 'k AppSplitTunnelingModel" where
  "AppSplitTunnelingModel_addApp V app m =
     (if list_ex (\<lambda>a. InstalledAppInfo_eq a app) (m_apps m) then (False, m)
      else (True, m\<lparr>m_apps := m_apps m @ [app],
              ap_settings := Settings_setVpnApps V (ap_mode m) (m_apps m @ [app]) (ap_settings m)\<rparr>))"

definition AppSplitTunnelingModel_removeApp ::
  "'k vault \<Rightarrow> int \<Rightarrow> 'k AppSplitTunnelingModel \<Rightarrow> list_fault + 'k AppSplitTunnelingModel" where
  "AppSplitTunnelingModel_removeApp V row m =
     (if row < 0 \<or> row \<ge> int (length (m_apps m)) then Inl OutOfRange
      else (let apps = take (nat row) (m_apps m) @ drop (Suc (nat row)) (m_apps m) in
        Inr (m\<lparr>m_apps := apps, ap_settings := Settings_setVpnApps V (ap_mode m) apps (ap_settings m)\<rparr>)))"

definition AppSplitTunnelingModel_setRouteMode ::
  "Qt \<Rightarrow> 'k vault \<Rightarrow> AppsRouteMode \<Rightarrow> 'k AppSplitTunnelingModel \<Rightarrow> 'k AppSplitTunnelingModel option" where
  "AppSplitTunnelingModel_setRouteMode Q V mode m =
     (let st = Settings_setAppsRouteMode V mode (ap_settings m) in
      map_option (\<lambda>mode'. m\<lparr>ap_settings := st, ap_mode := mode', m_apps := Settings_getVpnApps V mode' st\<rparr>)
        (Settings_getAppsRouteMode Q V st))"

definition AppSplitTunnelingModel_toggleSplitTunneling ::
  "'k vault \<Rightarrow> bool \<Rightarrow> 'k AppSplitTunnelingModel \<Rightarrow> 'k AppSplitTunnelingModel" where
  "AppSplitTunnelingModel_toggleSplitTunneling V enabled m =
     m\<lparr>ap_settings := Settings_setAppsSplitTunnelingEnabled V enabled (ap_settings m), ap_enabled := enabled\<rparr>"


section \<open>The list and the store\<close>

lemma vpnSites_set:
  assumes "settings_ok V st"
  shows "Settings_vpnSites V mode (Settings_setVpnSites V mode sites st) = sites"
    and "settings_ok V (Settings_setVpnSites V mode sites st)"
  using Settings_fetch [OF assms, of "VMap sites"]
  by (simp_all add: Settings_vpnSites_def Settings_setVpnSites_def toMap_def marked_def)

lemma map_of_stored: "map_of (stored_sites V mode st) = map_option toStr \<circ> map_of (Settings_vpnSites V mode st)"
  by (simp add: stored_sites_def map_of_map)

lemma toStr_VString [simp]: "toStr (VString t) = t"
  by (simp add: toStr_def)

text \<open>The rows are those of the store of the current mode, in any order.\<close>

definition sites_agree :: "'k vault \<Rightarrow> 'k SitesModel \<Rightarrow> bool" where
  "sites_agree V m \<longleftrightarrow>
     settings_ok V (si_settings m) \<and> distinct (map fst (m_sites m)) \<and>
     map_of (m_sites m) = map_of (stored_sites V (si_mode m) (si_settings m))"

lemma scan_cases:
  "distinct (map fst rows) \<Longrightarrow>
   (case map_of rows hostname of
      None \<Rightarrow> scan_sites hostname ip i rows = Absent
    | Some old \<Rightarrow>
        if old = [] \<and> ip \<noteq> [] then \<exists>k < length rows. scan_sites hostname ip i rows = Updated (i + k) \<and> rows ! k = (hostname, old)
        else if old = ip then scan_sites hostname ip i rows = Present
        else scan_sites hostname ip i rows = Absent)"
proof (induction hostname ip i rows rule: scan_sites.induct)
  case (2 hostname ip i h a rows)
  show ?case
  proof (cases "h = hostname")
    case True
    then have "map_of rows hostname = None" using 2(2) by (auto simp: map_of_eq_None_iff)
    moreover have "scan_sites hostname ip (Suc i) rows = Absent" if "\<not> (a = [] \<and> ip \<noteq> [])" "a \<noteq> ip"
      using 2(1) that 2(2) True calculation by auto
    ultimately show ?thesis using True by auto
  next
    case False
    with 2 have "case map_of rows hostname of
      None \<Rightarrow> scan_sites hostname ip (Suc i) rows = Absent
    | Some old \<Rightarrow>
        if old = [] \<and> ip \<noteq> [] then \<exists>k < length rows. scan_sites hostname ip (Suc i) rows = Updated (Suc i + k) \<and> rows ! k = (hostname, old)
        else if old = ip then scan_sites hostname ip (Suc i) rows = Present
        else scan_sites hostname ip (Suc i) rows = Absent" by auto
    note IH = this
    show ?thesis
    proof (cases "map_of rows hostname = Some [] \<and> ip \<noteq> []")
      case True
      with IH obtain k where "k < length rows" "scan_sites hostname ip (Suc i) rows = Updated (Suc i + k)"
        "rows ! k = (hostname, [])" by auto
      with True False show ?thesis by (auto intro!: exI [of _ "Suc k"])
    qed (use IH False in \<open>auto split: option.splits if_splits\<close>)
  qed
qed simp

lemma map_of_update_row:
  "distinct (map fst rows) \<Longrightarrow> k < length rows \<Longrightarrow> rows ! k = (h, a) \<Longrightarrow>
   map_of (rows[k := (h, b)]) = (map_of rows)(h \<mapsto> b) \<and> map fst (rows[k := (h, b)]) = map fst rows"
proof (induction rows arbitrary: k)
  case (Cons r rows)
  show ?case
  proof (cases k)
    case (Suc j)
    with Cons.prems have "h \<noteq> fst r" by (auto simp: in_set_conv_nth image_iff) (metis fst_conv nth_mem)
    with Suc Cons show ?thesis by (cases r) (auto simp: fun_upd_twist)
  qed (use Cons.prems in auto)
qed simp

lemma added_site_agrees:
  assumes "sites_agree V m"
  shows "sites_agree V (snd (SitesModel_addSite V hostname ip m)) \<longleftrightarrow>
      \<not> (\<exists>old. map_of (m_sites m) hostname = Some old \<and> old \<noteq> [] \<and> ip \<noteq> [] \<and> old \<noteq> ip)"
proof -
  define sites where "sites = Settings_vpnSites V (si_mode m) (si_settings m)"
  define st where "st = Settings_setVpnSites V (si_mode m) (qmap_insert hostname (VString ip) sites) (si_settings m)"
  note agree = assms [unfolded sites_agree_def]
  have known: "qmap_contains sites hostname \<longleftrightarrow> map_of (m_sites m) hostname \<noteq> None"
    using agree by (simp add: qmap_contains_def sites_def map_of_stored)
  have st: "settings_ok V st" "map_of (stored_sites V (si_mode m) st) = (map_of (m_sites m))(hostname \<mapsto> ip)"
    using agree vpnSites_set [of V "si_settings m" "si_mode m" "qmap_insert hostname (VString ip) sites"]
    by (auto simp: st_def map_of_stored sites_def fun_eq_iff)
  have add: "Settings_addVpnSite V (si_mode m) hostname ip (si_settings m) =
      (if map_of (m_sites m) hostname \<noteq> None \<and> ip = [] then (False, si_settings m) else (True, st))"
    using known unfolding Settings_addVpnSite_def Let_def st_def sites_def by simp
  note scan = scan_cases [of "m_sites m" hostname ip 0]
  show ?thesis
  proof (cases "map_of (m_sites m) hostname")
    case None
    then have "hostname \<notin> fst ` set (m_sites m)" by (simp add: map_of_eq_None_iff)
    moreover have "map_of (m_sites m @ [(hostname, ip)]) = (map_of (m_sites m))(hostname \<mapsto> ip)"
      using None by (auto simp: map_add_def fun_eq_iff split: option.splits)
    ultimately show ?thesis
      using None scan agree st by (simp add: SitesModel_addSite_def add sites_agree_def si_emit_def Let_def)
  next
    case (Some old)
    then have mem: "hostname \<in> fst ` set (m_sites m)" by (metis domI dom_map_of_conv_image_fst)
    consider "ip = []" | "ip \<noteq> []" "old = []" | "ip \<noteq> []" "old = ip" | "ip \<noteq> []" "old \<noteq> []" "old \<noteq> ip" by blast
    then show ?thesis
    proof cases
      case 1
      have "SitesModel_addSite V hostname ip m = (False, m)"
        unfolding SitesModel_addSite_def add using 1 Some by simp
      with assms 1 show ?thesis by (simp del: not_Some_eq)
    next
      case 2
      with scan Some agree obtain k where k: "k < length (m_sites m)" "m_sites m ! k = (hostname, [])"
        "scan_sites hostname ip 0 (m_sites m) = Updated k" by auto
      with map_of_update_row [of "m_sites m" k hostname "[]" ip] 2 Some agree st show ?thesis
        by (simp add: SitesModel_addSite_def add sites_agree_def si_emit_def Let_def)
    next
      case 3
      then have "(map_of (m_sites m))(hostname \<mapsto> ip) = map_of (m_sites m)" using Some by auto
      with 3 scan Some agree st show ?thesis by (simp add: SitesModel_addSite_def add sites_agree_def Let_def)
    next
      case 4
      with scan Some agree st mem show ?thesis
        by (simp add: SitesModel_addSite_def add sites_agree_def si_emit_def Let_def)
    qed
  qed
qed

lemma removed_row:
  assumes "distinct (map fst rows)" "i < length rows"
  shows "map_of (take i rows @ drop (Suc i) rows) = (map_of rows)(fst (rows ! i) := None) \<and>
    distinct (map fst (take i rows @ drop (Suc i) rows))"
proof -
  have split: "rows = take i rows @ rows ! i # drop (Suc i) rows" using assms(2) by (rule id_take_nth_drop)
  obtain h a where r: "rows ! i = (h, a)" by fastforce
  have d: "distinct (map fst (take i rows @ (h, a) # drop (Suc i) rows))" using assms(1) split r by simp
  then have n: "map_of (take i rows) h = None" "map_of (drop (Suc i) rows) h = None"
    by (auto simp: map_of_eq_None_iff image_iff)
  have "map_of rows = map_of (take i rows @ (h, a) # drop (Suc i) rows)" using split r by simp
  then show ?thesis using d n r by (auto simp: map_add_def fun_eq_iff split: option.splits)
qed

lemma removed_site_agrees:
  assumes "sites_agree V m" "SitesModel_removeSite V row m = Inr m'"
  shows "sites_agree V m'"
proof -
  define i where "i = nat row"
  define hostname where "hostname = fst (m_sites m ! i)"
  note agree = assms(1) [unfolded sites_agree_def]
  have row: "i < length (m_sites m)" using assms(2) by (auto simp: SitesModel_removeSite_def i_def split: if_splits)
  then have "hostname \<in> fst ` set (m_sites m)" by (simp add: hostname_def)
  then have "map_of (m_sites m) hostname \<noteq> None" by (simp add: map_of_eq_None_iff)
  then have known: "qmap_contains (Settings_vpnSites V (si_mode m) (si_settings m)) hostname"
    using agree by (simp add: qmap_contains_def map_of_stored)
  have m': "m' = si_emit (SitesRowRemoved i) (m\<lparr>si_settings := Settings_removeVpnSite V (si_mode m) hostname (si_settings m),
      m_sites := take i (m_sites m) @ drop (Suc i) (m_sites m)\<rparr>)"
    using assms(2) by (auto simp: SitesModel_removeSite_def i_def hostname_def Let_def split: if_splits)
  have "settings_ok V (Settings_removeVpnSite V (si_mode m) hostname (si_settings m))"
    "map_of (stored_sites V (si_mode m) (Settings_removeVpnSite V (si_mode m) hostname (si_settings m))) =
     (map_of (m_sites m))(hostname := None)"
    using agree vpnSites_set [of V "si_settings m"] known
    by (auto simp: Settings_removeVpnSite_def map_of_stored fun_eq_iff Let_def)
  then show ?thesis
    using removed_row [OF _ row] agree by (simp add: m' sites_agree_def si_emit_def hostname_def)
qed

text \<open>
  C28: the list of sites shows what is stored. While list and store agree, removing a row keeps them
  in agreement, and adding a site does so exactly when the host is not already listed with another
  non-empty address: then the store takes the new address, but a second row of the same host is
  appended to the list.
\<close>

theorem site_list_agrees:
  assumes "sites_agree V m"
  shows "(sites_agree V (snd (SitesModel_addSite V hostname ip m)) \<longleftrightarrow>
      \<not> (\<exists>old. map_of (m_sites m) hostname = Some old \<and> old \<noteq> [] \<and> ip \<noteq> [] \<and> old \<noteq> ip)) \<and>
    (SitesModel_removeSite V row m = Inr m' \<longrightarrow> sites_agree V m')"
  using added_site_agrees [OF assms] removed_site_agrees [OF assms] by blast


section \<open>Export and import\<close>

lemma map_of_foldl_insert:
  "distinct (map fst rows) \<Longrightarrow>
   map_of (foldl (\<lambda>m e. qmap_insert (fst e) (snd e) m) acc rows) = map_of acc ++ map_of rows"
proof (induction rows arbitrary: acc)
  case (Cons r rows)
  then have "map_of rows (fst r) = None" by (auto simp: map_of_eq_None_iff)
  then have "(map_of acc)(fst r \<mapsto> snd r) ++ map_of rows = map_of acc ++ map_of (r # rows)"
    by (cases r) (auto simp: map_add_def fun_eq_iff split: option.splits)
  moreover have "map_of (foldl (\<lambda>m e. qmap_insert (fst e) (snd e) m) (qmap_insert (fst r) (snd r) acc) rows) =
      (map_of acc)(fst r \<mapsto> snd r) ++ map_of rows" using Cons by simp
  ultimately show ?case by (simp only: foldl.simps)
qed simp

lemma map_of_add_sites:
  "distinct (map fst sites) \<Longrightarrow>
   map_of (fold (\<lambda>(site, ip) all. if map_of all site = Some (VString ip) then all else qmap_insert site (VString ip) all)
     sites all) = map_of all ++ (map_option VString \<circ> map_of sites)"
proof (induction sites arbitrary: all)
  case (Cons r sites)
  obtain h a where r: "r = (h, a)" by fastforce
  from Cons have "map_of sites h = None" by (auto simp: map_of_eq_None_iff r)
  moreover define all' where "all' = (if map_of all h = Some (VString a) then all else qmap_insert h (VString a) all)"
  moreover have "map_of all' = (map_of all)(h \<mapsto> VString a)" by (auto simp: all'_def)
  ultimately show ?case
    using Cons by (auto simp: r map_add_def fun_eq_iff simp flip: all'_def split: option.splits)
qed simp

lemma ok_add_sites:
  "qmap_ok all \<Longrightarrow> qmap_ok (fold (\<lambda>(site, ip) all. if map_of all site = Some (VString ip) then all
     else qmap_insert site (VString ip) all) sites all)"
  by (induction sites arbitrary: all) (auto simp: qmap_ok_insert)

lemma ok_foldl_insert: "qmap_ok acc \<Longrightarrow> qmap_ok (foldl (\<lambda>m e. qmap_insert (fst e) (snd e) m) acc rows)"
  by (induction rows arbitrary: acc) (auto simp: qmap_ok_insert)

lemma export_fields:
  "field (json_toObject (export_row site)) ''hostname'' = fst site"
  "field (json_toObject (export_row site)) ''ip'' = snd site"
  by (simp_all add: export_row_def field_def json_value_def)

lemma exported_imported:
  assumes "list_all (\<lambda>site. CHR ''.'' \<in> set (fst site)) rows"
  shows "imported_sites (map export_row rows) = foldl (\<lambda>m e. qmap_insert (fst e) (snd e) m) [] rows"
proof -
  have "filter importable (map export_row rows) = map export_row rows"
    using assms by (auto simp: filter_id_conv importable_def export_fields list_all_iff)
  then show ?thesis by (simp add: imported_sites_def foldl_map export_fields)
qed

text \<open>
  C33: an exported list of sites is imported as it was. Whatever the client that imports the file
  had stored, when it replaces its sites, its list and its store hold afterwards exactly the rows of
  the exporting client, provided each host of those occurs once and contains a dot, as the input of a
  site requires.
\<close>

theorem sites_export_import:
  assumes "distinct (map fst (m_sites (sc_model c)))"
    and "list_all (\<lambda>site. CHR ''.'' \<in> set (fst site)) (m_sites (sc_model c))"
    and "settings_ok V (si_settings (sc_model d))"
    and "sc_calls (SitesController_exportSites tr file c) = sc_calls c @ [SaveFile file xs, SitesFinished note]"
    and "d' = SitesController_importSites tr' V file (SitesArray xs) True d"
  shows "map_of (m_sites (sc_model d')) = map_of (m_sites (sc_model c)) \<and> sites_agree V (sc_model d')"
proof -
  define rows where "rows = m_sites (sc_model c)"
  define mode where "mode = si_mode (sc_model d)"
  have xs: "xs = map export_row rows"
    using assms(4) by (simp add: SitesController_exportSites_def sc_call_def rows_def)
  define sites where "sites = imported_sites xs"
  have sites: "map_of sites = map_of rows" "distinct (map fst sites)"
    using assms(1,2) map_of_foldl_insert [of rows "[]"] ok_foldl_insert [of "[]" rows]
    by (simp_all add: sites_def xs exported_imported rows_def qmap_ok_distinct qmap_ok_def [of "[]"])
  define st where "st = Settings_removeAllVpnSites V mode (si_settings (sc_model d))"
  have st: "settings_ok V st" "Settings_vpnSites V mode st = []"
    using vpnSites_set [OF assms(3)] by (simp_all add: st_def Settings_removeAllVpnSites_def)
  define st' where "st' = Settings_addVpnSites V mode sites st"
  have new: "settings_ok V st'" "map_of (Settings_vpnSites V mode st') = map_option VString \<circ> map_of sites"
    "qmap_ok (Settings_vpnSites V mode st')"
    using vpnSites_set [OF st(1)] map_of_add_sites [OF sites(2), of "[]"] ok_add_sites [of "[]" sites]
    by (simp_all add: st'_def Settings_addVpnSites_def st(2) qmap_ok_def [of "[]"])
  have rows': "m_sites (sc_model d') = stored_sites V mode st'" "si_mode (sc_model d') = mode"
    "si_settings (sc_model d') = st'"
    by (simp_all add: assms(5) SitesController_importSites_def SitesModel_addSites_def SitesModel_fillSites_def
        sc_call_def si_emit_def Let_def st'_def st_def sites_def mode_def)
  have "map fst (stored_sites V mode st') = map fst (Settings_vpnSites V mode st')"
    by (simp add: stored_sites_def case_prod_beta comp_def)
  then have "distinct (map fst (stored_sites V mode st'))" using qmap_ok_distinct [OF new(3)] by simp
  moreover have "map_of (stored_sites V mode st') = map_of rows"
    by (simp add: map_of_stored new(2) sites(1) fun_eq_iff option.map_comp comp_def option.map_ident)
  ultimately show ?thesis by (simp add: rows' new(1) sites_agree_def rows_def)
qed

section \<open>Applications\<close>

text \<open>Every operation leaves the rows equal to the stored applications of the mode.\<close>

definition apps_agree :: "'k vault \<Rightarrow> 'k AppSplitTunnelingModel \<Rightarrow> bool" where
  "apps_agree V m \<longleftrightarrow> settings_ok V (ap_settings m) \<and> m_apps m = Settings_getVpnApps V (ap_mode m) (ap_settings m)"

lemma app_json: "app_ofJson (app_toJson a) = a"
  by (cases a) (simp add: app_ofJson_def app_toJson_def json_value_def field_def)

lemma apps_set:
  assumes "settings_ok V st"
  shows "Settings_getVpnApps V mode (Settings_setVpnApps V mode apps st) = apps"
    and "settings_ok V (Settings_setVpnApps V mode apps st)"
  using Settings_fetch [OF assms, of "VJsonArray (map app_toJson apps)"]
  by (simp_all add: Settings_getVpnApps_def Settings_setVpnApps_def toJsonArray_def marked_def app_json comp_def)

lemma apps_operations_agree:
  assumes "apps_agree V m"
  shows "apps_agree V (snd (AppSplitTunnelingModel_addApp V app m))"
    and "AppSplitTunnelingModel_removeApp V row m = Inr m' \<Longrightarrow> apps_agree V m'"
    and "AppSplitTunnelingModel_setRouteMode Q V mode m = Some m' \<Longrightarrow> apps_agree V m'"
  using assms apps_set [of V "ap_settings m"] Settings_fetch(2) [of V "ap_settings m" "VInt (AppsRouteMode_value mode)"]
  by (auto simp: apps_agree_def AppSplitTunnelingModel_addApp_def AppSplitTunnelingModel_removeApp_def
      AppSplitTunnelingModel_setRouteMode_def Settings_setAppsRouteMode_def marked_def Let_def split: if_splits)

section \<open>Witnesses\<close>

definition sample_sites :: "unit SitesModel" where
  "sample_sites = \<lparr>si_settings = no_settings, si_enabled = True, si_mode = VpnOnlyForwardSites, m_sites = [], si_signals = []\<rparr>"

definition site_sample :: "unit SitesModel" where
  "site_sample = snd (SitesModel_addSite json_vault ''a.example'' ''192.0.2.1'' sample_sites)"

lemma sample_sites_agree: "sites_agree json_vault sample_sites"
  using no_settings_ok
  by (simp add: sites_agree_def sample_sites_def stored_sites_def Settings_vpnSites_def no_settings_value toMap_def)

lemma site_sample_rows: "m_sites site_sample = [(''a.example'', ''192.0.2.1'')]" "sites_agree json_vault site_sample"
proof -
  show "m_sites site_sample = [(''a.example'', ''192.0.2.1'')]"
    by (simp add: site_sample_def sample_sites_def SitesModel_addSite_def Settings_addVpnSite_def Let_def si_emit_def)
  show "sites_agree json_vault site_sample"
    using added_site_agrees [OF sample_sites_agree] by (simp add: site_sample_def sample_sites_def)
qed

theorem site_list_agrees_witness:
  "\<not> sites_agree json_vault (snd (SitesModel_addSite json_vault ''a.example'' ''192.0.2.9'' site_sample))"
  using site_list_agrees [OF site_sample_rows(2), of "''a.example''" "''192.0.2.9''"] by (simp add: site_sample_rows(1))

theorem sites_export_import_witness:
  "\<exists>d'. d' = SitesController_importSites id json_vault ''f''
      (SitesArray (map export_row (m_sites site_sample))) True \<lparr>sc_model = sample_sites, sc_calls = []\<rparr> \<and>
    map_of (m_sites (sc_model d')) ''a.example'' = Some ''192.0.2.1''"
  using sites_export_import [of "\<lparr>sc_model = site_sample, sc_calls = []\<rparr>" json_vault
      "\<lparr>sc_model = sample_sites, sc_calls = []\<rparr>" id "''f''" "map export_row (m_sites site_sample)" "''Export completed''"
      _ id] no_settings_ok
  by (simp add: site_sample_rows(1) sample_sites_def SitesController_exportSites_def sc_call_def)

end
