(* ===== verification/Protocol_Models.thy ===== *)
theory Protocol_Models
  imports Connection_Control
begin

text \<open>
  The settings pages of WireGuard and AmneziaWG (\<open>client/ui/models/protocols/awgConfigModel.cpp\<close>,
  \<open>wireguardConfigModel.cpp\<close>): a page is filled from the configuration of a container, edited by
  role, and turned into the configuration to store. The text of a JSON document is printed and parsed
  by two arguments; \<open>valueOr\<close> is \<open>QJsonValue::toString\<close> with a default.
\<close>

definition valueOr :: "qjobject \<Rightarrow> string \<Rightarrow> string \<Rightarrow> string" where
  "valueOr ob k d = (case json_toString (json_value ob k) of None \<Rightarrow> d | Some s \<Rightarrow> s)"

record AwgConfigModel =
  ac_container :: DockerContainer
  m_serverProtocolConfig :: qjobject
  m_clientProtocolConfig :: qjobject
  m_fullConfig :: qjobject

section \<open>AmneziaWG\<close>

datatype AwgRoles = PortRole | ClientMtuRole | ClientJunkPacketCountRole | ClientJunkPacketMinSizeRole
  | ClientJunkPacketMaxSizeRole | ServerJunkPacketCountRole | ServerJunkPacketMinSizeRole
  | ServerJunkPacketMaxSizeRole | ServerInitPacketJunkSizeRole | ServerResponsePacketJunkSizeRole
  | ServerInitPacketMagicHeaderRole | ServerResponsePacketMagicHeaderRole
  | ServerUnderloadPacketMagicHeaderRole | ServerTransportPacketMagicHeaderRole

text \<open>The key of a role, and whether it is one of the client configuration.\<close>

primrec awg_role :: "AwgRoles \<Rightarrow> bool \<times> string" where
  "awg_role PortRole = (False, ''port'')"
| "awg_role ClientMtuRole = (True, ''mtu'')"
| "awg_role ClientJunkPacketCountRole = (True, ''Jc'')"
| "awg_role ClientJunkPacketMinSizeRole = (True, ''Jmin'')"
| "awg_role ClientJunkPacketMaxSizeRole = (True, ''Jmax'')"
| "awg_role ServerJunkPacketCountRole = (False, ''Jc'')"
| "awg_role ServerJunkPacketMinSizeRole = (False, ''Jmin'')"
| "awg_role ServerJunkPacketMaxSizeRole = (False, ''Jmax'')"
| "awg_role ServerInitPacketJunkSizeRole = (False, ''S1'')"
| "awg_role ServerResponsePacketJunkSizeRole = (False, ''S2'')"
| "awg_role ServerInitPacketMagicHeaderRole = (False, ''H1'')"
| "awg_role ServerResponsePacketMagicHeaderRole = (False, ''H2'')"
| "awg_role ServerUnderloadPacketMagicHeaderRole = (False, ''H3'')"
| "awg_role ServerTransportPacketMagicHeaderRole = (False, ''H4'')"

definition AwgConfigModel_setData :: "int \<Rightarrow> string \<Rightarrow> AwgRoles \<Rightarrow> AwgConfigModel \<Rightarrow> bool \<times> AwgConfigModel" where
  "AwgConfigModel_setData row val role m =
     (if row < 0 \<or> row \<ge> int (length ContainerProps_allContainers) then (False, m)
      else case awg_role role of
        (True, k) \<Rightarrow> (True, m\<lparr>m_clientProtocolConfig := json_insert k (JString val) (m_clientProtocolConfig m)\<rparr>)
      | (False, k) \<Rightarrow> (True, m\<lparr>m_serverProtocolConfig := json_insert k (JString val) (m_serverProtocolConfig m)\<rparr>))"

definition AwgConfigModel_data :: "int \<Rightarrow> AwgRoles \<Rightarrow> AwgConfigModel \<Rightarrow> qjson" where
  "AwgConfigModel_data row role m =
     (if row < 0 \<or> row \<ge> 1 then JBool False
      else if role = PortRole then JString (field (m_serverProtocolConfig m) ''port'')
      else case awg_role role of (True, k) \<Rightarrow> json_value (m_clientProtocolConfig m) k
         | (False, k) \<Rightarrow> json_value (m_serverProtocolConfig m) k)"

definition awg_defaults :: "(string \<times> string) list" where
  "awg_defaults =
     [(''port'', ''55424''), (''Jc'', ''3''), (''Jmin'', ''10''), (''Jmax'', ''30''), (''S1'', ''15''), (''S2'', ''18''),
      (''H1'', ''1020325451''), (''H2'', ''3288052141''), (''H3'', ''1766607858''), (''H4'', ''2528465083'')]"

definition awg_server :: "qjobject \<Rightarrow> qjobject \<Rightarrow> qjobject" where
  "awg_server server ob =
     (let ob = json_insert ''transport_proto'' (JString (valueOr server ''transport_proto'' ''udp'')) ob;
          ob = json_put ''last_config'' (json_value server ''last_config'') ob
      in fold (\<lambda>(k, d). json_insert k (JString (valueOr server k d))) awg_defaults ob)"

definition awg_client :: "qjobject \<Rightarrow> qjobject \<Rightarrow> qjobject \<Rightarrow> qjobject" where
  "awg_client client server ob =
     fold (\<lambda>k. json_insert k (JString (valueOr client k (field server k)))) [''Jc'', ''Jmin'', ''Jmax'']
       (json_insert ''mtu'' (JString (valueOr client ''mtu'' awg_defaultMtu)) ob)"

definition AwgConfigModel_updateModel :: "(string \<Rightarrow> qjobject) \<Rightarrow> qjobject \<Rightarrow> AwgConfigModel \<Rightarrow> AwgConfigModel" where
  "AwgConfigModel_updateModel parse config m =
     (let server = awg_server (object_field config ''awg'') (m_serverProtocolConfig m) in
      \<lparr>ac_container = ContainerProps_containerFromString (field config ''container''),
       m_serverProtocolConfig = server,
       m_clientProtocolConfig = awg_client (parse (field server ''last_config'')) server (m_clientProtocolConfig m),
       m_fullConfig = config\<rparr>)"

text \<open>\<open>AwgConfig(old).hasEqualServerSettings(AwgConfig(new))\<close>.\<close>

definition AwgConfig_hasEqualServerSettings :: "qjobject \<Rightarrow> qjobject \<Rightarrow> bool" where
  "AwgConfig_hasEqualServerSettings a b = list_all (\<lambda>(k, d). valueOr a k d = valueOr b k d) awg_defaults"

definition AwgConfigModel_isServerSettingsEqual :: "AwgConfigModel \<Rightarrow> bool" where
  "AwgConfigModel_isServerSettingsEqual m =
     AwgConfig_hasEqualServerSettings (object_field (m_fullConfig m) ''awg'') (m_serverProtocolConfig m)"

definition AwgConfigModel_getConfig ::
  "(string \<Rightarrow> qjobject) \<Rightarrow> (qjobject \<Rightarrow> string) \<Rightarrow> AwgConfigModel \<Rightarrow> qjobject \<times> AwgConfigModel" where
  "AwgConfigModel_getConfig parse print m =
     (let server = m_serverProtocolConfig m;
          server =
            (if \<not> AwgConfigModel_isServerSettingsEqual m then qmap_remove ''last_config'' server
             else json_insert ''last_config'' (JString (print
               (fold (\<lambda>k. json_put k (json_value (m_clientProtocolConfig m) k)) [''mtu'', ''Jc'', ''Jmin'', ''Jmax'']
                 (parse (field server ''last_config''))))) server);
          full = json_insert ''awg'' (JObject server) (m_fullConfig m)
      in (full, m\<lparr>m_serverProtocolConfig := server, m_fullConfig := full\<rparr>))"

definition AwgConfigModel_isHeadersEqual :: "string \<Rightarrow> string \<Rightarrow> string \<Rightarrow> string \<Rightarrow> bool" where
  "AwgConfigModel_isHeadersEqual h1 h2 h3 h4 \<longleftrightarrow> h1 = h2 \<or> h1 = h3 \<or> h1 = h4 \<or> h2 = h3 \<or> h2 = h4 \<or> h3 = h4"

definition AwgConfigModel_isPacketSizeEqual :: "32 word \<Rightarrow> 32 word \<Rightarrow> bool" where
  "AwgConfigModel_isPacketSizeEqual s1 s2 \<longleftrightarrow> 148 + s1 = 92 + s2"

section \<open>WireGuard\<close>

definition WireGuardConfigModel_setData :: "int \<Rightarrow> string \<Rightarrow> AwgRoles \<Rightarrow> AwgConfigModel \<Rightarrow> bool \<times> AwgConfigModel" where
  "WireGuardConfigModel_setData row val role m =
     (if row < 0 \<or> row \<ge> int (length ContainerProps_allContainers) then (False, m)
      else (True, case role of
        PortRole \<Rightarrow> m\<lparr>m_serverProtocolConfig := json_insert ''port'' (JString val) (m_serverProtocolConfig m)\<rparr>
      | ClientMtuRole \<Rightarrow> m\<lparr>m_clientProtocolConfig := json_insert ''mtu'' (JString val) (m_clientProtocolConfig m)\<rparr>
      | _ \<Rightarrow> m))"

text \<open>A role the page does not have is answered by an invalid \<open>QVariant\<close>.\<close>

definition WireGuardConfigModel_data :: "int \<Rightarrow> AwgRoles \<Rightarrow> AwgConfigModel \<Rightarrow> qjson" where
  "WireGuardConfigModel_data row role m =
     (if row < 0 \<or> row \<ge> 1 then JBool False
      else case role of
        PortRole \<Rightarrow> JString (field (m_serverProtocolConfig m) ''port'')
      | ClientMtuRole \<Rightarrow> json_value (m_clientProtocolConfig m) ''mtu''
      | _ \<Rightarrow> JUndefined)"

definition WireGuardConfigModel_updateModel :: "(string \<Rightarrow> qjobject) \<Rightarrow> qjobject \<Rightarrow> AwgConfigModel \<Rightarrow> AwgConfigModel" where
  "WireGuardConfigModel_updateModel parse config m =
     (let old = object_field config ''wireguard'';
          server = json_insert ''transport_proto'' (JString (valueOr old ''transport_proto'' ''udp'')) (m_serverProtocolConfig m);
          server = json_put ''last_config'' (json_value old ''last_config'') server;
          server = json_insert ''port'' (JString (valueOr old ''port'' ''51820'')) server
      in \<lparr>ac_container = ContainerProps_containerFromString (field config ''container''),
          m_serverProtocolConfig = server,
          m_clientProtocolConfig = json_insert ''mtu''
            (JString (valueOr (parse (field server ''last_config'')) ''mtu'' wireguard_defaultMtu)) (m_clientProtocolConfig m),
          m_fullConfig = config\<rparr>)"

definition WireGuardConfigModel_isServerSettingsEqual :: "AwgConfigModel \<Rightarrow> bool" where
  "WireGuardConfigModel_isServerSettingsEqual m \<longleftrightarrow>
     valueOr (object_field (m_fullConfig m) ''wireguard'') ''port'' ''51820'' =
     valueOr (m_serverProtocolConfig m) ''port'' ''51820''"

definition WireGuardConfigModel_getConfig ::
  "(string \<Rightarrow> qjobject) \<Rightarrow> (qjobject \<Rightarrow> string) \<Rightarrow> AwgConfigModel \<Rightarrow> qjobject \<times> AwgConfigModel" where
  "WireGuardConfigModel_getConfig parse print m =
     (let server = m_serverProtocolConfig m;
          server =
            (if \<not> WireGuardConfigModel_isServerSettingsEqual m then qmap_remove ''last_config'' server
             else json_insert ''last_config'' (JString (print
               (json_put ''mtu'' (json_value (m_clientProtocolConfig m) ''mtu'')
                 (parse (field server ''last_config''))))) server);
          full = json_insert ''wireguard'' (JObject server) (m_fullConfig m)
      in (full, m\<lparr>m_serverProtocolConfig := server, m_fullConfig := full\<rparr>))"

section \<open>What is stored\<close>

lemma valueOr_insert: "valueOr (json_insert k (JString v) ob) k' d = (if k' = k then v else valueOr ob k' d)"
  by (simp add: valueOr_def)

lemma valueOr_put: "k' \<noteq> k \<Longrightarrow> valueOr (json_put k v ob) k' d = valueOr ob k' d"
  by (simp add: valueOr_def)

lemma awg_keys: "distinct (map fst awg_defaults)" "''last_config'' \<notin> fst ` set awg_defaults"
  by (simp_all add: awg_defaults_def)

lemma valueOr_fold:
  "distinct (map fst kds) \<Longrightarrow>
   valueOr (fold (\<lambda>(k, d). json_insert k (JString (valueOr server k d))) kds ob) k d' =
   (case map_of kds k of None \<Rightarrow> valueOr ob k d' | Some d \<Rightarrow> valueOr server k d)"
proof (induction kds arbitrary: ob)
  case (Cons e kds)
  obtain a b where e: "e = (a, b)" by fastforce
  from Cons have "map_of kds a = None" by (auto simp: e map_of_eq_None_iff)
  with Cons show ?case by (auto simp: e valueOr_insert split: option.splits)
qed simp

lemma updated_settings_equal: "AwgConfigModel_isServerSettingsEqual (AwgConfigModel_updateModel parse config m)"
  unfolding AwgConfigModel_isServerSettingsEqual_def AwgConfig_hasEqualServerSettings_def
    AwgConfigModel_updateModel_def awg_server_def Let_def list_all_iff
  using awg_keys(1) by (auto simp: valueOr_fold map_of_is_SomeI)

text \<open>The keys a page writes into the server configuration.\<close>

lemma page_drops:
  assumes "k \<notin> {''transport_proto'', ''last_config''}" "k \<notin> fst ` set awg_defaults"
    "json_value (m_serverProtocolConfig m) k = JUndefined"
  shows "json_value (m_serverProtocolConfig (AwgConfigModel_updateModel parse config m)) k = JUndefined"
proof -
  have "json_value (fold (\<lambda>(k, d). json_insert k (JString (valueOr server k d))) kds ob) k = json_value ob k"
    if "k \<notin> fst ` set kds" for server kds and ob :: qjobject
    using that by (induction kds arbitrary: ob) auto
  from this [OF assms(2)] assms(1,3) show ?thesis
    by (simp add: AwgConfigModel_updateModel_def awg_server_def Let_def)
qed

text \<open>
  C30: what saving the page of an AmneziaWG container does to its client configuration. The container
  is taken for configured afterwards exactly when the server settings are as before: with changed
  ones the client configuration is dropped, so that the next connection creates a new one. With
  unchanged ones it is taken for configured even if it had no client configuration at all, because
  the four values of the page are then stored as one; in particular a page that is opened and saved
  without a change does so. The other entries of the container are kept.
\<close>

theorem saved_page_configured:
  assumes "\<And>ob. print ob \<noteq> []"
  shows "let saved = fst (AwgConfigModel_getConfig parse print m) in
     (ConnectionController_isProtocolConfigExists saved DockerAwg \<longleftrightarrow> AwgConfigModel_isServerSettingsEqual m) \<and>
     ConnectionController_isProtocolConfigExists
       (fst (AwgConfigModel_getConfig parse print (AwgConfigModel_updateModel parse config m))) DockerAwg \<and>
     (\<forall>k. k \<noteq> ''awg'' \<longrightarrow> json_value saved k = json_value (m_fullConfig m) k)"
proof -
  have names: "ProtocolProps_protoToString ProtoAwg = ''awg''" "ContainerProps_protocolsForContainer DockerAwg = [ProtoAwg]"
    by code_simp+
  have "ConnectionController_isProtocolConfigExists (fst (AwgConfigModel_getConfig parse print m)) DockerAwg \<longleftrightarrow>
      AwgConfigModel_isServerSettingsEqual m" for m
    using assms by (simp add: ConnectionController_isProtocolConfigExists_def names AwgConfigModel_getConfig_def
        object_field_def field_def json_value_def [of "qmap_remove _ _"] Let_def)
  moreover have "k \<noteq> ''awg'' \<Longrightarrow> json_value (fst (AwgConfigModel_getConfig parse print m)) k = json_value (m_fullConfig m) k" for k
    by (simp add: AwgConfigModel_getConfig_def Let_def)
  ultimately show ?thesis using updated_settings_equal by (simp add: Let_def)
qed

definition blank_page :: AwgConfigModel where
  "blank_page = \<lparr>ac_container = DockerNone, m_serverProtocolConfig = [], m_clientProtocolConfig = [], m_fullConfig = []\<rparr>"

theorem saved_page_configured_witness:
  "ConnectionController_isProtocolConfigExists
     (fst (AwgConfigModel_getConfig (\<lambda>_. []) (\<lambda>_. ''{}'')
       (AwgConfigModel_updateModel (\<lambda>_. []) [(''container'', JString ''amnezia-awg'')] blank_page))) DockerAwg"
  using saved_page_configured [of "\<lambda>_. ''{}''" "\<lambda>_. []" blank_page "[(''container'', JString ''amnezia-awg'')]"]
  by (simp add: Let_def)

end
