(* ===== verification/Object_Pages.thy ===== *)
theory Object_Pages
  imports Protocol_Models
begin

text \<open>
  The settings pages that edit one object: OpenVPN, Cloak, Shadowsocks, Xray and IKEv2
  (\<open>client/ui/models/protocols\<close>), SFTP and the SOCKS5 proxy (\<open>client/ui/models/services\<close>). A value set
  from a page is a text or a truth value, with the conversions of \<open>QVariant\<close>; a model index is its row,
  and an invalid index has row \<open>-1\<close>.
\<close>

section \<open>Pages\<close>

datatype page_value = PText string | PBool bool | PNone

primrec page_toString :: "page_value \<Rightarrow> string" where
  "page_toString (PText s) = s"
| "page_toString (PBool b) = (if b then ''true'' else ''false'')"
| "page_toString PNone = []"

primrec page_toBool :: "page_value \<Rightarrow> bool" where
  "page_toBool (PText s) \<longleftrightarrow> toLower s \<notin> {[], ''0'', ''false''}"
| "page_toBool (PBool b) = b"
| "page_toBool PNone = False"

definition boolOr :: "qjobject \<Rightarrow> string \<Rightarrow> bool \<Rightarrow> bool" where
  "boolOr ob k d = (case json_value ob k of JBool b \<Rightarrow> b | _ \<Rightarrow> d)"

definition transport_default :: "Proto \<Rightarrow> string" where
  "transport_default p =
     (case ProtocolProps_defaultTransportProto p of Some t \<Rightarrow> ProtocolProps_transportProtoToString t p | None \<Rightarrow> [])"

record PageModel =
  pg_container :: DockerContainer
  m_protocolConfig :: qjobject
  pg_fullConfig :: qjobject

definition put_text :: "string \<Rightarrow> string \<Rightarrow> PageModel \<Rightarrow> PageModel" where
  "put_text k s m = m\<lparr>m_protocolConfig := json_insert k (JString s) (m_protocolConfig m)\<rparr>"

definition put_flag :: "string \<Rightarrow> bool \<Rightarrow> PageModel \<Rightarrow> PageModel" where
  "put_flag k b m = m\<lparr>m_protocolConfig := json_insert k (JBool b) (m_protocolConfig m)\<rparr>"

definition page_row :: "int \<Rightarrow> bool" where
  "page_row row \<longleftrightarrow> \<not> (row < 0 \<or> row \<ge> int (length ContainerProps_allContainers))"

definition page_open :: "qjobject \<Rightarrow> PageModel \<Rightarrow> PageModel" where
  "page_open config m =
     m\<lparr>pg_container := ContainerProps_containerFromString (field config ''container''), pg_fullConfig := config\<rparr>"

definition page_save :: "string \<Rightarrow> PageModel \<Rightarrow> qjobject \<times> PageModel" where
  "page_save k m =
     (let full = json_insert k (JObject (m_protocolConfig m)) (pg_fullConfig m) in (full, m\<lparr>pg_fullConfig := full\<rparr>))"

datatype OpenVpnRoles = OvSubnetAddressRole | OvTransportProtoRole | OvPortRole | OvAutoNegotiateEncryprionRole
  | OvHashRole | OvCipherRole | OvTlsAuthRole | OvBlockDnsRole | OvAdditionalClientCommandsRole
  | OvAdditionalServerCommandsRole | OvIsPortEditable | OvIsTransportProtoEditable | OvHasRemoveButton

definition OpenVpnConfigModel_setData :: "int \<Rightarrow> page_value \<Rightarrow> OpenVpnRoles \<Rightarrow> PageModel \<Rightarrow> bool \<times> PageModel" where
  "OpenVpnConfigModel_setData row val role m =
     (if \<not> page_row row then (False, m)
      else (True, case role of
        OvSubnetAddressRole \<Rightarrow> put_text ''subnet_address'' (page_toString val) m
      | OvTransportProtoRole \<Rightarrow> put_text ''transport_proto'' (page_toString val) m
      | OvPortRole \<Rightarrow> put_text ''port'' (page_toString val) m
      | OvAutoNegotiateEncryprionRole \<Rightarrow> put_flag ''ncp_disable'' (\<not> page_toBool val) m
      | OvHashRole \<Rightarrow> put_text ''hash'' (page_toString val) m
      | OvCipherRole \<Rightarrow> put_text ''cipher'' (page_toString val) m
      | OvTlsAuthRole \<Rightarrow> put_flag ''tls_auth'' (page_toBool val) m
      | OvBlockDnsRole \<Rightarrow> put_flag ''block_outside_dns'' (page_toBool val) m
      | OvAdditionalClientCommandsRole \<Rightarrow> put_text ''additional_client_config'' (page_toString val) m
      | OvAdditionalServerCommandsRole \<Rightarrow> put_text ''additional_server_config'' (page_toString val) m
      | _ \<Rightarrow> m))"

definition OpenVpnConfigModel_data :: "int \<Rightarrow> OpenVpnRoles \<Rightarrow> PageModel \<Rightarrow> page_value" where
  "OpenVpnConfigModel_data row role m =
     (let ob = m_protocolConfig m in
      if row < 0 \<or> row \<ge> 1 then PBool False
      else case role of
        OvSubnetAddressRole \<Rightarrow> PText (valueOr ob ''subnet_address'' ''10.8.0.0'')
      | OvTransportProtoRole \<Rightarrow> PText (valueOr ob ''transport_proto'' ''udp'')
      | OvPortRole \<Rightarrow> PText (valueOr ob ''port'' ''1194'')
      | OvAutoNegotiateEncryprionRole \<Rightarrow> PBool (\<not> boolOr ob ''ncp_disable'' False)
      | OvHashRole \<Rightarrow> PText (valueOr ob ''hash'' ''SHA512'')
      | OvCipherRole \<Rightarrow> PText (valueOr ob ''cipher'' ''AES-256-GCM'')
      | OvTlsAuthRole \<Rightarrow> PBool (boolOr ob ''tls_auth'' True)
      | OvBlockDnsRole \<Rightarrow> PBool (boolOr ob ''block_outside_dns'' True)
      | OvAdditionalClientCommandsRole \<Rightarrow> PText (valueOr ob ''additional_client_config'' [])
      | OvAdditionalServerCommandsRole \<Rightarrow> PText (valueOr ob ''additional_server_config'' [])
      | OvIsPortEditable \<Rightarrow> PBool (pg_container m = DockerOpenVpn)
      | OvIsTransportProtoEditable \<Rightarrow> PBool (pg_container m = DockerOpenVpn)
      | OvHasRemoveButton \<Rightarrow> PBool (pg_container m = DockerOpenVpn))"

definition OpenVpnConfigModel_updateModel :: "qjobject \<Rightarrow> PageModel \<Rightarrow> PageModel" where
  "OpenVpnConfigModel_updateModel config m =
     (let m = page_open config m;
          ob = object_field config ''openvpn'';
          m = put_text ''subnet_address'' (valueOr ob ''subnet_address'' ''10.8.0.0'') m;
          m = put_text ''transport_proto''
                (if pg_container m = DockerOpenVpn then valueOr ob ''transport_proto'' ''udp'' else ''tcp'') m;
          m = put_flag ''ncp_disable'' (boolOr ob ''ncp_disable'' False) m;
          m = put_text ''cipher'' (valueOr ob ''cipher'' ''AES-256-GCM'') m;
          m = put_text ''hash'' (valueOr ob ''hash'' ''SHA512'') m;
          m = put_flag ''block_outside_dns'' (boolOr ob ''block_outside_dns'' True) m;
          m = put_text ''port'' (valueOr ob ''port'' ''1194'') m;
          m = put_flag ''tls_auth'' (boolOr ob ''tls_auth'' True) m;
          m = put_text ''additional_client_config'' (valueOr ob ''additional_client_config'' []) m
      in put_text ''additional_server_config'' (valueOr ob ''additional_server_config'' []) m)"

definition OpenVpnConfigModel_getConfig :: "PageModel \<Rightarrow> qjobject \<times> PageModel" where
  "OpenVpnConfigModel_getConfig = page_save ''openvpn''"

datatype CloakRoles = CkPortRole | CkCipherRole | CkSiteRole

definition CloakConfigModel_setData :: "int \<Rightarrow> page_value \<Rightarrow> CloakRoles \<Rightarrow> PageModel \<Rightarrow> bool \<times> PageModel" where
  "CloakConfigModel_setData row val role m =
     (if \<not> page_row row then (False, m)
      else (True, case role of
        CkPortRole \<Rightarrow> put_text ''port'' (page_toString val) m
      | CkCipherRole \<Rightarrow> put_text ''cipher'' (page_toString val) m
      | CkSiteRole \<Rightarrow> put_text ''site'' (page_toString val) m))"

definition CloakConfigModel_data :: "int \<Rightarrow> CloakRoles \<Rightarrow> PageModel \<Rightarrow> page_value" where
  "CloakConfigModel_data row role m =
     (if row < 0 \<or> row \<ge> 1 then PBool False
      else case role of
        CkPortRole \<Rightarrow> PText (valueOr (m_protocolConfig m) ''port'' ''443'')
      | CkCipherRole \<Rightarrow> PText (valueOr (m_protocolConfig m) ''cipher'' ''chacha20-poly1305'')
      | CkSiteRole \<Rightarrow> PText (valueOr (m_protocolConfig m) ''site'' ''tile.openstreetmap.org''))"

definition CloakConfigModel_updateModel :: "qjobject \<Rightarrow> PageModel \<Rightarrow> PageModel" where
  "CloakConfigModel_updateModel config m =
     (let m = page_open config m;
          ob = object_field config ''cloak'';
          m = put_text ''transport_proto'' (valueOr ob ''transport_proto'' (transport_default ProtoCloak)) m;
          m = put_text ''cipher'' (valueOr ob ''cipher'' ''chacha20-poly1305'') m;
          m = put_text ''port'' (valueOr ob ''port'' ''443'') m
      in put_text ''site'' (valueOr ob ''site'' ''tile.openstreetmap.org'') m)"

definition CloakConfigModel_getConfig :: "PageModel \<Rightarrow> qjobject \<times> PageModel" where
  "CloakConfigModel_getConfig = page_save ''cloak''"

datatype ShadowSocksRoles = SsPortRole | SsCipherRole | SsIsPortEditableRole | SsIsCipherEditableRole

definition ShadowSocksConfigModel_setData :: "int \<Rightarrow> page_value \<Rightarrow> ShadowSocksRoles \<Rightarrow> PageModel \<Rightarrow> bool \<times> PageModel" where
  "ShadowSocksConfigModel_setData row val role m =
     (if \<not> page_row row then (False, m)
      else (True, case role of
        SsPortRole \<Rightarrow> put_text ''port'' (page_toString val) m
      | SsCipherRole \<Rightarrow> put_text ''cipher'' (page_toString val) m
      | _ \<Rightarrow> m))"

definition ShadowSocksConfigModel_data :: "int \<Rightarrow> ShadowSocksRoles \<Rightarrow> PageModel \<Rightarrow> page_value" where
  "ShadowSocksConfigModel_data row role m =
     (if row < 0 \<or> row \<ge> 1 then PBool False
      else case role of
        SsPortRole \<Rightarrow> PText (valueOr (m_protocolConfig m) ''port'' ''6789'')
      | SsCipherRole \<Rightarrow> PText (valueOr (m_protocolConfig m) ''cipher'' ''chacha20-ietf-poly1305'')
      | SsIsPortEditableRole \<Rightarrow> PBool (pg_container m = DockerShadowSocks)
      | SsIsCipherEditableRole \<Rightarrow> PBool (pg_container m = DockerShadowSocks))"

definition ShadowSocksConfigModel_updateModel :: "qjobject \<Rightarrow> PageModel \<Rightarrow> PageModel" where
  "ShadowSocksConfigModel_updateModel config m =
     (let m = page_open config m;
          ob = object_field config ''shadowsocks'';
          m = put_text ''transport_proto'' (valueOr ob ''transport_proto'' (transport_default ProtoShadowSocks)) m;
          m = put_text ''cipher'' (valueOr ob ''cipher'' ''chacha20-ietf-poly1305'') m
      in put_text ''port'' (valueOr ob ''port'' ''6789'') m)"

definition ShadowSocksConfigModel_getConfig :: "PageModel \<Rightarrow> qjobject \<times> PageModel" where
  "ShadowSocksConfigModel_getConfig = page_save ''shadowsocks''"

text \<open>The only role of the Xray page is \<open>SiteRole\<close>.\<close>

definition XrayConfigModel_setData :: "int \<Rightarrow> page_value \<Rightarrow> PageModel \<Rightarrow> bool \<times> PageModel" where
  "XrayConfigModel_setData row val m =
     (if \<not> page_row row then (False, m) else (True, put_text ''site'' (page_toString val) m))"

definition XrayConfigModel_data :: "int \<Rightarrow> PageModel \<Rightarrow> page_value" where
  "XrayConfigModel_data row m =
     (if row < 0 \<or> row \<ge> 1 then PBool False
      else PText (valueOr (m_protocolConfig m) ''site'' ''www.googletagmanager.com''))"

definition XrayConfigModel_updateModel :: "qjobject \<Rightarrow> PageModel \<Rightarrow> PageModel" where
  "XrayConfigModel_updateModel config m =
     (let m = page_open config m;
          ob = object_field config ''xray'';
          m = put_text ''transport_proto'' (valueOr ob ''transport_proto'' (transport_default ProtoXray)) m;
          m = put_text ''port'' (valueOr ob ''port'' ''443'') m
      in put_text ''site'' (valueOr ob ''site'' ''www.googletagmanager.com'') m)"

definition XrayConfigModel_getConfig :: "PageModel \<Rightarrow> qjobject \<times> PageModel" where
  "XrayConfigModel_getConfig = page_save ''xray''"

text \<open>The IKEv2 page reads and writes the entry of Shadowsocks, with its defaults.\<close>

datatype Ikev2Roles = IkPortRole | IkCipherRole

definition Ikev2ConfigModel_setData :: "int \<Rightarrow> page_value \<Rightarrow> Ikev2Roles \<Rightarrow> PageModel \<Rightarrow> bool \<times> PageModel" where
  "Ikev2ConfigModel_setData row val role m =
     (if \<not> page_row row then (False, m)
      else (True, case role of
        IkPortRole \<Rightarrow> put_text ''port'' (page_toString val) m
      | IkCipherRole \<Rightarrow> put_text ''cipher'' (page_toString val) m))"

definition Ikev2ConfigModel_data :: "int \<Rightarrow> Ikev2Roles \<Rightarrow> PageModel \<Rightarrow> page_value" where
  "Ikev2ConfigModel_data row role m =
     (if row < 0 \<or> row \<ge> 1 then PBool False
      else case role of
        IkPortRole \<Rightarrow> PText (valueOr (m_protocolConfig m) ''port'' ''6789'')
      | IkCipherRole \<Rightarrow> PText (valueOr (m_protocolConfig m) ''cipher'' ''chacha20-ietf-poly1305''))"

definition Ikev2ConfigModel_updateModel :: "qjobject \<Rightarrow> PageModel \<Rightarrow> PageModel" where
  "Ikev2ConfigModel_updateModel config m =
     (let m = page_open config m;
          ob = object_field config ''shadowsocks'';
          m = put_text ''cipher'' (valueOr ob ''cipher'' ''chacha20-ietf-poly1305'') m
      in put_text ''port'' (valueOr ob ''port'' ''6789'') m)"

definition Ikev2ConfigModel_getConfig :: "PageModel \<Rightarrow> qjobject \<times> PageModel" where
  "Ikev2ConfigModel_getConfig = page_save ''shadowsocks''"

datatype ServiceRoles = SvPortRole | SvUserNameRole | SvPasswordRole

definition SftpConfigModel_data :: "int \<Rightarrow> ServiceRoles \<Rightarrow> PageModel \<Rightarrow> page_value" where
  "SftpConfigModel_data row role m =
     (if row < 0 \<or> row \<ge> 1 then PBool False
      else case role of
        SvPortRole \<Rightarrow> PText (field (m_protocolConfig m) ''port'')
      | SvUserNameRole \<Rightarrow> PText (valueOr (m_protocolConfig m) ''userName'' ''sftp_user'')
      | SvPasswordRole \<Rightarrow> PText (field (m_protocolConfig m) ''password''))"

definition SftpConfigModel_updateModel :: "qjobject \<Rightarrow> PageModel \<Rightarrow> PageModel" where
  "SftpConfigModel_updateModel config m =
     (let m = page_open config m;
          ob = object_field config ''sftp'';
          m = put_text ''userName'' (valueOr ob ''userName'' ''sftp_user'') m;
          m = put_text ''password'' (field ob ''password'') m
      in put_text ''port'' (field ob ''port'') m)"

definition SftpConfigModel_getConfig :: "PageModel \<Rightarrow> qjobject \<times> PageModel" where
  "SftpConfigModel_getConfig = page_save ''sftp''"

definition Socks5ProxyConfigModel_setData :: "int \<Rightarrow> page_value \<Rightarrow> ServiceRoles \<Rightarrow> PageModel \<Rightarrow> bool \<times> PageModel" where
  "Socks5ProxyConfigModel_setData row val role m =
     (if \<not> page_row row then (False, m)
      else (True, case role of
        SvPortRole \<Rightarrow> put_text ''port'' (page_toString val) m
      | SvUserNameRole \<Rightarrow> put_text ''userName'' (page_toString val) m
      | SvPasswordRole \<Rightarrow> put_text ''password'' (page_toString val) m))"

definition Socks5ProxyConfigModel_data :: "int \<Rightarrow> ServiceRoles \<Rightarrow> PageModel \<Rightarrow> page_value" where
  "Socks5ProxyConfigModel_data row role m =
     (if row < 0 \<or> row \<ge> 1 then PBool False
      else case role of
        SvPortRole \<Rightarrow> PText (field (m_protocolConfig m) ''port'')
      | SvUserNameRole \<Rightarrow> PText (field (m_protocolConfig m) ''userName'')
      | SvPasswordRole \<Rightarrow> PText (field (m_protocolConfig m) ''password''))"

definition Socks5ProxyConfigModel_updateModel :: "qjobject \<Rightarrow> PageModel \<Rightarrow> PageModel" where
  "Socks5ProxyConfigModel_updateModel config m =
     (let m = page_open config m;
          ob = object_field config ''socks5proxy'';
          m = put_text ''userName'' (field ob ''userName'') m;
          m = put_text ''password'' (field ob ''password'') m
      in put_text ''port'' (field ob ''port'') m)"

definition Socks5ProxyConfigModel_getConfig :: "PageModel \<Rightarrow> qjobject \<times> PageModel" where
  "Socks5ProxyConfigModel_getConfig = page_save ''socks5proxy''"

section \<open>What a page shows and stores\<close>

lemma boolOr_insert: "boolOr (json_insert k (JBool v) ob) k' d = (if k' = k then v else boolOr ob k' d)"
  by (simp add: boolOr_def)

lemma boolOr_other: "k' \<noteq> k \<Longrightarrow> boolOr (json_insert k v ob) k' d = boolOr ob k' d"
  by (simp add: boolOr_def)

lemma valueOr_other: "k' \<noteq> k \<Longrightarrow> valueOr (json_insert k v ob) k' d = valueOr ob k' d"
  by (simp add: valueOr_def)

lemma put_fields [simp]:
  "pg_container (put_text k s m) = pg_container m" "pg_container (put_flag k b m) = pg_container m"
  "pg_fullConfig (put_text k s m) = pg_fullConfig m" "pg_fullConfig (put_flag k b m) = pg_fullConfig m"
  by (simp_all add: put_text_def put_flag_def)

lemma put_reads [simp]:
  "valueOr (m_protocolConfig (put_text k s m)) k' d = (if k' = k then s else valueOr (m_protocolConfig m) k' d)"
  "boolOr (m_protocolConfig (put_flag k b m)) k' e = (if k' = k then b else boolOr (m_protocolConfig m) k' e)"
  "k' \<noteq> k \<Longrightarrow> valueOr (m_protocolConfig (put_flag k b m)) k' d = valueOr (m_protocolConfig m) k' d"
  "k' \<noteq> k \<Longrightarrow> boolOr (m_protocolConfig (put_text k s m)) k' e = boolOr (m_protocolConfig m) k' e"
  by (simp_all add: put_text_def put_flag_def valueOr_insert boolOr_insert valueOr_other boolOr_other)

lemma put_keeps [simp]:
  "k' \<noteq> k \<Longrightarrow> json_value (m_protocolConfig (put_text k s m)) k' = json_value (m_protocolConfig m) k'"
  "k' \<noteq> k \<Longrightarrow> json_value (m_protocolConfig (put_flag k b m)) k' = json_value (m_protocolConfig m) k'"
  by (simp_all add: put_text_def put_flag_def)

lemma page_open_fields [simp]:
  "pg_container (page_open config m) = ContainerProps_containerFromString (field config ''container'')"
  "m_protocolConfig (page_open config m) = m_protocolConfig m" "pg_fullConfig (page_open config m) = config"
  by (simp_all add: page_open_def)

text \<open>An edited role is shown as it was set; the roles without a key are not changed by an edit.\<close>

lemma openvpn_shown:
  assumes "role \<notin> {OvIsPortEditable, OvIsTransportProtoEditable, OvHasRemoveButton}"
  shows "OpenVpnConfigModel_data 0 role (snd (OpenVpnConfigModel_setData 0 val role m)) =
     (if role \<in> {OvAutoNegotiateEncryprionRole, OvTlsAuthRole, OvBlockDnsRole} then PBool (page_toBool val)
      else PText (page_toString val))"
proof -
  have "page_row 0" by code_simp
  with assms show ?thesis
    by (cases role) (simp_all add: OpenVpnConfigModel_data_def OpenVpnConfigModel_setData_def)
qed

text \<open>
  A saved OpenVPN page that is opened again shows the same values, except that the transport of a
  container other than OpenVPN is shown as TCP.
\<close>

definition page_ok :: "PageModel \<Rightarrow> bool" where
  "page_ok m \<longleftrightarrow> pg_container m = ContainerProps_containerFromString (field (pg_fullConfig m) ''container'')"

lemma page_ok_kept:
  "page_ok (OpenVpnConfigModel_updateModel config m)"
  "page_ok m \<Longrightarrow> page_ok (snd (OpenVpnConfigModel_setData row val role m))"
  "page_ok m \<Longrightarrow> page_ok (snd (OpenVpnConfigModel_getConfig m))"
  by (simp_all add: page_ok_def OpenVpnConfigModel_updateModel_def OpenVpnConfigModel_setData_def
      OpenVpnConfigModel_getConfig_def page_save_def field_def Let_def split: OpenVpnRoles.split)

lemma openvpn_reopened:
  assumes "page_ok m"
  shows "OpenVpnConfigModel_data 0 role (OpenVpnConfigModel_updateModel (fst (OpenVpnConfigModel_getConfig m)) m') =
     (if role = OvTransportProtoRole \<and> pg_container m \<noteq> DockerOpenVpn then PText ''tcp''
      else OpenVpnConfigModel_data 0 role m)"
proof -
  let ?full = "fst (OpenVpnConfigModel_getConfig m)"
  have "object_field ?full ''openvpn'' = m_protocolConfig m"
    "ContainerProps_containerFromString (field ?full ''container'') = pg_container m"
    using assms by (simp_all add: OpenVpnConfigModel_getConfig_def page_save_def object_field_def field_def page_ok_def Let_def)
  then show ?thesis
    by (cases role) (simp_all add: OpenVpnConfigModel_data_def OpenVpnConfigModel_updateModel_def Let_def)
qed

text \<open>
  None of the four pages carries the client configuration over: whatever the container held and
  whatever is edited, the object that is stored has none.
\<close>

definition no_client :: "PageModel \<Rightarrow> bool" where
  "no_client m \<longleftrightarrow> json_value (m_protocolConfig m) ''last_config'' = JUndefined"

lemma no_client_kept:
  assumes "no_client m"
  shows "no_client (OpenVpnConfigModel_updateModel config m)" "no_client (CloakConfigModel_updateModel config m)"
    "no_client (ShadowSocksConfigModel_updateModel config m)" "no_client (XrayConfigModel_updateModel config m)"
    "no_client (snd (OpenVpnConfigModel_setData row val role m))" "no_client (snd (CloakConfigModel_setData row val ck m))"
    "no_client (snd (ShadowSocksConfigModel_setData row val ss m))" "no_client (snd (XrayConfigModel_setData row val m))"
    "no_client (snd (page_save k m))"
  using assms by (simp_all add: no_client_def OpenVpnConfigModel_updateModel_def CloakConfigModel_updateModel_def
      ShadowSocksConfigModel_updateModel_def XrayConfigModel_updateModel_def OpenVpnConfigModel_setData_def
      CloakConfigModel_setData_def ShadowSocksConfigModel_setData_def XrayConfigModel_setData_def page_save_def Let_def
      split: OpenVpnRoles.split CloakRoles.split ShadowSocksRoles.split)

lemma saved_unconfigured:
  assumes "no_client m" "p \<in> set (ContainerProps_protocolsForContainer c)"
  shows "\<not> ConnectionController_isProtocolConfigExists (fst (page_save (ProtocolProps_protoToString p) m)) c"
proof -
  have "field (object_field (fst (page_save (ProtocolProps_protoToString p) m)) (ProtocolProps_protoToString p)) ''last_config'' = []"
    using assms(1) by (simp add: page_save_def object_field_def field_def no_client_def Let_def)
  with assms(2) show ?thesis
    unfolding ConnectionController_isProtocolConfigExists_def list_all_iff by blast
qed

lemma pages_unconfigured:
  assumes "no_client m"
  shows "\<not> ConnectionController_isProtocolConfigExists (fst (OpenVpnConfigModel_getConfig m)) DockerOpenVpn"
    "\<not> ConnectionController_isProtocolConfigExists (fst (CloakConfigModel_getConfig m)) DockerCloak"
    "\<not> ConnectionController_isProtocolConfigExists (fst (ShadowSocksConfigModel_getConfig m)) DockerShadowSocks"
    "\<not> ConnectionController_isProtocolConfigExists (fst (XrayConfigModel_getConfig m)) DockerXray"
proof -
  have names: "ProtocolProps_protoToString ProtoOpenVpn = ''openvpn''" "ProtocolProps_protoToString ProtoCloak = ''cloak''"
    "ProtocolProps_protoToString ProtoShadowSocks = ''shadowsocks''" "ProtocolProps_protoToString ProtoXray = ''xray''"
    by code_simp+
  have "ProtoOpenVpn \<in> set (ContainerProps_protocolsForContainer DockerOpenVpn)"
    "ProtoCloak \<in> set (ContainerProps_protocolsForContainer DockerCloak)"
    "ProtoShadowSocks \<in> set (ContainerProps_protocolsForContainer DockerShadowSocks)"
    "ProtoXray \<in> set (ContainerProps_protocolsForContainer DockerXray)"
    by code_simp+
  from this [THEN saved_unconfigured [OF assms]] show
    "\<not> ConnectionController_isProtocolConfigExists (fst (OpenVpnConfigModel_getConfig m)) DockerOpenVpn"
    "\<not> ConnectionController_isProtocolConfigExists (fst (CloakConfigModel_getConfig m)) DockerCloak"
    "\<not> ConnectionController_isProtocolConfigExists (fst (ShadowSocksConfigModel_getConfig m)) DockerShadowSocks"
    "\<not> ConnectionController_isProtocolConfigExists (fst (XrayConfigModel_getConfig m)) DockerXray"
    by (simp_all add: names OpenVpnConfigModel_getConfig_def CloakConfigModel_getConfig_def
        ShadowSocksConfigModel_getConfig_def XrayConfigModel_getConfig_def)
qed

text \<open>Whatever is edited on the IKEv2 page, the entry of IKEv2 stays, and the one of Shadowsocks is replaced.\<close>

lemma ikev2_page_misplaced:
  "json_value (fst (Ikev2ConfigModel_getConfig m)) (ProtocolProps_protoToString ProtoIkev2) =
     json_value (pg_fullConfig m) (ProtocolProps_protoToString ProtoIkev2)"
  "json_value (fst (Ikev2ConfigModel_getConfig m)) ''shadowsocks'' = JObject (m_protocolConfig m)"
proof -
  have "ProtocolProps_protoToString ProtoIkev2 = ''ikev2''" by code_simp
  then show "json_value (fst (Ikev2ConfigModel_getConfig m)) (ProtocolProps_protoToString ProtoIkev2) =
      json_value (pg_fullConfig m) (ProtocolProps_protoToString ProtoIkev2)"
    by (simp add: Ikev2ConfigModel_getConfig_def page_save_def Let_def)
qed (simp add: Ikev2ConfigModel_getConfig_def page_save_def Let_def)

text \<open>The saved page of the proxy shows the same texts when it is opened again.\<close>

lemma proxy_reopened:
  "Socks5ProxyConfigModel_data 0 role (Socks5ProxyConfigModel_updateModel (fst (Socks5ProxyConfigModel_getConfig m)) m') =
     Socks5ProxyConfigModel_data 0 role m"
proof -
  have "field (m_protocolConfig (put_text k s n)) k' = (if k' = k then s else field (m_protocolConfig n) k')" for k s k' n
    by (simp add: put_text_def field_def)
  then show ?thesis
    by (cases role) (simp_all add: Socks5ProxyConfigModel_data_def Socks5ProxyConfigModel_updateModel_def
        Socks5ProxyConfigModel_getConfig_def page_save_def object_field_def Let_def)
qed

end
