(* ===== verification/Spec2Isabelle.thy ===== *)
theory Spec2Isabelle
  imports Sites_Control Object_Pages
begin

text \<open>
  Verification of the AmneziaVPN client and of its privileged daemon.

  \<^bold>\<open>The program.\<close>  The client turns a stored server configuration into a connection request
  (\<open>client/vpnconnection.cpp\<close>) and sends it as one line of JSON over a local socket
  (\<open>client/mozilla/localsocketcontroller.cpp\<close>).  The daemon reads the line
  (\<open>client/daemon/daemonlocalserverconnection.cpp\<close>), parses it and brings the tunnel up or down
  (\<open>client/daemon/daemon.cpp\<close>) through an abstract platform, of which
  \<open>client/platforms/linux/daemon/\<close> is the Linux implementation: tunnel process, netlink routes,
  DNS, interface addresses and the iptables kill switch.  Protocols without a daemon of their own use
  a second service (\<open>ipc/\<close>, \<open>service/server/\<close>) for routes, the kill switch and privileged processes.
  Servers, containers, split-tunnelling sites and preferences are kept in an encrypted store
  (\<open>client/secure_qsettings.cpp\<close>, \<open>client/settings.cpp\<close>) of which the interface shows a copy
  (\<open>client/ui/models/servers_model.cpp\<close>).

  \<^bold>\<open>Theories, in the order of their imports.\<close>
  \<^item> \<open>Qt_Prelude\<close>: strings, JSON values, \<open>QMap\<close> and \<open>QHash\<close> with the locale \<open>dictionary\<close>, host
    addresses, and the record \<open>Qt\<close> of the library functions that are parameters of the model.
  \<^item> \<open>Ip_Address\<close> (\<open>client/mozilla/shared/ipaddress.cpp\<close>): masks, containment and the subtraction of
    networks, against the set of hosts a network denotes (locale \<open>prefix_space\<close> for both widths).
  \<^item> \<open>Interface_Config\<close>, \<open>Daemon_Config\<close>: the configuration record, its two serialisations and
    \<open>Daemon::parseConfig\<close>, with an exact description of what is accepted.
  \<^item> \<open>Daemon_Core\<close>, \<open>Daemon_Props\<close>: activation, deactivation, server switching, exclusion routes and
    handshakes as state-passing actions over a record of platform operations; the outcome of each
    method, the invariant of the tables over all reachable states and the exactness of the reference
    counts of exclusion routes.
  \<^item> \<open>Linux_Firewall\<close>, \<open>Linux_Route\<close>, \<open>Wireguard_Linux\<close>, \<open>Linux_Props\<close>: every firewall method as the
    shell commands it runs, with a reference semantics of iptables; netlink messages, D-Bus and
    \<open>ioctl\<close> calls against a record \<open>os\<close> of system calls; the control protocol of the tunnel process;
    the platform of the Linux daemon.  Shown: which packets the kill switch lets out, which route
    messages each call sends, and that the padding and reply loops of the protocol are right.
  \<^item> \<open>Line_Reader\<close>: the locale \<open>line_reader\<close>, the contract of a loop that cuts commands out of a
    growing buffer; interpreted for both ends of the socket.
  \<^item> \<open>Local_Socket\<close>, \<open>Daemon_Server\<close>: the two ends of the socket, the invariant and the bounded retries
    of the client, and the agreement of both: which requests the daemon accepts, and what serving
    the bytes of a request does to the daemon.
  \<^item> \<open>Containers\<close> (\<open>client/protocols/protocols_defs.cpp\<close>, \<open>client/containers/containers_defs.cpp\<close>,
    \<open>client/core/scripts_registry.cpp\<close>): enumerations, their names and properties.
  \<^item> \<open>Network_Utilities\<close>, \<open>Vpn_Connection\<close> (\<open>client/core/networkUtilities.cpp\<close>,
    \<open>client/protocols/vpnprotocol.cpp\<close>, \<open>client/vpnconnection.cpp\<close>): address texts, the state of a
    protocol and the split-tunnelling configuration.
  \<^item> \<open>Service_Router\<close> (\<open>service/server/router_linux.cpp\<close>, \<open>service/server/router.cpp\<close>,
    \<open>ipc/ipcserver.cpp\<close>): every slot of the service on Linux over a record of the kernel calls it makes.
    Shown: the calls of a whole connection, from \<open>Vpn_Connection\<close>, leave the routing table as it was,
    for every kernel that adds and deletes routes as documented; the kill switch of the service in
    the terms of the iptables semantics of \<open>Linux_Firewall\<close>.
  \<^item> \<open>Local_Service\<close> (\<open>ipc/ipcserverprocess.cpp\<close>, \<open>ipc/ipctun2socksprocess.cpp\<close>,
    \<open>service/server/localserver.cpp\<close>, \<open>client/core/ipcclient.cpp\<close>, \<open>client/utilities.cpp\<close>): privileged
    processes, tun2socks, and the sessions between client and service.  Shown: which programs can
    be started, and what the service does when a client disappears.
  \<^item> \<open>Secure_Settings\<close>: the store with its cache and encryption; the record \<open>vault\<close> holds cipher, key
    chain and serialisation.  The locale \<open>settings_store\<close> is the contract of a store, a map that reads
    what was written; the interpretation \<open>secure\<close> discharges it for every vault whose cipher decrypts
    what it encrypted.  Backup and restore are shown to carry over exactly the keys they should.
  \<^item> \<open>Settings_Store\<close>, \<open>Settings_Props\<close>: all operations of \<open>Settings\<close> and what they do to the stored
    documents: containers, protocols, names, sites, and the effect of a stored site on the routes of
    the next connection.
  \<^item> \<open>Servers_Model\<close>: the list of servers of the interface with its roles and signals; the relation
    \<open>servers_step\<close> has one rule per operation, and copy and store agree in every reachable state.
  \<^item> \<open>Connection_Control\<close> (\<open>client/ui/controllers/connectionController.cpp\<close>,
    \<open>client/ui/models/containers_model.cpp\<close>, \<open>client/core/controllers/vpnConfigurationController.cpp\<close>, the
    local part of \<open>client/configurators/\<close>): from the button to the request for a tunnel.  Shown: the
    imported server is the one that is connected, its configuration is complete, and which
    failures leave the controller without a way on.
  \<^item> \<open>Json_Struct\<close> (\<open>client/3rd/QJsonStruct/\<close>, \<open>client/core/serialization/transfer.h\<close>): values at a
    path in a JSON object, with the locale \<open>path_store\<close> as the contract of reading what was written,
    and the structures of the share links with their generated serialisers; the locale
    \<open>json_struct\<close> is the round trip that \<open>JSONSTRUCT_REGISTER\<close> promises.
  \<^item> \<open>Share_Links\<close> (\<open>client/core/serialization/\<close>): the deserialisers of all links and the printing of
    vmess and trojan links over a record \<open>Web\<close> of URLs and codecs.  Shown: which vless links are
    accepted and what they become, that a printed vmess link is read as the same server, and what
    the other links lose.
  \<^item> \<open>Import_Text\<close> (\<open>client/ui/controllers/importController.cpp\<close>): recognition of a text, its conversion
    to a server and the search for dangerous options.  Shown: an accepted text leads to the
    connection to its server, which WireGuard texts are accepted, that no share link is refused, and
    which options the search cannot find.
  \<^item> \<open>Sites_Control\<close> (\<open>client/ui/models/sites_model.cpp\<close>, \<open>client/ui/controllers/sitesController.cpp\<close>,
    \<open>client/ui/models/appSplitTunnelingModel.cpp\<close>): the lists of split tunneling and their store.  Shown:
    when list and store of the sites agree, and that an exported list is imported as it was.
  \<^item> \<open>Protocol_Models\<close> (\<open>client/ui/models/protocols/awgConfigModel.cpp\<close>, \<open>wireguardConfigModel.cpp\<close>): the
    settings pages of the WireGuard protocols.  Shown: which saved pages the connection controller
    takes for configured.
  \<^item> \<open>Object_Pages\<close> (\<open>client/ui/models/protocols\<close>, \<open>client/ui/models/services\<close>): the pages of OpenVPN, Cloak,
    Shadowsocks, Xray, IKEv2, SFTP and the SOCKS5 proxy.  Shown: an edited value of the OpenVPN page
    is the one shown, saved pages of OpenVPN and the proxy are shown again as they were (but for the
    transport outside OpenVPN), the first four pages keep no client configuration, and the IKEv2 page
    stores the entry of Shadowsocks.

  \<^bold>\<open>Conventions.\<close>  Fallible code returns an option or a sum; a method that returns \<open>bool\<close> and changes
  its object is an \<open>action\<close>, a function from a state to a result and a state.  Emitted signals,
  written objects and sent messages are appended to log fields that no method reads.  Machine
  integers keep their width where it matters.  Loops that wait for the system take the finite list
  of what they observe as an argument, the end of the list being the expiry of their timer; all other
  loops are proved to terminate.  The verdict of a packet is computed with a jump depth of four, the
  nesting of the chains the firewall installs.

  \<^bold>\<open>Not modelled.\<close>  The graphical interface and its other models, the assembly of series of QR codes
  on mobile systems, \<open>ss::Serialize\<close> (it only sets the parts of a URL), the controllers and
  configurators that talk to servers over SSH, the OpenVPN, Cloak, Shadowsocks and XRay protocol
  classes, which drive external processes, the macOS, Windows, Android and iOS back ends (also those of
  the service), the transport of QtRemoteObjects, log files, and vendored or generated code.
\<close>

end
